(* ===== verification/Prelude.thy ===== *)
theory Prelude
  imports Complex_Main
    "HOL-Library.State_Monad"
    "HOL-Library.Monad_Syntax"
    "HOL-Library.Multiset"
    "HOL-Library.Sublist"
    "HOL-Library.Char_ord"
    "HOL-Library.List_Lexorder"
begin

text \<open>
  What every component of the model shares: Go's errors and outcomes (a value, a returned
  error, a panic), fixed-width integers, Go maps with an iteration order, pointers as options,
  and \<open>sort.Slice\<close>.  The named collections gather the equations with which the component
  theories run their definitions: \<open>run_simps\<close> for sequences of calls, \<open>gomap_simps\<close> for
  maps.
\<close>

named_theorems run_simps "unfolding of state-monad programs and outcomes"
named_theorems gomap_simps "reads and writes of Go maps"

section \<open>Errors and outcomes\<close>

text \<open>
  Errors keep the structure the code inspects: the reason of an API error, the wrapping by
  \<open>%w\<close> (which \<open>errors.As\<close> looks through) as against \<open>%v\<close> (which only prints), the two
  error classes of karpenter's cloudprovider package, and the text of an error of the cloud SDK.
\<close>

datatype api_reason = ReasonNotFound | ReasonConflict | ReasonOther

datatype goerr =
    Errorf string
  | Wrapf string goerr
  | Describef string goerr
  | APIError api_reason string
  | SDKError string
  | NodeClaimNotFoundErr goerr
  | InsufficientCapacityErr goerr
  | MultiErr "goerr list"

datatype 'a outcome = Ok 'a | Err goerr | Panic

fun obind :: "'a outcome \<Rightarrow> ('a \<Rightarrow> 'b outcome) \<Rightarrow> 'b outcome" where
  "obind (Ok a) f = f a"
| "obind (Err e) f = Err e"
| "obind Panic f = Panic"

fun omap :: "('a \<Rightarrow> 'b) \<Rightarrow> 'a outcome \<Rightarrow> 'b outcome" where
  "omap f (Ok a) = Ok (f a)"
| "omap f (Err e) = Err e"
| "omap f Panic = Panic"

fun owrap :: "(goerr \<Rightarrow> goerr) \<Rightarrow> 'a outcome \<Rightarrow> 'a outcome" where
  "owrap w (Ok a) = Ok a"
| "owrap w (Err e) = Err (w e)"
| "owrap w Panic = Panic"

fun is_ok :: "'a outcome \<Rightarrow> bool" where
  "is_ok (Ok _) = True"
| "is_ok _ = False"

fun ok_value :: "'a outcome \<Rightarrow> 'a option" where
  "ok_value (Ok a) = Some a"
| "ok_value _ = None"

text \<open>\<open>apierrors.IsNotFound\<close> and \<open>IsConflict\<close> look through \<open>%w\<close> wrapping.\<close>

fun api_reason_of :: "goerr \<Rightarrow> api_reason option" where
  "api_reason_of (APIError r _) = Some r"
| "api_reason_of (Wrapf _ e) = api_reason_of e"
| "api_reason_of _ = None"

definition is_not_found :: "goerr \<Rightarrow> bool" where
  "is_not_found e = (api_reason_of e = Some ReasonNotFound)"

definition is_conflict :: "goerr \<Rightarrow> bool" where
  "is_conflict e = (api_reason_of e = Some ReasonConflict)"

text \<open>\<open>client.IgnoreNotFound\<close>: the error unless it is a NotFound.\<close>

definition ignore_not_found :: "goerr \<Rightarrow> goerr option" where
  "ignore_not_found e = (if is_not_found e then None else Some e)"

fun is_node_claim_not_found :: "goerr \<Rightarrow> bool" where
  "is_node_claim_not_found (NodeClaimNotFoundErr _) = True"
| "is_node_claim_not_found (Wrapf _ e) = is_node_claim_not_found e"
| "is_node_claim_not_found _ = False"

definition ignore_node_claim_not_found :: "goerr \<Rightarrow> goerr option" where
  "ignore_node_claim_not_found e = (if is_node_claim_not_found e then None else Some e)"

text \<open>\<open>multierr.Combine\<close> and \<open>multierr.Append\<close>: the non-nil errors, nil when there is none.\<close>

definition multierr_combine :: "goerr option list \<Rightarrow> goerr option" where
  "multierr_combine es =
     (case List.map_filter id es of [] \<Rightarrow> None | [e] \<Rightarrow> Some e | es' \<Rightarrow> Some (MultiErr es'))"

lemma obind_eq_Ok [simp]: "obind m f = Ok b \<longleftrightarrow> (\<exists>a. m = Ok a \<and> f a = Ok b)"
  by (cases m) auto

lemma omap_eq_Ok [simp]: "omap f m = Ok b \<longleftrightarrow> (\<exists>a. m = Ok a \<and> b = f a)"
  by (cases m) auto

lemma omap_eq_Panic [simp]: "omap f m = Panic \<longleftrightarrow> m = Panic"
  by (cases m) auto

lemma omap_eq_Err [simp]: "omap f m = Err e \<longleftrightarrow> m = Err e"
  by (cases m) auto

lemma obind_eq_Panic: "obind m f = Panic \<longleftrightarrow> m = Panic \<or> (\<exists>a. m = Ok a \<and> f a = Panic)"
  by (cases m) auto

lemma obind_eq_Err: "obind m f = Err e \<longleftrightarrow> m = Err e \<or> (\<exists>a. m = Ok a \<and> f a = Err e)"
  by (cases m) auto

lemma owrap_eq_Ok [simp]: "owrap w m = Ok b \<longleftrightarrow> m = Ok b"
  by (cases m) auto

lemma owrap_eq_Err [simp]: "owrap w m = Err e \<longleftrightarrow> (\<exists>e'. m = Err e' \<and> e = w e')"
  by (cases m) auto

lemma map_filter_id_Nil: "List.map_filter id es = [] \<longleftrightarrow> set es \<subseteq> {None}"
  by (induction es) (auto simp: map_filter_def)

lemma multierr_combine_None [simp]: "multierr_combine es = None \<longleftrightarrow> set es \<subseteq> {None}"
  by (simp add: multierr_combine_def map_filter_id_Nil [symmetric] split: list.splits)

lemma find_SomeD: "find P xs = Some x \<Longrightarrow> x \<in> set xs \<and> P x"
  by (induction xs) (auto split: if_splits)

section \<open>State-passing programs\<close>

text \<open>
  A Go function that calls services is a program of the library's state monad over the state of
  the outside world.  These equations run one.
\<close>

declare run_state_bind [run_simps] run_state_return [run_simps]

lemma run_state_if [run_simps]:
  "run_state (if b then m else n) s = (if b then run_state m s else run_state n s)"
  by simp

text \<open>Running a program for its effect only, over every element in turn.\<close>

fun for_each :: "'a list \<Rightarrow> ('a \<Rightarrow> ('s, unit) state) \<Rightarrow> ('s, unit) state" where
  "for_each [] f = State_Monad.return ()"
| "for_each (x # xs) f = do { _ \<leftarrow> f x; for_each xs f }"

text \<open>
  A call with its result written to a ghost log: statements about which calls a program makes
  are statements about its run in an environment whose operations are logged.
\<close>

definition logged :: "('a \<Rightarrow> 'c) \<Rightarrow> ('w, 'a) state \<Rightarrow> ('w \<times> 'c list, 'a) state" where
  "logged c m = State (\<lambda>(w, tr). let (a, w') = run_state m w in (a, (w', tr @ [c a])))"

lemma run_logged [run_simps]:
  "run_state (logged c m) (w, tr) = (let (a, w') = run_state m w in (a, (w', tr @ [c a])))"
  by (simp add: logged_def)

definition lifted :: "('w, 'a) state \<Rightarrow> ('w \<times> 'c list, 'a) state" where
  "lifted m = State (\<lambda>(w, tr). let (a, w') = run_state m w in (a, (w', tr)))"

lemma run_lifted [run_simps]:
  "run_state (lifted m) (w, tr) = (let (a, w') = run_state m w in (a, (w', tr)))"
  by (simp add: lifted_def)

text \<open>
  A call that may fail, followed by the rest of the program: an error or a panic ends it.
\<close>

definition sbind :: "('s, 'a outcome) state \<Rightarrow> ('a \<Rightarrow> ('s, 'b outcome) state) \<Rightarrow> ('s, 'b outcome) state" where
  "sbind m f = do {
     r \<leftarrow> m;
     case r of Ok a \<Rightarrow> f a | Err e \<Rightarrow> State_Monad.return (Err e) | Panic \<Rightarrow> State_Monad.return Panic }"

lemma run_sbind [run_simps]:
  "run_state (sbind m f) s = (case run_state m s of (r, s') \<Rightarrow>
     (case r of Ok a \<Rightarrow> run_state (f a) s' | Err e \<Rightarrow> (Err e, s') | Panic \<Rightarrow> (Panic, s')))"
  by (simp add: sbind_def split: prod.split outcome.split)

lemma sbind_OkE:
  assumes "run_state (sbind m f) s = (Ok b, t)"
  obtains a s' where "run_state m s = (Ok a, s')" "run_state (f a) s' = (Ok b, t)"
  using assms by (auto simp: run_sbind split: prod.splits outcome.splits)

text \<open>The error of a call rewrapped by its caller.\<close>

definition swrap :: "(goerr \<Rightarrow> goerr) \<Rightarrow> ('s, 'a outcome) state \<Rightarrow> ('s, 'a outcome) state" where
  "swrap w m = do { r \<leftarrow> m; State_Monad.return (owrap w r) }"

lemma run_swrap [run_simps]:
  "run_state (swrap w m) s = (case run_state m s of (r, s') \<Rightarrow> (owrap w r, s'))"
  by (simp add: swrap_def split: prod.split)

text \<open>
  A component that keeps state of its own runs over pairs of the outside world and that state.
\<close>

definition on_world :: "('w, 'a) state \<Rightarrow> ('w \<times> 'p, 'a) state" where
  "on_world m = State (\<lambda>(w, p). let (a, w') = run_state m w in (a, (w', p)))"

definition get_own :: "('w \<times> 'p, 'p) state" where
  "get_own = State (\<lambda>(w, p). (p, (w, p)))"

definition modify_own :: "('p \<Rightarrow> 'p) \<Rightarrow> ('w \<times> 'p, unit) state" where
  "modify_own f = State (\<lambda>(w, p). ((), (w, f p)))"

lemma run_own [run_simps]:
  "run_state (on_world m) (w, p) = (case run_state m w of (a, w') \<Rightarrow> (a, (w', p)))"
  "run_state get_own (w, p) = (p, (w, p))"
  "run_state (modify_own f) (w, p) = ((), (w, f p))"
  by (simp_all add: on_world_def get_own_def modify_own_def split: prod.split)

text \<open>
  A program that, whatever it returns, only takes steps of the relation \<open>R\<close>: how the frame of a
  component is carried through a sequence of calls.
\<close>

definition preserves :: "('s \<Rightarrow> 's \<Rightarrow> bool) \<Rightarrow> ('s, 'a) state \<Rightarrow> bool" where
  "preserves R m \<longleftrightarrow> (\<forall>s. R s (snd (run_state m s)))"

lemma preservesD: "preserves R m \<Longrightarrow> run_state m s = (r, s') \<Longrightarrow> R s s'"
  unfolding preserves_def by (metis snd_conv)

lemma preserves_return: "reflp R \<Longrightarrow> preserves R (State_Monad.return x)"
  by (simp add: preserves_def run_simps reflpD)

lemma preserves_bind:
  assumes "transp R" "preserves R m" "\<And>x. preserves R (f x)"
  shows "preserves R (State_Monad.bind m f)"
  unfolding preserves_def
proof
  fix s
  obtain x s1 where 1: "run_state m s = (x, s1)" by fastforce
  obtain y s2 where 2: "run_state (f x) s1 = (y, s2)" by fastforce
  have "R s s2"
    using transpD [OF assms(1) preservesD [OF assms(2) 1] preservesD [OF assms(3) 2]] .
  then show "R s (snd (run_state (State_Monad.bind m f) s))" by (simp add: run_simps 1 2)
qed

lemma preserves_sbind:
  assumes "reflp R" "transp R" "preserves R m" "\<And>x. preserves R (f x)"
  shows "preserves R (sbind m f)"
  unfolding sbind_def
  by (rule preserves_bind [OF assms(2,3)]) (simp split: outcome.split add: assms(4) preserves_return [OF assms(1)])

lemma preserves_swrap: "preserves R (swrap w m) \<longleftrightarrow> preserves R m"
  by (simp add: preserves_def run_swrap case_prod_unfold)

lemma preserves_lifted: "preserves (\<lambda>s s'. snd s' = snd s) (lifted m)"
  by (auto simp: preserves_def lifted_def split: prod.split)

text \<open>A function that may fail, over every element in turn.\<close>

fun traverse :: "('a \<Rightarrow> 'b outcome) \<Rightarrow> 'a list \<Rightarrow> 'b list outcome" where
  "traverse f [] = Ok []"
| "traverse f (x # xs) = obind (f x) (\<lambda>y. omap (\<lambda>ys. y # ys) (traverse f xs))"

lemma traverse_Ok: "traverse f xs = Ok ys \<longleftrightarrow> list_all2 (\<lambda>x y. f x = Ok y) xs ys"
  by (induction xs arbitrary: ys) (auto simp: list_all2_Cons1)

fun straverse :: "('a \<Rightarrow> ('s, 'b outcome) state) \<Rightarrow> 'a list \<Rightarrow> ('s, 'b list outcome) state" where
  "straverse f [] = State_Monad.return (Ok [])"
| "straverse f (x # xs) =
     sbind (f x) (\<lambda>y. sbind (straverse f xs) (\<lambda>ys. State_Monad.return (Ok (y # ys))))"

text \<open>\<open>err.Error()\<close>, as far as error texts are kept.\<close>

fun error_text :: "goerr \<Rightarrow> string" where
  "error_text (Errorf s) = s"
| "error_text (Wrapf s e) = s @ error_text e"
| "error_text (Describef s e) = s @ error_text e"
| "error_text (APIError _ s) = s"
| "error_text (SDKError s) = s"
| "error_text (NodeClaimNotFoundErr e) = error_text e"
| "error_text (InsufficientCapacityErr e) = error_text e"
| "error_text (MultiErr es) = concat (map error_text es)"

text \<open>\<open>reconcile.Result\<close> of controller-runtime; durations are in nanoseconds.\<close>

record reconcile_result =
  rr_Requeue :: bool
  rr_RequeueAfter :: int

definition no_result :: reconcile_result where
  "no_result = \<lparr>rr_Requeue = False, rr_RequeueAfter = 0\<rparr>"

definition requeue_after :: "int \<Rightarrow> reconcile_result" where
  "requeue_after d = \<lparr>rr_Requeue = False, rr_RequeueAfter = d\<rparr>"

abbreviation seconds :: "int \<Rightarrow> int" where "seconds n \<equiv> n * 1000000000"
abbreviation minutes :: "int \<Rightarrow> int" where "minutes n \<equiv> n * 60000000000"

section \<open>Words around a separator\<close>

lemma append_sep_eq:
  assumes "c \<notin> set u" "c \<notin> set u'"
  shows "u @ c # r = u' @ c # r' \<longleftrightarrow> u = u' \<and> r = r'"
  using assms
proof (induction u arbitrary: u')
  case Nil
  then show ?case by (cases u') auto
next
  case (Cons a u)
  then show ?case by (cases u') auto
qed

section \<open>Integers with a width\<close>

definition i32 :: "int \<Rightarrow> int" where
  "i32 n = signed_take_bit 31 n"

definition i64 :: "int \<Rightarrow> int" where
  "i64 n = signed_take_bit 63 n"

definition in_i32 :: "int \<Rightarrow> bool" where
  "in_i32 n \<longleftrightarrow> - (2 ^ 31) \<le> n \<and> n < 2 ^ 31"

definition in_i64 :: "int \<Rightarrow> bool" where
  "in_i64 n \<longleftrightarrow> - (2 ^ 63) \<le> n \<and> n < 2 ^ 63"

lemma i32_id [simp]: "in_i32 n \<Longrightarrow> i32 n = n"
  unfolding i32_def in_i32_def by (rule signed_take_bit_int_eq_self) auto

lemma i64_id [simp]: "in_i64 n \<Longrightarrow> i64 n = n"
  unfolding i64_def in_i64_def by (rule signed_take_bit_int_eq_self) auto

lemma in_i32_i32 [simp]: "in_i32 (i32 n)"
  unfolding i32_def in_i32_def
  using signed_take_bit_int_greater_eq_minus_exp [of 31 n] signed_take_bit_int_less_exp [of 31 n]
  by auto

lemma in_i64_i64 [simp]: "in_i64 (i64 n)"
  unfolding i64_def in_i64_def
  using signed_take_bit_int_greater_eq_minus_exp [of 63 n] signed_take_bit_int_less_exp [of 63 n]
  by auto

lemma in_range_0 [simp]: "in_i32 0" "in_i64 0"
  by (simp_all add: in_i32_def in_i64_def)

section \<open>Go maps\<close>

text \<open>
  A \<open>map[string]string\<close> is nil or a finite map.  The entries are kept as a list with distinct
  keys, in the order in which a \<open>range\<close> over the map happens to visit them: Go leaves that
  order open, so a statement about a loop over a map is a statement about every order.
\<close>

type_synonym ('k, 'v) entries = "('k \<times> 'v) list"
type_synonym gomap = "(string, string) entries option"

fun gm_entries :: "('k, 'v) entries option \<Rightarrow> ('k, 'v) entries" where
  "gm_entries None = []"
| "gm_entries (Some es) = es"

definition gm_get :: "gomap \<Rightarrow> string \<Rightarrow> string option" where
  "gm_get m k = map_of (gm_entries m) k"

text \<open>\<open>m[k]\<close> read as a value: the empty string when the key is absent.\<close>

definition gm_idx :: "gomap \<Rightarrow> string \<Rightarrow> string" where
  "gm_idx m k = (case gm_get m k of None \<Rightarrow> [] | Some v \<Rightarrow> v)"

fun put :: "'k \<Rightarrow> 'v \<Rightarrow> ('k, 'v) entries \<Rightarrow> ('k, 'v) entries" where
  "put k v [] = [(k, v)]"
| "put k v ((k', v') # es) = (if k' = k then (k, v) # es else (k', v') # put k v es)"

fun puts :: "('k, 'v) entries \<Rightarrow> ('k, 'v) entries \<Rightarrow> ('k, 'v) entries" where
  "puts m [] = m"
| "puts m ((k, v) # es) = puts (put k v m) es"

text \<open>Assignment to an entry of a nil map panics.\<close>

fun gm_set :: "gomap \<Rightarrow> string \<Rightarrow> string \<Rightarrow> gomap outcome" where
  "gm_set None k v = Panic"
| "gm_set (Some es) k v = Ok (Some (put k v es))"

definition distinct_keys :: "('k, 'v) entries \<Rightarrow> bool" where
  "distinct_keys es = distinct (map fst es)"

lemma map_of_put [simp, gomap_simps]: "map_of (put k v es) = (map_of es)(k \<mapsto> v)"
  by (induction es) auto

lemma put_put [simp]: "put k v (put k w es) = put k v es"
  by (induction es) auto

lemma put_same: "map_of es k = Some v \<Longrightarrow> put k v es = es"
  by (induction es) (auto split: if_splits)

lemma keys_put: "map fst (put k v es) = (if k \<in> fst ` set es then map fst es else map fst es @ [k])"
  by (induction es) (auto simp: rev_image_eqI)

lemma distinct_keys_put [simp]: "distinct_keys es \<Longrightarrow> distinct_keys (put k v es)"
  by (auto simp: distinct_keys_def keys_put)

lemma map_of_puts [gomap_simps]: "map_of (puts m es) = map_of m ++ map_of (rev es)"
proof (induction es arbitrary: m)
  case Nil
  then show ?case by simp
next
  case (Cons e es)
  obtain k v where "e = (k, v)" by (cases e)
  then show ?case by (simp add: Cons.IH map_add_def fun_eq_iff split: option.splits)
qed

lemma distinct_keys_puts [simp]: "distinct_keys m \<Longrightarrow> distinct_keys (puts m es)"
  by (induction es arbitrary: m) auto

lemma gm_get_Some [simp, gomap_simps]: "gm_get (Some es) k = map_of es k"
  by (simp add: gm_get_def)

lemma gm_get_None [simp, gomap_simps]: "gm_get None k = None"
  by (simp add: gm_get_def)

text \<open>
  The content of a map does not depend on the order of its entries.
\<close>

lemma map_of_perm:
  assumes "distinct_keys es" and "mset es = mset fs"
  shows "map_of es = map_of fs"
proof -
  have "set es = set fs" using assms(2) by (metis set_mset_mset)
  moreover have "distinct (map fst fs)"
    using assms by (metis distinct_keys_def mset_map mset_eq_imp_distinct_iff)
  ultimately show ?thesis
    using assms(1) by (simp add: distinct_keys_def map_of_inject_set)
qed

section \<open>Pointers\<close>

text \<open>\<open>lo.FromPtr\<close>: the pointee, or the zero value of its type.\<close>

definition from_ptr :: "'a \<Rightarrow> 'a option \<Rightarrow> 'a" where
  "from_ptr z p = (case p of None \<Rightarrow> z | Some x \<Rightarrow> x)"

abbreviation str_ptr :: "string option \<Rightarrow> string" where
  "str_ptr \<equiv> from_ptr []"

lemma from_ptr_simps [simp]: "from_ptr z None = z" "from_ptr z (Some x) = x"
  by (simp_all add: from_ptr_def)

section \<open>Sorting with a comparator\<close>

text \<open>
  \<open>sort.Slice\<close> is not stable and its result is only determined when the comparator is a
  strict total order on the elements.  The model sorts by insertion; the lemma
  \<open>sort_by_unique\<close> says that under such a comparator every algorithm gives this list.
\<close>

fun insert_by :: "('a \<Rightarrow> 'a \<Rightarrow> bool) \<Rightarrow> 'a \<Rightarrow> 'a list \<Rightarrow> 'a list" where
  "insert_by lt x [] = [x]"
| "insert_by lt x (y # ys) = (if lt y x then y # insert_by lt x ys else x # y # ys)"

fun sort_by :: "('a \<Rightarrow> 'a \<Rightarrow> bool) \<Rightarrow> 'a list \<Rightarrow> 'a list" where
  "sort_by lt [] = []"
| "sort_by lt (x # xs) = insert_by lt x (sort_by lt xs)"

text \<open>The comparator orders the elements of \<open>A\<close> strictly and totally.\<close>

definition orders :: "('a \<Rightarrow> 'a \<Rightarrow> bool) \<Rightarrow> 'a set \<Rightarrow> bool" where
  "orders lt A \<longleftrightarrow>
     (\<forall>x\<in>A. \<not> lt x x) \<and>
     (\<forall>x\<in>A. \<forall>y\<in>A. \<forall>z\<in>A. lt x y \<longrightarrow> lt y z \<longrightarrow> lt x z) \<and>
     (\<forall>x\<in>A. \<forall>y\<in>A. x \<noteq> y \<longrightarrow> lt x y \<or> lt y x)"

lemma orders_irrefl: "orders lt A \<Longrightarrow> x \<in> A \<Longrightarrow> \<not> lt x x"
  by (simp add: orders_def)

lemma orders_trans:
  "orders lt A \<Longrightarrow> x \<in> A \<Longrightarrow> y \<in> A \<Longrightarrow> z \<in> A \<Longrightarrow> lt x y \<Longrightarrow> lt y z \<Longrightarrow> lt x z"
  unfolding orders_def by blast

lemma orders_total: "orders lt A \<Longrightarrow> x \<in> A \<Longrightarrow> y \<in> A \<Longrightarrow> x \<noteq> y \<Longrightarrow> lt x y \<or> lt y x"
  unfolding orders_def by blast

lemma orders_asym: "orders lt A \<Longrightarrow> x \<in> A \<Longrightarrow> y \<in> A \<Longrightarrow> lt x y \<Longrightarrow> \<not> lt y x"
  using orders_trans [of lt A x y x] orders_irrefl [of lt A x] by blast

lemma mset_insert_by [simp]: "mset (insert_by lt x xs) = {#x#} + mset xs"
  by (induction xs) auto

lemma mset_sort_by [simp]: "mset (sort_by lt xs) = mset xs"
  by (induction xs) auto

lemma set_insert_by [simp]: "set (insert_by lt x xs) = insert x (set xs)"
  by (induction xs) auto

lemma set_sort_by [simp]: "set (sort_by lt xs) = set xs"
  by (induction xs) auto

lemma length_insert_by [simp]: "length (insert_by lt x xs) = Suc (length xs)"
  by (induction xs) auto

lemma length_sort_by [simp]: "length (sort_by lt xs) = length xs"
  by (induction xs) auto

lemma sorted_insert_by:
  assumes ord: "orders lt A" and "x \<in> A" "set xs \<subseteq> A" "sorted_wrt (\<lambda>a b. \<not> lt b a) xs"
  shows "sorted_wrt (\<lambda>a b. \<not> lt b a) (insert_by lt x xs)"
  using assms(2-)
proof (induction xs)
  case Nil
  then show ?case by simp
next
  case (Cons y ys)
  then have y: "y \<in> A" and ys: "set ys \<subseteq> A" by auto
  show ?case
  proof (cases "lt y x")
    case True
    have "sorted_wrt (\<lambda>a b. \<not> lt b a) (insert_by lt x ys)"
      using Cons by simp
    moreover have "\<not> lt x y"
      using orders_asym [OF ord y \<open>x \<in> A\<close> True] .
    ultimately show ?thesis using True Cons.prems(3) by simp
  next
    case False
    have "\<not> lt z x" if z: "z \<in> set ys" for z
    proof
      assume zx: "lt z x"
      have zA: "z \<in> A" using z ys by blast
      have nzy: "\<not> lt z y" using Cons.prems(3) z by simp
      show False
      proof (cases "z = y")
        case True
        then show ?thesis using zx False by simp
      next
        case ne: False
        then have "lt y z" using orders_total [OF ord zA y] nzy by blast
        then have "lt y x" using orders_trans [OF ord y zA \<open>x \<in> A\<close>] zx by blast
        then show ?thesis using False by simp
      qed
    qed
    then show ?thesis using False Cons.prems(3) by simp
  qed
qed

lemma sorted_sort_by:
  assumes "orders lt A" "set xs \<subseteq> A"
  shows "sorted_wrt (\<lambda>a b. \<not> lt b a) (sort_by lt xs)"
  using assms(2)
proof (induction xs)
  case Nil
  then show ?case by simp
next
  case (Cons x xs)
  then show ?case using sorted_insert_by [OF assms(1)] by simp
qed

lemma sorted_wrt_total_unique:
  assumes ord: "orders lt A" and "set xs \<subseteq> A" "mset xs = mset ys"
    and "sorted_wrt (\<lambda>a b. \<not> lt b a) xs" "sorted_wrt (\<lambda>a b. \<not> lt b a) ys"
  shows "xs = ys"
  using assms(2-)
proof (induction xs arbitrary: ys)
  case Nil
  then show ?case by simp
next
  case (Cons x xs)
  from Cons.prems(2) obtain y ys' where ys: "ys = y # ys'"
    by (cases ys) auto
  have eq: "set ys = set (x # xs)" using Cons.prems(2) by (metis mset_eq_setD)
  then have mem: "x \<in> set ys" "y \<in> set (x # xs)" and A: "x \<in> A" "y \<in> A"
    using Cons.prems(1) ys by auto
  have "x = y"
  proof (rule ccontr)
    assume ne: "x \<noteq> y"
    then have "x \<in> set ys'" "y \<in> set xs" using mem ys by auto
    then have "\<not> lt x y" "\<not> lt y x" using Cons.prems(3,4) ys by simp_all
    then show False using ne orders_total [OF ord A] by blast
  qed
  moreover have "mset xs = mset ys'" using Cons.prems(2) ys \<open>x = y\<close> by simp
  ultimately show ?case using Cons ys by simp
qed

lemma sort_by_unique:
  assumes "orders lt (set xs)" "mset xs = mset ys" "sorted_wrt (\<lambda>a b. \<not> lt b a) ys"
  shows "sort_by lt xs = ys"
  by (rule sorted_wrt_total_unique [OF assms(1)]) (simp_all add: assms sorted_sort_by [OF assms(1)])

lemma sort_by_perm:
  assumes "orders lt (set xs)" "mset xs = mset ys"
  shows "sort_by lt xs = sort_by lt ys"
proof (rule sort_by_unique [OF assms(1)])
  have "set ys \<subseteq> set xs" using mset_eq_setD [OF assms(2)] by simp
  then show "sorted_wrt (\<lambda>a b. \<not> lt b a) (sort_by lt ys)"
    by (rule sorted_sort_by [OF assms(1)])
qed (simp add: assms(2))

text \<open>Comparators built from keys.\<close>

lemma orders_key:
  fixes f :: "'a \<Rightarrow> 'b::linorder"
  assumes "inj_on f A"
  shows "orders (\<lambda>x y. f x < f y) A"
proof -
  have "f x < f y \<or> f y < f x" if "x \<in> A" "y \<in> A" "x \<noteq> y" for x y
    using that inj_onD [OF assms] by (meson linorder_neqE)
  then show ?thesis by (auto simp: orders_def)
qed

lemma orders_rank_key:
  fixes f :: "'a \<Rightarrow> 'b::linorder" and rank :: "'a \<Rightarrow> 'c::linorder"
  assumes "inj_on f A"
  shows "orders (\<lambda>x y. if rank x \<noteq> rank y then rank x > rank y else f x < f y) A"
proof -
  have "f x < f y \<or> f y < f x" if "x \<in> A" "y \<in> A" "x \<noteq> y" for x y
    using that inj_onD [OF assms] by (meson linorder_neqE)
  then show ?thesis
    unfolding orders_def by (auto split: if_splits)
qed

end
