(* ===== verification/Json.thy ===== *)
theory Json
  imports Prelude
begin

text \<open>
  What the program uses of \<open>encoding/json\<close>, at the level of JSON values: a document is the value
  its text denotes, and \<open>None\<close> is a text that is not JSON (the empty text included).  Struct
  fields are written and read through small combinators, one per kind of Go field: \<open>omitempty\<close>
  drops a zero value, a missing or null member leaves the zero value, and a member of the wrong
  type is an error.  Member names are matched exactly, and a nil slice and an empty one are not
  told apart.
\<close>

datatype json =
    JNull
  | JBool bool
  | JNum int
  | JStr string
  | JArr "json list"
  | JObj "(string \<times> json) list"

type_synonym raw_extension = "json option"

named_theorems json_simps "encoders, decoders and member lookup"

section \<open>Reading members\<close>

text \<open>The last of several members of the same name wins.\<close>

definition jget :: "string \<Rightarrow> (string \<times> json) list \<Rightarrow> json option" where
  "jget k ms = map_of (rev ms) k"

definition dec_field :: "(json \<Rightarrow> 'a option) \<Rightarrow> 'a \<Rightarrow> string \<Rightarrow> (string \<times> json) list \<Rightarrow> 'a option" where
  "dec_field d z k ms =
     (case jget k ms of None \<Rightarrow> Some z | Some JNull \<Rightarrow> Some z | Some v \<Rightarrow> d v)"

fun dec_str :: "json \<Rightarrow> string option" where
  "dec_str (JStr s) = Some s"
| "dec_str _ = None"

fun dec_bool :: "json \<Rightarrow> bool option" where
  "dec_bool (JBool b) = Some b"
| "dec_bool _ = None"

fun dec_int32 :: "json \<Rightarrow> int option" where
  "dec_int32 (JNum n) = (if in_i32 n then Some n else None)"
| "dec_int32 _ = None"

fun dec_int64 :: "json \<Rightarrow> int option" where
  "dec_int64 (JNum n) = (if in_i64 n then Some n else None)"
| "dec_int64 _ = None"

text \<open>A pointer field.\<close>

definition dec_ptr :: "(json \<Rightarrow> 'a option) \<Rightarrow> json \<Rightarrow> 'a option option" where
  "dec_ptr d v = map_option Some (d v)"

fun dec_elems :: "(json \<Rightarrow> 'a option) \<Rightarrow> 'a \<Rightarrow> json list \<Rightarrow> 'a list option" where
  "dec_elems d z [] = Some []"
| "dec_elems d z (v # vs) =
     (case (if v = JNull then Some z else d v) of
        None \<Rightarrow> None
      | Some x \<Rightarrow> map_option (\<lambda>xs. x # xs) (dec_elems d z vs))"

fun dec_list :: "(json \<Rightarrow> 'a option) \<Rightarrow> 'a \<Rightarrow> json \<Rightarrow> 'a list option" where
  "dec_list d z (JArr vs) = dec_elems d z vs"
| "dec_list d z _ = None"

text \<open>An object of a struct type; \<open>null\<close> leaves the zero value.\<close>

fun dec_obj :: "((string \<times> json) list \<Rightarrow> 'a option) \<Rightarrow> json \<Rightarrow> 'a option" where
  "dec_obj d (JObj ms) = d ms"
| "dec_obj d _ = None"

section \<open>Writing members\<close>

definition enc_str :: "string \<Rightarrow> string \<Rightarrow> (string \<times> json) list" where
  "enc_str k s = [(k, JStr s)]"

definition omit_str :: "string \<Rightarrow> string \<Rightarrow> (string \<times> json) list" where
  "omit_str k s = (if s = [] then [] else [(k, JStr s)])"

definition omit_bool :: "string \<Rightarrow> bool \<Rightarrow> (string \<times> json) list" where
  "omit_bool k b = (if b then [(k, JBool b)] else [])"

definition omit_int :: "string \<Rightarrow> int \<Rightarrow> (string \<times> json) list" where
  "omit_int k n = (if n = 0 then [] else [(k, JNum n)])"

definition omit_ptr :: "('a \<Rightarrow> json) \<Rightarrow> string \<Rightarrow> 'a option \<Rightarrow> (string \<times> json) list" where
  "omit_ptr e k p = (case p of None \<Rightarrow> [] | Some x \<Rightarrow> [(k, e x)])"

definition omit_list :: "('a \<Rightarrow> json) \<Rightarrow> string \<Rightarrow> 'a list \<Rightarrow> (string \<times> json) list" where
  "omit_list e k xs = (if xs = [] then [] else [(k, JArr (map e xs))])"

definition enc_list :: "('a \<Rightarrow> json) \<Rightarrow> string \<Rightarrow> 'a list \<Rightarrow> (string \<times> json) list" where
  "enc_list e k xs = [(k, if xs = [] then JNull else JArr (map e xs))]"

definition enc_struct :: "string \<Rightarrow> (string \<times> json) list \<Rightarrow> (string \<times> json) list" where
  "enc_struct k ms = [(k, JObj ms)]"

section \<open>Lookup of what was written\<close>

lemma jget_append [json_simps]:
  "jget k (xs @ ys) = (case jget k ys of None \<Rightarrow> jget k xs | Some v \<Rightarrow> Some v)"
  by (simp add: jget_def map_add_def split: option.split)

lemma jget_Nil [json_simps]: "jget k [] = None"
  by (simp add: jget_def)

lemma jget_enc [json_simps]:
  "jget k (enc_str k' s) = (if k = k' then Some (JStr s) else None)"
  "jget k (omit_str k' s) = (if k = k' \<and> s \<noteq> [] then Some (JStr s) else None)"
  "jget k (omit_bool k' b) = (if k = k' \<and> b then Some (JBool True) else None)"
  "jget k (omit_int k' n) = (if k = k' \<and> n \<noteq> 0 then Some (JNum n) else None)"
  "jget k (omit_ptr e k' p) = (if k = k' then map_option e p else None)"
  "jget k (omit_list f k' xs) = (if k = k' \<and> xs \<noteq> [] then Some (JArr (map f xs)) else None)"
  "jget k (enc_list f k' xs) =
     (if k = k' then Some (if xs = [] then JNull else JArr (map f xs)) else None)"
  "jget k (enc_struct k' ms) = (if k = k' then Some (JObj ms) else None)"
  by (auto simp: jget_def enc_str_def omit_str_def omit_bool_def omit_int_def omit_ptr_def
      omit_list_def enc_list_def enc_struct_def split: option.splits)

lemma dec_elems_map:
  assumes "\<And>x. x \<in> set xs \<Longrightarrow> d (e x) = Some x" "\<And>x. e x \<noteq> JNull"
  shows "dec_elems d z (map e xs) = Some xs"
  using assms by (induction xs) auto

section \<open>Reading a member back\<close>

text \<open>
  A member is read past the members of other names that precede it, and gives back the value it
  was written from when no later member has its name.  With these rules the round trip of a
  struct is one rewriting step per field, without a case distinction.
\<close>

named_theorems json_rt "reading back a written member"

lemma jget_skip [json_rt]:
  "k \<noteq> k' \<Longrightarrow> jget k (enc_str k' s @ ms) = jget k ms"
  "k \<noteq> k' \<Longrightarrow> jget k (omit_str k' s @ ms) = jget k ms"
  "k \<noteq> k' \<Longrightarrow> jget k (omit_bool k' b @ ms) = jget k ms"
  "k \<noteq> k' \<Longrightarrow> jget k (omit_int k' n @ ms) = jget k ms"
  "k \<noteq> k' \<Longrightarrow> jget k (omit_ptr e k' p @ ms) = jget k ms"
  "k \<noteq> k' \<Longrightarrow> jget k (omit_list f k' xs @ ms) = jget k ms"
  "k \<noteq> k' \<Longrightarrow> jget k (enc_struct k' os @ ms) = jget k ms"
  by (simp_all add: json_simps split: option.split)

lemma jget_skip_last [json_rt]:
  "k \<noteq> k' \<Longrightarrow> jget k (enc_str k' s) = None"
  "k \<noteq> k' \<Longrightarrow> jget k (omit_str k' s) = None"
  "k \<noteq> k' \<Longrightarrow> jget k (omit_bool k' b) = None"
  "k \<noteq> k' \<Longrightarrow> jget k (omit_int k' n) = None"
  "k \<noteq> k' \<Longrightarrow> jget k (omit_ptr e k' p) = None"
  "k \<noteq> k' \<Longrightarrow> jget k (omit_list f k' xs) = None"
  "k \<noteq> k' \<Longrightarrow> jget k (enc_list f k' xs) = None"
  by (simp_all add: json_simps)

lemma dec_field_skip [json_rt]:
  "k \<noteq> k' \<Longrightarrow> dec_field d z k (enc_str k' s @ ms) = dec_field d z k ms"
  "k \<noteq> k' \<Longrightarrow> dec_field d z k (omit_str k' s @ ms) = dec_field d z k ms"
  "k \<noteq> k' \<Longrightarrow> dec_field d z k (omit_bool k' b @ ms) = dec_field d z k ms"
  "k \<noteq> k' \<Longrightarrow> dec_field d z k (omit_int k' n @ ms) = dec_field d z k ms"
  "k \<noteq> k' \<Longrightarrow> dec_field d z k (omit_ptr e k' p @ ms) = dec_field d z k ms"
  "k \<noteq> k' \<Longrightarrow> dec_field d z k (omit_list f k' xs @ ms) = dec_field d z k ms"
  "k \<noteq> k' \<Longrightarrow> dec_field d z k (enc_struct k' os @ ms) = dec_field d z k ms"
  unfolding dec_field_def by (simp_all add: json_rt)

lemma dec_field_str [json_rt]:
  "jget k ms = None \<Longrightarrow> dec_field dec_str [] k (enc_str k s @ ms) = Some s"
  "jget k ms = None \<Longrightarrow> dec_field dec_str [] k (omit_str k s @ ms) = Some s"
  "dec_field dec_str [] k (omit_str k s) = Some s"
  by (simp_all add: dec_field_def json_simps)

lemma dec_field_bool [json_rt]:
  "jget k ms = None \<Longrightarrow> dec_field dec_bool False k (omit_bool k b @ ms) = Some b"
  by (simp add: dec_field_def json_simps)

lemma dec_field_int [json_rt]:
  "jget k ms = None \<Longrightarrow> in_i32 n \<Longrightarrow> dec_field dec_int32 0 k (omit_int k n @ ms) = Some n"
  "jget k ms = None \<Longrightarrow> in_i64 n \<Longrightarrow> dec_field dec_int64 0 k (omit_int k n @ ms) = Some n"
  by (simp_all add: dec_field_def json_simps)

lemma dec_field_ptr [json_rt]:
  assumes "jget k ms = None" "\<And>x. p = Some x \<Longrightarrow> d (e x) = Some x" "\<And>x. e x \<noteq> JNull"
  shows "dec_field (dec_ptr d) None k (omit_ptr e k p @ ms) = Some p"
proof (cases p)
  case None
  then show ?thesis using assms by (simp add: dec_field_def json_simps)
next
  case (Some x)
  then show ?thesis using assms(1,2) assms(3) [of x]
    by (auto simp: dec_field_def json_simps dec_ptr_def split: json.split)
qed

lemma dec_field_list [json_rt]:
  assumes "jget k ms = None" "\<And>x. x \<in> set xs \<Longrightarrow> d (e x) = Some x" "\<And>x. e x \<noteq> JNull"
  shows "dec_field (dec_list d z) [] k (omit_list e k xs @ ms) = Some xs"
  using assms by (simp add: dec_field_def json_simps dec_elems_map)

lemma dec_field_list_last [json_rt]:
  assumes "\<And>x. x \<in> set xs \<Longrightarrow> d (e x) = Some x" "\<And>x. e x \<noteq> JNull"
  shows "dec_field (dec_list d z) [] k (omit_list e k xs) = Some xs"
    and "dec_field (dec_list d z) [] k (enc_list e k xs) = Some xs"
  using dec_field_list [of k "[]" xs d e z] assms by (simp_all add: json_simps dec_field_def dec_elems_map)

lemma dec_field_struct [json_rt]:
  "jget k ms = None \<Longrightarrow> dec_field (dec_obj d) z k (enc_struct k os @ ms) = d os"
  by (simp add: dec_field_def json_simps)

end
