(* ===== verification/GoStrings.thy ===== *)
theory GoStrings
  imports Prelude
begin

text \<open>
  The functions of Go's \<open>strings\<close> and \<open>strconv\<close> packages that the program uses, on byte
  strings: decimal numbers (\<open>Itoa\<close>, \<open>Atoi\<close>), \<open>Split\<close>, \<open>SplitN(_, _, 2)\<close>,
  \<open>Contains\<close>, \<open>HasPrefix\<close>, \<open>HasSuffix\<close>, removal of spaces, and \<open>lo.Uniq\<close>.
  The lemmas are the round trips and inversions the component theories use.
\<close>

section \<open>Decimal numbers\<close>

definition digit_table :: "(char \<times> int) list" where
  "digit_table = zip ''0123456789'' [0, 1, 2, 3, 4, 5, 6, 7, 8, 9]"

definition digit_char :: "int \<Rightarrow> char" where
  "digit_char d = (case find (\<lambda>(c, v). v = d) digit_table of Some (c, _) \<Rightarrow> c | None \<Rightarrow> CHR ''0'')"

definition digit_val :: "char \<Rightarrow> int" where
  "digit_val c = (case map_of digit_table c of Some v \<Rightarrow> v | None \<Rightarrow> 0)"

definition is_digit :: "char \<Rightarrow> bool" where
  "is_digit c \<longleftrightarrow> c \<in> set ''0123456789''"

function digits :: "int \<Rightarrow> string" where
  "digits n = (if n < 10 then [digit_char n] else digits (n div 10) @ [digit_char (n mod 10)])"
  by pat_completeness auto
termination
  by (relation "measure nat") auto

declare digits.simps [simp del]

text \<open>\<open>strconv.Itoa\<close>, and \<open>%d\<close> on a signed integer.\<close>

definition itoa :: "int \<Rightarrow> string" where
  "itoa n = (if n < 0 then ''-'' @ digits (- n) else digits n)"

definition undigits :: "string \<Rightarrow> int" where
  "undigits ds = foldl (\<lambda>acc c. 10 * acc + digit_val c) 0 ds"

definition parse_uint :: "string \<Rightarrow> int option" where
  "parse_uint ds = (if ds \<noteq> [] \<and> list_all is_digit ds then Some (undigits ds) else None)"

text \<open>\<open>strconv.Atoi\<close>: an optional sign, digits, and the range of a 64-bit \<open>int\<close>.\<close>

definition atoi :: "string \<Rightarrow> int option" where
  "atoi s =
     (let (neg, ds) = (case s of
            [] \<Rightarrow> (False, [])
          | c # cs \<Rightarrow> if c = CHR ''-'' then (True, cs)
                      else if c = CHR ''+'' then (False, cs) else (False, s))
      in case parse_uint ds of
           None \<Rightarrow> None
         | Some n \<Rightarrow> let v = (if neg then - n else n)
                     in if in_i64 v then Some v else None)"

lemma is_digit_digit_char [simp]: "is_digit (digit_char d)"
  by (simp add: is_digit_def digit_char_def digit_table_def)

lemma digit_val_digit_char [simp]: "0 \<le> d \<Longrightarrow> d < 10 \<Longrightarrow> digit_val (digit_char d) = d"
  by (simp add: digit_val_def digit_char_def digit_table_def) arith

lemma digits_neq_Nil [simp]: "digits n \<noteq> []"
  by (subst digits.simps) simp

lemma all_digits [simp]: "list_all is_digit (digits n)"
proof (induction n rule: digits.induct)
  case (1 n)
  then show ?case by (cases "n < 10") (simp_all add: digits.simps [of n])
qed

lemma undigits_append: "undigits (xs @ [c]) = 10 * undigits xs + digit_val c"
  by (simp add: undigits_def)

lemma undigits_digits [simp]: "0 \<le> n \<Longrightarrow> undigits (digits n) = n"
proof (induction n rule: digits.induct)
  case (1 n)
  show ?case
  proof (cases "n < 10")
    case True
    then show ?thesis using 1 by (simp add: digits.simps [of n] undigits_def)
  next
    case False
    then show ?thesis using 1 by (simp add: digits.simps [of n] undigits_append)
  qed
qed

lemma not_digit_simps [simp]:
  "\<not> is_digit CHR ''-''" "\<not> is_digit CHR ''+''" "\<not> is_digit CHR ''*''" "\<not> is_digit CHR '' ''"
  by (simp_all add: is_digit_def)

lemma hd_digits: "is_digit (hd (digits n))"
  using all_digits [of n] by (cases "digits n") simp_all

lemma parse_digits: "0 \<le> n \<Longrightarrow> atoi (digits n) = (if in_i64 n then Some n else None)"
proof (cases "digits n")
  case Nil
  then show ?thesis by simp
next
  case (Cons c cs)
  assume n: "0 \<le> n"
  have c: "is_digit c" using hd_digits [of n] Cons by simp
  then have ne: "c \<noteq> CHR ''-''" "c \<noteq> CHR ''+''" by auto
  have "parse_uint (c # cs) = Some n"
    using all_digits [of n] undigits_digits [OF n] unfolding Cons parse_uint_def by simp
  then show ?thesis using ne unfolding Cons atoi_def by (simp add: Let_def)
qed

text \<open>Every 64-bit integer survives printing and reading.\<close>

lemma atoi_itoa [simp]:
  assumes "in_i64 n"
  shows "atoi (itoa n) = Some n"
proof (cases "n < 0")
  case True
  have "parse_uint (digits (- n)) = Some (- n)"
    using True by (simp add: parse_uint_def)
  then show ?thesis using True assms by (simp add: itoa_def atoi_def Let_def)
next
  case False
  then show ?thesis using assms by (simp add: itoa_def parse_digits)
qed

lemma atoi_range: "atoi s = Some n \<Longrightarrow> in_i64 n"
  by (auto simp: atoi_def Let_def split: if_splits option.splits list.splits)

lemma itoa_inject: "in_i64 m \<Longrightarrow> in_i64 n \<Longrightarrow> itoa m = itoa n \<longleftrightarrow> m = n"
  by (metis atoi_itoa option.inject)

lemma itoa_neq_Nil [simp]: "itoa n \<noteq> []"
  by (simp add: itoa_def)

lemma set_digits: "c \<in> set (digits n) \<Longrightarrow> is_digit c"
  using all_digits [of n] by (simp add: list_all_iff)

section \<open>Splitting\<close>

text \<open>\<open>strings.Split(s, sep)\<close> for a non-empty separator.\<close>

function go_split :: "string \<Rightarrow> string \<Rightarrow> string list" where
  "go_split sep s =
     (if sep \<noteq> [] \<and> prefix sep s then [] # go_split sep (drop (length sep) s)
      else case s of
             [] \<Rightarrow> [[]]
           | c # cs \<Rightarrow> (case go_split sep cs of [] \<Rightarrow> [[c]] | w # ws \<Rightarrow> (c # w) # ws))"
  by pat_completeness auto
termination
proof (relation "measure (\<lambda>(sep, s). length s)", simp, goal_cases)
  case (1 sep s)
  then show ?case by (auto simp: prefix_def)
next
  case (2 sep s c cs)
  then show ?case by simp
qed

declare go_split.simps [simp del]

text \<open>\<open>strings.SplitN(s, sep, 2)\<close>: cut at the first separator, if there is one.\<close>

fun cut_at :: "char \<Rightarrow> string \<Rightarrow> (string \<times> string) option" where
  "cut_at sep [] = None"
| "cut_at sep (c # cs) =
     (if c = sep then Some ([], cs)
      else case cut_at sep cs of None \<Rightarrow> None | Some (a, b) \<Rightarrow> Some (c # a, b))"

text \<open>\<open>strings.Contains\<close>, \<open>HasPrefix\<close>, \<open>HasSuffix\<close>; \<open>ReplaceAll(v, " ", "")\<close>.\<close>

fun contains :: "string \<Rightarrow> string \<Rightarrow> bool" where
  "contains [] sub = (sub = [])"
| "contains (c # cs) sub = (prefix sub (c # cs) \<or> contains cs sub)"

definition has_prefix :: "string \<Rightarrow> string \<Rightarrow> bool" where
  "has_prefix s p = prefix p s"

definition has_suffix :: "string \<Rightarrow> string \<Rightarrow> bool" where
  "has_suffix s p = suffix p s"

definition drop_spaces :: "string \<Rightarrow> string" where
  "drop_spaces s = filter (\<lambda>c. c \<noteq> CHR '' '') s"

text \<open>\<open>lo.Uniq\<close>: first occurrences, in order.\<close>

fun uniq :: "'a list \<Rightarrow> 'a list" where
  "uniq [] = []"
| "uniq (x # xs) = x # filter (\<lambda>y. y \<noteq> x) (uniq xs)"

text \<open>Joining with a separator, the inverse of splitting at it.\<close>

fun join :: "string \<Rightarrow> string list \<Rightarrow> string" where
  "join sep [] = []"
| "join sep [w] = w"
| "join sep (w # w' # ws) = w @ sep @ join sep (w' # ws)"

text \<open>
  \<open>path.Clean\<close>: the elements between slashes, without empty ones and \<open>.\<close>; \<open>..\<close> takes the element
  before it away, is dropped at the root and kept at the start of a relative path.
\<close>

fun clean_elems :: "bool \<Rightarrow> string list \<Rightarrow> string list \<Rightarrow> string list" where
  "clean_elems rooted acc [] = rev acc"
| "clean_elems rooted acc (e # es) =
     (if e = [] \<or> e = ''.'' then clean_elems rooted acc es
      else if e \<noteq> ''..'' then clean_elems rooted (e # acc) es
      else case acc of
             a # acc' \<Rightarrow> if a \<noteq> ''..'' then clean_elems rooted acc' es else clean_elems rooted (e # acc) es
           | [] \<Rightarrow> if rooted then clean_elems rooted [] es else clean_elems rooted [e] es)"

definition path_clean :: "string \<Rightarrow> string" where
  "path_clean p =
     (let rooted = prefix ''/'' p;
          out = (if rooted then ''/'' else []) @ join ''/'' (clean_elems rooted [] (go_split ''/'' p))
      in if out = [] then ''.'' else out)"

lemma go_split_neq_Nil [simp]: "go_split sep s \<noteq> []"
  by (subst go_split.simps) (simp split: list.splits)

lemma go_split_Nil: "sep \<noteq> [] \<Longrightarrow> go_split sep [] = [[]]"
  by (subst go_split.simps) simp

lemma join_Cons_ne: "ws \<noteq> [] \<Longrightarrow> join sep (w # ws) = w @ sep @ join sep ws"
  by (cases ws) simp_all

lemma join_split [simp]: "sep \<noteq> [] \<Longrightarrow> join sep (go_split sep s) = s"
proof (induction sep s rule: go_split.induct)
  case (1 sep s)
  show ?case
  proof (cases "prefix sep s")
    case True
    then show ?thesis
      using 1 by (subst go_split.simps) (auto simp: join_Cons_ne prefix_def)
  next
    case False
    show ?thesis
    proof (cases s)
      case Nil
      then show ?thesis using False by (subst go_split.simps) simp
    next
      case (Cons c cs)
      obtain w ws where sp: "go_split sep cs = w # ws"
        using go_split_neq_Nil by (metis list.exhaust)
      have "join sep (w # ws) = cs" using 1 False Cons sp by simp
      then show ?thesis using False Cons sp
        by (subst go_split.simps) (cases ws; simp)
    qed
  qed
qed

text \<open>Splitting at a one-character separator.\<close>

lemma go_split_char_Cons:
  "go_split [d] (c # cs) =
     (if c = d then [] # go_split [d] cs
      else case go_split [d] cs of [] \<Rightarrow> [[c]] | w # ws \<Rightarrow> (c # w) # ws)"
  by (subst go_split.simps) (auto simp: prefix_def)

lemma go_split_no_sep: "d \<notin> set w \<Longrightarrow> go_split [d] w = [w]"
  by (induction w) (auto simp: go_split_Nil go_split_char_Cons)

lemma go_split_append:
  "d \<notin> set w \<Longrightarrow> go_split [d] (w @ d # s) = w # go_split [d] s"
  by (induction w) (auto simp: go_split_char_Cons)

lemma split_join:
  assumes "\<forall>w\<in>set ws. d \<notin> set w" "ws \<noteq> []"
  shows "go_split [d] (join [d] ws) = ws"
  using assms
proof (induction ws rule: induct_list012)
  case 1
  then show ?case by simp
next
  case (2 w)
  then show ?case by (simp add: go_split_no_sep)
next
  case (3 w w' ws)
  then show ?case by (simp add: go_split_append)
qed

lemma split_parts_no_sep: "w \<in> set (go_split [d] s) \<Longrightarrow> d \<notin> set w"
proof (induction s arbitrary: w)
  case Nil
  then show ?case by (simp add: go_split_Nil)
next
  case (Cons c cs)
  then show ?case by (auto simp: go_split_char_Cons split: if_splits list.splits)
qed

lemma cut_at_append: "sep \<notin> set a \<Longrightarrow> cut_at sep (a @ sep # b) = Some (a, b)"
  by (induction a) auto

lemma cut_at_Some: "cut_at sep s = Some (a, b) \<Longrightarrow> s = a @ sep # b \<and> sep \<notin> set a"
  by (induction s arbitrary: a) (auto split: if_splits option.splits)

lemma cut_at_None: "cut_at sep s = None \<longleftrightarrow> sep \<notin> set s"
  by (induction s) (auto split: option.splits)

lemma contains_iff: "contains s sub \<longleftrightarrow> (\<exists>a b. s = a @ sub @ b)"
proof (induction s)
  case Nil
  then show ?case by simp
next
  case (Cons c cs)
  show ?case
  proof
    assume "contains (c # cs) sub"
    then show "\<exists>a b. c # cs = a @ sub @ b"
      using Cons by (auto simp: prefix_def) (metis append_Cons append_Nil)+
  next
    assume "\<exists>a b. c # cs = a @ sub @ b"
    then obtain a b where ab: "c # cs = a @ sub @ b" by blast
    show "contains (c # cs) sub"
    proof (cases a)
      case Nil
      then have "prefix sub (c # cs)" using ab by simp
      then show ?thesis by simp
    next
      case (Cons a' as)
      then have "cs = as @ sub @ b" using ab by simp
      then show ?thesis using \<open>contains cs sub = (\<exists>a b. cs = a @ sub @ b)\<close> by auto
    qed
  qed
qed

lemma set_uniq [simp]: "set (uniq xs) = set xs"
  by (induction xs) auto

lemma distinct_uniq [simp]: "distinct (uniq xs)"
  by (induction xs) auto

lemma uniq_id: "distinct xs \<Longrightarrow> uniq xs = xs"
  by (induction xs) (auto simp: filter_id_conv)

lemma uniq_snoc: "uniq (xs @ [x]) = (if x \<in> set xs then uniq xs else uniq xs @ [x])"
  by (induction xs) auto

end
