(* ===== verification/Labels.thy ===== *)
theory Labels
  imports GoStrings
begin

text \<open>
  The label, annotation, resource and finalizer names of \<open>pkg/apis/v1beta1/labels.go\<close> and the
  API group of \<open>register.go\<close>, each under its Go name.  \<open>label_defs\<close> unfolds them all; the
  lemmas at the end say which of them can be told apart, which is what reads after writes of
  the annotation maps need.
\<close>

section \<open>Names\<close>

definition Group :: string where
  "Group = ''karpenter.k8s.tke''"

definition CapacityGroup :: string where
  "CapacityGroup = ''capacity.'' @ Group"

definition KubeReservedGroup :: string where
  "KubeReservedGroup = ''kube-reserved.'' @ Group"

definition SystemReservedGroup :: string where
  "SystemReservedGroup = ''system-reserved.'' @ Group"

definition EvictionThresholdGroup :: string where
  "EvictionThresholdGroup = ''eviction-threshold.'' @ Group"

definition LabelProviderIDInitialized :: string where
  "LabelProviderIDInitialized = Group @ ''/provider-id-initialized''"

definition LabelNodeClass :: string where
  "LabelNodeClass = Group @ ''/tkemachinenodeclass''"

definition LabelNodeClaim :: string where
  "LabelNodeClaim = Group @ ''/nodeclaim''"

definition LabelInstanceFamily :: string where
  "LabelInstanceFamily = Group @ ''/instance-family''"

definition LabelInstanceCPU :: string where
  "LabelInstanceCPU = Group @ ''/instance-cpu''"

definition LabelInstanceMemoryGB :: string where
  "LabelInstanceMemoryGB = Group @ ''/instance-memory-gb''"

definition LabelCBSToplogy :: string where
  "LabelCBSToplogy = ''topology.com.tencent.cloud.csi.cbs/zone''"

definition TKELabelENIIP :: string where
  "TKELabelENIIP = ''tke.cloud.tencent.com/eni-ip''"

definition TKELabelDirectENI :: string where
  "TKELabelDirectENI = ''tke.cloud.tencent.com/direct-eni''"

definition TKELabelENI :: string where
  "TKELabelENI = ''tke.cloud.tencent.com/eni''"

definition TKELabelSubENI :: string where
  "TKELabelSubENI = ''tke.cloud.tencent.com/sub-eni''"

definition TKELabelEIP :: string where
  "TKELabelEIP = ''tke.cloud.tencent.com/eip''"

definition AnnotationMemory :: string where
  "AnnotationMemory = ''/memory''"

definition AnnotationCPU :: string where
  "AnnotationCPU = ''/cpu''"

definition AnnotationPods :: string where
  "AnnotationPods = ''/pods''"

definition AnnotationENIIP :: string where
  "AnnotationENIIP = ''/eni-ip''"

definition AnnotationDirectENI :: string where
  "AnnotationDirectENI = ''/direct-eni''"

definition AnnotationENI :: string where
  "AnnotationENI = ''/eni''"

definition AnnotationSubENI :: string where
  "AnnotationSubENI = ''/sub-eni''"

definition AnnotationEIP :: string where
  "AnnotationEIP = ''/eip''"

definition AnnotationGPUCount :: string where
  "AnnotationGPUCount = ''/gpu-count''"

definition AnnotationGPUType :: string where
  "AnnotationGPUType = ''/gpu-type''"

definition AnnotationEphemeralStorage :: string where
  "AnnotationEphemeralStorage = ''/ephemeral-storage''"

definition AnnotationOwnedMachine :: string where
  "AnnotationOwnedMachine = Group @ ''/owned-machine''"

definition AnnotationManagedBy :: string where
  "AnnotationManagedBy = Group @ ''/managed-by''"

definition AnnotationUnitPrice :: string where
  "AnnotationUnitPrice = Group @ ''/unit-price''"

definition AnnotationKubeletArgPrefix :: string where
  "AnnotationKubeletArgPrefix = ''beta.'' @ Group @ ''.kubelet.arg/''"

definition AnnotationKernelArgPrefix :: string where
  "AnnotationKernelArgPrefix = ''beta.'' @ Group @ ''.kernel.arg/''"

definition AnnotationHostsPrefix :: string where
  "AnnotationHostsPrefix = ''beta.'' @ Group @ ''.hosts.ip/''"

definition AnnotationGPUDriverKey :: string where
  "AnnotationGPUDriverKey = ''beta.'' @ Group @ ''.gpu/driver''"

definition AnnotationGPUCUDAKey :: string where
  "AnnotationGPUCUDAKey = ''beta.'' @ Group @ ''.gpu/cuda''"

definition AnnotationGPUCUDNNKey :: string where
  "AnnotationGPUCUDNNKey = ''beta.'' @ Group @ ''.gpu/cudnn''"

definition AnnotationGPUMIGEnableKey :: string where
  "AnnotationGPUMIGEnableKey = ''beta.'' @ Group @ ''.gpu/mig-enable''"

definition AnnotationFabricKey :: string where
  "AnnotationFabricKey = ''beta.'' @ Group @ ''.gpu/fabric''"

definition AnnotationRuntimeRootKey :: string where
  "AnnotationRuntimeRootKey = ''beta.'' @ Group @ ''.machine/runtime-root''"

definition AnnotationHostnameKey :: string where
  "AnnotationHostnameKey = ''beta.'' @ Group @ ''.machine/hostname''"

definition AnnotationNameserversKey :: string where
  "AnnotationNameserversKey = ''beta.'' @ Group @ ''.machine/nameservers''"

definition AnnotationMachineSpecAnnotationsKey :: string where
  "AnnotationMachineSpecAnnotationsKey = ''beta.'' @ Group @ ''.machine.spec/annotations''"

definition AnnotationMachineMetaAnnotationsKey :: string where
  "AnnotationMachineMetaAnnotationsKey = ''beta.'' @ Group @ ''.machine.meta/annotations''"

definition AnnotationDataDisksThroughputKey :: string where
  "AnnotationDataDisksThroughputKey = ''beta.'' @ Group @ ''.datadisks/throughput''"

definition AnnotationDataDisksEncryptKey :: string where
  "AnnotationDataDisksEncryptKey = ''beta.'' @ Group @ ''.datadisks/encrypt''"

definition AnnotationDataDisksKMSID :: string where
  "AnnotationDataDisksKMSID = ''beta.'' @ Group @ ''.datadisks/kms-id''"

definition AnnotationDataDisksSnapshotID :: string where
  "AnnotationDataDisksSnapshotID = ''beta.'' @ Group @ ''.datadisks/snapshot-id''"

definition AnnotationDataDisksImageCacheID :: string where
  "AnnotationDataDisksImageCacheID = ''beta.'' @ Group @ ''.datadisks/image-cache-id''"

definition AnnotationSystemDiskEncryptKey :: string where
  "AnnotationSystemDiskEncryptKey = ''beta.'' @ Group @ ''.systemdisk/encrypt''"

definition AnnotationSystemDiskKMSID :: string where
  "AnnotationSystemDiskKMSID = ''beta.'' @ Group @ ''.systemdisk/kms-id''"

definition TerminationFinalizer :: string where
  "TerminationFinalizer = Group @ ''/termination''"

definition ResourceNVIDIAGPU :: string where
  "ResourceNVIDIAGPU = ''nvidia.com/gpu''"

definition RestrictedLabelDomains :: "string list" where
  "RestrictedLabelDomains = [Group]"

text \<open>The labels \<open>init\<close> adds to karpenter's well-known labels.\<close>

definition WellKnownLabels :: "string list" where
  "WellKnownLabels =
     [LabelNodeClass, LabelNodeClaim, LabelInstanceFamily, LabelInstanceCPU, LabelInstanceMemoryGB,
      LabelCBSToplogy, TKELabelENIIP, TKELabelDirectENI, TKELabelENI, TKELabelSubENI, TKELabelEIP]"

text \<open>Names of the Kubernetes and karpenter APIs that the program uses.\<close>

definition LabelArchStable :: string where
  "LabelArchStable = ''kubernetes.io/arch''"

definition LabelOSStable :: string where
  "LabelOSStable = ''kubernetes.io/os''"

definition LabelInstanceTypeStable :: string where
  "LabelInstanceTypeStable = ''node.kubernetes.io/instance-type''"

definition LabelTopologyZone :: string where
  "LabelTopologyZone = ''topology.kubernetes.io/zone''"

definition LabelWindowsBuild :: string where
  "LabelWindowsBuild = ''node.kubernetes.io/windows-build''"

definition CapacityTypeLabelKey :: string where
  "CapacityTypeLabelKey = ''karpenter.sh/capacity-type''"

definition NodePoolLabelKey :: string where
  "NodePoolLabelKey = ''karpenter.sh/nodepool''"

definition CapacityTypeSpot :: string where
  "CapacityTypeSpot = ''spot''"

definition CapacityTypeOnDemand :: string where
  "CapacityTypeOnDemand = ''on-demand''"

definition ResourceCPU :: string where
  "ResourceCPU = ''cpu''"

definition ResourceMemory :: string where
  "ResourceMemory = ''memory''"

definition ResourcePods :: string where
  "ResourcePods = ''pods''"

definition ResourceEphemeralStorage :: string where
  "ResourceEphemeralStorage = ''ephemeral-storage''"

lemmas label_defs =
  Group_def CapacityGroup_def KubeReservedGroup_def SystemReservedGroup_def
  EvictionThresholdGroup_def LabelProviderIDInitialized_def LabelNodeClass_def
  LabelNodeClaim_def LabelInstanceFamily_def LabelInstanceCPU_def
  LabelInstanceMemoryGB_def LabelCBSToplogy_def TKELabelENIIP_def
  TKELabelDirectENI_def TKELabelENI_def TKELabelSubENI_def TKELabelEIP_def
  AnnotationMemory_def AnnotationCPU_def AnnotationPods_def AnnotationENIIP_def
  AnnotationDirectENI_def AnnotationENI_def AnnotationSubENI_def AnnotationEIP_def
  AnnotationGPUCount_def AnnotationGPUType_def AnnotationEphemeralStorage_def
  AnnotationOwnedMachine_def AnnotationManagedBy_def AnnotationUnitPrice_def
  AnnotationKubeletArgPrefix_def AnnotationKernelArgPrefix_def
  AnnotationHostsPrefix_def AnnotationGPUDriverKey_def AnnotationGPUCUDAKey_def
  AnnotationGPUCUDNNKey_def AnnotationGPUMIGEnableKey_def AnnotationFabricKey_def
  AnnotationRuntimeRootKey_def AnnotationHostnameKey_def AnnotationNameserversKey_def
  AnnotationMachineSpecAnnotationsKey_def AnnotationMachineMetaAnnotationsKey_def
  AnnotationDataDisksThroughputKey_def AnnotationDataDisksEncryptKey_def
  AnnotationDataDisksKMSID_def AnnotationDataDisksSnapshotID_def
  AnnotationDataDisksImageCacheID_def AnnotationSystemDiskEncryptKey_def
  AnnotationSystemDiskKMSID_def TerminationFinalizer_def ResourceNVIDIAGPU_def

lemmas k8s_label_defs =
  LabelArchStable_def LabelOSStable_def LabelInstanceTypeStable_def LabelTopologyZone_def
  LabelWindowsBuild_def CapacityTypeLabelKey_def NodePoolLabelKey_def CapacityTypeSpot_def
  CapacityTypeOnDemand_def ResourceCPU_def ResourceMemory_def ResourcePods_def
  ResourceEphemeralStorage_def

lemma well_known_labels_distinct: "distinct WellKnownLabels"
  by (simp add: WellKnownLabels_def label_defs)

text \<open>
  The four groups of resource annotations and the ten resource suffixes: no two group/suffix
  pairs give the same annotation key.
\<close>

definition annotation_groups :: "string list" where
  "annotation_groups = [CapacityGroup, KubeReservedGroup, SystemReservedGroup, EvictionThresholdGroup]"

definition annotation_suffixes :: "string list" where
  "annotation_suffixes =
     [AnnotationCPU, AnnotationMemory, AnnotationPods, AnnotationEphemeralStorage, AnnotationENIIP,
      AnnotationDirectENI, AnnotationENI, AnnotationSubENI, AnnotationEIP, AnnotationGPUCount]"

lemma annotation_keys_distinct:
  "distinct [g @ s. g \<leftarrow> annotation_groups, s \<leftarrow> annotation_suffixes]"
  by (simp add: annotation_groups_def annotation_suffixes_def label_defs)

lemma annotation_key_eq:
  assumes "g \<in> set annotation_groups" "g' \<in> set annotation_groups"
    and "s \<in> set annotation_suffixes" "s' \<in> set annotation_suffixes"
  shows "g @ s = g' @ s' \<longleftrightarrow> g = g' \<and> s = s'"
proof -
  have "CHR ''/'' \<notin> set g" "CHR ''/'' \<notin> set g'"
    using assms(1,2) by (auto simp: annotation_groups_def label_defs)
  moreover have "\<exists>r. s = CHR ''/'' # r" "\<exists>r. s' = CHR ''/'' # r"
    using assms(3,4) by (auto simp: annotation_suffixes_def label_defs)
  ultimately show ?thesis using append_sep_eq [of "CHR ''/''" g g'] by fastforce
qed

end
