(* ===== verification/NativeNode.thy ===== *)
theory NativeNode
  imports Json Labels
begin

text \<open>
  The node API of \<open>staging/nativenode/v1beta1\<close>: machines, their specs, statuses and provider
  specs, one record per Go struct with the Go field names behind a short prefix.  Go string types keep their string
  values; their constants are the definitions named as in Go.  The embedded \<open>metav1.ObjectMeta\<close> of
  a provider spec, which nothing reads or writes, is left out.
\<close>

section \<open>Kubernetes metadata\<close>

text \<open>The fields of \<open>metav1.ObjectMeta\<close> and \<open>metav1.OwnerReference\<close> the program uses; times in nanoseconds.\<close>

record OwnerReference =
  or_APIVersion :: string
  or_Kind :: string
  or_Name :: string
  or_UID :: string

record ObjectMeta =
  om_Name :: string
  om_GenerateName :: string
  om_Namespace :: string
  om_UID :: string
  om_Labels :: gomap
  om_Annotations :: gomap
  om_OwnerReferences :: "OwnerReference list option"
  om_Finalizers :: "string list"
  om_CreationTimestamp :: int
  om_DeletionTimestamp :: "int option"

definition zero_ObjectMeta :: ObjectMeta where
  "zero_ObjectMeta = \<lparr>om_Name = [], om_GenerateName = [], om_Namespace = [], om_UID = [],
     om_Labels = None, om_Annotations = None, om_OwnerReferences = None, om_Finalizers = [],
     om_CreationTimestamp = 0, om_DeletionTimestamp = None\<rparr>"

definition owners :: "ObjectMeta \<Rightarrow> OwnerReference list" where
  "owners m = (case om_OwnerReferences m of None \<Rightarrow> [] | Some os \<Rightarrow> os)"

section \<open>Constants\<close>

definition CloudPremiumDiskType :: string where "CloudPremiumDiskType = ''CloudPremium''"
definition CloudSSDDiskType :: string where "CloudSSDDiskType = ''CloudSSD''"
definition CloudHSSDDiskType :: string where "CloudHSSDDiskType = ''CloudHSSD''"
definition CloudTSSDDiskType :: string where "CloudTSSDDiskType = ''CloudTSSD''"
definition CloudBSSDDiskType :: string where "CloudBSSDDiskType = ''CloudBSSD''"
definition RemoteSSDDiskType :: string where "RemoteSSDDiskType = ''REMOTE_SSD''"
definition LOCALBasicDiskType :: string where "LOCALBasicDiskType = ''LOCAL_BASIC''"
definition LOCALSSDDiskType :: string where "LOCALSSDDiskType = ''LOCAL_SSD''"
definition LOCALNVMEDiskType :: string where "LOCALNVMEDiskType = ''LOCAL_NVME''"
definition LOCALPRODiskType :: string where "LOCALPRODiskType = ''LOCAL_PRO''"

definition TrafficPostpaidByHour :: string where "TrafficPostpaidByHour = ''TrafficPostpaidByHour''"
definition BandwidthPackage :: string where "BandwidthPackage = ''BandwidthPackage''"

definition PrepaidChargeType :: string where "PrepaidChargeType = ''PrepaidCharge''"
definition PostpaidByHourChargeType :: string where "PostpaidByHourChargeType = ''PostpaidByHour''"
definition UnderwriteChargeType :: string where "UnderwriteChargeType = ''Underwrite''"
definition SpotpaidChargeType :: string where "SpotpaidChargeType = ''Spotpaid''"

definition NotifyAndManualRenew :: string where "NotifyAndManualRenew = ''NotifyAndManualRenew''"
definition PublicIpAddressType :: string where "PublicIpAddressType = ''PublicIP''"

definition MachineTypeNative :: string where "MachineTypeNative = ''Native''"
definition MachineTypeNativeCVM :: string where "MachineTypeNativeCVM = ''NativeCVM''"
definition MachineTypeCVM :: string where "MachineTypeCVM = ''CVM''"
definition MachineTypeExternal :: string where "MachineTypeExternal = ''External''"

definition ScaleDownDisabledAnnotation :: string where
  "ScaleDownDisabledAnnotation = ''cluster-autoscaler.kubernetes.io/scale-down-disabled''"
definition AnnotationMachineCloudTag :: string where
  "AnnotationMachineCloudTag = ''node.tke.cloud.tencent.com/machine-cloud-tags''"
definition PhaseDeleting :: string where "PhaseDeleting = ''Deleting''"
definition InvalidConfigurationMachineError :: string where
  "InvalidConfigurationMachineError = ''InvalidConfiguration''"

lemmas charge_type_defs =
  PrepaidChargeType_def PostpaidByHourChargeType_def UnderwriteChargeType_def SpotpaidChargeType_def

lemmas machine_type_defs =
  MachineTypeNative_def MachineTypeNativeCVM_def MachineTypeCVM_def MachineTypeExternal_def

section \<open>Provider specs\<close>

record CXMDisk =
  cd_DiskType :: string
  cd_DiskSize :: int
  cd_DiskID :: "string option"
  cd_DeleteWithInstance :: "bool option"
  cd_AutoFormatAndMount :: bool
  cd_FileSystem :: string
  cd_MountTarget :: string
  cd_Encrypt :: string
  cd_KmsKeyId :: string
  cd_SnapshotId :: string
  cd_ThroughputPerformance :: int
  cd_DiskPartition :: string
  cd_ImageCacheId :: string

record InternetAccessible =
  ia_MaxBandwidthOut :: int
  ia_ChargeType :: string
  ia_AddressID :: "string option"
  ia_BandwidthPackageID :: string
  ia_PublicIPAssigned :: bool
  ia_AddressType :: string

record InstanceChargePrepaid =
  icp_Period :: int
  icp_RenewFlag :: string

record LifecycleConfig =
  lc_PreInit :: string
  lc_PostInit :: string

record HostAlias =
  ha_IP :: string
  ha_Hostnames :: "string list"

record ManagementConfig =
  mc_Nameservers :: "string list"
  mc_Hosts :: "HostAlias list"
  mc_KernelArgs :: "string list"
  mc_KubeletArgs :: "string list"

record CXMMachineProviderSpec =
  ps_Kind :: string
  ps_APIVersion :: string
  ps_Lifecycle :: LifecycleConfig
  ps_Management :: ManagementConfig
  ps_InstanceType :: string
  ps_InstanceChargeType :: string
  ps_InstanceChargePrepaid :: "InstanceChargePrepaid option"
  ps_SecurityGroupIDs :: "string list"
  ps_SystemDisk :: CXMDisk
  ps_DataDisks :: "CXMDisk list"
  ps_KeyIDs :: "string list"
  ps_InternetAccessible :: "InternetAccessible option"
  ps_HostName :: string
  ps_HpcClusterId :: string

definition zero_CXMDisk :: CXMDisk where
  "zero_CXMDisk = \<lparr>cd_DiskType = [], cd_DiskSize = 0, cd_DiskID = None,
     cd_DeleteWithInstance = None, cd_AutoFormatAndMount = False, cd_FileSystem = [],
     cd_MountTarget = [], cd_Encrypt = [], cd_KmsKeyId = [], cd_SnapshotId = [],
     cd_ThroughputPerformance = 0, cd_DiskPartition = [], cd_ImageCacheId = []\<rparr>"

definition zero_InternetAccessible :: InternetAccessible where
  "zero_InternetAccessible = \<lparr>ia_MaxBandwidthOut = 0, ia_ChargeType = [], ia_AddressID = None,
     ia_BandwidthPackageID = [], ia_PublicIPAssigned = False, ia_AddressType = []\<rparr>"

definition zero_ManagementConfig :: ManagementConfig where
  "zero_ManagementConfig =
     \<lparr>mc_Nameservers = [], mc_Hosts = [], mc_KernelArgs = [], mc_KubeletArgs = []\<rparr>"

definition zero_LifecycleConfig :: LifecycleConfig where
  "zero_LifecycleConfig = \<lparr>lc_PreInit = [], lc_PostInit = []\<rparr>"

definition zero_ProviderSpec :: CXMMachineProviderSpec where
  "zero_ProviderSpec = \<lparr>ps_Kind = [], ps_APIVersion = [], ps_Lifecycle = zero_LifecycleConfig, ps_Management = zero_ManagementConfig,
     ps_InstanceType = [], ps_InstanceChargeType = [], ps_InstanceChargePrepaid = None,
     ps_SecurityGroupIDs = [], ps_SystemDisk = zero_CXMDisk, ps_DataDisks = [], ps_KeyIDs = [],
     ps_InternetAccessible = None, ps_HostName = [], ps_HpcClusterId = []\<rparr>"

lemmas zero_spec_defs =
  zero_CXMDisk_def zero_InternetAccessible_def zero_ManagementConfig_def zero_LifecycleConfig_def
  zero_ProviderSpec_def

definition IsSSD :: "CXMDisk \<Rightarrow> bool" where
  "IsSSD d \<longleftrightarrow> cd_DiskType d = CloudSSDDiskType"

definition IsLocalDisk :: "CXMDisk \<Rightarrow> bool" where
  "IsLocalDisk d \<longleftrightarrow> cd_DiskType d = LOCALBasicDiskType \<or> cd_DiskType d = LOCALSSDDiskType \<or>
     cd_DiskType d = LOCALNVMEDiskType \<or> cd_DiskType d = LOCALPRODiskType"

definition IsRemoteDisk :: "CXMDisk \<Rightarrow> bool" where
  "IsRemoteDisk d \<longleftrightarrow> cd_DiskType d = RemoteSSDDiskType"

definition IsPrepaid :: "CXMMachineProviderSpec \<Rightarrow> bool" where
  "IsPrepaid s \<longleftrightarrow> ps_InstanceChargeType s = PrepaidChargeType"

definition IsUnderwrite :: "CXMMachineProviderSpec \<Rightarrow> bool" where
  "IsUnderwrite s \<longleftrightarrow> ps_InstanceChargeType s = UnderwriteChargeType"

definition IsPostpaidByHourChargeType :: "CXMMachineProviderSpec \<Rightarrow> bool" where
  "IsPostpaidByHourChargeType s \<longleftrightarrow> ps_InstanceChargeType s = PostpaidByHourChargeType"

definition IsSpotpaidChargeTypeChargeType :: "CXMMachineProviderSpec \<Rightarrow> bool" where
  "IsSpotpaidChargeTypeChargeType s \<longleftrightarrow> ps_InstanceChargeType s = SpotpaidChargeType"

section \<open>Machines\<close>

text \<open>\<open>ProviderSpec\<close> and the package's own \<open>ObjectMeta\<close> (\<open>provider_type.go\<close>).\<close>

record ProviderSpec =
  pv_Type :: string
  pv_Value :: "raw_extension option"

record SpecObjectMeta =
  som_Name :: string
  som_GenerateName :: string
  som_Namespace :: string
  som_Labels :: gomap
  som_Annotations :: gomap
  som_OwnerReferences :: "OwnerReference list"

record Taint =
  ta_Key :: string
  ta_Value :: string
  ta_Effect :: string
  ta_TimeAdded :: "int option"

record GPUParams =
  gpu_Driver :: string
  gpu_CUDA :: string
  gpu_CUDNN :: string
  gpu_MIGEnable :: bool
  gpu_Fabric :: bool

record MachineSpec =
  ms_ObjectMeta :: SpecObjectMeta
  ms_DisplayName :: string
  ms_Zone :: string
  ms_SubnetID :: string
  ms_Taints :: "Taint list"
  ms_RuntimeRootDir :: string
  ms_KubeletVersion :: "string option"
  ms_RuntimeVersion :: "string option"
  ms_GPUConfig :: GPUParams
  ms_Unschedulable :: bool
  ms_ProviderSpec :: ProviderSpec
  ms_ProviderID :: "string option"

record NodeReference =
  nr_Name :: string
  nr_OSImage :: string
  nr_Architecture :: string
  nr_KubeletVersion :: string
  nr_RuntimeVersion :: string

record LastOperation =
  lo_Description :: "string option"
  lo_LastUpdated :: "int option"
  lo_State :: "string option"
  lo_Type :: "string option"

record Condition =
  cn_Type :: string
  cn_Status :: string
  cn_Severity :: string
  cn_LastProbeTime :: int
  cn_LastTransitionTime :: int
  cn_Reason :: string
  cn_Message :: string

record MachineStatus =
  mst_NodeRef :: "NodeReference option"
  mst_LastUpdated :: "int option"
  mst_FailureReason :: "string option"
  mst_FailureMessage :: "string option"
  mst_ProviderStatus :: "raw_extension option"
  mst_Addresses :: "(string \<times> string) list"
  mst_LastOperation :: "LastOperation option"
  mst_Phase :: "string option"
  mst_Conditions :: "Condition list"

record Machine =
  m_ObjectMeta :: ObjectMeta
  m_Spec :: MachineSpec
  m_Status :: MachineStatus

text \<open>Lists of objects (\<open>metav1.ListMeta\<close>), and types that only the conversions and the API know.\<close>

record ListMeta =
  lm_SelfLink :: string
  lm_ResourceVersion :: string
  lm_Continue :: string
  lm_RemainingItemCount :: "int option"

record MachineList =
  ml_ListMeta :: ListMeta
  ml_Items :: "Machine list"

record MachineOperation =
  mo_Action :: string
  mo_StopType :: string

record LifecycleHook =
  lh_Name :: string
  lh_Owner :: string

record TagSpecification =
  ts_Name :: string
  ts_Value :: string

definition zero_GPUParams :: GPUParams where
  "zero_GPUParams = \<lparr>gpu_Driver = [], gpu_CUDA = [], gpu_CUDNN = [], gpu_MIGEnable = False,
     gpu_Fabric = False\<rparr>"

definition zero_MachineSpec :: MachineSpec where
  "zero_MachineSpec = \<lparr>ms_ObjectMeta = \<lparr>som_Name = [], som_GenerateName = [], som_Namespace = [],
       som_Labels = None, som_Annotations = None, som_OwnerReferences = []\<rparr>,
     ms_DisplayName = [], ms_Zone = [], ms_SubnetID = [], ms_Taints = [], ms_RuntimeRootDir = [],
     ms_KubeletVersion = None, ms_RuntimeVersion = None, ms_GPUConfig = zero_GPUParams,
     ms_Unschedulable = False, ms_ProviderSpec = \<lparr>pv_Type = [], pv_Value = None\<rparr>,
     ms_ProviderID = None\<rparr>"

definition zero_MachineStatus :: MachineStatus where
  "zero_MachineStatus = \<lparr>mst_NodeRef = None, mst_LastUpdated = None, mst_FailureReason = None,
     mst_FailureMessage = None, mst_ProviderStatus = None, mst_Addresses = [],
     mst_LastOperation = None, mst_Phase = None, mst_Conditions = []\<rparr>"

definition zero_Machine :: Machine where
  "zero_Machine = \<lparr>m_ObjectMeta = zero_ObjectMeta, m_Spec = zero_MachineSpec,
     m_Status = zero_MachineStatus\<rparr>"

definition m_Name :: "Machine \<Rightarrow> string" where
  "m_Name m = om_Name (m_ObjectMeta m)"

definition m_Label :: "Machine \<Rightarrow> string \<Rightarrow> string" where
  "m_Label m k = gm_idx (om_Labels (m_ObjectMeta m)) k"

definition m_Annotation :: "Machine \<Rightarrow> string \<Rightarrow> string option" where
  "m_Annotation m k = gm_get (om_Annotations (m_ObjectMeta m)) k"

text \<open>\<open>lo.FromPtr(m.Spec.ProviderID)\<close>.\<close>

definition m_ProviderID :: "Machine \<Rightarrow> string" where
  "m_ProviderID m = str_ptr (ms_ProviderID (m_Spec m))"

definition owned_by_claim :: "Machine \<Rightarrow> bool" where
  "owned_by_claim m \<longleftrightarrow> (\<exists>o' \<in> set (owners (m_ObjectMeta m)). or_Kind o' = ''NodeClaim'')"

definition m_NamespacedName :: "Machine \<Rightarrow> string \<times> string" where
  "m_NamespacedName m = (om_Namespace (m_ObjectMeta m), om_Name (m_ObjectMeta m))"

end
