(* ===== verification/ProviderSpecJson.thy ===== *)
theory ProviderSpecJson
  imports NativeNode
begin

text \<open>
  The JSON form of a provider spec: the codec that the \<open>json\<close> tags of \<open>cxmprovider_types.go\<close>
  give to each struct, and the conversions from and to raw extensions of \<open>util.go\<close>.  An encoder
  lists the members in the order of the struct; a decoder reads each member by its name.  The
  lemmas are the round trips of every struct; strings are taken to be valid UTF-8.
\<close>

section \<open>Encoders\<close>

definition enc_LifecycleConfig :: "LifecycleConfig \<Rightarrow> (string \<times> json) list" where
  "enc_LifecycleConfig c = omit_str ''preInit'' (lc_PreInit c) @ omit_str ''postInit'' (lc_PostInit c)"

text \<open>\<open>HostAlias\<close> is the internal type of Kubernetes, which has no field tags.\<close>

definition enc_HostAlias :: "HostAlias \<Rightarrow> json" where
  "enc_HostAlias h = JObj (enc_str ''IP'' (ha_IP h) @ enc_list JStr ''Hostnames'' (ha_Hostnames h))"

definition enc_ManagementConfig :: "ManagementConfig \<Rightarrow> (string \<times> json) list" where
  "enc_ManagementConfig c =
     omit_list JStr ''nameservers'' (mc_Nameservers c) @
     omit_list enc_HostAlias ''hosts'' (mc_Hosts c) @
     omit_list JStr ''kernelArgs'' (mc_KernelArgs c) @
     omit_list JStr ''kubeletArgs'' (mc_KubeletArgs c)"

definition enc_InstanceChargePrepaid :: "InstanceChargePrepaid \<Rightarrow> json" where
  "enc_InstanceChargePrepaid c =
     JObj (omit_int ''period'' (icp_Period c) @ omit_str ''renewFlag'' (icp_RenewFlag c))"

definition enc_CXMDisk :: "CXMDisk \<Rightarrow> (string \<times> json) list" where
  "enc_CXMDisk d =
     omit_str ''diskType'' (cd_DiskType d) @
     omit_int ''diskSize'' (cd_DiskSize d) @
     omit_ptr JStr ''diskID'' (cd_DiskID d) @
     omit_ptr JBool ''deleteWithInstance'' (cd_DeleteWithInstance d) @
     omit_bool ''autoFormatAndMount'' (cd_AutoFormatAndMount d) @
     omit_str ''fileSystem'' (cd_FileSystem d) @
     omit_str ''mountTarget'' (cd_MountTarget d) @
     omit_str ''encrypt'' (cd_Encrypt d) @
     omit_str ''kmsKeyId'' (cd_KmsKeyId d) @
     omit_str ''snapshotId'' (cd_SnapshotId d) @
     omit_int ''throughputPerformance'' (cd_ThroughputPerformance d) @
     enc_str ''DiskPartition'' (cd_DiskPartition d) @
     omit_str ''imageCacheId'' (cd_ImageCacheId d)"

definition enc_InternetAccessible :: "InternetAccessible \<Rightarrow> json" where
  "enc_InternetAccessible i = JObj (
     omit_int ''maxBandwidthOut'' (ia_MaxBandwidthOut i) @
     omit_str ''chargeType'' (ia_ChargeType i) @
     omit_ptr JStr ''addressID'' (ia_AddressID i) @
     omit_str ''bandwidthPackageID'' (ia_BandwidthPackageID i) @
     omit_bool ''publicIPAssigned'' (ia_PublicIPAssigned i) @
     omit_str ''addressType'' (ia_AddressType i))"

definition enc_ProviderSpec :: "CXMMachineProviderSpec \<Rightarrow> json" where
  "enc_ProviderSpec s = JObj (
     omit_str ''kind'' (ps_Kind s) @
     omit_str ''apiVersion'' (ps_APIVersion s) @
     enc_struct ''lifecycle'' (enc_LifecycleConfig (ps_Lifecycle s)) @
     enc_struct ''management'' (enc_ManagementConfig (ps_Management s)) @
     omit_str ''instanceType'' (ps_InstanceType s) @
     omit_str ''instanceChargeType'' (ps_InstanceChargeType s) @
     omit_ptr enc_InstanceChargePrepaid ''instanceChargePrepaid'' (ps_InstanceChargePrepaid s) @
     omit_list JStr ''securityGroupIDs'' (ps_SecurityGroupIDs s) @
     enc_struct ''systemDisk'' (enc_CXMDisk (ps_SystemDisk s)) @
     omit_list (\<lambda>d. JObj (enc_CXMDisk d)) ''dataDisks'' (ps_DataDisks s) @
     omit_list JStr ''keyIDs'' (ps_KeyIDs s) @
     omit_ptr enc_InternetAccessible ''internetAccessible'' (ps_InternetAccessible s) @
     omit_str ''hostName'' (ps_HostName s) @
     omit_str ''hpcClusterId'' (ps_HpcClusterId s))"

section \<open>Decoders\<close>

abbreviation dec_strs :: "json \<Rightarrow> string list option" where
  "dec_strs \<equiv> dec_list dec_str []"

definition dec_LifecycleConfig :: "(string \<times> json) list \<Rightarrow> LifecycleConfig option" where
  "dec_LifecycleConfig ms = do {
     pre \<leftarrow> dec_field dec_str [] ''preInit'' ms;
     post \<leftarrow> dec_field dec_str [] ''postInit'' ms;
     Some \<lparr>lc_PreInit = pre, lc_PostInit = post\<rparr> }"

definition dec_HostAlias :: "(string \<times> json) list \<Rightarrow> HostAlias option" where
  "dec_HostAlias ms = do {
     ip \<leftarrow> dec_field dec_str [] ''IP'' ms;
     hs \<leftarrow> dec_field dec_strs [] ''Hostnames'' ms;
     Some \<lparr>ha_IP = ip, ha_Hostnames = hs\<rparr> }"

definition dec_ManagementConfig :: "(string \<times> json) list \<Rightarrow> ManagementConfig option" where
  "dec_ManagementConfig ms = do {
     ns \<leftarrow> dec_field dec_strs [] ''nameservers'' ms;
     hs \<leftarrow> dec_field (dec_list (dec_obj dec_HostAlias) \<lparr>ha_IP = [], ha_Hostnames = []\<rparr>) [] ''hosts'' ms;
     kernel \<leftarrow> dec_field dec_strs [] ''kernelArgs'' ms;
     kubelet \<leftarrow> dec_field dec_strs [] ''kubeletArgs'' ms;
     Some \<lparr>mc_Nameservers = ns, mc_Hosts = hs, mc_KernelArgs = kernel, mc_KubeletArgs = kubelet\<rparr> }"

definition dec_InstanceChargePrepaid :: "(string \<times> json) list \<Rightarrow> InstanceChargePrepaid option" where
  "dec_InstanceChargePrepaid ms = do {
     period \<leftarrow> dec_field dec_int32 0 ''period'' ms;
     flag \<leftarrow> dec_field dec_str [] ''renewFlag'' ms;
     Some \<lparr>icp_Period = period, icp_RenewFlag = flag\<rparr> }"

definition dec_CXMDisk :: "(string \<times> json) list \<Rightarrow> CXMDisk option" where
  "dec_CXMDisk ms = do {
     type \<leftarrow> dec_field dec_str [] ''diskType'' ms;
     size \<leftarrow> dec_field dec_int32 0 ''diskSize'' ms;
     did \<leftarrow> dec_field (dec_ptr dec_str) None ''diskID'' ms;
     del \<leftarrow> dec_field (dec_ptr dec_bool) None ''deleteWithInstance'' ms;
     auto_mount \<leftarrow> dec_field dec_bool False ''autoFormatAndMount'' ms;
     fs \<leftarrow> dec_field dec_str [] ''fileSystem'' ms;
     target \<leftarrow> dec_field dec_str [] ''mountTarget'' ms;
     enc \<leftarrow> dec_field dec_str [] ''encrypt'' ms;
     kms \<leftarrow> dec_field dec_str [] ''kmsKeyId'' ms;
     snap \<leftarrow> dec_field dec_str [] ''snapshotId'' ms;
     perf \<leftarrow> dec_field dec_int64 0 ''throughputPerformance'' ms;
     part \<leftarrow> dec_field dec_str [] ''DiskPartition'' ms;
     cache \<leftarrow> dec_field dec_str [] ''imageCacheId'' ms;
     Some \<lparr>cd_DiskType = type, cd_DiskSize = size, cd_DiskID = did, cd_DeleteWithInstance = del,
       cd_AutoFormatAndMount = auto_mount, cd_FileSystem = fs, cd_MountTarget = target,
       cd_Encrypt = enc, cd_KmsKeyId = kms, cd_SnapshotId = snap,
       cd_ThroughputPerformance = perf, cd_DiskPartition = part, cd_ImageCacheId = cache\<rparr> }"

definition dec_InternetAccessible :: "(string \<times> json) list \<Rightarrow> InternetAccessible option" where
  "dec_InternetAccessible ms = do {
     bw \<leftarrow> dec_field dec_int32 0 ''maxBandwidthOut'' ms;
     charge \<leftarrow> dec_field dec_str [] ''chargeType'' ms;
     addr \<leftarrow> dec_field (dec_ptr dec_str) None ''addressID'' ms;
     pkg \<leftarrow> dec_field dec_str [] ''bandwidthPackageID'' ms;
     assigned \<leftarrow> dec_field dec_bool False ''publicIPAssigned'' ms;
     type \<leftarrow> dec_field dec_str [] ''addressType'' ms;
     Some \<lparr>ia_MaxBandwidthOut = bw, ia_ChargeType = charge, ia_AddressID = addr,
       ia_BandwidthPackageID = pkg, ia_PublicIPAssigned = assigned, ia_AddressType = type\<rparr> }"

definition dec_ProviderSpec :: "(string \<times> json) list \<Rightarrow> CXMMachineProviderSpec option" where
  "dec_ProviderSpec ms = do {
     kind \<leftarrow> dec_field dec_str [] ''kind'' ms;
     version \<leftarrow> dec_field dec_str [] ''apiVersion'' ms;
     lifecycle \<leftarrow> dec_field (dec_obj dec_LifecycleConfig) zero_LifecycleConfig ''lifecycle'' ms;
     management \<leftarrow> dec_field (dec_obj dec_ManagementConfig) zero_ManagementConfig ''management'' ms;
     itype \<leftarrow> dec_field dec_str [] ''instanceType'' ms;
     charge \<leftarrow> dec_field dec_str [] ''instanceChargeType'' ms;
     prepaid \<leftarrow> dec_field (dec_ptr (dec_obj dec_InstanceChargePrepaid)) None ''instanceChargePrepaid'' ms;
     sgs \<leftarrow> dec_field dec_strs [] ''securityGroupIDs'' ms;
     sysdisk \<leftarrow> dec_field (dec_obj dec_CXMDisk) zero_CXMDisk ''systemDisk'' ms;
     disks \<leftarrow> dec_field (dec_list (dec_obj dec_CXMDisk) zero_CXMDisk) [] ''dataDisks'' ms;
     keys \<leftarrow> dec_field dec_strs [] ''keyIDs'' ms;
     internet \<leftarrow> dec_field (dec_ptr (dec_obj dec_InternetAccessible)) None ''internetAccessible'' ms;
     host \<leftarrow> dec_field dec_str [] ''hostName'' ms;
     hpc \<leftarrow> dec_field dec_str [] ''hpcClusterId'' ms;
     Some \<lparr>ps_Kind = kind, ps_APIVersion = version, ps_Lifecycle = lifecycle,
       ps_Management = management, ps_InstanceType = itype, ps_InstanceChargeType = charge,
       ps_InstanceChargePrepaid = prepaid, ps_SecurityGroupIDs = sgs, ps_SystemDisk = sysdisk,
       ps_DataDisks = disks, ps_KeyIDs = keys, ps_InternetAccessible = internet,
       ps_HostName = host, ps_HpcClusterId = hpc\<rparr> }"

section \<open>Raw extensions\<close>

text \<open>
  \<open>json.Marshal\<close> does not fail on a provider spec; a nil spec gives an extension without text.
\<close>

definition RawExtensionFromProviderSpec :: "CXMMachineProviderSpec option \<Rightarrow> raw_extension outcome" where
  "RawExtensionFromProviderSpec spec =
     (case spec of None \<Rightarrow> Ok None | Some s \<Rightarrow> Ok (Some (enc_ProviderSpec s)))"

text \<open>
  The spec is unmarshalled through a pointer to the pointer, so the document \<open>null\<close> makes it nil
  without an error.
\<close>

fun ProviderSpecFromRawExtension :: "raw_extension option \<Rightarrow> CXMMachineProviderSpec option outcome" where
  "ProviderSpecFromRawExtension None = Ok (Some zero_ProviderSpec)"
| "ProviderSpecFromRawExtension (Some None) = Err (Errorf ''error unmarshalling providerSpec'')"
| "ProviderSpecFromRawExtension (Some (Some JNull)) = Ok None"
| "ProviderSpecFromRawExtension (Some (Some v)) =
     (case dec_obj dec_ProviderSpec v of
        None \<Rightarrow> Err (Errorf ''error unmarshalling providerSpec'')
      | Some s \<Rightarrow> Ok (Some s))"

section \<open>Round trips\<close>

text \<open>The numbers of a spec are in the range of their Go types.\<close>

definition disk_ok :: "CXMDisk \<Rightarrow> bool" where
  "disk_ok d \<longleftrightarrow> in_i32 (cd_DiskSize d) \<and> in_i64 (cd_ThroughputPerformance d)"

definition spec_ok :: "CXMMachineProviderSpec \<Rightarrow> bool" where
  "spec_ok s \<longleftrightarrow>
     disk_ok (ps_SystemDisk s) \<and> list_all disk_ok (ps_DataDisks s) \<and>
     pred_option (\<lambda>c. in_i32 (icp_Period c)) (ps_InstanceChargePrepaid s) \<and>
     pred_option (\<lambda>i. in_i32 (ia_MaxBandwidthOut i)) (ps_InternetAccessible s)"

lemma roundtrip_LifecycleConfig [json_rt]:
  "dec_LifecycleConfig (enc_LifecycleConfig c) = Some c"
  by (simp add: dec_LifecycleConfig_def enc_LifecycleConfig_def json_rt)

lemma roundtrip_HostAlias [json_rt]: "dec_obj dec_HostAlias (enc_HostAlias h) = Some h"
  by (simp add: dec_HostAlias_def enc_HostAlias_def json_rt)

lemma enc_not_null [json_rt]:
  "enc_HostAlias h \<noteq> JNull" "enc_InstanceChargePrepaid c \<noteq> JNull"
  "enc_InternetAccessible i \<noteq> JNull"
  by (simp_all add: enc_HostAlias_def enc_InstanceChargePrepaid_def enc_InternetAccessible_def)

lemma roundtrip_ManagementConfig [json_rt]:
  "dec_ManagementConfig (enc_ManagementConfig c) = Some c"
  by (simp add: dec_ManagementConfig_def enc_ManagementConfig_def json_rt)

lemma roundtrip_InstanceChargePrepaid [json_rt]:
  "in_i32 (icp_Period c) \<Longrightarrow> dec_obj dec_InstanceChargePrepaid (enc_InstanceChargePrepaid c) = Some c"
  by (simp add: dec_InstanceChargePrepaid_def enc_InstanceChargePrepaid_def json_rt)

lemma roundtrip_CXMDisk [json_rt]: "disk_ok d \<Longrightarrow> dec_CXMDisk (enc_CXMDisk d) = Some d"
  by (simp add: dec_CXMDisk_def enc_CXMDisk_def json_rt disk_ok_def)

lemma roundtrip_InternetAccessible [json_rt]:
  "in_i32 (ia_MaxBandwidthOut i) \<Longrightarrow> dec_obj dec_InternetAccessible (enc_InternetAccessible i) = Some i"
  by (simp add: dec_InternetAccessible_def enc_InternetAccessible_def json_rt)

lemma pred_option_SomeD: "pred_option P p \<Longrightarrow> p = Some x \<Longrightarrow> P x"
  by simp

lemma roundtrip_ProviderSpec:
  assumes "spec_ok s"
  shows "dec_obj dec_ProviderSpec (enc_ProviderSpec s) = Some s"
proof -
  have ok: "disk_ok (ps_SystemDisk s)" "\<And>d. d \<in> set (ps_DataDisks s) \<Longrightarrow> disk_ok d"
    "\<And>c. ps_InstanceChargePrepaid s = Some c \<Longrightarrow> in_i32 (icp_Period c)"
    "\<And>i. ps_InternetAccessible s = Some i \<Longrightarrow> in_i32 (ia_MaxBandwidthOut i)"
    using assms by (auto simp: spec_ok_def list_all_iff)
  show ?thesis
    by (simp add: dec_ProviderSpec_def enc_ProviderSpec_def json_rt ok)
qed

text \<open>What is decoded has its numbers in range, so it is encoded and decoded again unchanged.\<close>

lemma dec_field_pred:
  assumes "dec_field d z k ms = Some x" "P z" "\<And>v x. d v = Some x \<Longrightarrow> P x"
  shows "P x"
  using assms by (auto simp: dec_field_def split: option.splits json.splits)

lemma dec_int_range: "dec_int32 v = Some n \<Longrightarrow> in_i32 n" "dec_int64 v = Some n \<Longrightarrow> in_i64 n"
  by (cases v; simp split: if_splits)+

lemma dec_elems_pred:
  assumes "dec_elems d z vs = Some xs" "P z" "\<And>v x. d v = Some x \<Longrightarrow> P x"
  shows "list_all P xs"
  using assms(1)
  by (induction vs arbitrary: xs) (use assms(2,3) in \<open>auto split: option.splits if_splits\<close>)

lemma dec_list_pred:
  assumes "dec_list d z v = Some xs" "P z" "\<And>v x. d v = Some x \<Longrightarrow> P x"
  shows "list_all P xs"
  using assms by (cases v) (auto intro: dec_elems_pred [of d z _ xs P])

lemma dec_ptr_pred:
  assumes "dec_ptr d v = Some p" "\<And>v x. d v = Some x \<Longrightarrow> P x"
  shows "pred_option P p"
  using assms by (auto simp: dec_ptr_def)

lemma dec_obj_pred:
  assumes "dec_obj d v = Some x" "\<And>ms x. d ms = Some x \<Longrightarrow> P x"
  shows "P x"
  using assms by (cases v) auto

lemma dec_CXMDisk_ok: "dec_CXMDisk ms = Some d \<Longrightarrow> disk_ok d"
proof -
  assume d: "dec_CXMDisk ms = Some d"
  then have "dec_field dec_int32 0 ''diskSize'' ms = Some (cd_DiskSize d)"
    "dec_field dec_int64 0 ''throughputPerformance'' ms = Some (cd_ThroughputPerformance d)"
    by (auto simp: dec_CXMDisk_def bind_eq_Some_conv)
  then show ?thesis
    unfolding disk_ok_def by (auto elim!: dec_field_pred dest: dec_int_range)
qed

lemma dec_InstanceChargePrepaid_ok:
  "dec_InstanceChargePrepaid ms = Some c \<Longrightarrow> in_i32 (icp_Period c)"
proof -
  assume "dec_InstanceChargePrepaid ms = Some c"
  then have "dec_field dec_int32 0 ''period'' ms = Some (icp_Period c)"
    by (auto simp: dec_InstanceChargePrepaid_def bind_eq_Some_conv)
  then show ?thesis by (rule dec_field_pred) (auto dest: dec_int_range)
qed

lemma dec_InternetAccessible_ok:
  "dec_InternetAccessible ms = Some i \<Longrightarrow> in_i32 (ia_MaxBandwidthOut i)"
proof -
  assume "dec_InternetAccessible ms = Some i"
  then have "dec_field dec_int32 0 ''maxBandwidthOut'' ms = Some (ia_MaxBandwidthOut i)"
    by (auto simp: dec_InternetAccessible_def bind_eq_Some_conv)
  then show ?thesis by (rule dec_field_pred) (auto dest: dec_int_range)
qed

lemma zero_disk_ok [simp]: "disk_ok zero_CXMDisk"
  by (simp add: disk_ok_def zero_CXMDisk_def in_i32_def in_i64_def)

lemma dec_ProviderSpec_ok:
  assumes "dec_ProviderSpec ms = Some s"
  shows "spec_ok s"
proof -
  have disk: "disk_ok d" if "dec_obj dec_CXMDisk v = Some d" for v d
    using that by (rule dec_obj_pred) (rule dec_CXMDisk_ok)
  have f: "dec_field (dec_ptr (dec_obj dec_InstanceChargePrepaid)) None ''instanceChargePrepaid'' ms =
        Some (ps_InstanceChargePrepaid s)"
    "dec_field (dec_obj dec_CXMDisk) zero_CXMDisk ''systemDisk'' ms = Some (ps_SystemDisk s)"
    "dec_field (dec_list (dec_obj dec_CXMDisk) zero_CXMDisk) [] ''dataDisks'' ms = Some (ps_DataDisks s)"
    "dec_field (dec_ptr (dec_obj dec_InternetAccessible)) None ''internetAccessible'' ms =
        Some (ps_InternetAccessible s)"
    using assms by (auto simp: dec_ProviderSpec_def bind_eq_Some_conv)
  have "pred_option (\<lambda>c. in_i32 (icp_Period c)) (ps_InstanceChargePrepaid s)"
    using f(1) by (rule dec_field_pred)
      (auto elim!: dec_ptr_pred dec_obj_pred intro: dec_InstanceChargePrepaid_ok)
  moreover have "disk_ok (ps_SystemDisk s)"
    using f(2) by (rule dec_field_pred) (auto intro: disk)
  moreover have "list_all disk_ok (ps_DataDisks s)"
    using f(3) by (rule dec_field_pred) (auto elim!: dec_list_pred intro: disk)
  moreover have "pred_option (\<lambda>i. in_i32 (ia_MaxBandwidthOut i)) (ps_InternetAccessible s)"
    using f(4) by (rule dec_field_pred)
      (auto elim!: dec_ptr_pred dec_obj_pred intro: dec_InternetAccessible_ok)
  ultimately show ?thesis by (simp add: spec_ok_def)
qed

lemma zero_spec_ok [simp]: "spec_ok zero_ProviderSpec"
  by (simp add: spec_ok_def zero_ProviderSpec_def)

lemma ProviderSpecFromRawExtension_ok:
  "ProviderSpecFromRawExtension v = Ok (Some s) \<Longrightarrow> spec_ok s"
  by (cases v rule: ProviderSpecFromRawExtension.cases)
    (auto split: option.splits dest: dec_ProviderSpec_ok)

lemma ProviderSpecFromRaw_enc:
  "spec_ok s \<Longrightarrow> ProviderSpecFromRawExtension (Some (Some (enc_ProviderSpec s))) = Ok (Some s)"
  using roundtrip_ProviderSpec [of s] by (simp add: enc_ProviderSpec_def)

lemma ProviderSpecFromRaw_no_panic [simp]: "ProviderSpecFromRawExtension v \<noteq> Panic"
  by (cases v rule: ProviderSpecFromRawExtension.cases) (auto split: option.splits)

lemma ProviderSpecFromRaw_nil:
  "ProviderSpecFromRawExtension v = Ok None \<longleftrightarrow> v = Some (Some JNull)"
  by (cases v rule: ProviderSpecFromRawExtension.cases) (auto split: option.splits)

end
