(* ===== verification/Defaults.thy ===== *)
theory Defaults
  imports ProviderSpecJson GoStrings
begin

text \<open>
  The defaulting functions of machines in the node API (\<open>defaults.go\<close>, \<open>zz_generated.defaults.go\<close>).  A
  defaulting function takes the object it is given a pointer to and returns it updated, or panics.  The
  lemmas relate the array loops to list functions and show that applying the defaults again changes nothing.
\<close>

section \<open>Duplicates\<close>

text \<open>
  \<open>removeDuplicate\<close> compacts the slice in place: \<open>m\<close> is the set of values kept so far and
  \<open>len(m)\<close> the next free index.  The argument \<open>i\<close> runs over the indices of the slice, which is read
  while it is written.
\<close>

fun removeDuplicate_loop :: "nat list \<Rightarrow> string list \<Rightarrow> string list \<Rightarrow> string list \<times> string list" where
  "removeDuplicate_loop [] s m = (s, m)"
| "removeDuplicate_loop (i # is) s m =
     (let v = s ! i in
      if v \<noteq> [] \<and> v \<notin> set m then removeDuplicate_loop is (s[length m := v]) (m @ [v])
      else removeDuplicate_loop is s m)"

definition removeDuplicate :: "string list \<Rightarrow> string list" where
  "removeDuplicate s = (let (s', m) = removeDuplicate_loop [0..<length s] s [] in take (length m) s')"

definition removeDuplicateComponent :: "string list \<Rightarrow> string list" where
  "removeDuplicateComponent s =
     (let (s', m) = removeDuplicate_loop [0..<length s] s [] in take (length m) s')"

text \<open>The loop that reverses a slice by swapping its ends.\<close>

function reserve_loop :: "nat \<Rightarrow> nat \<Rightarrow> 'a list \<Rightarrow> 'a list" where
  "reserve_loop i j xs =
     (if i < j then reserve_loop (i + 1) (j - 1) (xs[i := xs ! j, j := xs ! i]) else xs)"
  by pat_completeness auto
termination
  by (relation "measure (\<lambda>(i, j, xs). j - i)") auto

declare reserve_loop.simps [simp del]

definition reserve :: "'a list \<Rightarrow> 'a list" where
  "reserve xs = (if xs = [] then xs else reserve_loop 0 (length xs - 1) xs)"

fun kv_loop :: "string list \<Rightarrow> string list \<Rightarrow> string list \<Rightarrow> string list" where
  "kv_loop [] seen res = res"
| "kv_loop (line # lines) seen res =
     (case cut_at CHR ''='' line of
        None \<Rightarrow> kv_loop lines seen res
      | Some (k, v) \<Rightarrow>
          if k \<in> set seen then kv_loop lines seen res
          else kv_loop lines (k # seen) (res @ [k @ ''='' @ v]))"

definition RemoveDuplicateKVPairs :: "string list \<Rightarrow> string list" where
  "RemoveDuplicateKVPairs lines = reserve (kv_loop (reserve lines) [] [])"

section \<open>Defaults of a provider spec\<close>

definition DefaultNameservers :: "string list" where
  "DefaultNameservers = [''183.60.83.19'', ''183.60.82.98'']"

definition DefaultContainerdRootDir :: string where
  "DefaultContainerdRootDir = ''/var/lib/containerd''"

definition default_management :: "ManagementConfig \<Rightarrow> ManagementConfig" where
  "default_management m = m\<lparr>
     mc_Nameservers := removeDuplicate
       (if mc_Nameservers m = [] then mc_Nameservers m @ DefaultNameservers else mc_Nameservers m),
     mc_KernelArgs := RemoveDuplicateKVPairs (mc_KernelArgs m),
     mc_KubeletArgs := RemoveDuplicateKVPairs (mc_KubeletArgs m)\<rparr>"

definition default_prepaid :: "InstanceChargePrepaid option \<Rightarrow> InstanceChargePrepaid" where
  "default_prepaid p =
     (let c = (case p of None \<Rightarrow> \<lparr>icp_Period = 0, icp_RenewFlag = []\<rparr> | Some c \<Rightarrow> c);
          c = (if icp_RenewFlag c = [] then c\<lparr>icp_RenewFlag := NotifyAndManualRenew\<rparr> else c)
      in if icp_Period c = 0 then c\<lparr>icp_Period := 1\<rparr> else c)"

definition default_disk :: "CXMDisk \<Rightarrow> CXMDisk" where
  "default_disk d =
     (let d = (if cd_DeleteWithInstance d = None then d\<lparr>cd_DeleteWithInstance := Some True\<rparr> else d)
      in if cd_KmsKeyId d \<noteq> [] then d\<lparr>cd_Encrypt := ''ENCRYPT''\<rparr> else d)"

definition default_internet :: "InternetAccessible \<Rightarrow> InternetAccessible" where
  "default_internet i =
     (let i = (if ia_MaxBandwidthOut i = 0 then i\<lparr>ia_MaxBandwidthOut := 1\<rparr> else i);
          i = (if ia_BandwidthPackageID i \<noteq> [] \<and> ia_ChargeType i = []
               then i\<lparr>ia_ChargeType := BandwidthPackage\<rparr> else i);
          i = (if ia_ChargeType i = [] then i\<lparr>ia_ChargeType := TrafficPostpaidByHour\<rparr> else i)
      in if ia_AddressType i = [] then i\<lparr>ia_AddressType := ''EIP''\<rparr> else i)"

definition default_charge :: "CXMMachineProviderSpec \<Rightarrow> CXMMachineProviderSpec" where
  "default_charge s =
     (let s = (if ps_InstanceChargeType s = []
               then s\<lparr>ps_InstanceChargeType := PostpaidByHourChargeType\<rparr> else s)
      in if ps_InstanceChargeType s = PrepaidChargeType
         then s\<lparr>ps_InstanceChargePrepaid := Some (default_prepaid (ps_InstanceChargePrepaid s))\<rparr>
         else s)"

definition default_cxm_spec :: "CXMMachineProviderSpec \<Rightarrow> CXMMachineProviderSpec" where
  "default_cxm_spec s =
     (let s = s\<lparr>ps_Management := default_management (ps_Management s)\<rparr>;
          s = default_charge s;
          s = s\<lparr>ps_KeyIDs := removeDuplicate (ps_KeyIDs s)\<rparr>;
          s = s\<lparr>ps_SecurityGroupIDs := removeDuplicate (ps_SecurityGroupIDs s)\<rparr>;
          s = s\<lparr>ps_DataDisks := map default_disk (ps_DataDisks s)\<rparr>
      in s\<lparr>ps_InternetAccessible := map_option default_internet (ps_InternetAccessible s)\<rparr>)"

text \<open>
  The spec is decoded, completed, encoded and stored through the pointer: a nil pointer decodes
  to an empty spec, but the store through it panics.
\<close>

definition SetDefaults_CXMMachineProviderSpec :: "raw_extension option \<Rightarrow> raw_extension option outcome" where
  "SetDefaults_CXMMachineProviderSpec value =
     (case ProviderSpecFromRawExtension value of
        Err e \<Rightarrow> Ok value
      | Panic \<Rightarrow> Panic
      | Ok None \<Rightarrow> Panic
      | Ok (Some obj) \<Rightarrow>
          (case RawExtensionFromProviderSpec (Some (default_cxm_spec obj)) of
             Err e \<Rightarrow> Ok value
           | Panic \<Rightarrow> Panic
           | Ok newValue \<Rightarrow> (case value of None \<Rightarrow> Panic | Some _ \<Rightarrow> Ok (Some newValue))))"

definition SetDefaults_ProviderSpec :: "ProviderSpec \<Rightarrow> ProviderSpec outcome" where
  "SetDefaults_ProviderSpec obj =
     (let obj = (if pv_Type obj = [] then obj\<lparr>pv_Type := MachineTypeNative\<rparr> else obj) in
      if pv_Type obj = MachineTypeNative \<or> pv_Type obj = MachineTypeNativeCVM
      then omap (\<lambda>v. obj\<lparr>pv_Value := v\<rparr>) (SetDefaults_CXMMachineProviderSpec (pv_Value obj))
      else Ok obj)"

section \<open>Defaults of a machine\<close>

definition SetDefaults_MachineSpec :: "MachineSpec \<Rightarrow> MachineSpec outcome" where
  "SetDefaults_MachineSpec obj =
     (let obj = (if ms_RuntimeRootDir obj = []
                 then obj\<lparr>ms_RuntimeRootDir := DefaultContainerdRootDir\<rparr> else obj) in
      case ProviderSpecFromRawExtension (pv_Value (ms_ProviderSpec obj)) of
        Err e \<Rightarrow> Ok obj
      | Panic \<Rightarrow> Panic
      | Ok None \<Rightarrow> Panic
      | Ok (Some val) \<Rightarrow>
          (let meta = ms_ObjectMeta obj;
               obj = (if ps_InstanceChargeType val = PrepaidChargeType \<or>
                         ps_InstanceChargeType val = UnderwriteChargeType
                      then obj\<lparr>ms_ObjectMeta := meta\<lparr>som_Annotations :=
                             Some (put ScaleDownDisabledAnnotation ''true''
                                    (gm_entries (som_Annotations meta)))\<rparr>\<rparr>
                      else obj)
           in omap (\<lambda>p. obj\<lparr>ms_ProviderSpec := p\<rparr>) (SetDefaults_ProviderSpec (ms_ProviderSpec obj))))"

definition ForceDeleteAnnotation :: string where
  "ForceDeleteAnnotation = ''node.tke.cloud.tencent.com/force-delete''"

definition default_machine_meta :: "string \<Rightarrow> ObjectMeta \<Rightarrow> ObjectMeta" where
  "default_machine_meta type m =
     (let m = (if om_GenerateName m = [] then m\<lparr>om_GenerateName := ''mc-''\<rparr> else m);
          as = gm_entries (om_Annotations m);
          as = (if type = MachineTypeNativeCVM \<and> map_of as ForceDeleteAnnotation = None
                then put ForceDeleteAnnotation ''true'' as else as)
      in m\<lparr>om_Annotations := Some as\<rparr>)"

definition SetDefaults_Machine :: "Machine \<Rightarrow> Machine outcome" where
  "SetDefaults_Machine obj =
     (let obj = obj\<lparr>m_ObjectMeta :=
            default_machine_meta (pv_Type (ms_ProviderSpec (m_Spec obj))) (m_ObjectMeta obj)\<rparr>
      in omap (\<lambda>s. obj\<lparr>m_Spec := s\<rparr>) (SetDefaults_MachineSpec (m_Spec obj)))"

text \<open>The generated defaulters are covering: they also call the nested defaulters.\<close>

definition cover_spec :: "MachineSpec \<Rightarrow> MachineSpec outcome" where
  "cover_spec s = obind (SetDefaults_MachineSpec s) (\<lambda>s.
     omap (\<lambda>p. s\<lparr>ms_ProviderSpec := p\<rparr>) (SetDefaults_ProviderSpec (ms_ProviderSpec s)))"

definition SetObjectDefaults_Machine :: "Machine \<Rightarrow> Machine outcome" where
  "SetObjectDefaults_Machine obj = obind (SetDefaults_Machine obj) (\<lambda>obj.
     omap (\<lambda>s. obj\<lparr>m_Spec := s\<rparr>) (cover_spec (m_Spec obj)))"

text \<open>A list is completed item by item; a panic ends the loop.\<close>

fun omap_list :: "('a \<Rightarrow> 'b outcome) \<Rightarrow> 'a list \<Rightarrow> 'b list outcome" where
  "omap_list f [] = Ok []"
| "omap_list f (x # xs) = obind (f x) (\<lambda>y. omap (\<lambda>ys. y # ys) (omap_list f xs))"

definition SetObjectDefaults_MachineList :: "Machine list \<Rightarrow> Machine list outcome" where
  "SetObjectDefaults_MachineList = omap_list SetObjectDefaults_Machine"

section \<open>The loops as list functions\<close>

lemma upt_snoc: "i < n \<Longrightarrow> [i..<n] = i # [Suc i..<n]"
  by (rule upt_conv_Cons)

text \<open>
  Before index \<open>i\<close> the kept values are the distinct non-empty ones among the first \<open>i\<close>, they stand
  at the front, and the slice from \<open>i\<close> on is as it was.
\<close>

lemma removeDuplicate_loop_inv:
  assumes "i \<le> length s0" "length s = length s0" "drop i s = drop i s0"
    and "m = uniq (filter (\<lambda>v. v \<noteq> []) (take i s0))" "take (length m) s = m" "length m \<le> i"
  shows "\<exists>s'. removeDuplicate_loop [i..<length s0] s m =
            (s', uniq (filter (\<lambda>v. v \<noteq> []) s0)) \<and>
          take (length (uniq (filter (\<lambda>v. v \<noteq> []) s0))) s' = uniq (filter (\<lambda>v. v \<noteq> []) s0)"
  using assms
proof (induction "length s0 - i" arbitrary: i s m)
  case 0
  then show ?case by auto
next
  case (Suc d)
  then have i: "i < length s0" by simp
  have v: "s ! i = s0 ! i"
    using Suc.prems(1-3) i by (metis Cons_nth_drop_Suc list.inject)
  have tk: "take (Suc i) s0 = take i s0 @ [s0 ! i]"
    using i by (rule take_Suc_conv_app_nth)
  have dr: "drop (Suc i) s = drop (Suc i) s0"
    using Suc.prems(3) by (metis Suc_n_not_le_n drop_Suc drop_drop plus_1_eq_Suc)
  let ?keep = "s0 ! i \<noteq> [] \<and> s0 ! i \<notin> set m"
  let ?s = "if ?keep then s[length m := s0 ! i] else s"
  let ?m = "if ?keep then m @ [s0 ! i] else m"
  have step: "removeDuplicate_loop [i..<length s0] s m = removeDuplicate_loop [Suc i..<length s0] ?s ?m"
    using i v by (simp add: upt_snoc Let_def)
  have mem: "set m = set (take i s0) - {[]}"
    using Suc.prems(4) by auto
  have m: "?m = uniq (filter (\<lambda>v. v \<noteq> []) (take (Suc i) s0))"
  proof (cases "s0 ! i = []")
    case True
    then show ?thesis using Suc.prems(4) by (simp add: tk)
  next
    case False
    then show ?thesis using mem unfolding tk filter_append
      by (simp add: uniq_snoc Suc.prems(4) [symmetric])
  qed
  have "take (length ?m) ?s = ?m"
    using Suc.prems(2,5,6) i by (simp add: take_Suc_conv_app_nth)
  moreover have "drop (Suc i) ?s = drop (Suc i) s0"
    using dr Suc.prems(6) by simp
  moreover have "length ?s = length s0" "length ?m \<le> Suc i" "d = length s0 - Suc i"
    using Suc.prems(2,6) Suc.hyps(2) by simp_all
  ultimately show ?case
    unfolding step using Suc.hyps(1) [of "Suc i" ?s ?m] m i Suc_leI by blast
qed

lemma removeDuplicate_uniq: "removeDuplicate s = uniq (filter (\<lambda>v. v \<noteq> []) s)"
  using removeDuplicate_loop_inv [of 0 s s "[]"] by (auto simp: removeDuplicate_def)

lemma removeDuplicateComponent_eq: "removeDuplicateComponent = removeDuplicate"
  by (simp add: removeDuplicateComponent_def removeDuplicate_def fun_eq_iff)

lemma removeDuplicate_idem: "removeDuplicate (removeDuplicate s) = removeDuplicate s"
proof -
  let ?u = "uniq (filter (\<lambda>v. v \<noteq> []) s)"
  have "filter (\<lambda>v. v \<noteq> []) ?u = ?u" by (rule filter_True) simp
  then show ?thesis by (simp add: removeDuplicate_uniq uniq_id)
qed

lemma reserve_loop_nth:
  "j < length xs \<Longrightarrow> length (reserve_loop i j xs) = length xs \<and>
     (\<forall>k<length xs. reserve_loop i j xs ! k = (if i \<le> k \<and> k \<le> j then xs ! (i + j - k) else xs ! k))"
proof (induction i j xs rule: reserve_loop.induct)
  case (1 i j xs)
  show ?case
  proof (cases "i < j")
    case True
    let ?ys = "xs[i := xs ! j, j := xs ! i]"
    have len: "length (reserve_loop (i + 1) (j - 1) ?ys) = length xs"
      and elem: "\<And>k. k < length xs \<Longrightarrow> reserve_loop (i + 1) (j - 1) ?ys ! k =
        (if i + 1 \<le> k \<and> k \<le> j - 1 then ?ys ! (i + j - k) else ?ys ! k)"
      using "1.IH" [OF True] "1.prems" True by auto
    have "(if i + 1 \<le> k \<and> k \<le> j - 1 then ?ys ! (i + j - k) else ?ys ! k) =
        (if i \<le> k \<and> k \<le> j then xs ! (i + j - k) else xs ! k)" if "k < length xs" for k
    proof -
      consider "k = i" | "k = j" | "i + 1 \<le> k \<and> k \<le> j - 1" | "k < i \<or> j < k"
        by linarith
      then show ?thesis
        by cases (use that True "1.prems" in \<open>auto simp: nth_list_update\<close>)
    qed
    then show ?thesis using len elem True by (simp add: reserve_loop.simps [of i j xs])
  next
    case False
    then have "i + j - k = k" if "i \<le> k" "k \<le> j" for k using that by linarith
    then show ?thesis using False by (simp add: reserve_loop.simps [of i j xs])
  qed
qed

lemma reserve_rev: "reserve xs = rev xs"
proof (cases "xs = []")
  case True
  then show ?thesis by (simp add: reserve_def)
next
  case False
  then have "length xs - 1 < length xs" by simp
  from reserve_loop_nth [OF this, of 0] show ?thesis
    using False by (auto simp: reserve_def rev_nth intro!: nth_equalityI)
qed

text \<open>The key-value pairs that a list of lines holds, and the lines that are the last of their key.\<close>

definition kv_pairs :: "string list \<Rightarrow> (string \<times> string) list" where
  "kv_pairs = List.map_filter (cut_at CHR ''='')"

definition kv_line :: "string \<times> string \<Rightarrow> string" where
  "kv_line p = fst p @ ''='' @ snd p"

fun last_pairs :: "(string \<times> string) list \<Rightarrow> (string \<times> string) list" where
  "last_pairs [] = []"
| "last_pairs (p # ps) = (if fst p \<in> fst ` set ps then last_pairs ps else p # last_pairs ps)"

lemma kv_pairs_simps [simp]:
  "kv_pairs [] = []"
  "kv_pairs (l # ls) = (case cut_at CHR ''='' l of None \<Rightarrow> kv_pairs ls | Some p \<Rightarrow> p # kv_pairs ls)"
  "kv_pairs (ls @ ks) = kv_pairs ls @ kv_pairs ks"
  by (simp_all add: kv_pairs_def map_filter_def split: option.split)

lemma kv_pairs_rev: "kv_pairs (rev ls) = rev (kv_pairs ls)"
  by (induction ls) (auto split: option.split)

text \<open>The loop keeps the first pair of each key.\<close>

fun first_pairs :: "(string \<times> string) list \<Rightarrow> string set \<Rightarrow> (string \<times> string) list" where
  "first_pairs [] seen = []"
| "first_pairs (p # ps) seen =
     (if fst p \<in> seen then first_pairs ps seen else p # first_pairs ps (insert (fst p) seen))"

lemma kv_loop_first: "kv_loop ls seen res = res @ map kv_line (first_pairs (kv_pairs ls) (set seen))"
  by (induction ls seen res rule: kv_loop.induct) (auto simp: kv_line_def split: option.splits)

lemma first_pairs_snoc:
  "first_pairs (ps @ [p]) seen =
     first_pairs ps seen @ (if fst p \<in> seen \<union> fst ` set ps then [] else [p])"
  by (induction ps arbitrary: seen) auto

lemma first_pairs_rev: "rev (first_pairs (rev ps) {}) = last_pairs ps"
  by (induction ps) (auto simp: first_pairs_snoc)

lemma RemoveDuplicateKVPairs_last: "RemoveDuplicateKVPairs ls = map kv_line (last_pairs (kv_pairs ls))"
  by (simp add: RemoveDuplicateKVPairs_def reserve_rev kv_loop_first kv_pairs_rev rev_map
      first_pairs_rev)

lemma kv_pairs_no_sep: "p \<in> set (kv_pairs ls) \<Longrightarrow> CHR ''='' \<notin> set (fst p)"
  by (induction ls) (auto split: option.splits dest: cut_at_Some)

lemma kv_pairs_lines: "(\<And>p. p \<in> set ps \<Longrightarrow> CHR ''='' \<notin> set (fst p)) \<Longrightarrow> kv_pairs (map kv_line ps) = ps"
  by (induction ps) (auto simp: kv_line_def cut_at_append)

lemma set_last_pairs: "set (last_pairs ps) \<subseteq> set ps"
  by (induction ps) auto

lemma keys_last_pairs: "fst ` set (last_pairs ps) = fst ` set ps"
  by (induction ps) auto

lemma distinct_last_pairs: "distinct (map fst (last_pairs ps))"
  by (induction ps) (auto simp: keys_last_pairs [simplified image_def, symmetric] keys_last_pairs)

lemma last_pairs_id: "distinct (map fst ps) \<Longrightarrow> last_pairs ps = ps"
  by (induction ps) auto

lemma map_of_last_pairs: "map_of (last_pairs ps) = map_of (rev ps)"
proof (induction ps)
  case Nil
  then show ?case by simp
next
  case (Cons p ps)
  show ?case
  proof (cases "fst p \<in> fst ` set ps")
    case True
    then have "map_of (rev ps) (fst p) \<noteq> None"
      by (simp add: map_of_eq_None_iff)
    then show ?thesis using Cons True by (auto simp: fun_eq_iff map_add_def split: option.split)
  next
    case False
    then have "map_of (rev ps) (fst p) = None"
      by (simp add: map_of_eq_None_iff)
    then show ?thesis using Cons False by (auto simp: fun_eq_iff map_add_def split: option.split)
  qed
qed

lemma kv_pairs_RemoveDuplicate: "kv_pairs (RemoveDuplicateKVPairs ls) = last_pairs (kv_pairs ls)"
  unfolding RemoveDuplicateKVPairs_last
  by (rule kv_pairs_lines) (use set_last_pairs kv_pairs_no_sep in blast)

lemma RemoveDuplicateKVPairs_idem:
  "RemoveDuplicateKVPairs (RemoveDuplicateKVPairs ls) = RemoveDuplicateKVPairs ls"
  by (simp only: RemoveDuplicateKVPairs_last [of "RemoveDuplicateKVPairs ls"]
      kv_pairs_RemoveDuplicate last_pairs_id distinct_last_pairs)
    (simp only: RemoveDuplicateKVPairs_last)

section \<open>Applying the defaults again changes nothing\<close>

lemma removeDuplicate_Nil [simp]: "removeDuplicate [] = []"
  by (simp add: removeDuplicate_def)

lemma default_prepaid_idem: "default_prepaid (Some (default_prepaid p)) = default_prepaid p"
  by (simp add: default_prepaid_def Let_def NotifyAndManualRenew_def split: option.split)

lemma default_disk_idem: "default_disk (default_disk d) = default_disk d"
  by (simp add: default_disk_def Let_def)

lemma default_internet_fields:
  "ia_MaxBandwidthOut (default_internet i) =
     (if ia_MaxBandwidthOut i = 0 then 1 else ia_MaxBandwidthOut i)"
  "ia_ChargeType (default_internet i) =
     (if ia_ChargeType i \<noteq> [] then ia_ChargeType i
      else if ia_BandwidthPackageID i \<noteq> [] then BandwidthPackage else TrafficPostpaidByHour)"
  "ia_AddressID (default_internet i) = ia_AddressID i"
  "ia_BandwidthPackageID (default_internet i) = ia_BandwidthPackageID i"
  "ia_PublicIPAssigned (default_internet i) = ia_PublicIPAssigned i"
  "ia_AddressType (default_internet i) = (if ia_AddressType i = [] then ''EIP'' else ia_AddressType i)"
  by (simp_all add: default_internet_def Let_def BandwidthPackage_def)

lemma default_internet_idem: "default_internet (default_internet i) = default_internet i"
  by (rule InternetAccessible.equality)
    (simp_all add: default_internet_fields BandwidthPackage_def TrafficPostpaidByHour_def)

text \<open>
  A list of empty nameservers becomes empty in the first pass and the default list in the
  second; from then on it stays.
\<close>

lemma default_management_stable:
  "default_management (default_management (default_management m)) =
   default_management (default_management m)"
proof -
  have ne: "removeDuplicate DefaultNameservers \<noteq> []"
    by (simp add: removeDuplicate_uniq DefaultNameservers_def)
  show ?thesis
    using ne by (simp add: default_management_def RemoveDuplicateKVPairs_idem removeDuplicate_idem)
qed

lemma default_management_idem:
  assumes "removeDuplicate (mc_Nameservers m) \<noteq> [] \<or> mc_Nameservers m = []"
  shows "default_management (default_management m) = default_management m"
proof -
  have ne: "removeDuplicate DefaultNameservers \<noteq> []"
    by (simp add: removeDuplicate_uniq DefaultNameservers_def)
  show ?thesis
    using ne assms
    by (auto simp: default_management_def RemoveDuplicateKVPairs_idem removeDuplicate_idem)
qed

lemma default_charge_fields:
  "ps_InstanceChargeType (default_charge s) =
     (if ps_InstanceChargeType s = [] then PostpaidByHourChargeType else ps_InstanceChargeType s)"
  "ps_InstanceChargePrepaid (default_charge s) =
     (if ps_InstanceChargeType s = PrepaidChargeType
      then Some (default_prepaid (ps_InstanceChargePrepaid s)) else ps_InstanceChargePrepaid s)"
  by (simp_all add: default_charge_def Let_def charge_type_defs)

lemma default_charge_other [simp]:
  "ps_Kind (default_charge s) = ps_Kind s" "ps_APIVersion (default_charge s) = ps_APIVersion s"
  "ps_Lifecycle (default_charge s) = ps_Lifecycle s"
  "ps_Management (default_charge s) = ps_Management s"
  "ps_InstanceType (default_charge s) = ps_InstanceType s"
  "ps_SecurityGroupIDs (default_charge s) = ps_SecurityGroupIDs s"
  "ps_SystemDisk (default_charge s) = ps_SystemDisk s"
  "ps_DataDisks (default_charge s) = ps_DataDisks s" "ps_KeyIDs (default_charge s) = ps_KeyIDs s"
  "ps_InternetAccessible (default_charge s) = ps_InternetAccessible s"
  "ps_HostName (default_charge s) = ps_HostName s"
  "ps_HpcClusterId (default_charge s) = ps_HpcClusterId s"
  by (simp_all add: default_charge_def Let_def)

lemma default_cxm_spec_fields:
  "ps_Management (default_cxm_spec s) = default_management (ps_Management s)"
  "ps_InstanceChargeType (default_cxm_spec s) =
     (if ps_InstanceChargeType s = [] then PostpaidByHourChargeType else ps_InstanceChargeType s)"
  "ps_InstanceChargePrepaid (default_cxm_spec s) =
     (if ps_InstanceChargeType s = PrepaidChargeType
      then Some (default_prepaid (ps_InstanceChargePrepaid s)) else ps_InstanceChargePrepaid s)"
  "ps_KeyIDs (default_cxm_spec s) = removeDuplicate (ps_KeyIDs s)"
  "ps_SecurityGroupIDs (default_cxm_spec s) = removeDuplicate (ps_SecurityGroupIDs s)"
  "ps_DataDisks (default_cxm_spec s) = map default_disk (ps_DataDisks s)"
  "ps_InternetAccessible (default_cxm_spec s) = map_option default_internet (ps_InternetAccessible s)"
  "ps_Kind (default_cxm_spec s) = ps_Kind s" "ps_APIVersion (default_cxm_spec s) = ps_APIVersion s"
  "ps_Lifecycle (default_cxm_spec s) = ps_Lifecycle s"
  "ps_InstanceType (default_cxm_spec s) = ps_InstanceType s"
  "ps_SystemDisk (default_cxm_spec s) = ps_SystemDisk s"
  "ps_HostName (default_cxm_spec s) = ps_HostName s"
  "ps_HpcClusterId (default_cxm_spec s) = ps_HpcClusterId s"
  by (simp_all add: default_cxm_spec_def Let_def default_charge_fields)

lemma default_cxm_spec_stable:
  "default_cxm_spec (default_cxm_spec (default_cxm_spec s)) = default_cxm_spec (default_cxm_spec s)"
  by (rule CXMMachineProviderSpec.equality)
    (simp_all add: default_cxm_spec_fields default_management_stable default_prepaid_idem
      removeDuplicate_idem default_disk_idem default_internet_idem option.map_comp comp_def
      charge_type_defs)

lemma default_prepaid_ok:
  "pred_option (\<lambda>c. in_i32 (icp_Period c)) p \<Longrightarrow> in_i32 (icp_Period (default_prepaid p))"
  by (cases p) (simp_all add: default_prepaid_def Let_def in_i32_def)

lemma default_disk_ok: "disk_ok (default_disk d) = disk_ok d"
  by (simp add: default_disk_def disk_ok_def Let_def)

lemma default_internet_ok: "in_i32 (ia_MaxBandwidthOut i) \<Longrightarrow> in_i32 (ia_MaxBandwidthOut (default_internet i))"
  by (simp add: default_internet_fields in_i32_def)

lemma default_cxm_spec_ok:
  assumes "spec_ok s"
  shows "spec_ok (default_cxm_spec s)"
proof -
  have "pred_option (\<lambda>i. in_i32 (ia_MaxBandwidthOut i)) (ps_InternetAccessible (default_cxm_spec s))"
    using assms
    by (cases "ps_InternetAccessible s")
      (simp_all add: default_cxm_spec_fields spec_ok_def default_internet_ok)
  then show ?thesis
    using assms
    by (simp add: spec_ok_def default_cxm_spec_fields list_all_iff default_disk_ok default_prepaid_ok)
qed

text \<open>One pass over a raw extension, seen as a function on the spec it holds.\<close>

lemma SetDefaults_CXM_cases:
  "SetDefaults_CXMMachineProviderSpec value =
     (case ProviderSpecFromRawExtension value of
        Err e \<Rightarrow> Ok value
      | Ok (Some s) \<Rightarrow>
          (if value = None then Panic else Ok (Some (Some (enc_ProviderSpec (default_cxm_spec s)))))
      | _ \<Rightarrow> Panic)"
  by (simp add: SetDefaults_CXMMachineProviderSpec_def RawExtensionFromProviderSpec_def
      split: outcome.split option.split)

lemma SetDefaults_CXM_stable:
  assumes "SetDefaults_CXMMachineProviderSpec v = Ok v1" "SetDefaults_CXMMachineProviderSpec v1 = Ok v2"
  shows "SetDefaults_CXMMachineProviderSpec v2 = Ok v2"
proof (cases "ProviderSpecFromRawExtension v")
  case (Err e)
  then show ?thesis using assms by (simp add: SetDefaults_CXM_cases)
next
  case (Ok p)
  then obtain s where s: "p = Some s" "v1 = Some (Some (enc_ProviderSpec (default_cxm_spec s)))"
    using assms(1) by (auto simp: SetDefaults_CXM_cases split: option.splits if_splits)
  have ok: "spec_ok s" using ProviderSpecFromRawExtension_ok Ok s(1) by blast
  then have "v2 = Some (Some (enc_ProviderSpec (default_cxm_spec (default_cxm_spec s))))"
    using assms(2) s(2) by (simp add: SetDefaults_CXM_cases ProviderSpecFromRaw_enc default_cxm_spec_ok)
  then show ?thesis
    using ok by (simp add: SetDefaults_CXM_cases ProviderSpecFromRaw_enc default_cxm_spec_ok
        default_cxm_spec_stable)
next
  case Panic
  then show ?thesis by simp
qed

lemma SetDefaults_ProviderSpec_cases:
  "SetDefaults_ProviderSpec p =
     (let t = (if pv_Type p = [] then MachineTypeNative else pv_Type p) in
      if t = MachineTypeNative \<or> t = MachineTypeNativeCVM
      then omap (\<lambda>v. \<lparr>pv_Type = t, pv_Value = v\<rparr>) (SetDefaults_CXMMachineProviderSpec (pv_Value p))
      else Ok p)"
  by (cases p) (simp add: SetDefaults_ProviderSpec_def Let_def)

lemma SetDefaults_ProviderSpec_stable:
  assumes "SetDefaults_ProviderSpec p = Ok p1" "SetDefaults_ProviderSpec p1 = Ok p2"
  shows "SetDefaults_ProviderSpec p2 = Ok p2"
proof -
  define t where "t = (if pv_Type p = [] then MachineTypeNative else pv_Type p)"
  have ne: "t \<noteq> []" by (simp add: t_def machine_type_defs)
  show ?thesis
  proof (cases "t = MachineTypeNative \<or> t = MachineTypeNativeCVM")
    case True
    obtain v1 where v1: "SetDefaults_CXMMachineProviderSpec (pv_Value p) = Ok v1"
      "p1 = \<lparr>pv_Type = t, pv_Value = v1\<rparr>"
      using assms(1) True unfolding SetDefaults_ProviderSpec_cases Let_def t_def [symmetric] by auto
    obtain v2 where v2: "SetDefaults_CXMMachineProviderSpec v1 = Ok v2"
      "p2 = \<lparr>pv_Type = t, pv_Value = v2\<rparr>"
      using assms(2) True ne by (auto simp: SetDefaults_ProviderSpec_cases v1(2))
    show ?thesis
      using SetDefaults_CXM_stable [OF v1(1) v2(1)] True ne
      by (simp add: SetDefaults_ProviderSpec_cases v2(2))
  next
    case False
    then have fix_p: "SetDefaults_ProviderSpec p = Ok p"
      unfolding SetDefaults_ProviderSpec_cases Let_def t_def [symmetric] by simp
    then have "p1 = p" "p2 = p" using assms by auto
    then show ?thesis using fix_p by simp
  qed
qed

lemma SetDefaults_ProviderSpec_type:
  "SetDefaults_ProviderSpec p = Ok p' \<Longrightarrow> pv_Type p' = (if pv_Type p = [] then MachineTypeNative else pv_Type p)"
  by (auto simp: SetDefaults_ProviderSpec_cases Let_def split: if_splits)

text \<open>A spec that does not decode only gets its type.\<close>

lemma SetDefaults_ProviderSpec_Err:
  assumes "ProviderSpecFromRawExtension (pv_Value p) = Err e"
  shows "SetDefaults_ProviderSpec p =
    Ok (if pv_Type p = [] then p\<lparr>pv_Type := MachineTypeNative\<rparr> else p)"
  using assms by (simp add: SetDefaults_ProviderSpec_def SetDefaults_CXM_cases Let_def)

text \<open>The same for a machine spec, its annotations included.\<close>

definition scale_down_meta :: "CXMMachineProviderSpec \<Rightarrow> SpecObjectMeta \<Rightarrow> SpecObjectMeta" where
  "scale_down_meta val meta =
     (if ps_InstanceChargeType val = PrepaidChargeType \<or> ps_InstanceChargeType val = UnderwriteChargeType
      then meta\<lparr>som_Annotations :=
             Some (put ScaleDownDisabledAnnotation ''true'' (gm_entries (som_Annotations meta)))\<rparr>
      else meta)"

definition with_root :: "MachineSpec \<Rightarrow> MachineSpec" where
  "with_root s = (if ms_RuntimeRootDir s = []
     then s\<lparr>ms_RuntimeRootDir := DefaultContainerdRootDir\<rparr> else s)"

lemma SetDefaults_MachineSpec_cases:
  "SetDefaults_MachineSpec s =
     (case ProviderSpecFromRawExtension (pv_Value (ms_ProviderSpec s)) of
        Err e \<Rightarrow> Ok (with_root s)
      | Ok (Some val) \<Rightarrow>
          omap (\<lambda>p. (with_root s)\<lparr>ms_ObjectMeta := scale_down_meta val (ms_ObjectMeta s),
                                 ms_ProviderSpec := p\<rparr>)
            (SetDefaults_ProviderSpec (ms_ProviderSpec s))
      | _ \<Rightarrow> Panic)"
  by (cases s) (simp add: SetDefaults_MachineSpec_def with_root_def scale_down_meta_def Let_def
      split: outcome.split option.split)

lemma scale_down_meta_idem:
  "scale_down_meta val (scale_down_meta val meta) = scale_down_meta val meta"
  by (cases meta) (simp add: scale_down_meta_def)

lemma scale_down_meta_default:
  "scale_down_meta (default_cxm_spec val) = scale_down_meta val"
  by (simp add: scale_down_meta_def default_cxm_spec_fields charge_type_defs fun_eq_iff)

lemma with_root_simps [simp]:
  "with_root (with_root s) = with_root s"
  "ms_ProviderSpec (with_root s) = ms_ProviderSpec s"
  "ms_ObjectMeta (with_root s) = ms_ObjectMeta s"
  "with_root (s\<lparr>ms_ObjectMeta := m\<rparr>) = (with_root s)\<lparr>ms_ObjectMeta := m\<rparr>"
  "with_root (s\<lparr>ms_ProviderSpec := p\<rparr>) = (with_root s)\<lparr>ms_ProviderSpec := p\<rparr>"
  by (simp_all add: with_root_def DefaultContainerdRootDir_def)

text \<open>
  A pass either keeps the value (when it does not decode, or the type is not a native one), or
  stores the encoded defaults of the spec it held.
\<close>

lemma SetDefaults_ProviderSpec_value:
  assumes "SetDefaults_ProviderSpec p = Ok p'" "ProviderSpecFromRawExtension (pv_Value p) = Ok (Some val)"
  shows "pv_Value p' = pv_Value p \<or> ProviderSpecFromRawExtension (pv_Value p') = Ok (Some (default_cxm_spec val))"
proof -
  have "spec_ok (default_cxm_spec val)"
    using assms(2) default_cxm_spec_ok ProviderSpecFromRawExtension_ok by blast
  then show ?thesis
    using assms
    by (auto simp: SetDefaults_ProviderSpec_cases SetDefaults_CXM_cases ProviderSpecFromRaw_enc Let_def
        split: if_splits)
qed

lemma SetDefaults_MachineSpec_stable:
  assumes "SetDefaults_MachineSpec s = Ok s1" "SetDefaults_MachineSpec s1 = Ok s2"
  shows "SetDefaults_MachineSpec s2 = Ok s2"
proof (cases "ProviderSpecFromRawExtension (pv_Value (ms_ProviderSpec s))")
  case (Err e)
  then have s1: "s1 = with_root s" using assms(1) by (simp add: SetDefaults_MachineSpec_cases)
  have "SetDefaults_MachineSpec (with_root s) = Ok (with_root s)"
    using Err by (simp add: SetDefaults_MachineSpec_cases)
  then show ?thesis using assms(2) s1 by simp
next
  case Panic
  then show ?thesis by simp
next
  case (Ok dec)
  then obtain val p1 where val: "dec = Some val"
    and p1: "SetDefaults_ProviderSpec (ms_ProviderSpec s) = Ok p1"
    and s1: "s1 = (with_root s)\<lparr>ms_ObjectMeta := scale_down_meta val (ms_ObjectMeta s), ms_ProviderSpec := p1\<rparr>"
    using assms(1) by (auto simp: SetDefaults_MachineSpec_cases split: option.splits)
  have Ok: "ProviderSpecFromRawExtension (pv_Value (ms_ProviderSpec s)) = Ok (Some val)"
    using Ok val by simp
  obtain val1 where val1: "ProviderSpecFromRawExtension (pv_Value p1) = Ok (Some val1)"
    "scale_down_meta val1 = scale_down_meta val"
    using SetDefaults_ProviderSpec_value [OF p1 Ok] Ok scale_down_meta_default by auto
  obtain p2 where p2: "SetDefaults_ProviderSpec p1 = Ok p2"
    and s2: "s2 = s1\<lparr>ms_ProviderSpec := p2\<rparr>"
    using assms(2) val1 by (auto simp: SetDefaults_MachineSpec_cases s1 scale_down_meta_idem)
  obtain val2 where val2: "ProviderSpecFromRawExtension (pv_Value p2) = Ok (Some val2)"
    "scale_down_meta val2 = scale_down_meta val"
    using SetDefaults_ProviderSpec_value [OF p2 val1(1)] val1 scale_down_meta_default by auto
  show ?thesis
    using SetDefaults_ProviderSpec_stable [OF p1 p2] val2
    by (simp add: SetDefaults_MachineSpec_cases s2 s1 scale_down_meta_idem)
qed

lemma SetDefaults_MachineSpec_provider:
  assumes "SetDefaults_MachineSpec s = Ok s'"
  shows "ms_ProviderSpec s' = ms_ProviderSpec s \<and>
           (\<exists>e. ProviderSpecFromRawExtension (pv_Value (ms_ProviderSpec s)) = Err e) \<or>
         SetDefaults_ProviderSpec (ms_ProviderSpec s) = Ok (ms_ProviderSpec s')"
  using assms by (auto simp: SetDefaults_MachineSpec_cases split: outcome.splits option.splits)

text \<open>After two passes the covering third pass over the provider spec completes the type at most.\<close>

lemma cover_spec_stable:
  assumes s1: "SetDefaults_MachineSpec s = Ok s1" and s3: "cover_spec s1 = Ok s3"
  shows "SetDefaults_MachineSpec s3 = Ok s3 \<and> cover_spec s3 = Ok s3"
proof -
  obtain s2 p where s2: "SetDefaults_MachineSpec s1 = Ok s2"
    and p: "SetDefaults_ProviderSpec (ms_ProviderSpec s2) = Ok p"
    and s3': "s3 = s2\<lparr>ms_ProviderSpec := p\<rparr>"
    using s3 by (auto simp: cover_spec_def)
  show ?thesis
  proof (cases "\<exists>e. ProviderSpecFromRawExtension (pv_Value (ms_ProviderSpec s)) = Err e")
    case True
    then obtain e where e: "ProviderSpecFromRawExtension (pv_Value (ms_ProviderSpec s)) = Err e" ..
    then have "s1 = with_root s" "s2 = with_root s"
      using s1 s2 by (auto simp: SetDefaults_MachineSpec_cases)
    moreover have "p = (if pv_Type (ms_ProviderSpec s) = []
        then (ms_ProviderSpec s)\<lparr>pv_Type := MachineTypeNative\<rparr> else ms_ProviderSpec s)"
      using p e \<open>s2 = with_root s\<close> by (simp add: SetDefaults_ProviderSpec_Err)
    ultimately show ?thesis
      using e by (simp add: s3' SetDefaults_MachineSpec_cases cover_spec_def
          SetDefaults_ProviderSpec_Err machine_type_defs)
  next
    case False
    then have "SetDefaults_ProviderSpec (ms_ProviderSpec s) = Ok (ms_ProviderSpec s1)"
      using SetDefaults_MachineSpec_provider [OF s1] by blast
    moreover have "SetDefaults_ProviderSpec (ms_ProviderSpec s1) = Ok (ms_ProviderSpec s2) \<or>
        ms_ProviderSpec s2 = ms_ProviderSpec s1"
      using SetDefaults_MachineSpec_provider [OF s2] by blast
    ultimately have "SetDefaults_ProviderSpec (ms_ProviderSpec s2) = Ok (ms_ProviderSpec s2) \<or>
        (ms_ProviderSpec s2 = ms_ProviderSpec s1 \<and>
          (\<exists>e. ProviderSpecFromRawExtension (pv_Value (ms_ProviderSpec s1)) = Err e))"
      using SetDefaults_ProviderSpec_stable SetDefaults_MachineSpec_provider [OF s2] by metis
    moreover have "\<nexists>e. ProviderSpecFromRawExtension (pv_Value (ms_ProviderSpec s1)) = Err e"
    proof -
      obtain val where "ProviderSpecFromRawExtension (pv_Value (ms_ProviderSpec s)) = Ok (Some val)"
        using False s1 by (auto simp: SetDefaults_MachineSpec_cases split: outcome.splits option.splits)
      from SetDefaults_ProviderSpec_value [OF
          \<open>SetDefaults_ProviderSpec (ms_ProviderSpec s) = Ok (ms_ProviderSpec s1)\<close> this] this
      show ?thesis by auto
    qed
    ultimately have fix_p: "SetDefaults_ProviderSpec (ms_ProviderSpec s2) = Ok (ms_ProviderSpec s2)"
      by blast
    then have "s3 = s2" using p s3' by simp
    then show ?thesis
      using SetDefaults_MachineSpec_stable [OF s1 s2] fix_p by (simp add: cover_spec_def)
  qed
qed

lemma default_machine_meta_idem: "default_machine_meta t (default_machine_meta t m) = default_machine_meta t m"
  by (cases m) (simp add: default_machine_meta_def Let_def)

lemma default_machine_meta_native:
  "default_machine_meta MachineTypeNative (default_machine_meta [] m) = default_machine_meta [] m"
  by (cases m) (simp add: default_machine_meta_def Let_def machine_type_defs)

section \<open>Properties\<close>

text \<open>
  C34. \<open>RemoveDuplicateKVPairs\<close> reads lines of the form key=value: the result is a subsequence of the
  input in which every key stands once, the value it gives a key is that of the last line with
  the key, lines without an equals sign are dropped, and a second application changes nothing.
\<close>

theorem RemoveDuplicateKVPairs_correct:
  "distinct (map fst (kv_pairs (RemoveDuplicateKVPairs lines))) \<and>
   map_of (kv_pairs (RemoveDuplicateKVPairs lines)) = map_of (rev (kv_pairs lines)) \<and>
   subseq (RemoveDuplicateKVPairs lines) lines \<and>
   RemoveDuplicateKVPairs (RemoveDuplicateKVPairs lines) = RemoveDuplicateKVPairs lines"
proof -
  have "subseq (map kv_line (last_pairs (kv_pairs lines))) lines"
  proof (induction lines)
    case Nil
    then show ?case by simp
  next
    case (Cons l ls)
    then show ?case
      by (auto simp: kv_line_def dest: cut_at_Some split: option.splits)
  qed
  then have "subseq (RemoveDuplicateKVPairs lines) lines"
    by (simp add: RemoveDuplicateKVPairs_last)
  then show ?thesis
    by (simp add: kv_pairs_RemoveDuplicate distinct_last_pairs map_of_last_pairs
        RemoveDuplicateKVPairs_idem)
qed

text \<open>
  C38. The in-place compaction of \<open>removeDuplicate\<close>, which writes into the slice it is ranging over,
  returns the first occurrences of the non-empty strings in their order; \<open>removeDuplicateComponent\<close>
  does the same.
\<close>

theorem removeDuplicate_correct:
  "removeDuplicate s = uniq (filter (\<lambda>v. v \<noteq> []) s) \<and>
   distinct (removeDuplicate s) \<and> set (removeDuplicate s) = set s - {[]} \<and>
   removeDuplicateComponent s = removeDuplicate s"
  by (auto simp: removeDuplicate_uniq removeDuplicateComponent_eq)

text \<open>
  C32. Defaulting a machine is idempotent: the machine that the generated defaulter returns is a fixed
  point of it.  One pass of the inner function is not (a nameserver list holding only empty
  strings is first emptied and only then replaced), but the covering defaulter passes over the
  provider spec three times.
\<close>

theorem SetObjectDefaults_Machine_idem:
  assumes "SetObjectDefaults_Machine m = Ok m'"
  shows "SetObjectDefaults_Machine m' = Ok m'"
proof -
  let ?t = "pv_Type (ms_ProviderSpec (m_Spec m))"
  obtain s1 s3 where s1: "SetDefaults_MachineSpec (m_Spec m) = Ok s1"
    and s3: "cover_spec s1 = Ok s3"
    and m': "m' = m\<lparr>m_ObjectMeta := default_machine_meta ?t (m_ObjectMeta m), m_Spec := s3\<rparr>"
    using assms by (auto simp: SetObjectDefaults_Machine_def SetDefaults_Machine_def Let_def)
  note fixed = cover_spec_stable [OF s1 s3]
  have "pv_Type (ms_ProviderSpec s3) = ?t \<or>
      ?t = [] \<and> pv_Type (ms_ProviderSpec s3) = MachineTypeNative"
    using SetDefaults_MachineSpec_provider [OF s1] s3 SetDefaults_ProviderSpec_type
      SetDefaults_MachineSpec_provider
    by (auto simp: cover_spec_def split: if_splits) (metis)+
  then have "default_machine_meta (pv_Type (ms_ProviderSpec s3)) (m_ObjectMeta m') = m_ObjectMeta m'"
    using default_machine_meta_idem default_machine_meta_native by (auto simp: m')
  then show ?thesis
    using fixed by (simp add: SetObjectDefaults_Machine_def SetDefaults_Machine_def Let_def m')
qed

text \<open>A machine as a client submits it: a native machine with two data disks and no defaults.\<close>

definition sample_spec :: json where
  "sample_spec = JObj
     [(''instanceChargeType'', JStr ''PrepaidCharge''),
      (''keyIDs'', JArr [JStr ''skey-1'', JStr [], JStr ''skey-1'']),
      (''management'', JObj [(''nameservers'', JArr [JStr []]),
                             (''kernelArgs'', JArr [JStr ''a=1'', JStr ''b'', JStr ''a=2''])]),
      (''dataDisks'', JArr [JObj [(''diskSize'', JNum 50)], JNull])]"

definition sample_machine :: Machine where
  "sample_machine = zero_Machine\<lparr>m_Spec := zero_MachineSpec\<lparr>
     ms_ProviderSpec := \<lparr>pv_Type = MachineTypeNativeCVM, pv_Value = Some (Some sample_spec)\<rparr>\<rparr>\<rparr>"

theorem SetObjectDefaults_Machine_idem_witness:
  "\<exists>m'. SetObjectDefaults_Machine sample_machine = Ok m' \<and> SetObjectDefaults_Machine m' = Ok m'"
proof -
  have "is_ok (SetObjectDefaults_Machine sample_machine)"
    by code_simp
  then obtain m' where "SetObjectDefaults_Machine sample_machine = Ok m'"
    by (cases "SetObjectDefaults_Machine sample_machine") auto
  then show ?thesis using SetObjectDefaults_Machine_idem by blast
qed

lemma SetDefaults_ProviderSpec_panics:
  "SetDefaults_ProviderSpec p = Panic \<longleftrightarrow>
     pv_Type p \<in> {[], MachineTypeNative, MachineTypeNativeCVM} \<and>
     (pv_Value p = None \<or> pv_Value p = Some (Some JNull))"
  using ProviderSpecFromRaw_nil [of "pv_Value p"]
  by (cases "pv_Value p") (auto simp: SetDefaults_ProviderSpec_cases SetDefaults_CXM_cases Let_def machine_type_defs
      split: outcome.splits option.splits if_splits)

lemma SetDefaults_MachineSpec_panics:
  "SetDefaults_MachineSpec s = Panic \<longleftrightarrow>
     pv_Value (ms_ProviderSpec s) = Some (Some JNull) \<or> 
     pv_Value (ms_ProviderSpec s) = None \<and>
     pv_Type (ms_ProviderSpec s) \<in> {[], MachineTypeNative, MachineTypeNativeCVM}"
  using ProviderSpecFromRaw_nil [of "pv_Value (ms_ProviderSpec s)"]
    SetDefaults_ProviderSpec_panics [of "ms_ProviderSpec s"]
  by (cases "pv_Value (ms_ProviderSpec s)") (auto simp: SetDefaults_MachineSpec_cases split: outcome.splits option.splits)

lemma SetDefaults_no_error:
  "SetDefaults_ProviderSpec p \<noteq> Err e" "SetDefaults_MachineSpec s \<noteq> Err e"
proof -
  have *: "SetDefaults_ProviderSpec q \<noteq> Err e" for q
    by (auto simp: SetDefaults_ProviderSpec_cases SetDefaults_CXM_cases Let_def
        split: outcome.split option.split)
  then show "SetDefaults_ProviderSpec p \<noteq> Err e" .
  show "SetDefaults_MachineSpec s \<noteq> Err e"
    using * by (auto simp: SetDefaults_MachineSpec_cases split: outcome.split option.split)
qed

lemma SetDefaults_MachineSpec_keeps_nil:
  assumes "SetDefaults_MachineSpec s = Ok s1"
  shows "SetDefaults_MachineSpec s1 \<noteq> Panic"
proof
  assume panic: "SetDefaults_MachineSpec s1 = Panic"
  let ?v = "pv_Value (ms_ProviderSpec s)" and ?v1 = "pv_Value (ms_ProviderSpec s1)"
  have old: "?v \<noteq> Some (Some JNull)"
    "?v = None \<Longrightarrow> pv_Type (ms_ProviderSpec s) \<notin> {[], MachineTypeNative, MachineTypeNativeCVM}"
    using assms SetDefaults_MachineSpec_panics [of s] by auto
  show False
  proof (cases "ms_ProviderSpec s1 = ms_ProviderSpec s")
    case True
    then show ?thesis using panic old SetDefaults_MachineSpec_panics [of s1] by auto
  next
    case False
    then have "SetDefaults_ProviderSpec (ms_ProviderSpec s) = Ok (ms_ProviderSpec s1)"
      using SetDefaults_MachineSpec_provider [OF assms] by blast
    then have "?v1 = ?v \<and> (?v = None \<longrightarrow> pv_Type (ms_ProviderSpec s1) = pv_Type (ms_ProviderSpec s)) \<or>
        (\<exists>d. ?v1 = Some (Some (enc_ProviderSpec d)))"
      using old(2) by (auto simp: SetDefaults_ProviderSpec_cases SetDefaults_CXM_cases Let_def
          split: if_splits outcome.splits option.splits)
    then show ?thesis
      using panic old SetDefaults_MachineSpec_panics [of s1] by (auto simp: enc_ProviderSpec_def)
  qed
qed

text \<open>
  C33. When defaulting panics: exactly when the provider spec is the JSON value null, whatever the
  machine type, or when there is no provider spec at all and the type is empty or a native one.
  It never returns an error, since a spec that does not decode is skipped.
\<close>

theorem SetObjectDefaults_Machine_panics:
  "(SetObjectDefaults_Machine m = Panic \<longleftrightarrow>
      pv_Value (ms_ProviderSpec (m_Spec m)) = Some (Some JNull) \<or>
      pv_Value (ms_ProviderSpec (m_Spec m)) = None \<and>
      pv_Type (ms_ProviderSpec (m_Spec m)) \<in> {[], MachineTypeNative, MachineTypeNativeCVM}) \<and>
   SetObjectDefaults_Machine m \<noteq> Err e"
proof -
  have inner: "SetDefaults_ProviderSpec (ms_ProviderSpec s2) \<noteq> Panic"
    if "SetDefaults_MachineSpec s1 = Ok s2" for s1 s2
    using SetDefaults_MachineSpec_keeps_nil [OF that] SetDefaults_MachineSpec_panics [of s2]
      SetDefaults_ProviderSpec_panics by auto
  have "SetObjectDefaults_Machine m = Panic \<longleftrightarrow> SetDefaults_MachineSpec (m_Spec m) = Panic"
    using SetDefaults_MachineSpec_keeps_nil inner
    by (auto simp: SetObjectDefaults_Machine_def SetDefaults_Machine_def cover_spec_def Let_def
        obind_eq_Panic)
  moreover have "SetObjectDefaults_Machine m \<noteq> Err e"
    using SetDefaults_no_error
    by (auto simp: SetObjectDefaults_Machine_def SetDefaults_Machine_def cover_spec_def Let_def
        obind_eq_Err)
  ultimately show ?thesis using SetDefaults_MachineSpec_panics by simp
qed

end
