(* ===== verification/MachineSets.thy ===== *)
theory MachineSets
  imports Defaults
begin

text \<open>
  Machine sets and rolling upgrades of the node API: their types, their defaulting functions
  and the methods of \<open>RollingUpgrade\<close>.  Status fields that no code of the repository touches are
  kept where the Go structs have them; a label selector is kept as its JSON form.
  \<open>time.Duration.String\<close> is written out because a default depends on its result.
\<close>

section \<open>Machine sets\<close>

datatype int_or_string = FromInt int | FromString string

record GPUConfig =
  gc_InstanceType :: string
  gc_Driver :: string
  gc_CUDA :: string
  gc_CUDNN :: string
  gc_MIGEnable :: bool
  gc_Fabric :: bool

record MachineTemplateSpec =
  mt_ObjectMeta :: SpecObjectMeta
  mt_Spec :: MachineSpec

record MachinSetScaling =
  sc_MinReplicas :: int
  sc_MaxReplicas :: int
  sc_CreatePolicy :: "string option"

record MachineRollingUpdateStrategy =
  mru_MaxConfigUnavailable :: "int_or_string option"
  mru_MaxSteps :: "int_or_string option"

record MachineUpdateStrategy =
  mus_Type :: string
  mus_RollingUpdate :: "MachineRollingUpdateStrategy option"

record MachineSetSpec =
  mss_Type :: string
  mss_DisplayName :: string
  mss_Replicas :: "int option"
  mss_Selector :: "json option"
  mss_Template :: MachineTemplateSpec
  mss_HealthCheckPolicyName :: "string option"
  mss_MinReadySeconds :: int
  mss_DeletePolicy :: string
  mss_SubnetIDs :: "string list"
  mss_InstanceTypes :: "string list"
  mss_Scaling :: MachinSetScaling
  mss_AutoRepair :: "bool option"
  mss_GPUConfigs :: "GPUConfig list"
  mss_KeyID :: string
  mss_MachineUpdateStrategy :: MachineUpdateStrategy

record MachineSetCondition =
  msc_Type :: string
  msc_Status :: string
  msc_LastTransitionTime :: int
  msc_Reason :: string
  msc_Message :: string

record MachineSetStatus =
  mse_HealthCheckPolicyRevision :: "string option"
  mse_Replicas :: int
  mse_FullyLabeledReplicas :: int
  mse_ReadyReplicas :: int
  mse_AvailableReplicas :: int
  mse_ObservedGeneration :: int
  mse_KubeletVersion :: string
  mse_RuntimeVersion :: string
  mse_Conditions :: "MachineSetCondition list"

record MachineSet =
  mset_ObjectMeta :: ObjectMeta
  mset_Spec :: MachineSetSpec
  mset_Status :: MachineSetStatus

record MachineSetList =
  msl_ListMeta :: ListMeta
  msl_Items :: "MachineSet list"

definition NewestMachineSetDeletePolicy :: string where
  "NewestMachineSetDeletePolicy = ''Newest''"
definition NativeMachineSetType :: string where "NativeMachineSetType = ''Native''"
definition RegularMachineSetType :: string where "RegularMachineSetType = ''Regular''"
definition ZoneEqualityPolicy :: string where "ZoneEqualityPolicy = ''ZoneEquality''"

definition mset_template_type :: "MachineSetSpec \<Rightarrow> MachineSpec" where
  "mset_template_type spec =
     (let s = mt_Spec (mss_Template spec);
          p = ms_ProviderSpec s;
          p = (if mss_Type spec = NativeMachineSetType \<and> pv_Type p = []
               then p\<lparr>pv_Type := MachineTypeNative\<rparr> else p);
          p = (if mss_Type spec = RegularMachineSetType \<and> pv_Type p = []
               then p\<lparr>pv_Type := MachineTypeCVM\<rparr> else p)
      in s\<lparr>ms_ProviderSpec := p\<rparr>)"

definition default_scaling :: "MachinSetScaling \<Rightarrow> MachinSetScaling" where
  "default_scaling sc =
     (if sc_CreatePolicy sc = None \<or> sc_CreatePolicy sc = Some []
      then sc\<lparr>sc_CreatePolicy := Some ZoneEqualityPolicy\<rparr> else sc)"

definition SetDefaults_MachineSet :: "MachineSet \<Rightarrow> MachineSet outcome" where
  "SetDefaults_MachineSet obj =
     (let spec = mset_Spec obj;
          spec = (if mss_Replicas spec = None then spec\<lparr>mss_Replicas := Some 1\<rparr> else spec)
      in obind (SetDefaults_MachineSpec (mset_template_type spec)) (\<lambda>tmpl.
         let spec = spec\<lparr>mss_Template := (mss_Template spec)\<lparr>mt_Spec := tmpl\<rparr>\<rparr>;
             spec = (if mss_DeletePolicy spec = []
                     then spec\<lparr>mss_DeletePolicy := NewestMachineSetDeletePolicy\<rparr> else spec);
             spec = spec\<lparr>mss_Scaling := default_scaling (mss_Scaling spec)\<rparr>;
             meta = (mset_ObjectMeta obj)\<lparr>om_Annotations :=
                       Some (gm_entries (om_Annotations (mset_ObjectMeta obj)))\<rparr>;
             spec = spec\<lparr>mss_SubnetIDs := removeDuplicate (mss_SubnetIDs spec),
                         mss_InstanceTypes := removeDuplicate (mss_InstanceTypes spec)\<rparr>
         in Ok (obj\<lparr>mset_ObjectMeta := meta, mset_Spec := spec\<rparr>)))"

definition SetObjectDefaults_MachineSet :: "MachineSet \<Rightarrow> MachineSet outcome" where
  "SetObjectDefaults_MachineSet obj = obind (SetDefaults_MachineSet obj) (\<lambda>obj.
     let spec = mset_Spec obj; tmpl = mss_Template spec in
     omap (\<lambda>s. obj\<lparr>mset_Spec := spec\<lparr>mss_Template := tmpl\<lparr>mt_Spec := s\<rparr>\<rparr>\<rparr>)
       (cover_spec (mt_Spec tmpl)))"

definition SetObjectDefaults_MachineSetList :: "MachineSet list \<Rightarrow> MachineSet list outcome" where
  "SetObjectDefaults_MachineSetList = omap_list SetObjectDefaults_MachineSet"

definition mset_NamespacedName :: "MachineSet \<Rightarrow> string \<times> string" where
  "mset_NamespacedName ms = (om_Namespace (mset_ObjectMeta ms), om_Name (mset_ObjectMeta ms))"

text \<open>\<open>IsPrepaid\<close> of \<open>util.go\<close> takes anything; what is not a pointer is an error.\<close>

datatype prepaid_arg =
    ArgMachineSet "MachineSet option"
  | ArgMachine "Machine option"
  | ArgSpec "CXMMachineProviderSpec option"
  | ArgOtherPointer
  | ArgValue

definition decoded_or_nil :: "raw_extension option \<Rightarrow> CXMMachineProviderSpec option" where
  "decoded_or_nil v = (case ProviderSpecFromRawExtension v of Ok s \<Rightarrow> s | _ \<Rightarrow> None)"

definition prepaid_spec :: "prepaid_arg \<Rightarrow> CXMMachineProviderSpec option outcome" where
  "prepaid_spec a =
     (case a of
        ArgMachineSet None \<Rightarrow> Panic
      | ArgMachineSet (Some obj) \<Rightarrow>
          Ok (decoded_or_nil (pv_Value (ms_ProviderSpec (mt_Spec (mss_Template (mset_Spec obj))))))
      | ArgMachine None \<Rightarrow> Panic
      | ArgMachine (Some obj) \<Rightarrow> Ok (decoded_or_nil (pv_Value (ms_ProviderSpec (m_Spec obj))))
      | ArgSpec s \<Rightarrow> Ok s
      | ArgOtherPointer \<Rightarrow> Ok None
      | ArgValue \<Rightarrow> Err (Errorf ''input object must be a pointer''))"

definition util_IsPrepaid :: "prepaid_arg \<Rightarrow> bool outcome" where
  "util_IsPrepaid a = omap (\<lambda>s. case s of None \<Rightarrow> False | Some s \<Rightarrow> IsPrepaid s \<or> IsUnderwrite s)
     (prepaid_spec a)"

section \<open>Durations\<close>

text \<open>
  \<open>fmtFrac\<close>: the last \<open>prec\<close> digits of \<open>v\<close> as a fraction without trailing zeros, and what is left
  of \<open>v\<close>.
\<close>

fun fmt_frac_loop :: "nat \<Rightarrow> int \<Rightarrow> bool \<Rightarrow> string \<Rightarrow> string \<times> bool \<times> int" where
  "fmt_frac_loop 0 v printed buf = (buf, printed, v)"
| "fmt_frac_loop (Suc i) v printed buf =
     (let printed = (printed \<or> v mod 10 \<noteq> 0)
      in fmt_frac_loop i (v div 10) printed (if printed then digit_char (v mod 10) # buf else buf))"

definition fmt_frac :: "nat \<Rightarrow> int \<Rightarrow> string \<times> int" where
  "fmt_frac prec v =
     (let (buf, printed, rest) = fmt_frac_loop prec v False []
      in (if printed then CHR ''.'' # buf else buf, rest))"

definition duration_string :: "int \<Rightarrow> string" where
  "duration_string d =
     (let u = \<bar>d\<bar>; sign = (if d < 0 then ''-'' else []) in
      if u < 1000000000 then
        if u = 0 then ''0s''
        else let (prec, unit) = (if u < 1000 then (0, ''ns'')
                                 else if u < 1000000 then (3, [CHR 0xC2, CHR 0xB5, CHR ''s''])
                                 else (6, ''ms''));
                 (frac, v) = fmt_frac prec u
             in sign @ digits v @ frac @ unit
      else
        let (frac, secs) = fmt_frac 9 u;
            seconds = digits (secs mod 60) @ frac @ ''s'';
            mins = secs div 60
        in if mins = 0 then sign @ seconds
           else let hours = mins div 60; minutes = digits (mins mod 60) @ ''m'' @ seconds
                in if hours = 0 then sign @ minutes else sign @ digits hours @ ''h'' @ minutes)"

lemma duration_string_neq_Nil [simp]: "duration_string d \<noteq> []"
  by (simp add: duration_string_def Let_def case_prod_beta del: fmt_frac_loop.simps)

section \<open>Rolling upgrades\<close>

record AutoUpgradeOptions =
  auo_AutoUpgradeStartTime :: string
  auo_Duration :: int
  auo_WeeklyPeriod :: "string list"

record UpdateStrategy =
  us_Type :: string
  us_MaxUnavailable :: "int_or_string option"
  us_UpgradeTimeout :: "int option"

record RollingUpgradeSpec =
  rus_MachineSetName :: string
  rus_AutoUpgrade :: "bool option"
  rus_UpgradeOptions :: AutoUpgradeOptions
  rus_Components :: "string list"
  rus_Strategy :: UpdateStrategy
  rus_DesiredKubeletVersion :: string
  rus_DesiredRuntimeVersion :: string
  rus_IgnoreUpgradeFailures :: "bool option"

record RollingUpgradeCondition =
  rc_Type :: string
  rc_Status :: string

record RollingUpgradeStatus =
  rst_Phase :: string
  rst_CompletePercentage :: string
  rst_StartTime :: string
  rst_EndTime :: string
  rst_MachinesProcessed :: int
  rst_TotalMachines :: int
  rst_TotalProcessingTime :: string
  rst_Conditions :: "RollingUpgradeCondition list"

record RollingUpgrade =
  ru_ObjectMeta :: ObjectMeta
  ru_Spec :: RollingUpgradeSpec
  ru_Status :: RollingUpgradeStatus

record RollingUpgradeList =
  rul_ListMeta :: ListMeta
  rul_Items :: "RollingUpgrade list"

definition AvailableWeeklyPeriods :: "string list" where
  "AvailableWeeklyPeriods = [''Monday'', ''Tuesday'', ''Wednesday'', ''Thursday'', ''Friday'',
     ''Saturday'', ''Sunday'']"

definition KubeletComponentType :: string where "KubeletComponentType = ''Kubelet''"
definition RuntimeComponentType :: string where "RuntimeComponentType = ''Rumtime''"
definition RandomUpdateStrategy :: string where "RandomUpdateStrategy = ''randomUpdate''"

definition default_upgrade_options :: "AutoUpgradeOptions \<Rightarrow> AutoUpgradeOptions" where
  "default_upgrade_options o' =
     (let o' = (if auo_AutoUpgradeStartTime o' = []
               then o'\<lparr>auo_AutoUpgradeStartTime := ''24:00''\<rparr> else o');
          o' = (if duration_string (auo_Duration o') = []
               then o'\<lparr>auo_Duration := 2 * 3600 * 10 ^ 9\<rparr> else o')
      in if auo_WeeklyPeriod o' = [] then o'\<lparr>auo_WeeklyPeriod := AvailableWeeklyPeriods\<rparr> else o')"

definition default_strategy :: "UpdateStrategy \<Rightarrow> UpdateStrategy" where
  "default_strategy s =
     (let s = (if us_Type s = [] then s\<lparr>us_Type := RandomUpdateStrategy\<rparr> else s);
          s = (if us_MaxUnavailable s = None then s\<lparr>us_MaxUnavailable := Some (FromInt 1)\<rparr> else s)
      in if us_UpgradeTimeout s = None then s\<lparr>us_UpgradeTimeout := Some (2 * 60 * 10 ^ 9)\<rparr> else s)"

definition SetDefaults_RollingUpgradeSpec :: "RollingUpgradeSpec \<Rightarrow> RollingUpgradeSpec" where
  "SetDefaults_RollingUpgradeSpec s =
     (let s = s\<lparr>rus_AutoUpgrade := (case rus_AutoUpgrade s of None \<Rightarrow> Some True | b \<Rightarrow> b)\<rparr>;
          s = s\<lparr>rus_UpgradeOptions := default_upgrade_options (rus_UpgradeOptions s)\<rparr>;
          s = s\<lparr>rus_Components := (case rus_Components s of
                 [] \<Rightarrow> [KubeletComponentType, RuntimeComponentType] | cs \<Rightarrow> cs)\<rparr>;
          s = s\<lparr>rus_Components := removeDuplicateComponent (rus_Components s)\<rparr>;
          s = s\<lparr>rus_UpgradeOptions := (rus_UpgradeOptions s)\<lparr>auo_WeeklyPeriod :=
                 removeDuplicate (auo_WeeklyPeriod (rus_UpgradeOptions s))\<rparr>\<rparr>;
          s = s\<lparr>rus_Strategy := default_strategy (rus_Strategy s)\<rparr>
      in s\<lparr>rus_IgnoreUpgradeFailures :=
             (case rus_IgnoreUpgradeFailures s of None \<Rightarrow> Some False | b \<Rightarrow> b)\<rparr>)"

definition SetDefaults_RollingUpgrade :: "RollingUpgrade \<Rightarrow> RollingUpgrade" where
  "SetDefaults_RollingUpgrade obj =
     obj\<lparr>ru_ObjectMeta := (ru_ObjectMeta obj)\<lparr>om_Name := rus_MachineSetName (ru_Spec obj)\<rparr>,
         ru_Spec := SetDefaults_RollingUpgradeSpec (ru_Spec obj)\<rparr>"

definition SetObjectDefaults_RollingUpgrade :: "RollingUpgrade \<Rightarrow> RollingUpgrade" where
  "SetObjectDefaults_RollingUpgrade obj =
     (let obj = SetDefaults_RollingUpgrade obj
      in obj\<lparr>ru_Spec := SetDefaults_RollingUpgradeSpec (ru_Spec obj)\<rparr>)"

definition SetObjectDefaults_RollingUpgradeList :: "RollingUpgrade list \<Rightarrow> RollingUpgrade list" where
  "SetObjectDefaults_RollingUpgradeList = map SetObjectDefaults_RollingUpgrade"

section \<open>Methods of a rolling upgrade\<close>

text \<open>The order of the steps of a machine rotation.\<close>

definition MachineRotationStepOrders :: "(string, int) entries" where
  "MachineRotationStepOrders =
     [(''Kickoff'', 10), (''Upgrading'', 20), (''Upgraded'', 50), (''Total'', 60),
      (''DesiredNodeReady'', 70), (''PreDrainScript'', 80), (''Drain'', 90),
      (''PostDrainScript'', 100), (''PostWait'', 110), (''Terminate'', 120),
      (''PostTerminate'', 130), (''Terminated'', 140), (''Completed'', 1000)]"

definition ru_NamespacedName :: "RollingUpgrade \<Rightarrow> string \<times> string" where
  "ru_NamespacedName r = (om_Namespace (ru_ObjectMeta r), om_Name (ru_ObjectMeta r))"

definition ru_MachineSetName :: "RollingUpgrade \<Rightarrow> string" where
  "ru_MachineSetName r = rus_MachineSetName (ru_Spec r)"

definition ru_UpgradeTimeout :: "RollingUpgrade \<Rightarrow> int option" where
  "ru_UpgradeTimeout r = us_UpgradeTimeout (rus_Strategy (ru_Spec r))"

definition ru_Phase :: "RollingUpgrade \<Rightarrow> string" where
  "ru_Phase r = rst_Phase (ru_Status r)"

definition ru_UpdateStrategyType :: "RollingUpgrade \<Rightarrow> string" where
  "ru_UpdateStrategyType r = us_Type (rus_Strategy (ru_Spec r))"

definition ru_MaxUnavailable :: "RollingUpgrade \<Rightarrow> int_or_string outcome" where
  "ru_MaxUnavailable r =
     (case us_MaxUnavailable (rus_Strategy (ru_Spec r)) of None \<Rightarrow> Panic | Some n \<Rightarrow> Ok n)"

definition ru_SetPhase :: "string \<Rightarrow> RollingUpgrade \<Rightarrow> RollingUpgrade" where
  "ru_SetPhase p r = r\<lparr>ru_Status := (ru_Status r)\<lparr>rst_Phase := p\<rparr>\<rparr>"

definition ru_SetStartTime :: "string \<Rightarrow> RollingUpgrade \<Rightarrow> RollingUpgrade" where
  "ru_SetStartTime t r = r\<lparr>ru_Status := (ru_Status r)\<lparr>rst_StartTime := t\<rparr>\<rparr>"

definition ru_StartTime :: "RollingUpgrade \<Rightarrow> string" where
  "ru_StartTime r = rst_StartTime (ru_Status r)"

definition ru_SetEndTime :: "string \<Rightarrow> RollingUpgrade \<Rightarrow> RollingUpgrade" where
  "ru_SetEndTime t r = r\<lparr>ru_Status := (ru_Status r)\<lparr>rst_EndTime := t\<rparr>\<rparr>"

definition ru_EndTime :: "RollingUpgrade \<Rightarrow> string" where
  "ru_EndTime r = rst_EndTime (ru_Status r)"

definition ru_SetTotalProcessingTime :: "string \<Rightarrow> RollingUpgrade \<Rightarrow> RollingUpgrade" where
  "ru_SetTotalProcessingTime t r = r\<lparr>ru_Status := (ru_Status r)\<lparr>rst_TotalProcessingTime := t\<rparr>\<rparr>"

text \<open>The counters are \<open>int32\<close> fields set from an \<open>int\<close>.\<close>

definition ru_SetTotalMachines :: "int \<Rightarrow> RollingUpgrade \<Rightarrow> RollingUpgrade" where
  "ru_SetTotalMachines n r = r\<lparr>ru_Status := (ru_Status r)\<lparr>rst_TotalMachines := i32 n\<rparr>\<rparr>"

definition ru_SetMachinesProcessed :: "int \<Rightarrow> RollingUpgrade \<Rightarrow> RollingUpgrade" where
  "ru_SetMachinesProcessed n r = r\<lparr>ru_Status := (ru_Status r)\<lparr>rst_MachinesProcessed := i32 n\<rparr>\<rparr>"

definition ru_SetCompletePercentage :: "int \<Rightarrow> RollingUpgrade \<Rightarrow> RollingUpgrade" where
  "ru_SetCompletePercentage n r =
     r\<lparr>ru_Status := (ru_Status r)\<lparr>rst_CompletePercentage := itoa n @ ''%''\<rparr>\<rparr>"

definition ru_IsIgnoreUpgradeFailures :: "RollingUpgrade \<Rightarrow> bool option" where
  "ru_IsIgnoreUpgradeFailures r = rus_IgnoreUpgradeFailures (ru_Spec r)"

fun replace_condition ::
  "RollingUpgradeCondition \<Rightarrow> RollingUpgradeCondition list \<Rightarrow> RollingUpgradeCondition list option" where
  "replace_condition cond [] = None"
| "replace_condition cond (c # cs) =
     (if rc_Type c = rc_Type cond then Some (cond # cs)
      else map_option (\<lambda>cs'. c # cs') (replace_condition cond cs))"

definition SetCondition :: "RollingUpgradeCondition \<Rightarrow> RollingUpgradeStatus \<Rightarrow> RollingUpgradeStatus" where
  "SetCondition cond s =
     (case replace_condition cond (rst_Conditions s) of
        Some cs \<Rightarrow> s\<lparr>rst_Conditions := cs\<rparr>
      | None \<Rightarrow> s\<lparr>rst_Conditions := rst_Conditions s @ [cond]\<rparr>)"

section \<open>Lemmas\<close>

lemma replace_condition_None:
  "replace_condition cond cs = None \<longleftrightarrow> rc_Type cond \<notin> rc_Type ` set cs"
  by (induction cs) auto

lemma replace_condition_Some:
  assumes "replace_condition cond cs = Some cs'"
  shows "map rc_Type cs' = map rc_Type cs \<and>
     find (\<lambda>c. rc_Type c = t) cs' =
       (if t = rc_Type cond then Some cond else find (\<lambda>c. rc_Type c = t) cs)"
  using assms
proof (induction cs arbitrary: cs')
  case Nil
  then show ?case by simp
next
  case (Cons c cs)
  show ?case
  proof (cases "rc_Type c = rc_Type cond")
    case True
    then show ?thesis using Cons.prems by auto
  next
    case False
    then obtain ds where ds: "replace_condition cond cs = Some ds" "cs' = c # ds"
      using Cons.prems by auto
    then show ?thesis using Cons.IH [OF ds(1)] False by (cases "t = rc_Type cond") simp_all
  qed
qed

lemma find_append: "find P (xs @ ys) = (case find P xs of None \<Rightarrow> find P ys | Some x \<Rightarrow> Some x)"
  by (induction xs) auto

lemma removeDuplicate_weekdays [simp]: "removeDuplicate AvailableWeeklyPeriods = AvailableWeeklyPeriods"
  by (simp add: removeDuplicate_uniq AvailableWeeklyPeriods_def)

lemma removeDuplicate_components [simp]:
  "removeDuplicate [KubeletComponentType, RuntimeComponentType] = [KubeletComponentType, RuntimeComponentType]"
  by (simp add: removeDuplicate_uniq KubeletComponentType_def RuntimeComponentType_def)




lemma weekdays_neq_Nil [simp]: "AvailableWeeklyPeriods \<noteq> []"
  by (simp add: AvailableWeeklyPeriods_def)




section \<open>Properties\<close>


text \<open>
  Setting a condition of a rolling upgrade: looking the type up afterwards finds the new
  condition, the other types are found as before, and no second condition of the type is added
  to a status that has one.
\<close>

theorem SetCondition_correct:
  "find (\<lambda>c. rc_Type c = t) (rst_Conditions (SetCondition cond s)) =
     (if t = rc_Type cond then Some cond else find (\<lambda>c. rc_Type c = t) (rst_Conditions s)) \<and>
   map rc_Type (rst_Conditions (SetCondition cond s)) =
     map rc_Type (rst_Conditions s) @
     (if rc_Type cond \<in> rc_Type ` set (rst_Conditions s) then [] else [rc_Type cond])"
proof (cases "replace_condition cond (rst_Conditions s)")
  case None
  have absent: "rc_Type cond \<notin> rc_Type ` set (rst_Conditions s)"
    using None by (simp add: replace_condition_None)
  then have "find (\<lambda>c. rc_Type c = rc_Type cond) (rst_Conditions s) = None"
    by (auto simp: find_None_iff) (metis image_eqI)
  then show ?thesis
    using None absent by (auto simp: SetCondition_def find_append split: option.split)
next
  case (Some cs)
  then have "rc_Type cond \<in> rc_Type ` set (rst_Conditions s)"
    using replace_condition_None [of cond "rst_Conditions s"] by auto
  then show ?thesis
    using replace_condition_Some [OF Some] Some by (simp add: SetCondition_def)
qed

end
