(* ===== verification/Hub.thy ===== *)
theory Hub
  imports MachineSets
begin

text \<open>
  The hub version of the node API (\<open>staging/nativenode\<close>, package \<open>node\<close>), to and from which the objects of
  version \<open>v1beta1\<close> are converted: the structs of \<open>machine_types.go\<close>, \<open>machineset_types.go\<close>,
  \<open>provider_type.go\<close> and \<open>rollingupgrade_types.go\<close>.  They have the fields of the structs of \<open>v1beta1\<close> in the
  same order; here every field has an \<open>h\<close> before the name it has there.  \<open>TypeMeta\<close> is left out, as in
  \<open>NativeNode\<close>; the internal types of Kubernetes (\<open>core.Taint\<close>, \<open>core.NodeAddress\<close>) are laid out like
  their versioned counterparts, which the conversions rely on, and share their model.
\<close>

section \<open>The types\<close>

record node_ProviderSpec =
  hpv_Type :: string
  hpv_Value :: "raw_extension option"

record node_ObjectMeta =
  hsom_Name :: string
  hsom_GenerateName :: string
  hsom_Namespace :: string
  hsom_Labels :: gomap
  hsom_Annotations :: gomap
  hsom_OwnerReferences :: "OwnerReference list"

record node_GPUParams =
  hgpu_Driver :: string
  hgpu_CUDA :: string
  hgpu_CUDNN :: string
  hgpu_MIGEnable :: bool
  hgpu_Fabric :: bool

record node_MachineSpec =
  hms_ObjectMeta :: node_ObjectMeta
  hms_DisplayName :: string
  hms_Zone :: string
  hms_SubnetID :: string
  hms_Taints :: "Taint list"
  hms_RuntimeRootDir :: string
  hms_KubeletVersion :: "string option"
  hms_RuntimeVersion :: "string option"
  hms_GPUConfig :: node_GPUParams
  hms_Unschedulable :: bool
  hms_ProviderSpec :: node_ProviderSpec
  hms_ProviderID :: "string option"

record node_NodeReference =
  hnr_Name :: string
  hnr_OSImage :: string
  hnr_Architecture :: string
  hnr_KubeletVersion :: string
  hnr_RuntimeVersion :: string

record node_LastOperation =
  hlo_Description :: "string option"
  hlo_LastUpdated :: "int option"
  hlo_State :: "string option"
  hlo_Type :: "string option"

record node_Condition =
  hcn_Type :: string
  hcn_Status :: string
  hcn_Severity :: string
  hcn_LastProbeTime :: int
  hcn_LastTransitionTime :: int
  hcn_Reason :: string
  hcn_Message :: string

record node_MachineStatus =
  hmst_NodeRef :: "node_NodeReference option"
  hmst_LastUpdated :: "int option"
  hmst_FailureReason :: "string option"
  hmst_FailureMessage :: "string option"
  hmst_ProviderStatus :: "raw_extension option"
  hmst_Addresses :: "(string \<times> string) list"
  hmst_LastOperation :: "node_LastOperation option"
  hmst_Phase :: "string option"
  hmst_Conditions :: "node_Condition list"

record node_Machine =
  hm_ObjectMeta :: ObjectMeta
  hm_Spec :: node_MachineSpec
  hm_Status :: node_MachineStatus

record node_MachineList =
  hml_ListMeta :: ListMeta
  hml_Items :: "node_Machine list"

record node_MachineOperation =
  hmo_Action :: string
  hmo_StopType :: string

record node_LifecycleHook =
  hlh_Name :: string
  hlh_Owner :: string

record node_TagSpecification =
  hts_Name :: string
  hts_Value :: string

record node_GPUConfig =
  hgc_InstanceType :: string
  hgc_Driver :: string
  hgc_CUDA :: string
  hgc_CUDNN :: string
  hgc_MIGEnable :: bool
  hgc_Fabric :: bool

record node_MachineTemplateSpec =
  hmt_ObjectMeta :: node_ObjectMeta
  hmt_Spec :: node_MachineSpec

record node_MachinSetScaling =
  hsc_MinReplicas :: int
  hsc_MaxReplicas :: int
  hsc_CreatePolicy :: "string option"

record node_MachineRollingUpdateStrategy =
  hmru_MaxConfigUnavailable :: "int_or_string option"
  hmru_MaxSteps :: "int_or_string option"

record node_MachineUpdateStrategy =
  hmus_Type :: string
  hmus_RollingUpdate :: "node_MachineRollingUpdateStrategy option"

record node_MachineSetSpec =
  hmss_Type :: string
  hmss_DisplayName :: string
  hmss_Replicas :: "int option"
  hmss_Selector :: "json option"
  hmss_Template :: node_MachineTemplateSpec
  hmss_HealthCheckPolicyName :: "string option"
  hmss_MinReadySeconds :: int
  hmss_DeletePolicy :: string
  hmss_SubnetIDs :: "string list"
  hmss_InstanceTypes :: "string list"
  hmss_Scaling :: node_MachinSetScaling
  hmss_AutoRepair :: "bool option"
  hmss_GPUConfigs :: "node_GPUConfig list"
  hmss_KeyID :: string
  hmss_MachineUpdateStrategy :: node_MachineUpdateStrategy

record node_MachineSetCondition =
  hmsc_Type :: string
  hmsc_Status :: string
  hmsc_LastTransitionTime :: int
  hmsc_Reason :: string
  hmsc_Message :: string

record node_MachineSetStatus =
  hmse_HealthCheckPolicyRevision :: "string option"
  hmse_Replicas :: int
  hmse_FullyLabeledReplicas :: int
  hmse_ReadyReplicas :: int
  hmse_AvailableReplicas :: int
  hmse_ObservedGeneration :: int
  hmse_KubeletVersion :: string
  hmse_RuntimeVersion :: string
  hmse_Conditions :: "node_MachineSetCondition list"

record node_MachineSet =
  hmset_ObjectMeta :: ObjectMeta
  hmset_Spec :: node_MachineSetSpec
  hmset_Status :: node_MachineSetStatus

record node_MachineSetList =
  hmsl_ListMeta :: ListMeta
  hmsl_Items :: "node_MachineSet list"

record node_AutoUpgradeOptions =
  hauo_AutoUpgradeStartTime :: string
  hauo_Duration :: int
  hauo_WeeklyPeriod :: "string list"

record node_UpdateStrategy =
  hus_Type :: string
  hus_MaxUnavailable :: "int_or_string option"
  hus_UpgradeTimeout :: "int option"

record node_RollingUpgradeSpec =
  hrus_MachineSetName :: string
  hrus_AutoUpgrade :: "bool option"
  hrus_UpgradeOptions :: node_AutoUpgradeOptions
  hrus_Components :: "string list"
  hrus_Strategy :: node_UpdateStrategy
  hrus_DesiredKubeletVersion :: string
  hrus_DesiredRuntimeVersion :: string
  hrus_IgnoreUpgradeFailures :: "bool option"

record node_RollingUpgradeCondition =
  hrc_Type :: string
  hrc_Status :: string

record node_RollingUpgradeStatus =
  hrst_Phase :: string
  hrst_CompletePercentage :: string
  hrst_StartTime :: string
  hrst_EndTime :: string
  hrst_MachinesProcessed :: int
  hrst_TotalMachines :: int
  hrst_TotalProcessingTime :: string
  hrst_Conditions :: "node_RollingUpgradeCondition list"

record node_RollingUpgrade =
  hru_ObjectMeta :: ObjectMeta
  hru_Spec :: node_RollingUpgradeSpec
  hru_Status :: node_RollingUpgradeStatus

record node_RollingUpgradeList =
  hrul_ListMeta :: ListMeta
  hrul_Items :: "node_RollingUpgrade list"

section \<open>Reading one as the other\<close>

text \<open>
  A cast through \<open>unsafe.Pointer\<close> reads the memory of a struct as another struct: its first field as the first
  field, its second as the second, and so on, whatever their names; a slice is read element by element.
\<close>

definition as_node_ProviderSpec :: "ProviderSpec \<Rightarrow> node_ProviderSpec" where
  "as_node_ProviderSpec x = \<lparr>hpv_Type = pv_Type x, hpv_Value = pv_Value x\<rparr>"

definition as_v1beta1_ProviderSpec :: "node_ProviderSpec \<Rightarrow> ProviderSpec" where
  "as_v1beta1_ProviderSpec x = \<lparr>pv_Type = hpv_Type x, pv_Value = hpv_Value x\<rparr>"

definition as_node_ObjectMeta :: "SpecObjectMeta \<Rightarrow> node_ObjectMeta" where
  "as_node_ObjectMeta x = \<lparr>hsom_Name = som_Name x, hsom_GenerateName = som_GenerateName x, hsom_Namespace = som_Namespace x,
     hsom_Labels = som_Labels x, hsom_Annotations = som_Annotations x,
     hsom_OwnerReferences = som_OwnerReferences x\<rparr>"

definition as_v1beta1_ObjectMeta :: "node_ObjectMeta \<Rightarrow> SpecObjectMeta" where
  "as_v1beta1_ObjectMeta x = \<lparr>som_Name = hsom_Name x, som_GenerateName = hsom_GenerateName x, som_Namespace = hsom_Namespace x,
     som_Labels = hsom_Labels x, som_Annotations = hsom_Annotations x,
     som_OwnerReferences = hsom_OwnerReferences x\<rparr>"

definition as_node_GPUParams :: "GPUParams \<Rightarrow> node_GPUParams" where
  "as_node_GPUParams x = \<lparr>hgpu_Driver = gpu_Driver x, hgpu_CUDA = gpu_CUDA x, hgpu_CUDNN = gpu_CUDNN x,
     hgpu_MIGEnable = gpu_MIGEnable x, hgpu_Fabric = gpu_Fabric x\<rparr>"

definition as_v1beta1_GPUParams :: "node_GPUParams \<Rightarrow> GPUParams" where
  "as_v1beta1_GPUParams x = \<lparr>gpu_Driver = hgpu_Driver x, gpu_CUDA = hgpu_CUDA x, gpu_CUDNN = hgpu_CUDNN x,
     gpu_MIGEnable = hgpu_MIGEnable x, gpu_Fabric = hgpu_Fabric x\<rparr>"

definition as_node_MachineSpec :: "MachineSpec \<Rightarrow> node_MachineSpec" where
  "as_node_MachineSpec x = \<lparr>hms_ObjectMeta = as_node_ObjectMeta (ms_ObjectMeta x), hms_DisplayName = ms_DisplayName x,
     hms_Zone = ms_Zone x, hms_SubnetID = ms_SubnetID x, hms_Taints = ms_Taints x,
     hms_RuntimeRootDir = ms_RuntimeRootDir x, hms_KubeletVersion = ms_KubeletVersion x,
     hms_RuntimeVersion = ms_RuntimeVersion x, hms_GPUConfig = as_node_GPUParams (ms_GPUConfig x),
     hms_Unschedulable = ms_Unschedulable x, hms_ProviderSpec = as_node_ProviderSpec (ms_ProviderSpec x),
     hms_ProviderID = ms_ProviderID x\<rparr>"

definition as_v1beta1_MachineSpec :: "node_MachineSpec \<Rightarrow> MachineSpec" where
  "as_v1beta1_MachineSpec x = \<lparr>ms_ObjectMeta = as_v1beta1_ObjectMeta (hms_ObjectMeta x), ms_DisplayName = hms_DisplayName x,
     ms_Zone = hms_Zone x, ms_SubnetID = hms_SubnetID x, ms_Taints = hms_Taints x,
     ms_RuntimeRootDir = hms_RuntimeRootDir x, ms_KubeletVersion = hms_KubeletVersion x,
     ms_RuntimeVersion = hms_RuntimeVersion x, ms_GPUConfig = as_v1beta1_GPUParams (hms_GPUConfig x),
     ms_Unschedulable = hms_Unschedulable x, ms_ProviderSpec = as_v1beta1_ProviderSpec (hms_ProviderSpec x),
     ms_ProviderID = hms_ProviderID x\<rparr>"

definition as_node_NodeReference :: "NodeReference \<Rightarrow> node_NodeReference" where
  "as_node_NodeReference x = \<lparr>hnr_Name = nr_Name x, hnr_OSImage = nr_OSImage x, hnr_Architecture = nr_Architecture x,
     hnr_KubeletVersion = nr_KubeletVersion x, hnr_RuntimeVersion = nr_RuntimeVersion x\<rparr>"

definition as_v1beta1_NodeReference :: "node_NodeReference \<Rightarrow> NodeReference" where
  "as_v1beta1_NodeReference x = \<lparr>nr_Name = hnr_Name x, nr_OSImage = hnr_OSImage x, nr_Architecture = hnr_Architecture x,
     nr_KubeletVersion = hnr_KubeletVersion x, nr_RuntimeVersion = hnr_RuntimeVersion x\<rparr>"

definition as_node_LastOperation :: "LastOperation \<Rightarrow> node_LastOperation" where
  "as_node_LastOperation x = \<lparr>hlo_Description = lo_Description x, hlo_LastUpdated = lo_LastUpdated x, hlo_State = lo_State x,
     hlo_Type = lo_Type x\<rparr>"

definition as_v1beta1_LastOperation :: "node_LastOperation \<Rightarrow> LastOperation" where
  "as_v1beta1_LastOperation x = \<lparr>lo_Description = hlo_Description x, lo_LastUpdated = hlo_LastUpdated x, lo_State = hlo_State x,
     lo_Type = hlo_Type x\<rparr>"

definition as_node_Condition :: "Condition \<Rightarrow> node_Condition" where
  "as_node_Condition x = \<lparr>hcn_Type = cn_Type x, hcn_Status = cn_Status x, hcn_Severity = cn_Severity x,
     hcn_LastProbeTime = cn_LastProbeTime x, hcn_LastTransitionTime = cn_LastTransitionTime x,
     hcn_Reason = cn_Reason x, hcn_Message = cn_Message x\<rparr>"

definition as_v1beta1_Condition :: "node_Condition \<Rightarrow> Condition" where
  "as_v1beta1_Condition x = \<lparr>cn_Type = hcn_Type x, cn_Status = hcn_Status x, cn_Severity = hcn_Severity x,
     cn_LastProbeTime = hcn_LastProbeTime x, cn_LastTransitionTime = hcn_LastTransitionTime x,
     cn_Reason = hcn_Reason x, cn_Message = hcn_Message x\<rparr>"

definition as_node_MachineStatus :: "MachineStatus \<Rightarrow> node_MachineStatus" where
  "as_node_MachineStatus x = \<lparr>hmst_NodeRef = map_option as_node_NodeReference (mst_NodeRef x), hmst_LastUpdated = mst_LastUpdated x,
     hmst_FailureReason = mst_FailureReason x, hmst_FailureMessage = mst_FailureMessage x,
     hmst_ProviderStatus = mst_ProviderStatus x, hmst_Addresses = mst_Addresses x,
     hmst_LastOperation = map_option as_node_LastOperation (mst_LastOperation x), hmst_Phase = mst_Phase x,
     hmst_Conditions = map as_node_Condition (mst_Conditions x)\<rparr>"

definition as_v1beta1_MachineStatus :: "node_MachineStatus \<Rightarrow> MachineStatus" where
  "as_v1beta1_MachineStatus x = \<lparr>mst_NodeRef = map_option as_v1beta1_NodeReference (hmst_NodeRef x), mst_LastUpdated = hmst_LastUpdated x,
     mst_FailureReason = hmst_FailureReason x, mst_FailureMessage = hmst_FailureMessage x,
     mst_ProviderStatus = hmst_ProviderStatus x, mst_Addresses = hmst_Addresses x,
     mst_LastOperation = map_option as_v1beta1_LastOperation (hmst_LastOperation x), mst_Phase = hmst_Phase x,
     mst_Conditions = map as_v1beta1_Condition (hmst_Conditions x)\<rparr>"

definition as_node_Machine :: "Machine \<Rightarrow> node_Machine" where
  "as_node_Machine x = \<lparr>hm_ObjectMeta = m_ObjectMeta x, hm_Spec = as_node_MachineSpec (m_Spec x),
     hm_Status = as_node_MachineStatus (m_Status x)\<rparr>"

definition as_v1beta1_Machine :: "node_Machine \<Rightarrow> Machine" where
  "as_v1beta1_Machine x = \<lparr>m_ObjectMeta = hm_ObjectMeta x, m_Spec = as_v1beta1_MachineSpec (hm_Spec x),
     m_Status = as_v1beta1_MachineStatus (hm_Status x)\<rparr>"

definition as_node_MachineList :: "MachineList \<Rightarrow> node_MachineList" where
  "as_node_MachineList x = \<lparr>hml_ListMeta = ml_ListMeta x, hml_Items = map as_node_Machine (ml_Items x)\<rparr>"

definition as_v1beta1_MachineList :: "node_MachineList \<Rightarrow> MachineList" where
  "as_v1beta1_MachineList x = \<lparr>ml_ListMeta = hml_ListMeta x, ml_Items = map as_v1beta1_Machine (hml_Items x)\<rparr>"

definition as_node_MachineOperation :: "MachineOperation \<Rightarrow> node_MachineOperation" where
  "as_node_MachineOperation x = \<lparr>hmo_Action = mo_Action x, hmo_StopType = mo_StopType x\<rparr>"

definition as_v1beta1_MachineOperation :: "node_MachineOperation \<Rightarrow> MachineOperation" where
  "as_v1beta1_MachineOperation x = \<lparr>mo_Action = hmo_Action x, mo_StopType = hmo_StopType x\<rparr>"

definition as_node_LifecycleHook :: "LifecycleHook \<Rightarrow> node_LifecycleHook" where
  "as_node_LifecycleHook x = \<lparr>hlh_Name = lh_Name x, hlh_Owner = lh_Owner x\<rparr>"

definition as_v1beta1_LifecycleHook :: "node_LifecycleHook \<Rightarrow> LifecycleHook" where
  "as_v1beta1_LifecycleHook x = \<lparr>lh_Name = hlh_Name x, lh_Owner = hlh_Owner x\<rparr>"

definition as_node_TagSpecification :: "TagSpecification \<Rightarrow> node_TagSpecification" where
  "as_node_TagSpecification x = \<lparr>hts_Name = ts_Name x, hts_Value = ts_Value x\<rparr>"

definition as_v1beta1_TagSpecification :: "node_TagSpecification \<Rightarrow> TagSpecification" where
  "as_v1beta1_TagSpecification x = \<lparr>ts_Name = hts_Name x, ts_Value = hts_Value x\<rparr>"

definition as_node_GPUConfig :: "GPUConfig \<Rightarrow> node_GPUConfig" where
  "as_node_GPUConfig x = \<lparr>hgc_InstanceType = gc_InstanceType x, hgc_Driver = gc_Driver x, hgc_CUDA = gc_CUDA x,
     hgc_CUDNN = gc_CUDNN x, hgc_MIGEnable = gc_MIGEnable x, hgc_Fabric = gc_Fabric x\<rparr>"

definition as_v1beta1_GPUConfig :: "node_GPUConfig \<Rightarrow> GPUConfig" where
  "as_v1beta1_GPUConfig x = \<lparr>gc_InstanceType = hgc_InstanceType x, gc_Driver = hgc_Driver x, gc_CUDA = hgc_CUDA x,
     gc_CUDNN = hgc_CUDNN x, gc_MIGEnable = hgc_MIGEnable x, gc_Fabric = hgc_Fabric x\<rparr>"

definition as_node_MachineTemplateSpec :: "MachineTemplateSpec \<Rightarrow> node_MachineTemplateSpec" where
  "as_node_MachineTemplateSpec x = \<lparr>hmt_ObjectMeta = as_node_ObjectMeta (mt_ObjectMeta x), hmt_Spec = as_node_MachineSpec (mt_Spec x)\<rparr>"

definition as_v1beta1_MachineTemplateSpec :: "node_MachineTemplateSpec \<Rightarrow> MachineTemplateSpec" where
  "as_v1beta1_MachineTemplateSpec x = \<lparr>mt_ObjectMeta = as_v1beta1_ObjectMeta (hmt_ObjectMeta x), mt_Spec = as_v1beta1_MachineSpec (hmt_Spec x)\<rparr>"

definition as_node_MachinSetScaling :: "MachinSetScaling \<Rightarrow> node_MachinSetScaling" where
  "as_node_MachinSetScaling x = \<lparr>hsc_MinReplicas = sc_MinReplicas x, hsc_MaxReplicas = sc_MaxReplicas x,
     hsc_CreatePolicy = sc_CreatePolicy x\<rparr>"

definition as_v1beta1_MachinSetScaling :: "node_MachinSetScaling \<Rightarrow> MachinSetScaling" where
  "as_v1beta1_MachinSetScaling x = \<lparr>sc_MinReplicas = hsc_MinReplicas x, sc_MaxReplicas = hsc_MaxReplicas x,
     sc_CreatePolicy = hsc_CreatePolicy x\<rparr>"

definition as_node_MachineRollingUpdateStrategy :: "MachineRollingUpdateStrategy \<Rightarrow> node_MachineRollingUpdateStrategy" where
  "as_node_MachineRollingUpdateStrategy x = \<lparr>hmru_MaxConfigUnavailable = mru_MaxConfigUnavailable x, hmru_MaxSteps = mru_MaxSteps x\<rparr>"

definition as_v1beta1_MachineRollingUpdateStrategy :: "node_MachineRollingUpdateStrategy \<Rightarrow> MachineRollingUpdateStrategy" where
  "as_v1beta1_MachineRollingUpdateStrategy x = \<lparr>mru_MaxConfigUnavailable = hmru_MaxConfigUnavailable x, mru_MaxSteps = hmru_MaxSteps x\<rparr>"

definition as_node_MachineUpdateStrategy :: "MachineUpdateStrategy \<Rightarrow> node_MachineUpdateStrategy" where
  "as_node_MachineUpdateStrategy x = \<lparr>hmus_Type = mus_Type x,
     hmus_RollingUpdate = map_option as_node_MachineRollingUpdateStrategy (mus_RollingUpdate x)\<rparr>"

definition as_v1beta1_MachineUpdateStrategy :: "node_MachineUpdateStrategy \<Rightarrow> MachineUpdateStrategy" where
  "as_v1beta1_MachineUpdateStrategy x = \<lparr>mus_Type = hmus_Type x,
     mus_RollingUpdate = map_option as_v1beta1_MachineRollingUpdateStrategy (hmus_RollingUpdate x)\<rparr>"

definition as_node_MachineSetSpec :: "MachineSetSpec \<Rightarrow> node_MachineSetSpec" where
  "as_node_MachineSetSpec x = \<lparr>hmss_Type = mss_Type x, hmss_DisplayName = mss_DisplayName x, hmss_Replicas = mss_Replicas x,
     hmss_Selector = mss_Selector x, hmss_Template = as_node_MachineTemplateSpec (mss_Template x),
     hmss_HealthCheckPolicyName = mss_HealthCheckPolicyName x, hmss_MinReadySeconds = mss_MinReadySeconds x,
     hmss_DeletePolicy = mss_DeletePolicy x, hmss_SubnetIDs = mss_SubnetIDs x,
     hmss_InstanceTypes = mss_InstanceTypes x, hmss_Scaling = as_node_MachinSetScaling (mss_Scaling x),
     hmss_AutoRepair = mss_AutoRepair x, hmss_GPUConfigs = map as_node_GPUConfig (mss_GPUConfigs x),
     hmss_KeyID = mss_KeyID x,
     hmss_MachineUpdateStrategy = as_node_MachineUpdateStrategy (mss_MachineUpdateStrategy x)\<rparr>"

definition as_v1beta1_MachineSetSpec :: "node_MachineSetSpec \<Rightarrow> MachineSetSpec" where
  "as_v1beta1_MachineSetSpec x = \<lparr>mss_Type = hmss_Type x, mss_DisplayName = hmss_DisplayName x, mss_Replicas = hmss_Replicas x,
     mss_Selector = hmss_Selector x, mss_Template = as_v1beta1_MachineTemplateSpec (hmss_Template x),
     mss_HealthCheckPolicyName = hmss_HealthCheckPolicyName x, mss_MinReadySeconds = hmss_MinReadySeconds x,
     mss_DeletePolicy = hmss_DeletePolicy x, mss_SubnetIDs = hmss_SubnetIDs x,
     mss_InstanceTypes = hmss_InstanceTypes x, mss_Scaling = as_v1beta1_MachinSetScaling (hmss_Scaling x),
     mss_AutoRepair = hmss_AutoRepair x, mss_GPUConfigs = map as_v1beta1_GPUConfig (hmss_GPUConfigs x),
     mss_KeyID = hmss_KeyID x,
     mss_MachineUpdateStrategy = as_v1beta1_MachineUpdateStrategy (hmss_MachineUpdateStrategy x)\<rparr>"

definition as_node_MachineSetCondition :: "MachineSetCondition \<Rightarrow> node_MachineSetCondition" where
  "as_node_MachineSetCondition x = \<lparr>hmsc_Type = msc_Type x, hmsc_Status = msc_Status x, hmsc_LastTransitionTime = msc_LastTransitionTime x,
     hmsc_Reason = msc_Reason x, hmsc_Message = msc_Message x\<rparr>"

definition as_v1beta1_MachineSetCondition :: "node_MachineSetCondition \<Rightarrow> MachineSetCondition" where
  "as_v1beta1_MachineSetCondition x = \<lparr>msc_Type = hmsc_Type x, msc_Status = hmsc_Status x, msc_LastTransitionTime = hmsc_LastTransitionTime x,
     msc_Reason = hmsc_Reason x, msc_Message = hmsc_Message x\<rparr>"

definition as_node_MachineSetStatus :: "MachineSetStatus \<Rightarrow> node_MachineSetStatus" where
  "as_node_MachineSetStatus x = \<lparr>hmse_HealthCheckPolicyRevision = mse_HealthCheckPolicyRevision x, hmse_Replicas = mse_Replicas x,
     hmse_FullyLabeledReplicas = mse_FullyLabeledReplicas x, hmse_ReadyReplicas = mse_ReadyReplicas x,
     hmse_AvailableReplicas = mse_AvailableReplicas x, hmse_ObservedGeneration = mse_ObservedGeneration x,
     hmse_KubeletVersion = mse_KubeletVersion x, hmse_RuntimeVersion = mse_RuntimeVersion x,
     hmse_Conditions = map as_node_MachineSetCondition (mse_Conditions x)\<rparr>"

definition as_v1beta1_MachineSetStatus :: "node_MachineSetStatus \<Rightarrow> MachineSetStatus" where
  "as_v1beta1_MachineSetStatus x = \<lparr>mse_HealthCheckPolicyRevision = hmse_HealthCheckPolicyRevision x, mse_Replicas = hmse_Replicas x,
     mse_FullyLabeledReplicas = hmse_FullyLabeledReplicas x, mse_ReadyReplicas = hmse_ReadyReplicas x,
     mse_AvailableReplicas = hmse_AvailableReplicas x, mse_ObservedGeneration = hmse_ObservedGeneration x,
     mse_KubeletVersion = hmse_KubeletVersion x, mse_RuntimeVersion = hmse_RuntimeVersion x,
     mse_Conditions = map as_v1beta1_MachineSetCondition (hmse_Conditions x)\<rparr>"

definition as_node_MachineSet :: "MachineSet \<Rightarrow> node_MachineSet" where
  "as_node_MachineSet x = \<lparr>hmset_ObjectMeta = mset_ObjectMeta x, hmset_Spec = as_node_MachineSetSpec (mset_Spec x),
     hmset_Status = as_node_MachineSetStatus (mset_Status x)\<rparr>"

definition as_v1beta1_MachineSet :: "node_MachineSet \<Rightarrow> MachineSet" where
  "as_v1beta1_MachineSet x = \<lparr>mset_ObjectMeta = hmset_ObjectMeta x, mset_Spec = as_v1beta1_MachineSetSpec (hmset_Spec x),
     mset_Status = as_v1beta1_MachineSetStatus (hmset_Status x)\<rparr>"

definition as_node_MachineSetList :: "MachineSetList \<Rightarrow> node_MachineSetList" where
  "as_node_MachineSetList x = \<lparr>hmsl_ListMeta = msl_ListMeta x, hmsl_Items = map as_node_MachineSet (msl_Items x)\<rparr>"

definition as_v1beta1_MachineSetList :: "node_MachineSetList \<Rightarrow> MachineSetList" where
  "as_v1beta1_MachineSetList x = \<lparr>msl_ListMeta = hmsl_ListMeta x, msl_Items = map as_v1beta1_MachineSet (hmsl_Items x)\<rparr>"

definition as_node_AutoUpgradeOptions :: "AutoUpgradeOptions \<Rightarrow> node_AutoUpgradeOptions" where
  "as_node_AutoUpgradeOptions x = \<lparr>hauo_AutoUpgradeStartTime = auo_AutoUpgradeStartTime x, hauo_Duration = auo_Duration x,
     hauo_WeeklyPeriod = auo_WeeklyPeriod x\<rparr>"

definition as_v1beta1_AutoUpgradeOptions :: "node_AutoUpgradeOptions \<Rightarrow> AutoUpgradeOptions" where
  "as_v1beta1_AutoUpgradeOptions x = \<lparr>auo_AutoUpgradeStartTime = hauo_AutoUpgradeStartTime x, auo_Duration = hauo_Duration x,
     auo_WeeklyPeriod = hauo_WeeklyPeriod x\<rparr>"

definition as_node_UpdateStrategy :: "UpdateStrategy \<Rightarrow> node_UpdateStrategy" where
  "as_node_UpdateStrategy x = \<lparr>hus_Type = us_Type x, hus_MaxUnavailable = us_MaxUnavailable x, hus_UpgradeTimeout = us_UpgradeTimeout x\<rparr>"

definition as_v1beta1_UpdateStrategy :: "node_UpdateStrategy \<Rightarrow> UpdateStrategy" where
  "as_v1beta1_UpdateStrategy x = \<lparr>us_Type = hus_Type x, us_MaxUnavailable = hus_MaxUnavailable x, us_UpgradeTimeout = hus_UpgradeTimeout x\<rparr>"

definition as_node_RollingUpgradeSpec :: "RollingUpgradeSpec \<Rightarrow> node_RollingUpgradeSpec" where
  "as_node_RollingUpgradeSpec x = \<lparr>hrus_MachineSetName = rus_MachineSetName x, hrus_AutoUpgrade = rus_AutoUpgrade x,
     hrus_UpgradeOptions = as_node_AutoUpgradeOptions (rus_UpgradeOptions x),
     hrus_Components = rus_Components x, hrus_Strategy = as_node_UpdateStrategy (rus_Strategy x),
     hrus_DesiredKubeletVersion = rus_DesiredKubeletVersion x,
     hrus_DesiredRuntimeVersion = rus_DesiredRuntimeVersion x,
     hrus_IgnoreUpgradeFailures = rus_IgnoreUpgradeFailures x\<rparr>"

definition as_v1beta1_RollingUpgradeSpec :: "node_RollingUpgradeSpec \<Rightarrow> RollingUpgradeSpec" where
  "as_v1beta1_RollingUpgradeSpec x = \<lparr>rus_MachineSetName = hrus_MachineSetName x, rus_AutoUpgrade = hrus_AutoUpgrade x,
     rus_UpgradeOptions = as_v1beta1_AutoUpgradeOptions (hrus_UpgradeOptions x),
     rus_Components = hrus_Components x, rus_Strategy = as_v1beta1_UpdateStrategy (hrus_Strategy x),
     rus_DesiredKubeletVersion = hrus_DesiredKubeletVersion x,
     rus_DesiredRuntimeVersion = hrus_DesiredRuntimeVersion x,
     rus_IgnoreUpgradeFailures = hrus_IgnoreUpgradeFailures x\<rparr>"

definition as_node_RollingUpgradeCondition :: "RollingUpgradeCondition \<Rightarrow> node_RollingUpgradeCondition" where
  "as_node_RollingUpgradeCondition x = \<lparr>hrc_Type = rc_Type x, hrc_Status = rc_Status x\<rparr>"

definition as_v1beta1_RollingUpgradeCondition :: "node_RollingUpgradeCondition \<Rightarrow> RollingUpgradeCondition" where
  "as_v1beta1_RollingUpgradeCondition x = \<lparr>rc_Type = hrc_Type x, rc_Status = hrc_Status x\<rparr>"

definition as_node_RollingUpgradeStatus :: "RollingUpgradeStatus \<Rightarrow> node_RollingUpgradeStatus" where
  "as_node_RollingUpgradeStatus x = \<lparr>hrst_Phase = rst_Phase x, hrst_CompletePercentage = rst_CompletePercentage x,
     hrst_StartTime = rst_StartTime x, hrst_EndTime = rst_EndTime x,
     hrst_MachinesProcessed = rst_MachinesProcessed x, hrst_TotalMachines = rst_TotalMachines x,
     hrst_TotalProcessingTime = rst_TotalProcessingTime x,
     hrst_Conditions = map as_node_RollingUpgradeCondition (rst_Conditions x)\<rparr>"

definition as_v1beta1_RollingUpgradeStatus :: "node_RollingUpgradeStatus \<Rightarrow> RollingUpgradeStatus" where
  "as_v1beta1_RollingUpgradeStatus x = \<lparr>rst_Phase = hrst_Phase x, rst_CompletePercentage = hrst_CompletePercentage x,
     rst_StartTime = hrst_StartTime x, rst_EndTime = hrst_EndTime x,
     rst_MachinesProcessed = hrst_MachinesProcessed x, rst_TotalMachines = hrst_TotalMachines x,
     rst_TotalProcessingTime = hrst_TotalProcessingTime x,
     rst_Conditions = map as_v1beta1_RollingUpgradeCondition (hrst_Conditions x)\<rparr>"

definition as_node_RollingUpgrade :: "RollingUpgrade \<Rightarrow> node_RollingUpgrade" where
  "as_node_RollingUpgrade x = \<lparr>hru_ObjectMeta = ru_ObjectMeta x, hru_Spec = as_node_RollingUpgradeSpec (ru_Spec x),
     hru_Status = as_node_RollingUpgradeStatus (ru_Status x)\<rparr>"

definition as_v1beta1_RollingUpgrade :: "node_RollingUpgrade \<Rightarrow> RollingUpgrade" where
  "as_v1beta1_RollingUpgrade x = \<lparr>ru_ObjectMeta = hru_ObjectMeta x, ru_Spec = as_v1beta1_RollingUpgradeSpec (hru_Spec x),
     ru_Status = as_v1beta1_RollingUpgradeStatus (hru_Status x)\<rparr>"

definition as_node_RollingUpgradeList :: "RollingUpgradeList \<Rightarrow> node_RollingUpgradeList" where
  "as_node_RollingUpgradeList x = \<lparr>hrul_ListMeta = rul_ListMeta x, hrul_Items = map as_node_RollingUpgrade (rul_Items x)\<rparr>"

definition as_v1beta1_RollingUpgradeList :: "node_RollingUpgradeList \<Rightarrow> RollingUpgradeList" where
  "as_v1beta1_RollingUpgradeList x = \<lparr>rul_ListMeta = hrul_ListMeta x, rul_Items = map as_v1beta1_RollingUpgrade (hrul_Items x)\<rparr>"

lemmas as_node_defs =
  as_node_ProviderSpec_def as_node_ObjectMeta_def as_node_GPUParams_def as_node_MachineSpec_def
  as_node_NodeReference_def as_node_LastOperation_def as_node_Condition_def as_node_MachineStatus_def
  as_node_Machine_def as_node_MachineList_def as_node_MachineOperation_def as_node_LifecycleHook_def
  as_node_TagSpecification_def as_node_GPUConfig_def as_node_MachineTemplateSpec_def
  as_node_MachinSetScaling_def as_node_MachineRollingUpdateStrategy_def as_node_MachineUpdateStrategy_def
  as_node_MachineSetSpec_def as_node_MachineSetCondition_def as_node_MachineSetStatus_def as_node_MachineSet_def
  as_node_MachineSetList_def as_node_AutoUpgradeOptions_def as_node_UpdateStrategy_def
  as_node_RollingUpgradeSpec_def as_node_RollingUpgradeCondition_def as_node_RollingUpgradeStatus_def
  as_node_RollingUpgrade_def as_node_RollingUpgradeList_def

lemmas as_v1beta1_defs =
  as_v1beta1_ProviderSpec_def as_v1beta1_ObjectMeta_def as_v1beta1_GPUParams_def as_v1beta1_MachineSpec_def
  as_v1beta1_NodeReference_def as_v1beta1_LastOperation_def as_v1beta1_Condition_def
  as_v1beta1_MachineStatus_def as_v1beta1_Machine_def as_v1beta1_MachineList_def as_v1beta1_MachineOperation_def
  as_v1beta1_LifecycleHook_def as_v1beta1_TagSpecification_def as_v1beta1_GPUConfig_def
  as_v1beta1_MachineTemplateSpec_def as_v1beta1_MachinSetScaling_def as_v1beta1_MachineRollingUpdateStrategy_def
  as_v1beta1_MachineUpdateStrategy_def as_v1beta1_MachineSetSpec_def as_v1beta1_MachineSetCondition_def
  as_v1beta1_MachineSetStatus_def as_v1beta1_MachineSet_def as_v1beta1_MachineSetList_def
  as_v1beta1_AutoUpgradeOptions_def as_v1beta1_UpdateStrategy_def as_v1beta1_RollingUpgradeSpec_def
  as_v1beta1_RollingUpgradeCondition_def as_v1beta1_RollingUpgradeStatus_def as_v1beta1_RollingUpgrade_def
  as_v1beta1_RollingUpgradeList_def

text \<open>The layouts fit: nothing is lost on the way to the hub version and back.\<close>

named_theorems casts "reading an object as the other version and back"

lemma as_ProviderSpec_back [casts]: "as_v1beta1_ProviderSpec (as_node_ProviderSpec x) = x" "as_node_ProviderSpec (as_v1beta1_ProviderSpec y) = y"
  by (simp_all add: as_node_ProviderSpec_def as_v1beta1_ProviderSpec_def)

lemma as_ObjectMeta_back [casts]: "as_v1beta1_ObjectMeta (as_node_ObjectMeta x) = x" "as_node_ObjectMeta (as_v1beta1_ObjectMeta y) = y"
  by (simp_all add: as_node_ObjectMeta_def as_v1beta1_ObjectMeta_def)

lemma as_GPUParams_back [casts]: "as_v1beta1_GPUParams (as_node_GPUParams x) = x" "as_node_GPUParams (as_v1beta1_GPUParams y) = y"
  by (simp_all add: as_node_GPUParams_def as_v1beta1_GPUParams_def)

lemma as_MachineSpec_back [casts]: "as_v1beta1_MachineSpec (as_node_MachineSpec x) = x" "as_node_MachineSpec (as_v1beta1_MachineSpec y) = y"
  by (simp_all add: as_node_MachineSpec_def as_v1beta1_MachineSpec_def option.map_comp o_def option.map_ident casts)

lemma as_NodeReference_back [casts]: "as_v1beta1_NodeReference (as_node_NodeReference x) = x" "as_node_NodeReference (as_v1beta1_NodeReference y) = y"
  by (simp_all add: as_node_NodeReference_def as_v1beta1_NodeReference_def)

lemma as_LastOperation_back [casts]: "as_v1beta1_LastOperation (as_node_LastOperation x) = x" "as_node_LastOperation (as_v1beta1_LastOperation y) = y"
  by (simp_all add: as_node_LastOperation_def as_v1beta1_LastOperation_def)

lemma as_Condition_back [casts]: "as_v1beta1_Condition (as_node_Condition x) = x" "as_node_Condition (as_v1beta1_Condition y) = y"
  by (simp_all add: as_node_Condition_def as_v1beta1_Condition_def)

lemma as_MachineStatus_back [casts]: "as_v1beta1_MachineStatus (as_node_MachineStatus x) = x" "as_node_MachineStatus (as_v1beta1_MachineStatus y) = y"
  by (simp_all add: as_node_MachineStatus_def as_v1beta1_MachineStatus_def option.map_comp o_def option.map_ident casts)

lemma as_Machine_back [casts]: "as_v1beta1_Machine (as_node_Machine x) = x" "as_node_Machine (as_v1beta1_Machine y) = y"
  by (simp_all add: as_node_Machine_def as_v1beta1_Machine_def option.map_comp o_def option.map_ident casts)

lemma as_MachineList_back [casts]: "as_v1beta1_MachineList (as_node_MachineList x) = x" "as_node_MachineList (as_v1beta1_MachineList y) = y"
  by (simp_all add: as_node_MachineList_def as_v1beta1_MachineList_def option.map_comp o_def option.map_ident casts)

lemma as_MachineOperation_back [casts]: "as_v1beta1_MachineOperation (as_node_MachineOperation x) = x" "as_node_MachineOperation (as_v1beta1_MachineOperation y) = y"
  by (simp_all add: as_node_MachineOperation_def as_v1beta1_MachineOperation_def)

lemma as_LifecycleHook_back [casts]: "as_v1beta1_LifecycleHook (as_node_LifecycleHook x) = x" "as_node_LifecycleHook (as_v1beta1_LifecycleHook y) = y"
  by (simp_all add: as_node_LifecycleHook_def as_v1beta1_LifecycleHook_def)

lemma as_TagSpecification_back [casts]: "as_v1beta1_TagSpecification (as_node_TagSpecification x) = x" "as_node_TagSpecification (as_v1beta1_TagSpecification y) = y"
  by (simp_all add: as_node_TagSpecification_def as_v1beta1_TagSpecification_def)

lemma as_GPUConfig_back [casts]: "as_v1beta1_GPUConfig (as_node_GPUConfig x) = x" "as_node_GPUConfig (as_v1beta1_GPUConfig y) = y"
  by (simp_all add: as_node_GPUConfig_def as_v1beta1_GPUConfig_def)

lemma as_MachineTemplateSpec_back [casts]: "as_v1beta1_MachineTemplateSpec (as_node_MachineTemplateSpec x) = x" "as_node_MachineTemplateSpec (as_v1beta1_MachineTemplateSpec y) = y"
  by (simp_all add: as_node_MachineTemplateSpec_def as_v1beta1_MachineTemplateSpec_def option.map_comp o_def option.map_ident casts)

lemma as_MachinSetScaling_back [casts]: "as_v1beta1_MachinSetScaling (as_node_MachinSetScaling x) = x" "as_node_MachinSetScaling (as_v1beta1_MachinSetScaling y) = y"
  by (simp_all add: as_node_MachinSetScaling_def as_v1beta1_MachinSetScaling_def)

lemma as_MachineRollingUpdateStrategy_back [casts]: "as_v1beta1_MachineRollingUpdateStrategy (as_node_MachineRollingUpdateStrategy x) = x" "as_node_MachineRollingUpdateStrategy (as_v1beta1_MachineRollingUpdateStrategy y) = y"
  by (simp_all add: as_node_MachineRollingUpdateStrategy_def as_v1beta1_MachineRollingUpdateStrategy_def)

lemma as_MachineUpdateStrategy_back [casts]: "as_v1beta1_MachineUpdateStrategy (as_node_MachineUpdateStrategy x) = x" "as_node_MachineUpdateStrategy (as_v1beta1_MachineUpdateStrategy y) = y"
  by (simp_all add: as_node_MachineUpdateStrategy_def as_v1beta1_MachineUpdateStrategy_def option.map_comp o_def option.map_ident casts)

lemma as_MachineSetSpec_back [casts]: "as_v1beta1_MachineSetSpec (as_node_MachineSetSpec x) = x" "as_node_MachineSetSpec (as_v1beta1_MachineSetSpec y) = y"
  by (simp_all add: as_node_MachineSetSpec_def as_v1beta1_MachineSetSpec_def option.map_comp o_def option.map_ident casts)

lemma as_MachineSetCondition_back [casts]: "as_v1beta1_MachineSetCondition (as_node_MachineSetCondition x) = x" "as_node_MachineSetCondition (as_v1beta1_MachineSetCondition y) = y"
  by (simp_all add: as_node_MachineSetCondition_def as_v1beta1_MachineSetCondition_def)

lemma as_MachineSetStatus_back [casts]: "as_v1beta1_MachineSetStatus (as_node_MachineSetStatus x) = x" "as_node_MachineSetStatus (as_v1beta1_MachineSetStatus y) = y"
  by (simp_all add: as_node_MachineSetStatus_def as_v1beta1_MachineSetStatus_def option.map_comp o_def option.map_ident casts)

lemma as_MachineSet_back [casts]: "as_v1beta1_MachineSet (as_node_MachineSet x) = x" "as_node_MachineSet (as_v1beta1_MachineSet y) = y"
  by (simp_all add: as_node_MachineSet_def as_v1beta1_MachineSet_def option.map_comp o_def option.map_ident casts)

lemma as_MachineSetList_back [casts]: "as_v1beta1_MachineSetList (as_node_MachineSetList x) = x" "as_node_MachineSetList (as_v1beta1_MachineSetList y) = y"
  by (simp_all add: as_node_MachineSetList_def as_v1beta1_MachineSetList_def option.map_comp o_def option.map_ident casts)

lemma as_AutoUpgradeOptions_back [casts]: "as_v1beta1_AutoUpgradeOptions (as_node_AutoUpgradeOptions x) = x" "as_node_AutoUpgradeOptions (as_v1beta1_AutoUpgradeOptions y) = y"
  by (simp_all add: as_node_AutoUpgradeOptions_def as_v1beta1_AutoUpgradeOptions_def)

lemma as_UpdateStrategy_back [casts]: "as_v1beta1_UpdateStrategy (as_node_UpdateStrategy x) = x" "as_node_UpdateStrategy (as_v1beta1_UpdateStrategy y) = y"
  by (simp_all add: as_node_UpdateStrategy_def as_v1beta1_UpdateStrategy_def)

lemma as_RollingUpgradeSpec_back [casts]: "as_v1beta1_RollingUpgradeSpec (as_node_RollingUpgradeSpec x) = x" "as_node_RollingUpgradeSpec (as_v1beta1_RollingUpgradeSpec y) = y"
  by (simp_all add: as_node_RollingUpgradeSpec_def as_v1beta1_RollingUpgradeSpec_def option.map_comp o_def option.map_ident casts)

lemma as_RollingUpgradeCondition_back [casts]: "as_v1beta1_RollingUpgradeCondition (as_node_RollingUpgradeCondition x) = x" "as_node_RollingUpgradeCondition (as_v1beta1_RollingUpgradeCondition y) = y"
  by (simp_all add: as_node_RollingUpgradeCondition_def as_v1beta1_RollingUpgradeCondition_def)

lemma as_RollingUpgradeStatus_back [casts]: "as_v1beta1_RollingUpgradeStatus (as_node_RollingUpgradeStatus x) = x" "as_node_RollingUpgradeStatus (as_v1beta1_RollingUpgradeStatus y) = y"
  by (simp_all add: as_node_RollingUpgradeStatus_def as_v1beta1_RollingUpgradeStatus_def option.map_comp o_def option.map_ident casts)

lemma as_RollingUpgrade_back [casts]: "as_v1beta1_RollingUpgrade (as_node_RollingUpgrade x) = x" "as_node_RollingUpgrade (as_v1beta1_RollingUpgrade y) = y"
  by (simp_all add: as_node_RollingUpgrade_def as_v1beta1_RollingUpgrade_def option.map_comp o_def option.map_ident casts)

lemma as_RollingUpgradeList_back [casts]: "as_v1beta1_RollingUpgradeList (as_node_RollingUpgradeList x) = x" "as_node_RollingUpgradeList (as_v1beta1_RollingUpgradeList y) = y"
  by (simp_all add: as_node_RollingUpgradeList_def as_v1beta1_RollingUpgradeList_def option.map_comp o_def option.map_ident casts)

end
