(* ===== verification/Conversions.thy ===== *)
theory Conversions
  imports Hub
begin

text \<open>
  The conversions between the version \<open>v1beta1\<close> of the node API and its hub version
  (\<open>v1beta1/zz_generated.conversion.go\<close>).  A conversion writes the fields of an object that is there already; what
  it does not write stays.  Each definition stands for an \<open>autoConvert\<close> function and the \<open>Convert\<close> function that
  only calls it; structs are converted field by field in the order of the code, pointers to structs and slices
  of structs are cast.
\<close>

section \<open>The conversions\<close>

definition Convert_v1beta1_ProviderSpec_To_node_ProviderSpec ::
  "ProviderSpec \<Rightarrow> node_ProviderSpec \<Rightarrow> node_ProviderSpec outcome" where
  "Convert_v1beta1_ProviderSpec_To_node_ProviderSpec src out =
     Ok (out\<lparr>hpv_Type := pv_Type src, hpv_Value := pv_Value src\<rparr>)"

definition Convert_node_ProviderSpec_To_v1beta1_ProviderSpec ::
  "node_ProviderSpec \<Rightarrow> ProviderSpec \<Rightarrow> ProviderSpec outcome" where
  "Convert_node_ProviderSpec_To_v1beta1_ProviderSpec src out =
     Ok (out\<lparr>pv_Type := hpv_Type src, pv_Value := hpv_Value src\<rparr>)"

definition Convert_v1beta1_ObjectMeta_To_node_ObjectMeta ::
  "SpecObjectMeta \<Rightarrow> node_ObjectMeta \<Rightarrow> node_ObjectMeta outcome" where
  "Convert_v1beta1_ObjectMeta_To_node_ObjectMeta src out =
     Ok (out\<lparr>hsom_Name := som_Name src, hsom_GenerateName := som_GenerateName src,
       hsom_Namespace := som_Namespace src, hsom_Labels := som_Labels src,
       hsom_Annotations := som_Annotations src, hsom_OwnerReferences := som_OwnerReferences src\<rparr>)"

definition Convert_node_ObjectMeta_To_v1beta1_ObjectMeta ::
  "node_ObjectMeta \<Rightarrow> SpecObjectMeta \<Rightarrow> SpecObjectMeta outcome" where
  "Convert_node_ObjectMeta_To_v1beta1_ObjectMeta src out =
     Ok (out\<lparr>som_Name := hsom_Name src, som_GenerateName := hsom_GenerateName src,
       som_Namespace := hsom_Namespace src, som_Labels := hsom_Labels src,
       som_Annotations := hsom_Annotations src, som_OwnerReferences := hsom_OwnerReferences src\<rparr>)"

definition Convert_v1beta1_GPUParams_To_node_GPUParams ::
  "GPUParams \<Rightarrow> node_GPUParams \<Rightarrow> node_GPUParams outcome" where
  "Convert_v1beta1_GPUParams_To_node_GPUParams src out =
     Ok (out\<lparr>hgpu_Driver := gpu_Driver src, hgpu_CUDA := gpu_CUDA src, hgpu_CUDNN := gpu_CUDNN src,
       hgpu_MIGEnable := gpu_MIGEnable src, hgpu_Fabric := gpu_Fabric src\<rparr>)"

definition Convert_node_GPUParams_To_v1beta1_GPUParams ::
  "node_GPUParams \<Rightarrow> GPUParams \<Rightarrow> GPUParams outcome" where
  "Convert_node_GPUParams_To_v1beta1_GPUParams src out =
     Ok (out\<lparr>gpu_Driver := hgpu_Driver src, gpu_CUDA := hgpu_CUDA src, gpu_CUDNN := hgpu_CUDNN src,
       gpu_MIGEnable := hgpu_MIGEnable src, gpu_Fabric := hgpu_Fabric src\<rparr>)"

definition Convert_v1beta1_MachineSpec_To_node_MachineSpec ::
  "MachineSpec \<Rightarrow> node_MachineSpec \<Rightarrow> node_MachineSpec outcome" where
  "Convert_v1beta1_MachineSpec_To_node_MachineSpec src out =
     obind (Convert_v1beta1_ObjectMeta_To_node_ObjectMeta (ms_ObjectMeta src) (hms_ObjectMeta out)) (\<lambda>r.
     let out = out\<lparr>hms_ObjectMeta := r\<rparr> in
     (let out = out\<lparr>hms_DisplayName := ms_DisplayName src, hms_Zone := ms_Zone src, hms_SubnetID := ms_SubnetID src,
        hms_Taints := ms_Taints src, hms_RuntimeRootDir := ms_RuntimeRootDir src,
        hms_KubeletVersion := ms_KubeletVersion src, hms_RuntimeVersion := ms_RuntimeVersion src\<rparr> in
     obind (Convert_v1beta1_GPUParams_To_node_GPUParams (ms_GPUConfig src) (hms_GPUConfig out)) (\<lambda>r.
     let out = out\<lparr>hms_GPUConfig := r\<rparr> in
     (let out = out\<lparr>hms_Unschedulable := ms_Unschedulable src\<rparr> in
     obind (Convert_v1beta1_ProviderSpec_To_node_ProviderSpec (ms_ProviderSpec src) (hms_ProviderSpec out)) (\<lambda>r.
     let out = out\<lparr>hms_ProviderSpec := r\<rparr> in
     Ok (out\<lparr>hms_ProviderID := ms_ProviderID src\<rparr>))))))"

definition Convert_node_MachineSpec_To_v1beta1_MachineSpec ::
  "node_MachineSpec \<Rightarrow> MachineSpec \<Rightarrow> MachineSpec outcome" where
  "Convert_node_MachineSpec_To_v1beta1_MachineSpec src out =
     obind (Convert_node_ObjectMeta_To_v1beta1_ObjectMeta (hms_ObjectMeta src) (ms_ObjectMeta out)) (\<lambda>r.
     let out = out\<lparr>ms_ObjectMeta := r\<rparr> in
     (let out = out\<lparr>ms_DisplayName := hms_DisplayName src, ms_Zone := hms_Zone src, ms_SubnetID := hms_SubnetID src,
        ms_Taints := hms_Taints src, ms_RuntimeRootDir := hms_RuntimeRootDir src,
        ms_KubeletVersion := hms_KubeletVersion src, ms_RuntimeVersion := hms_RuntimeVersion src\<rparr> in
     obind (Convert_node_GPUParams_To_v1beta1_GPUParams (hms_GPUConfig src) (ms_GPUConfig out)) (\<lambda>r.
     let out = out\<lparr>ms_GPUConfig := r\<rparr> in
     (let out = out\<lparr>ms_Unschedulable := hms_Unschedulable src\<rparr> in
     obind (Convert_node_ProviderSpec_To_v1beta1_ProviderSpec (hms_ProviderSpec src) (ms_ProviderSpec out)) (\<lambda>r.
     let out = out\<lparr>ms_ProviderSpec := r\<rparr> in
     Ok (out\<lparr>ms_ProviderID := hms_ProviderID src\<rparr>))))))"

definition Convert_v1beta1_NodeReference_To_node_NodeReference ::
  "NodeReference \<Rightarrow> node_NodeReference \<Rightarrow> node_NodeReference outcome" where
  "Convert_v1beta1_NodeReference_To_node_NodeReference src out =
     Ok (out\<lparr>hnr_Name := nr_Name src, hnr_OSImage := nr_OSImage src, hnr_Architecture := nr_Architecture src,
       hnr_KubeletVersion := nr_KubeletVersion src, hnr_RuntimeVersion := nr_RuntimeVersion src\<rparr>)"

definition Convert_node_NodeReference_To_v1beta1_NodeReference ::
  "node_NodeReference \<Rightarrow> NodeReference \<Rightarrow> NodeReference outcome" where
  "Convert_node_NodeReference_To_v1beta1_NodeReference src out =
     Ok (out\<lparr>nr_Name := hnr_Name src, nr_OSImage := hnr_OSImage src, nr_Architecture := hnr_Architecture src,
       nr_KubeletVersion := hnr_KubeletVersion src, nr_RuntimeVersion := hnr_RuntimeVersion src\<rparr>)"

definition Convert_v1beta1_LastOperation_To_node_LastOperation ::
  "LastOperation \<Rightarrow> node_LastOperation \<Rightarrow> node_LastOperation outcome" where
  "Convert_v1beta1_LastOperation_To_node_LastOperation src out =
     Ok (out\<lparr>hlo_Description := lo_Description src, hlo_LastUpdated := lo_LastUpdated src, hlo_State := lo_State src,
       hlo_Type := lo_Type src\<rparr>)"

definition Convert_node_LastOperation_To_v1beta1_LastOperation ::
  "node_LastOperation \<Rightarrow> LastOperation \<Rightarrow> LastOperation outcome" where
  "Convert_node_LastOperation_To_v1beta1_LastOperation src out =
     Ok (out\<lparr>lo_Description := hlo_Description src, lo_LastUpdated := hlo_LastUpdated src, lo_State := hlo_State src,
       lo_Type := hlo_Type src\<rparr>)"

definition Convert_v1beta1_Condition_To_node_Condition ::
  "Condition \<Rightarrow> node_Condition \<Rightarrow> node_Condition outcome" where
  "Convert_v1beta1_Condition_To_node_Condition src out =
     Ok (out\<lparr>hcn_Type := cn_Type src, hcn_Status := cn_Status src, hcn_Severity := cn_Severity src,
       hcn_LastProbeTime := cn_LastProbeTime src, hcn_LastTransitionTime := cn_LastTransitionTime src,
       hcn_Reason := cn_Reason src, hcn_Message := cn_Message src\<rparr>)"

definition Convert_node_Condition_To_v1beta1_Condition ::
  "node_Condition \<Rightarrow> Condition \<Rightarrow> Condition outcome" where
  "Convert_node_Condition_To_v1beta1_Condition src out =
     Ok (out\<lparr>cn_Type := hcn_Type src, cn_Status := hcn_Status src, cn_Severity := hcn_Severity src,
       cn_LastProbeTime := hcn_LastProbeTime src, cn_LastTransitionTime := hcn_LastTransitionTime src,
       cn_Reason := hcn_Reason src, cn_Message := hcn_Message src\<rparr>)"

definition Convert_v1beta1_MachineStatus_To_node_MachineStatus ::
  "MachineStatus \<Rightarrow> node_MachineStatus \<Rightarrow> node_MachineStatus outcome" where
  "Convert_v1beta1_MachineStatus_To_node_MachineStatus src out =
     Ok (out\<lparr>hmst_NodeRef := map_option as_node_NodeReference (mst_NodeRef src),
       hmst_LastUpdated := mst_LastUpdated src, hmst_FailureReason := mst_FailureReason src,
       hmst_FailureMessage := mst_FailureMessage src, hmst_ProviderStatus := mst_ProviderStatus src,
       hmst_Addresses := mst_Addresses src,
       hmst_LastOperation := map_option as_node_LastOperation (mst_LastOperation src),
       hmst_Phase := mst_Phase src, hmst_Conditions := map as_node_Condition (mst_Conditions src)\<rparr>)"

definition Convert_node_MachineStatus_To_v1beta1_MachineStatus ::
  "node_MachineStatus \<Rightarrow> MachineStatus \<Rightarrow> MachineStatus outcome" where
  "Convert_node_MachineStatus_To_v1beta1_MachineStatus src out =
     Ok (out\<lparr>mst_NodeRef := map_option as_v1beta1_NodeReference (hmst_NodeRef src),
       mst_LastUpdated := hmst_LastUpdated src, mst_FailureReason := hmst_FailureReason src,
       mst_FailureMessage := hmst_FailureMessage src, mst_ProviderStatus := hmst_ProviderStatus src,
       mst_Addresses := hmst_Addresses src,
       mst_LastOperation := map_option as_v1beta1_LastOperation (hmst_LastOperation src),
       mst_Phase := hmst_Phase src, mst_Conditions := map as_v1beta1_Condition (hmst_Conditions src)\<rparr>)"

definition Convert_v1beta1_Machine_To_node_Machine ::
  "Machine \<Rightarrow> node_Machine \<Rightarrow> node_Machine outcome" where
  "Convert_v1beta1_Machine_To_node_Machine src out =
     (let out = out\<lparr>hm_ObjectMeta := m_ObjectMeta src\<rparr> in
     obind (Convert_v1beta1_MachineSpec_To_node_MachineSpec (m_Spec src) (hm_Spec out)) (\<lambda>r.
     let out = out\<lparr>hm_Spec := r\<rparr> in
     obind (Convert_v1beta1_MachineStatus_To_node_MachineStatus (m_Status src) (hm_Status out)) (\<lambda>r.
     let out = out\<lparr>hm_Status := r\<rparr> in
     Ok out)))"

definition Convert_node_Machine_To_v1beta1_Machine ::
  "node_Machine \<Rightarrow> Machine \<Rightarrow> Machine outcome" where
  "Convert_node_Machine_To_v1beta1_Machine src out =
     (let out = out\<lparr>m_ObjectMeta := hm_ObjectMeta src\<rparr> in
     obind (Convert_node_MachineSpec_To_v1beta1_MachineSpec (hm_Spec src) (m_Spec out)) (\<lambda>r.
     let out = out\<lparr>m_Spec := r\<rparr> in
     obind (Convert_node_MachineStatus_To_v1beta1_MachineStatus (hm_Status src) (m_Status out)) (\<lambda>r.
     let out = out\<lparr>m_Status := r\<rparr> in
     Ok out)))"

definition Convert_v1beta1_MachineList_To_node_MachineList ::
  "MachineList \<Rightarrow> node_MachineList \<Rightarrow> node_MachineList outcome" where
  "Convert_v1beta1_MachineList_To_node_MachineList src out =
     Ok (out\<lparr>hml_ListMeta := ml_ListMeta src, hml_Items := map as_node_Machine (ml_Items src)\<rparr>)"

definition Convert_node_MachineList_To_v1beta1_MachineList ::
  "node_MachineList \<Rightarrow> MachineList \<Rightarrow> MachineList outcome" where
  "Convert_node_MachineList_To_v1beta1_MachineList src out =
     Ok (out\<lparr>ml_ListMeta := hml_ListMeta src, ml_Items := map as_v1beta1_Machine (hml_Items src)\<rparr>)"

definition Convert_v1beta1_MachineOperation_To_node_MachineOperation ::
  "MachineOperation \<Rightarrow> node_MachineOperation \<Rightarrow> node_MachineOperation outcome" where
  "Convert_v1beta1_MachineOperation_To_node_MachineOperation src out =
     Ok (out\<lparr>hmo_Action := mo_Action src, hmo_StopType := mo_StopType src\<rparr>)"

definition Convert_node_MachineOperation_To_v1beta1_MachineOperation ::
  "node_MachineOperation \<Rightarrow> MachineOperation \<Rightarrow> MachineOperation outcome" where
  "Convert_node_MachineOperation_To_v1beta1_MachineOperation src out =
     Ok (out\<lparr>mo_Action := hmo_Action src, mo_StopType := hmo_StopType src\<rparr>)"

definition Convert_v1beta1_LifecycleHook_To_node_LifecycleHook ::
  "LifecycleHook \<Rightarrow> node_LifecycleHook \<Rightarrow> node_LifecycleHook outcome" where
  "Convert_v1beta1_LifecycleHook_To_node_LifecycleHook src out =
     Ok (out\<lparr>hlh_Name := lh_Name src, hlh_Owner := lh_Owner src\<rparr>)"

definition Convert_node_LifecycleHook_To_v1beta1_LifecycleHook ::
  "node_LifecycleHook \<Rightarrow> LifecycleHook \<Rightarrow> LifecycleHook outcome" where
  "Convert_node_LifecycleHook_To_v1beta1_LifecycleHook src out =
     Ok (out\<lparr>lh_Name := hlh_Name src, lh_Owner := hlh_Owner src\<rparr>)"

definition Convert_v1beta1_TagSpecification_To_node_TagSpecification ::
  "TagSpecification \<Rightarrow> node_TagSpecification \<Rightarrow> node_TagSpecification outcome" where
  "Convert_v1beta1_TagSpecification_To_node_TagSpecification src out =
     Ok (out\<lparr>hts_Name := ts_Name src, hts_Value := ts_Value src\<rparr>)"

definition Convert_node_TagSpecification_To_v1beta1_TagSpecification ::
  "node_TagSpecification \<Rightarrow> TagSpecification \<Rightarrow> TagSpecification outcome" where
  "Convert_node_TagSpecification_To_v1beta1_TagSpecification src out =
     Ok (out\<lparr>ts_Name := hts_Name src, ts_Value := hts_Value src\<rparr>)"

definition Convert_v1beta1_GPUConfig_To_node_GPUConfig ::
  "GPUConfig \<Rightarrow> node_GPUConfig \<Rightarrow> node_GPUConfig outcome" where
  "Convert_v1beta1_GPUConfig_To_node_GPUConfig src out =
     Ok (out\<lparr>hgc_InstanceType := gc_InstanceType src, hgc_Driver := gc_Driver src, hgc_CUDA := gc_CUDA src,
       hgc_CUDNN := gc_CUDNN src, hgc_MIGEnable := gc_MIGEnable src, hgc_Fabric := gc_Fabric src\<rparr>)"

definition Convert_node_GPUConfig_To_v1beta1_GPUConfig ::
  "node_GPUConfig \<Rightarrow> GPUConfig \<Rightarrow> GPUConfig outcome" where
  "Convert_node_GPUConfig_To_v1beta1_GPUConfig src out =
     Ok (out\<lparr>gc_InstanceType := hgc_InstanceType src, gc_Driver := hgc_Driver src, gc_CUDA := hgc_CUDA src,
       gc_CUDNN := hgc_CUDNN src, gc_MIGEnable := hgc_MIGEnable src, gc_Fabric := hgc_Fabric src\<rparr>)"

definition Convert_v1beta1_MachineTemplateSpec_To_node_MachineTemplateSpec ::
  "MachineTemplateSpec \<Rightarrow> node_MachineTemplateSpec \<Rightarrow> node_MachineTemplateSpec outcome" where
  "Convert_v1beta1_MachineTemplateSpec_To_node_MachineTemplateSpec src out =
     obind (Convert_v1beta1_ObjectMeta_To_node_ObjectMeta (mt_ObjectMeta src) (hmt_ObjectMeta out)) (\<lambda>r.
     let out = out\<lparr>hmt_ObjectMeta := r\<rparr> in
     obind (Convert_v1beta1_MachineSpec_To_node_MachineSpec (mt_Spec src) (hmt_Spec out)) (\<lambda>r.
     let out = out\<lparr>hmt_Spec := r\<rparr> in
     Ok out))"

definition Convert_node_MachineTemplateSpec_To_v1beta1_MachineTemplateSpec ::
  "node_MachineTemplateSpec \<Rightarrow> MachineTemplateSpec \<Rightarrow> MachineTemplateSpec outcome" where
  "Convert_node_MachineTemplateSpec_To_v1beta1_MachineTemplateSpec src out =
     obind (Convert_node_ObjectMeta_To_v1beta1_ObjectMeta (hmt_ObjectMeta src) (mt_ObjectMeta out)) (\<lambda>r.
     let out = out\<lparr>mt_ObjectMeta := r\<rparr> in
     obind (Convert_node_MachineSpec_To_v1beta1_MachineSpec (hmt_Spec src) (mt_Spec out)) (\<lambda>r.
     let out = out\<lparr>mt_Spec := r\<rparr> in
     Ok out))"

definition Convert_v1beta1_MachinSetScaling_To_node_MachinSetScaling ::
  "MachinSetScaling \<Rightarrow> node_MachinSetScaling \<Rightarrow> node_MachinSetScaling outcome" where
  "Convert_v1beta1_MachinSetScaling_To_node_MachinSetScaling src out =
     Ok (out\<lparr>hsc_MinReplicas := sc_MinReplicas src, hsc_MaxReplicas := sc_MaxReplicas src,
       hsc_CreatePolicy := sc_CreatePolicy src\<rparr>)"

definition Convert_node_MachinSetScaling_To_v1beta1_MachinSetScaling ::
  "node_MachinSetScaling \<Rightarrow> MachinSetScaling \<Rightarrow> MachinSetScaling outcome" where
  "Convert_node_MachinSetScaling_To_v1beta1_MachinSetScaling src out =
     Ok (out\<lparr>sc_MinReplicas := hsc_MinReplicas src, sc_MaxReplicas := hsc_MaxReplicas src,
       sc_CreatePolicy := hsc_CreatePolicy src\<rparr>)"

definition Convert_v1beta1_MachineRollingUpdateStrategy_To_node_MachineRollingUpdateStrategy ::
  "MachineRollingUpdateStrategy \<Rightarrow> node_MachineRollingUpdateStrategy \<Rightarrow> node_MachineRollingUpdateStrategy outcome" where
  "Convert_v1beta1_MachineRollingUpdateStrategy_To_node_MachineRollingUpdateStrategy src out =
     Ok (out\<lparr>hmru_MaxConfigUnavailable := mru_MaxConfigUnavailable src, hmru_MaxSteps := mru_MaxSteps src\<rparr>)"

definition Convert_node_MachineRollingUpdateStrategy_To_v1beta1_MachineRollingUpdateStrategy ::
  "node_MachineRollingUpdateStrategy \<Rightarrow> MachineRollingUpdateStrategy \<Rightarrow> MachineRollingUpdateStrategy outcome" where
  "Convert_node_MachineRollingUpdateStrategy_To_v1beta1_MachineRollingUpdateStrategy src out =
     Ok (out\<lparr>mru_MaxConfigUnavailable := hmru_MaxConfigUnavailable src, mru_MaxSteps := hmru_MaxSteps src\<rparr>)"

definition Convert_v1beta1_MachineUpdateStrategy_To_node_MachineUpdateStrategy ::
  "MachineUpdateStrategy \<Rightarrow> node_MachineUpdateStrategy \<Rightarrow> node_MachineUpdateStrategy outcome" where
  "Convert_v1beta1_MachineUpdateStrategy_To_node_MachineUpdateStrategy src out =
     Ok (out\<lparr>hmus_Type := mus_Type src,
       hmus_RollingUpdate := map_option as_node_MachineRollingUpdateStrategy (mus_RollingUpdate src)\<rparr>)"

definition Convert_node_MachineUpdateStrategy_To_v1beta1_MachineUpdateStrategy ::
  "node_MachineUpdateStrategy \<Rightarrow> MachineUpdateStrategy \<Rightarrow> MachineUpdateStrategy outcome" where
  "Convert_node_MachineUpdateStrategy_To_v1beta1_MachineUpdateStrategy src out =
     Ok (out\<lparr>mus_Type := hmus_Type src,
       mus_RollingUpdate := map_option as_v1beta1_MachineRollingUpdateStrategy (hmus_RollingUpdate src)\<rparr>)"

definition Convert_v1beta1_MachineSetSpec_To_node_MachineSetSpec ::
  "MachineSetSpec \<Rightarrow> node_MachineSetSpec \<Rightarrow> node_MachineSetSpec outcome" where
  "Convert_v1beta1_MachineSetSpec_To_node_MachineSetSpec src out =
     (let out = out\<lparr>hmss_Type := mss_Type src, hmss_DisplayName := mss_DisplayName src, hmss_Replicas := mss_Replicas src,
        hmss_Selector := mss_Selector src\<rparr> in
     obind (Convert_v1beta1_MachineTemplateSpec_To_node_MachineTemplateSpec (mss_Template src) (hmss_Template out)) (\<lambda>r.
     let out = out\<lparr>hmss_Template := r\<rparr> in
     (let out = out\<lparr>hmss_HealthCheckPolicyName := mss_HealthCheckPolicyName src,
        hmss_MinReadySeconds := mss_MinReadySeconds src, hmss_DeletePolicy := mss_DeletePolicy src,
        hmss_SubnetIDs := mss_SubnetIDs src, hmss_InstanceTypes := mss_InstanceTypes src\<rparr> in
     obind (Convert_v1beta1_MachinSetScaling_To_node_MachinSetScaling (mss_Scaling src) (hmss_Scaling out)) (\<lambda>r.
     let out = out\<lparr>hmss_Scaling := r\<rparr> in
     (let out = out\<lparr>hmss_AutoRepair := mss_AutoRepair src, hmss_GPUConfigs := map as_node_GPUConfig (mss_GPUConfigs src),
        hmss_KeyID := mss_KeyID src\<rparr> in
     obind (Convert_v1beta1_MachineUpdateStrategy_To_node_MachineUpdateStrategy (mss_MachineUpdateStrategy src) (hmss_MachineUpdateStrategy out)) (\<lambda>r.
     let out = out\<lparr>hmss_MachineUpdateStrategy := r\<rparr> in
     Ok out))))))"

definition Convert_node_MachineSetSpec_To_v1beta1_MachineSetSpec ::
  "node_MachineSetSpec \<Rightarrow> MachineSetSpec \<Rightarrow> MachineSetSpec outcome" where
  "Convert_node_MachineSetSpec_To_v1beta1_MachineSetSpec src out =
     (let out = out\<lparr>mss_Type := hmss_Type src, mss_DisplayName := hmss_DisplayName src, mss_Replicas := hmss_Replicas src,
        mss_Selector := hmss_Selector src\<rparr> in
     obind (Convert_node_MachineTemplateSpec_To_v1beta1_MachineTemplateSpec (hmss_Template src) (mss_Template out)) (\<lambda>r.
     let out = out\<lparr>mss_Template := r\<rparr> in
     (let out = out\<lparr>mss_HealthCheckPolicyName := hmss_HealthCheckPolicyName src,
        mss_MinReadySeconds := hmss_MinReadySeconds src, mss_DeletePolicy := hmss_DeletePolicy src,
        mss_SubnetIDs := hmss_SubnetIDs src, mss_InstanceTypes := hmss_InstanceTypes src\<rparr> in
     obind (Convert_node_MachinSetScaling_To_v1beta1_MachinSetScaling (hmss_Scaling src) (mss_Scaling out)) (\<lambda>r.
     let out = out\<lparr>mss_Scaling := r\<rparr> in
     (let out = out\<lparr>mss_AutoRepair := hmss_AutoRepair src, mss_GPUConfigs := map as_v1beta1_GPUConfig (hmss_GPUConfigs src),
        mss_KeyID := hmss_KeyID src\<rparr> in
     obind (Convert_node_MachineUpdateStrategy_To_v1beta1_MachineUpdateStrategy (hmss_MachineUpdateStrategy src) (mss_MachineUpdateStrategy out)) (\<lambda>r.
     let out = out\<lparr>mss_MachineUpdateStrategy := r\<rparr> in
     Ok out))))))"

definition Convert_v1beta1_MachineSetCondition_To_node_MachineSetCondition ::
  "MachineSetCondition \<Rightarrow> node_MachineSetCondition \<Rightarrow> node_MachineSetCondition outcome" where
  "Convert_v1beta1_MachineSetCondition_To_node_MachineSetCondition src out =
     Ok (out\<lparr>hmsc_Type := msc_Type src, hmsc_Status := msc_Status src,
       hmsc_LastTransitionTime := msc_LastTransitionTime src, hmsc_Reason := msc_Reason src,
       hmsc_Message := msc_Message src\<rparr>)"

definition Convert_node_MachineSetCondition_To_v1beta1_MachineSetCondition ::
  "node_MachineSetCondition \<Rightarrow> MachineSetCondition \<Rightarrow> MachineSetCondition outcome" where
  "Convert_node_MachineSetCondition_To_v1beta1_MachineSetCondition src out =
     Ok (out\<lparr>msc_Type := hmsc_Type src, msc_Status := hmsc_Status src,
       msc_LastTransitionTime := hmsc_LastTransitionTime src, msc_Reason := hmsc_Reason src,
       msc_Message := hmsc_Message src\<rparr>)"

definition Convert_v1beta1_MachineSetStatus_To_node_MachineSetStatus ::
  "MachineSetStatus \<Rightarrow> node_MachineSetStatus \<Rightarrow> node_MachineSetStatus outcome" where
  "Convert_v1beta1_MachineSetStatus_To_node_MachineSetStatus src out =
     Ok (out\<lparr>hmse_HealthCheckPolicyRevision := mse_HealthCheckPolicyRevision src, hmse_Replicas := mse_Replicas src,
       hmse_FullyLabeledReplicas := mse_FullyLabeledReplicas src, hmse_ReadyReplicas := mse_ReadyReplicas src,
       hmse_AvailableReplicas := mse_AvailableReplicas src,
       hmse_ObservedGeneration := mse_ObservedGeneration src, hmse_KubeletVersion := mse_KubeletVersion src,
       hmse_RuntimeVersion := mse_RuntimeVersion src,
       hmse_Conditions := map as_node_MachineSetCondition (mse_Conditions src)\<rparr>)"

definition Convert_node_MachineSetStatus_To_v1beta1_MachineSetStatus ::
  "node_MachineSetStatus \<Rightarrow> MachineSetStatus \<Rightarrow> MachineSetStatus outcome" where
  "Convert_node_MachineSetStatus_To_v1beta1_MachineSetStatus src out =
     Ok (out\<lparr>mse_HealthCheckPolicyRevision := hmse_HealthCheckPolicyRevision src, mse_Replicas := hmse_Replicas src,
       mse_FullyLabeledReplicas := hmse_FullyLabeledReplicas src, mse_ReadyReplicas := hmse_ReadyReplicas src,
       mse_AvailableReplicas := hmse_AvailableReplicas src,
       mse_ObservedGeneration := hmse_ObservedGeneration src, mse_KubeletVersion := hmse_KubeletVersion src,
       mse_RuntimeVersion := hmse_RuntimeVersion src,
       mse_Conditions := map as_v1beta1_MachineSetCondition (hmse_Conditions src)\<rparr>)"

definition Convert_v1beta1_MachineSet_To_node_MachineSet ::
  "MachineSet \<Rightarrow> node_MachineSet \<Rightarrow> node_MachineSet outcome" where
  "Convert_v1beta1_MachineSet_To_node_MachineSet src out =
     (let out = out\<lparr>hmset_ObjectMeta := mset_ObjectMeta src\<rparr> in
     obind (Convert_v1beta1_MachineSetSpec_To_node_MachineSetSpec (mset_Spec src) (hmset_Spec out)) (\<lambda>r.
     let out = out\<lparr>hmset_Spec := r\<rparr> in
     obind (Convert_v1beta1_MachineSetStatus_To_node_MachineSetStatus (mset_Status src) (hmset_Status out)) (\<lambda>r.
     let out = out\<lparr>hmset_Status := r\<rparr> in
     Ok out)))"

definition Convert_node_MachineSet_To_v1beta1_MachineSet ::
  "node_MachineSet \<Rightarrow> MachineSet \<Rightarrow> MachineSet outcome" where
  "Convert_node_MachineSet_To_v1beta1_MachineSet src out =
     (let out = out\<lparr>mset_ObjectMeta := hmset_ObjectMeta src\<rparr> in
     obind (Convert_node_MachineSetSpec_To_v1beta1_MachineSetSpec (hmset_Spec src) (mset_Spec out)) (\<lambda>r.
     let out = out\<lparr>mset_Spec := r\<rparr> in
     obind (Convert_node_MachineSetStatus_To_v1beta1_MachineSetStatus (hmset_Status src) (mset_Status out)) (\<lambda>r.
     let out = out\<lparr>mset_Status := r\<rparr> in
     Ok out)))"

definition Convert_v1beta1_MachineSetList_To_node_MachineSetList ::
  "MachineSetList \<Rightarrow> node_MachineSetList \<Rightarrow> node_MachineSetList outcome" where
  "Convert_v1beta1_MachineSetList_To_node_MachineSetList src out =
     Ok (out\<lparr>hmsl_ListMeta := msl_ListMeta src, hmsl_Items := map as_node_MachineSet (msl_Items src)\<rparr>)"

definition Convert_node_MachineSetList_To_v1beta1_MachineSetList ::
  "node_MachineSetList \<Rightarrow> MachineSetList \<Rightarrow> MachineSetList outcome" where
  "Convert_node_MachineSetList_To_v1beta1_MachineSetList src out =
     Ok (out\<lparr>msl_ListMeta := hmsl_ListMeta src, msl_Items := map as_v1beta1_MachineSet (hmsl_Items src)\<rparr>)"

definition Convert_v1beta1_AutoUpgradeOptions_To_node_AutoUpgradeOptions ::
  "AutoUpgradeOptions \<Rightarrow> node_AutoUpgradeOptions \<Rightarrow> node_AutoUpgradeOptions outcome" where
  "Convert_v1beta1_AutoUpgradeOptions_To_node_AutoUpgradeOptions src out =
     Ok (out\<lparr>hauo_AutoUpgradeStartTime := auo_AutoUpgradeStartTime src, hauo_Duration := auo_Duration src,
       hauo_WeeklyPeriod := auo_WeeklyPeriod src\<rparr>)"

definition Convert_node_AutoUpgradeOptions_To_v1beta1_AutoUpgradeOptions ::
  "node_AutoUpgradeOptions \<Rightarrow> AutoUpgradeOptions \<Rightarrow> AutoUpgradeOptions outcome" where
  "Convert_node_AutoUpgradeOptions_To_v1beta1_AutoUpgradeOptions src out =
     Ok (out\<lparr>auo_AutoUpgradeStartTime := hauo_AutoUpgradeStartTime src, auo_Duration := hauo_Duration src,
       auo_WeeklyPeriod := hauo_WeeklyPeriod src\<rparr>)"

definition Convert_v1beta1_UpdateStrategy_To_node_UpdateStrategy ::
  "UpdateStrategy \<Rightarrow> node_UpdateStrategy \<Rightarrow> node_UpdateStrategy outcome" where
  "Convert_v1beta1_UpdateStrategy_To_node_UpdateStrategy src out =
     Ok (out\<lparr>hus_Type := us_Type src, hus_MaxUnavailable := us_MaxUnavailable src,
       hus_UpgradeTimeout := us_UpgradeTimeout src\<rparr>)"

definition Convert_node_UpdateStrategy_To_v1beta1_UpdateStrategy ::
  "node_UpdateStrategy \<Rightarrow> UpdateStrategy \<Rightarrow> UpdateStrategy outcome" where
  "Convert_node_UpdateStrategy_To_v1beta1_UpdateStrategy src out =
     Ok (out\<lparr>us_Type := hus_Type src, us_MaxUnavailable := hus_MaxUnavailable src,
       us_UpgradeTimeout := hus_UpgradeTimeout src\<rparr>)"

definition Convert_v1beta1_RollingUpgradeSpec_To_node_RollingUpgradeSpec ::
  "RollingUpgradeSpec \<Rightarrow> node_RollingUpgradeSpec \<Rightarrow> node_RollingUpgradeSpec outcome" where
  "Convert_v1beta1_RollingUpgradeSpec_To_node_RollingUpgradeSpec src out =
     (let out = out\<lparr>hrus_MachineSetName := rus_MachineSetName src, hrus_AutoUpgrade := rus_AutoUpgrade src\<rparr> in
     obind (Convert_v1beta1_AutoUpgradeOptions_To_node_AutoUpgradeOptions (rus_UpgradeOptions src) (hrus_UpgradeOptions out)) (\<lambda>r.
     let out = out\<lparr>hrus_UpgradeOptions := r\<rparr> in
     (let out = out\<lparr>hrus_Components := rus_Components src\<rparr> in
     obind (Convert_v1beta1_UpdateStrategy_To_node_UpdateStrategy (rus_Strategy src) (hrus_Strategy out)) (\<lambda>r.
     let out = out\<lparr>hrus_Strategy := r\<rparr> in
     Ok (out\<lparr>hrus_DesiredKubeletVersion := rus_DesiredKubeletVersion src,
       hrus_DesiredRuntimeVersion := rus_DesiredRuntimeVersion src,
       hrus_IgnoreUpgradeFailures := rus_IgnoreUpgradeFailures src\<rparr>)))))"

definition Convert_node_RollingUpgradeSpec_To_v1beta1_RollingUpgradeSpec ::
  "node_RollingUpgradeSpec \<Rightarrow> RollingUpgradeSpec \<Rightarrow> RollingUpgradeSpec outcome" where
  "Convert_node_RollingUpgradeSpec_To_v1beta1_RollingUpgradeSpec src out =
     (let out = out\<lparr>rus_MachineSetName := hrus_MachineSetName src, rus_AutoUpgrade := hrus_AutoUpgrade src\<rparr> in
     obind (Convert_node_AutoUpgradeOptions_To_v1beta1_AutoUpgradeOptions (hrus_UpgradeOptions src) (rus_UpgradeOptions out)) (\<lambda>r.
     let out = out\<lparr>rus_UpgradeOptions := r\<rparr> in
     (let out = out\<lparr>rus_Components := hrus_Components src\<rparr> in
     obind (Convert_node_UpdateStrategy_To_v1beta1_UpdateStrategy (hrus_Strategy src) (rus_Strategy out)) (\<lambda>r.
     let out = out\<lparr>rus_Strategy := r\<rparr> in
     Ok (out\<lparr>rus_DesiredKubeletVersion := hrus_DesiredKubeletVersion src,
       rus_DesiredRuntimeVersion := hrus_DesiredRuntimeVersion src,
       rus_IgnoreUpgradeFailures := hrus_IgnoreUpgradeFailures src\<rparr>)))))"

definition Convert_v1beta1_RollingUpgradeCondition_To_node_RollingUpgradeCondition ::
  "RollingUpgradeCondition \<Rightarrow> node_RollingUpgradeCondition \<Rightarrow> node_RollingUpgradeCondition outcome" where
  "Convert_v1beta1_RollingUpgradeCondition_To_node_RollingUpgradeCondition src out =
     Ok (out\<lparr>hrc_Type := rc_Type src, hrc_Status := rc_Status src\<rparr>)"

definition Convert_node_RollingUpgradeCondition_To_v1beta1_RollingUpgradeCondition ::
  "node_RollingUpgradeCondition \<Rightarrow> RollingUpgradeCondition \<Rightarrow> RollingUpgradeCondition outcome" where
  "Convert_node_RollingUpgradeCondition_To_v1beta1_RollingUpgradeCondition src out =
     Ok (out\<lparr>rc_Type := hrc_Type src, rc_Status := hrc_Status src\<rparr>)"

definition Convert_v1beta1_RollingUpgradeStatus_To_node_RollingUpgradeStatus ::
  "RollingUpgradeStatus \<Rightarrow> node_RollingUpgradeStatus \<Rightarrow> node_RollingUpgradeStatus outcome" where
  "Convert_v1beta1_RollingUpgradeStatus_To_node_RollingUpgradeStatus src out =
     Ok (out\<lparr>hrst_Phase := rst_Phase src, hrst_CompletePercentage := rst_CompletePercentage src,
       hrst_StartTime := rst_StartTime src, hrst_EndTime := rst_EndTime src,
       hrst_MachinesProcessed := rst_MachinesProcessed src, hrst_TotalMachines := rst_TotalMachines src,
       hrst_TotalProcessingTime := rst_TotalProcessingTime src,
       hrst_Conditions := map as_node_RollingUpgradeCondition (rst_Conditions src)\<rparr>)"

definition Convert_node_RollingUpgradeStatus_To_v1beta1_RollingUpgradeStatus ::
  "node_RollingUpgradeStatus \<Rightarrow> RollingUpgradeStatus \<Rightarrow> RollingUpgradeStatus outcome" where
  "Convert_node_RollingUpgradeStatus_To_v1beta1_RollingUpgradeStatus src out =
     Ok (out\<lparr>rst_Phase := hrst_Phase src, rst_CompletePercentage := hrst_CompletePercentage src,
       rst_StartTime := hrst_StartTime src, rst_EndTime := hrst_EndTime src,
       rst_MachinesProcessed := hrst_MachinesProcessed src, rst_TotalMachines := hrst_TotalMachines src,
       rst_TotalProcessingTime := hrst_TotalProcessingTime src,
       rst_Conditions := map as_v1beta1_RollingUpgradeCondition (hrst_Conditions src)\<rparr>)"

definition Convert_v1beta1_RollingUpgrade_To_node_RollingUpgrade ::
  "RollingUpgrade \<Rightarrow> node_RollingUpgrade \<Rightarrow> node_RollingUpgrade outcome" where
  "Convert_v1beta1_RollingUpgrade_To_node_RollingUpgrade src out =
     (let out = out\<lparr>hru_ObjectMeta := ru_ObjectMeta src\<rparr> in
     obind (Convert_v1beta1_RollingUpgradeSpec_To_node_RollingUpgradeSpec (ru_Spec src) (hru_Spec out)) (\<lambda>r.
     let out = out\<lparr>hru_Spec := r\<rparr> in
     obind (Convert_v1beta1_RollingUpgradeStatus_To_node_RollingUpgradeStatus (ru_Status src) (hru_Status out)) (\<lambda>r.
     let out = out\<lparr>hru_Status := r\<rparr> in
     Ok out)))"

definition Convert_node_RollingUpgrade_To_v1beta1_RollingUpgrade ::
  "node_RollingUpgrade \<Rightarrow> RollingUpgrade \<Rightarrow> RollingUpgrade outcome" where
  "Convert_node_RollingUpgrade_To_v1beta1_RollingUpgrade src out =
     (let out = out\<lparr>ru_ObjectMeta := hru_ObjectMeta src\<rparr> in
     obind (Convert_node_RollingUpgradeSpec_To_v1beta1_RollingUpgradeSpec (hru_Spec src) (ru_Spec out)) (\<lambda>r.
     let out = out\<lparr>ru_Spec := r\<rparr> in
     obind (Convert_node_RollingUpgradeStatus_To_v1beta1_RollingUpgradeStatus (hru_Status src) (ru_Status out)) (\<lambda>r.
     let out = out\<lparr>ru_Status := r\<rparr> in
     Ok out)))"

definition Convert_v1beta1_RollingUpgradeList_To_node_RollingUpgradeList ::
  "RollingUpgradeList \<Rightarrow> node_RollingUpgradeList \<Rightarrow> node_RollingUpgradeList outcome" where
  "Convert_v1beta1_RollingUpgradeList_To_node_RollingUpgradeList src out =
     Ok (out\<lparr>hrul_ListMeta := rul_ListMeta src, hrul_Items := map as_node_RollingUpgrade (rul_Items src)\<rparr>)"

definition Convert_node_RollingUpgradeList_To_v1beta1_RollingUpgradeList ::
  "node_RollingUpgradeList \<Rightarrow> RollingUpgradeList \<Rightarrow> RollingUpgradeList outcome" where
  "Convert_node_RollingUpgradeList_To_v1beta1_RollingUpgradeList src out =
     Ok (out\<lparr>rul_ListMeta := hrul_ListMeta src, rul_Items := map as_v1beta1_RollingUpgrade (hrul_Items src)\<rparr>)"

section \<open>What they do\<close>

text \<open>
  A conversion never fails and writes everything: it agrees with reading the object as the other version, whatever
  was there before.  So a slice that is cast is converted like its elements.
\<close>

named_theorems conversion_simps "the result of a conversion"

lemma Convert_v1beta1_ProviderSpec_To_node_ProviderSpec_eq [conversion_simps]:
  "Convert_v1beta1_ProviderSpec_To_node_ProviderSpec src out = Ok (as_node_ProviderSpec src)"
  by (cases out) (simp add: Convert_v1beta1_ProviderSpec_To_node_ProviderSpec_def as_node_ProviderSpec_def conversion_simps)

lemma Convert_node_ProviderSpec_To_v1beta1_ProviderSpec_eq [conversion_simps]:
  "Convert_node_ProviderSpec_To_v1beta1_ProviderSpec src out = Ok (as_v1beta1_ProviderSpec src)"
  by (cases out) (simp add: Convert_node_ProviderSpec_To_v1beta1_ProviderSpec_def as_v1beta1_ProviderSpec_def conversion_simps)

lemma Convert_v1beta1_ObjectMeta_To_node_ObjectMeta_eq [conversion_simps]:
  "Convert_v1beta1_ObjectMeta_To_node_ObjectMeta src out = Ok (as_node_ObjectMeta src)"
  by (cases out) (simp add: Convert_v1beta1_ObjectMeta_To_node_ObjectMeta_def as_node_ObjectMeta_def conversion_simps)

lemma Convert_node_ObjectMeta_To_v1beta1_ObjectMeta_eq [conversion_simps]:
  "Convert_node_ObjectMeta_To_v1beta1_ObjectMeta src out = Ok (as_v1beta1_ObjectMeta src)"
  by (cases out) (simp add: Convert_node_ObjectMeta_To_v1beta1_ObjectMeta_def as_v1beta1_ObjectMeta_def conversion_simps)

lemma Convert_v1beta1_GPUParams_To_node_GPUParams_eq [conversion_simps]:
  "Convert_v1beta1_GPUParams_To_node_GPUParams src out = Ok (as_node_GPUParams src)"
  by (cases out) (simp add: Convert_v1beta1_GPUParams_To_node_GPUParams_def as_node_GPUParams_def conversion_simps)

lemma Convert_node_GPUParams_To_v1beta1_GPUParams_eq [conversion_simps]:
  "Convert_node_GPUParams_To_v1beta1_GPUParams src out = Ok (as_v1beta1_GPUParams src)"
  by (cases out) (simp add: Convert_node_GPUParams_To_v1beta1_GPUParams_def as_v1beta1_GPUParams_def conversion_simps)

lemma Convert_v1beta1_MachineSpec_To_node_MachineSpec_eq [conversion_simps]:
  "Convert_v1beta1_MachineSpec_To_node_MachineSpec src out = Ok (as_node_MachineSpec src)"
  by (cases out) (simp add: Convert_v1beta1_MachineSpec_To_node_MachineSpec_def as_node_MachineSpec_def conversion_simps)

lemma Convert_node_MachineSpec_To_v1beta1_MachineSpec_eq [conversion_simps]:
  "Convert_node_MachineSpec_To_v1beta1_MachineSpec src out = Ok (as_v1beta1_MachineSpec src)"
  by (cases out) (simp add: Convert_node_MachineSpec_To_v1beta1_MachineSpec_def as_v1beta1_MachineSpec_def conversion_simps)

lemma Convert_v1beta1_NodeReference_To_node_NodeReference_eq [conversion_simps]:
  "Convert_v1beta1_NodeReference_To_node_NodeReference src out = Ok (as_node_NodeReference src)"
  by (cases out) (simp add: Convert_v1beta1_NodeReference_To_node_NodeReference_def as_node_NodeReference_def conversion_simps)

lemma Convert_node_NodeReference_To_v1beta1_NodeReference_eq [conversion_simps]:
  "Convert_node_NodeReference_To_v1beta1_NodeReference src out = Ok (as_v1beta1_NodeReference src)"
  by (cases out) (simp add: Convert_node_NodeReference_To_v1beta1_NodeReference_def as_v1beta1_NodeReference_def conversion_simps)

lemma Convert_v1beta1_LastOperation_To_node_LastOperation_eq [conversion_simps]:
  "Convert_v1beta1_LastOperation_To_node_LastOperation src out = Ok (as_node_LastOperation src)"
  by (cases out) (simp add: Convert_v1beta1_LastOperation_To_node_LastOperation_def as_node_LastOperation_def conversion_simps)

lemma Convert_node_LastOperation_To_v1beta1_LastOperation_eq [conversion_simps]:
  "Convert_node_LastOperation_To_v1beta1_LastOperation src out = Ok (as_v1beta1_LastOperation src)"
  by (cases out) (simp add: Convert_node_LastOperation_To_v1beta1_LastOperation_def as_v1beta1_LastOperation_def conversion_simps)

lemma Convert_v1beta1_Condition_To_node_Condition_eq [conversion_simps]:
  "Convert_v1beta1_Condition_To_node_Condition src out = Ok (as_node_Condition src)"
  by (cases out) (simp add: Convert_v1beta1_Condition_To_node_Condition_def as_node_Condition_def conversion_simps)

lemma Convert_node_Condition_To_v1beta1_Condition_eq [conversion_simps]:
  "Convert_node_Condition_To_v1beta1_Condition src out = Ok (as_v1beta1_Condition src)"
  by (cases out) (simp add: Convert_node_Condition_To_v1beta1_Condition_def as_v1beta1_Condition_def conversion_simps)

lemma Convert_v1beta1_MachineStatus_To_node_MachineStatus_eq [conversion_simps]:
  "Convert_v1beta1_MachineStatus_To_node_MachineStatus src out = Ok (as_node_MachineStatus src)"
  by (cases out) (simp add: Convert_v1beta1_MachineStatus_To_node_MachineStatus_def as_node_MachineStatus_def conversion_simps)

lemma Convert_node_MachineStatus_To_v1beta1_MachineStatus_eq [conversion_simps]:
  "Convert_node_MachineStatus_To_v1beta1_MachineStatus src out = Ok (as_v1beta1_MachineStatus src)"
  by (cases out) (simp add: Convert_node_MachineStatus_To_v1beta1_MachineStatus_def as_v1beta1_MachineStatus_def conversion_simps)

lemma Convert_v1beta1_Machine_To_node_Machine_eq [conversion_simps]:
  "Convert_v1beta1_Machine_To_node_Machine src out = Ok (as_node_Machine src)"
  by (cases out) (simp add: Convert_v1beta1_Machine_To_node_Machine_def as_node_Machine_def conversion_simps)

lemma Convert_node_Machine_To_v1beta1_Machine_eq [conversion_simps]:
  "Convert_node_Machine_To_v1beta1_Machine src out = Ok (as_v1beta1_Machine src)"
  by (cases out) (simp add: Convert_node_Machine_To_v1beta1_Machine_def as_v1beta1_Machine_def conversion_simps)

lemma Convert_v1beta1_MachineList_To_node_MachineList_eq [conversion_simps]:
  "Convert_v1beta1_MachineList_To_node_MachineList src out = Ok (as_node_MachineList src)"
  by (cases out) (simp add: Convert_v1beta1_MachineList_To_node_MachineList_def as_node_MachineList_def conversion_simps)

lemma Convert_node_MachineList_To_v1beta1_MachineList_eq [conversion_simps]:
  "Convert_node_MachineList_To_v1beta1_MachineList src out = Ok (as_v1beta1_MachineList src)"
  by (cases out) (simp add: Convert_node_MachineList_To_v1beta1_MachineList_def as_v1beta1_MachineList_def conversion_simps)

lemma Convert_v1beta1_MachineOperation_To_node_MachineOperation_eq [conversion_simps]:
  "Convert_v1beta1_MachineOperation_To_node_MachineOperation src out = Ok (as_node_MachineOperation src)"
  by (cases out) (simp add: Convert_v1beta1_MachineOperation_To_node_MachineOperation_def as_node_MachineOperation_def conversion_simps)

lemma Convert_node_MachineOperation_To_v1beta1_MachineOperation_eq [conversion_simps]:
  "Convert_node_MachineOperation_To_v1beta1_MachineOperation src out = Ok (as_v1beta1_MachineOperation src)"
  by (cases out) (simp add: Convert_node_MachineOperation_To_v1beta1_MachineOperation_def as_v1beta1_MachineOperation_def conversion_simps)

lemma Convert_v1beta1_LifecycleHook_To_node_LifecycleHook_eq [conversion_simps]:
  "Convert_v1beta1_LifecycleHook_To_node_LifecycleHook src out = Ok (as_node_LifecycleHook src)"
  by (cases out) (simp add: Convert_v1beta1_LifecycleHook_To_node_LifecycleHook_def as_node_LifecycleHook_def conversion_simps)

lemma Convert_node_LifecycleHook_To_v1beta1_LifecycleHook_eq [conversion_simps]:
  "Convert_node_LifecycleHook_To_v1beta1_LifecycleHook src out = Ok (as_v1beta1_LifecycleHook src)"
  by (cases out) (simp add: Convert_node_LifecycleHook_To_v1beta1_LifecycleHook_def as_v1beta1_LifecycleHook_def conversion_simps)

lemma Convert_v1beta1_TagSpecification_To_node_TagSpecification_eq [conversion_simps]:
  "Convert_v1beta1_TagSpecification_To_node_TagSpecification src out = Ok (as_node_TagSpecification src)"
  by (cases out) (simp add: Convert_v1beta1_TagSpecification_To_node_TagSpecification_def as_node_TagSpecification_def conversion_simps)

lemma Convert_node_TagSpecification_To_v1beta1_TagSpecification_eq [conversion_simps]:
  "Convert_node_TagSpecification_To_v1beta1_TagSpecification src out = Ok (as_v1beta1_TagSpecification src)"
  by (cases out) (simp add: Convert_node_TagSpecification_To_v1beta1_TagSpecification_def as_v1beta1_TagSpecification_def conversion_simps)

lemma Convert_v1beta1_GPUConfig_To_node_GPUConfig_eq [conversion_simps]:
  "Convert_v1beta1_GPUConfig_To_node_GPUConfig src out = Ok (as_node_GPUConfig src)"
  by (cases out) (simp add: Convert_v1beta1_GPUConfig_To_node_GPUConfig_def as_node_GPUConfig_def conversion_simps)

lemma Convert_node_GPUConfig_To_v1beta1_GPUConfig_eq [conversion_simps]:
  "Convert_node_GPUConfig_To_v1beta1_GPUConfig src out = Ok (as_v1beta1_GPUConfig src)"
  by (cases out) (simp add: Convert_node_GPUConfig_To_v1beta1_GPUConfig_def as_v1beta1_GPUConfig_def conversion_simps)

lemma Convert_v1beta1_MachineTemplateSpec_To_node_MachineTemplateSpec_eq [conversion_simps]:
  "Convert_v1beta1_MachineTemplateSpec_To_node_MachineTemplateSpec src out = Ok (as_node_MachineTemplateSpec src)"
  by (cases out) (simp add: Convert_v1beta1_MachineTemplateSpec_To_node_MachineTemplateSpec_def as_node_MachineTemplateSpec_def conversion_simps)

lemma Convert_node_MachineTemplateSpec_To_v1beta1_MachineTemplateSpec_eq [conversion_simps]:
  "Convert_node_MachineTemplateSpec_To_v1beta1_MachineTemplateSpec src out = Ok (as_v1beta1_MachineTemplateSpec src)"
  by (cases out) (simp add: Convert_node_MachineTemplateSpec_To_v1beta1_MachineTemplateSpec_def as_v1beta1_MachineTemplateSpec_def conversion_simps)

lemma Convert_v1beta1_MachinSetScaling_To_node_MachinSetScaling_eq [conversion_simps]:
  "Convert_v1beta1_MachinSetScaling_To_node_MachinSetScaling src out = Ok (as_node_MachinSetScaling src)"
  by (cases out) (simp add: Convert_v1beta1_MachinSetScaling_To_node_MachinSetScaling_def as_node_MachinSetScaling_def conversion_simps)

lemma Convert_node_MachinSetScaling_To_v1beta1_MachinSetScaling_eq [conversion_simps]:
  "Convert_node_MachinSetScaling_To_v1beta1_MachinSetScaling src out = Ok (as_v1beta1_MachinSetScaling src)"
  by (cases out) (simp add: Convert_node_MachinSetScaling_To_v1beta1_MachinSetScaling_def as_v1beta1_MachinSetScaling_def conversion_simps)

lemma Convert_v1beta1_MachineRollingUpdateStrategy_To_node_MachineRollingUpdateStrategy_eq [conversion_simps]:
  "Convert_v1beta1_MachineRollingUpdateStrategy_To_node_MachineRollingUpdateStrategy src out = Ok (as_node_MachineRollingUpdateStrategy src)"
  by (cases out) (simp add: Convert_v1beta1_MachineRollingUpdateStrategy_To_node_MachineRollingUpdateStrategy_def as_node_MachineRollingUpdateStrategy_def conversion_simps)

lemma Convert_node_MachineRollingUpdateStrategy_To_v1beta1_MachineRollingUpdateStrategy_eq [conversion_simps]:
  "Convert_node_MachineRollingUpdateStrategy_To_v1beta1_MachineRollingUpdateStrategy src out = Ok (as_v1beta1_MachineRollingUpdateStrategy src)"
  by (cases out) (simp add: Convert_node_MachineRollingUpdateStrategy_To_v1beta1_MachineRollingUpdateStrategy_def as_v1beta1_MachineRollingUpdateStrategy_def conversion_simps)

lemma Convert_v1beta1_MachineUpdateStrategy_To_node_MachineUpdateStrategy_eq [conversion_simps]:
  "Convert_v1beta1_MachineUpdateStrategy_To_node_MachineUpdateStrategy src out = Ok (as_node_MachineUpdateStrategy src)"
  by (cases out) (simp add: Convert_v1beta1_MachineUpdateStrategy_To_node_MachineUpdateStrategy_def as_node_MachineUpdateStrategy_def conversion_simps)

lemma Convert_node_MachineUpdateStrategy_To_v1beta1_MachineUpdateStrategy_eq [conversion_simps]:
  "Convert_node_MachineUpdateStrategy_To_v1beta1_MachineUpdateStrategy src out = Ok (as_v1beta1_MachineUpdateStrategy src)"
  by (cases out) (simp add: Convert_node_MachineUpdateStrategy_To_v1beta1_MachineUpdateStrategy_def as_v1beta1_MachineUpdateStrategy_def conversion_simps)

lemma Convert_v1beta1_MachineSetSpec_To_node_MachineSetSpec_eq [conversion_simps]:
  "Convert_v1beta1_MachineSetSpec_To_node_MachineSetSpec src out = Ok (as_node_MachineSetSpec src)"
  by (cases out) (simp add: Convert_v1beta1_MachineSetSpec_To_node_MachineSetSpec_def as_node_MachineSetSpec_def conversion_simps)

lemma Convert_node_MachineSetSpec_To_v1beta1_MachineSetSpec_eq [conversion_simps]:
  "Convert_node_MachineSetSpec_To_v1beta1_MachineSetSpec src out = Ok (as_v1beta1_MachineSetSpec src)"
  by (cases out) (simp add: Convert_node_MachineSetSpec_To_v1beta1_MachineSetSpec_def as_v1beta1_MachineSetSpec_def conversion_simps)

lemma Convert_v1beta1_MachineSetCondition_To_node_MachineSetCondition_eq [conversion_simps]:
  "Convert_v1beta1_MachineSetCondition_To_node_MachineSetCondition src out = Ok (as_node_MachineSetCondition src)"
  by (cases out) (simp add: Convert_v1beta1_MachineSetCondition_To_node_MachineSetCondition_def as_node_MachineSetCondition_def conversion_simps)

lemma Convert_node_MachineSetCondition_To_v1beta1_MachineSetCondition_eq [conversion_simps]:
  "Convert_node_MachineSetCondition_To_v1beta1_MachineSetCondition src out = Ok (as_v1beta1_MachineSetCondition src)"
  by (cases out) (simp add: Convert_node_MachineSetCondition_To_v1beta1_MachineSetCondition_def as_v1beta1_MachineSetCondition_def conversion_simps)

lemma Convert_v1beta1_MachineSetStatus_To_node_MachineSetStatus_eq [conversion_simps]:
  "Convert_v1beta1_MachineSetStatus_To_node_MachineSetStatus src out = Ok (as_node_MachineSetStatus src)"
  by (cases out) (simp add: Convert_v1beta1_MachineSetStatus_To_node_MachineSetStatus_def as_node_MachineSetStatus_def conversion_simps)

lemma Convert_node_MachineSetStatus_To_v1beta1_MachineSetStatus_eq [conversion_simps]:
  "Convert_node_MachineSetStatus_To_v1beta1_MachineSetStatus src out = Ok (as_v1beta1_MachineSetStatus src)"
  by (cases out) (simp add: Convert_node_MachineSetStatus_To_v1beta1_MachineSetStatus_def as_v1beta1_MachineSetStatus_def conversion_simps)

lemma Convert_v1beta1_MachineSet_To_node_MachineSet_eq [conversion_simps]:
  "Convert_v1beta1_MachineSet_To_node_MachineSet src out = Ok (as_node_MachineSet src)"
  by (cases out) (simp add: Convert_v1beta1_MachineSet_To_node_MachineSet_def as_node_MachineSet_def conversion_simps)

lemma Convert_node_MachineSet_To_v1beta1_MachineSet_eq [conversion_simps]:
  "Convert_node_MachineSet_To_v1beta1_MachineSet src out = Ok (as_v1beta1_MachineSet src)"
  by (cases out) (simp add: Convert_node_MachineSet_To_v1beta1_MachineSet_def as_v1beta1_MachineSet_def conversion_simps)

lemma Convert_v1beta1_MachineSetList_To_node_MachineSetList_eq [conversion_simps]:
  "Convert_v1beta1_MachineSetList_To_node_MachineSetList src out = Ok (as_node_MachineSetList src)"
  by (cases out) (simp add: Convert_v1beta1_MachineSetList_To_node_MachineSetList_def as_node_MachineSetList_def conversion_simps)

lemma Convert_node_MachineSetList_To_v1beta1_MachineSetList_eq [conversion_simps]:
  "Convert_node_MachineSetList_To_v1beta1_MachineSetList src out = Ok (as_v1beta1_MachineSetList src)"
  by (cases out) (simp add: Convert_node_MachineSetList_To_v1beta1_MachineSetList_def as_v1beta1_MachineSetList_def conversion_simps)

lemma Convert_v1beta1_AutoUpgradeOptions_To_node_AutoUpgradeOptions_eq [conversion_simps]:
  "Convert_v1beta1_AutoUpgradeOptions_To_node_AutoUpgradeOptions src out = Ok (as_node_AutoUpgradeOptions src)"
  by (cases out) (simp add: Convert_v1beta1_AutoUpgradeOptions_To_node_AutoUpgradeOptions_def as_node_AutoUpgradeOptions_def conversion_simps)

lemma Convert_node_AutoUpgradeOptions_To_v1beta1_AutoUpgradeOptions_eq [conversion_simps]:
  "Convert_node_AutoUpgradeOptions_To_v1beta1_AutoUpgradeOptions src out = Ok (as_v1beta1_AutoUpgradeOptions src)"
  by (cases out) (simp add: Convert_node_AutoUpgradeOptions_To_v1beta1_AutoUpgradeOptions_def as_v1beta1_AutoUpgradeOptions_def conversion_simps)

lemma Convert_v1beta1_UpdateStrategy_To_node_UpdateStrategy_eq [conversion_simps]:
  "Convert_v1beta1_UpdateStrategy_To_node_UpdateStrategy src out = Ok (as_node_UpdateStrategy src)"
  by (cases out) (simp add: Convert_v1beta1_UpdateStrategy_To_node_UpdateStrategy_def as_node_UpdateStrategy_def conversion_simps)

lemma Convert_node_UpdateStrategy_To_v1beta1_UpdateStrategy_eq [conversion_simps]:
  "Convert_node_UpdateStrategy_To_v1beta1_UpdateStrategy src out = Ok (as_v1beta1_UpdateStrategy src)"
  by (cases out) (simp add: Convert_node_UpdateStrategy_To_v1beta1_UpdateStrategy_def as_v1beta1_UpdateStrategy_def conversion_simps)

lemma Convert_v1beta1_RollingUpgradeSpec_To_node_RollingUpgradeSpec_eq [conversion_simps]:
  "Convert_v1beta1_RollingUpgradeSpec_To_node_RollingUpgradeSpec src out = Ok (as_node_RollingUpgradeSpec src)"
  by (cases out) (simp add: Convert_v1beta1_RollingUpgradeSpec_To_node_RollingUpgradeSpec_def as_node_RollingUpgradeSpec_def conversion_simps)

lemma Convert_node_RollingUpgradeSpec_To_v1beta1_RollingUpgradeSpec_eq [conversion_simps]:
  "Convert_node_RollingUpgradeSpec_To_v1beta1_RollingUpgradeSpec src out = Ok (as_v1beta1_RollingUpgradeSpec src)"
  by (cases out) (simp add: Convert_node_RollingUpgradeSpec_To_v1beta1_RollingUpgradeSpec_def as_v1beta1_RollingUpgradeSpec_def conversion_simps)

lemma Convert_v1beta1_RollingUpgradeCondition_To_node_RollingUpgradeCondition_eq [conversion_simps]:
  "Convert_v1beta1_RollingUpgradeCondition_To_node_RollingUpgradeCondition src out = Ok (as_node_RollingUpgradeCondition src)"
  by (cases out) (simp add: Convert_v1beta1_RollingUpgradeCondition_To_node_RollingUpgradeCondition_def as_node_RollingUpgradeCondition_def conversion_simps)

lemma Convert_node_RollingUpgradeCondition_To_v1beta1_RollingUpgradeCondition_eq [conversion_simps]:
  "Convert_node_RollingUpgradeCondition_To_v1beta1_RollingUpgradeCondition src out = Ok (as_v1beta1_RollingUpgradeCondition src)"
  by (cases out) (simp add: Convert_node_RollingUpgradeCondition_To_v1beta1_RollingUpgradeCondition_def as_v1beta1_RollingUpgradeCondition_def conversion_simps)

lemma Convert_v1beta1_RollingUpgradeStatus_To_node_RollingUpgradeStatus_eq [conversion_simps]:
  "Convert_v1beta1_RollingUpgradeStatus_To_node_RollingUpgradeStatus src out = Ok (as_node_RollingUpgradeStatus src)"
  by (cases out) (simp add: Convert_v1beta1_RollingUpgradeStatus_To_node_RollingUpgradeStatus_def as_node_RollingUpgradeStatus_def conversion_simps)

lemma Convert_node_RollingUpgradeStatus_To_v1beta1_RollingUpgradeStatus_eq [conversion_simps]:
  "Convert_node_RollingUpgradeStatus_To_v1beta1_RollingUpgradeStatus src out = Ok (as_v1beta1_RollingUpgradeStatus src)"
  by (cases out) (simp add: Convert_node_RollingUpgradeStatus_To_v1beta1_RollingUpgradeStatus_def as_v1beta1_RollingUpgradeStatus_def conversion_simps)

lemma Convert_v1beta1_RollingUpgrade_To_node_RollingUpgrade_eq [conversion_simps]:
  "Convert_v1beta1_RollingUpgrade_To_node_RollingUpgrade src out = Ok (as_node_RollingUpgrade src)"
  by (cases out) (simp add: Convert_v1beta1_RollingUpgrade_To_node_RollingUpgrade_def as_node_RollingUpgrade_def conversion_simps)

lemma Convert_node_RollingUpgrade_To_v1beta1_RollingUpgrade_eq [conversion_simps]:
  "Convert_node_RollingUpgrade_To_v1beta1_RollingUpgrade src out = Ok (as_v1beta1_RollingUpgrade src)"
  by (cases out) (simp add: Convert_node_RollingUpgrade_To_v1beta1_RollingUpgrade_def as_v1beta1_RollingUpgrade_def conversion_simps)

lemma Convert_v1beta1_RollingUpgradeList_To_node_RollingUpgradeList_eq [conversion_simps]:
  "Convert_v1beta1_RollingUpgradeList_To_node_RollingUpgradeList src out = Ok (as_node_RollingUpgradeList src)"
  by (cases out) (simp add: Convert_v1beta1_RollingUpgradeList_To_node_RollingUpgradeList_def as_node_RollingUpgradeList_def conversion_simps)

lemma Convert_node_RollingUpgradeList_To_v1beta1_RollingUpgradeList_eq [conversion_simps]:
  "Convert_node_RollingUpgradeList_To_v1beta1_RollingUpgradeList src out = Ok (as_v1beta1_RollingUpgradeList src)"
  by (cases out) (simp add: Convert_node_RollingUpgradeList_To_v1beta1_RollingUpgradeList_def as_v1beta1_RollingUpgradeList_def conversion_simps)

section \<open>The objects of the API\<close>

text \<open>
  The types both versions register with the scheme (\<open>addKnownTypes\<close>), without \<open>Scale\<close> of Kubernetes.  The scheme
  picks the conversion by the types of the two objects.
\<close>

datatype v1beta1_object =
    V1Machine Machine
  | V1MachineList MachineList
  | V1MachineSet MachineSet
  | V1MachineSetList MachineSetList
  | V1RollingUpgrade RollingUpgrade
  | V1RollingUpgradeList RollingUpgradeList

datatype node_object =
    NMachine node_Machine
  | NMachineList node_MachineList
  | NMachineSet node_MachineSet
  | NMachineSetList node_MachineSetList
  | NRollingUpgrade node_RollingUpgrade
  | NRollingUpgradeList node_RollingUpgradeList

datatype api_object = V1beta1 v1beta1_object | Node node_object

fun to_node :: "v1beta1_object \<Rightarrow> node_object \<Rightarrow> node_object outcome" where
  "to_node (V1Machine src) (NMachine out) =
     omap NMachine (Convert_v1beta1_Machine_To_node_Machine src out)"
| "to_node (V1MachineList src) (NMachineList out) =
     omap NMachineList (Convert_v1beta1_MachineList_To_node_MachineList src out)"
| "to_node (V1MachineSet src) (NMachineSet out) =
     omap NMachineSet (Convert_v1beta1_MachineSet_To_node_MachineSet src out)"
| "to_node (V1MachineSetList src) (NMachineSetList out) =
     omap NMachineSetList (Convert_v1beta1_MachineSetList_To_node_MachineSetList src out)"
| "to_node (V1RollingUpgrade src) (NRollingUpgrade out) =
     omap NRollingUpgrade (Convert_v1beta1_RollingUpgrade_To_node_RollingUpgrade src out)"
| "to_node (V1RollingUpgradeList src) (NRollingUpgradeList out) =
     omap NRollingUpgradeList (Convert_v1beta1_RollingUpgradeList_To_node_RollingUpgradeList src out)"
| "to_node _ _ = Err (Errorf ''unknown conversion'')"

fun to_v1beta1 :: "node_object \<Rightarrow> v1beta1_object \<Rightarrow> v1beta1_object outcome" where
  "to_v1beta1 (NMachine src) (V1Machine out) =
     omap V1Machine (Convert_node_Machine_To_v1beta1_Machine src out)"
| "to_v1beta1 (NMachineList src) (V1MachineList out) =
     omap V1MachineList (Convert_node_MachineList_To_v1beta1_MachineList src out)"
| "to_v1beta1 (NMachineSet src) (V1MachineSet out) =
     omap V1MachineSet (Convert_node_MachineSet_To_v1beta1_MachineSet src out)"
| "to_v1beta1 (NMachineSetList src) (V1MachineSetList out) =
     omap V1MachineSetList (Convert_node_MachineSetList_To_v1beta1_MachineSetList src out)"
| "to_v1beta1 (NRollingUpgrade src) (V1RollingUpgrade out) =
     omap V1RollingUpgrade (Convert_node_RollingUpgrade_To_v1beta1_RollingUpgrade src out)"
| "to_v1beta1 (NRollingUpgradeList src) (V1RollingUpgradeList out) =
     omap V1RollingUpgradeList (Convert_node_RollingUpgradeList_To_v1beta1_RollingUpgradeList src out)"
| "to_v1beta1 _ _ = Err (Errorf ''unknown conversion'')"

fun convert_object :: "api_object \<Rightarrow> api_object \<Rightarrow> api_object outcome" where
  "convert_object (V1beta1 src) (Node out) = omap Node (to_node src out)"
| "convert_object (Node src) (V1beta1 out) = omap V1beta1 (to_v1beta1 src out)"
| "convert_object _ _ = Err (Errorf ''unknown conversion'')"

fun same_kind :: "v1beta1_object \<Rightarrow> node_object \<Rightarrow> bool" where
  "same_kind (V1Machine _) (NMachine _) = True"
| "same_kind (V1MachineList _) (NMachineList _) = True"
| "same_kind (V1MachineSet _) (NMachineSet _) = True"
| "same_kind (V1MachineSetList _) (NMachineSetList _) = True"
| "same_kind (V1RollingUpgrade _) (NRollingUpgrade _) = True"
| "same_kind (V1RollingUpgradeList _) (NRollingUpgradeList _) = True"
| "same_kind _ _ = False"

fun counterparts :: "api_object \<Rightarrow> api_object \<Rightarrow> bool" where
  "counterparts (V1beta1 x) (Node y) = same_kind x y"
| "counterparts (Node y) (V1beta1 x) = same_kind x y"
| "counterparts _ _ = False"

lemma to_node_kinds:
  "is_ok (to_node x y) \<longleftrightarrow> same_kind x y"
  "to_node x y = Ok z \<Longrightarrow> same_kind x z"
  "to_node x y = Ok z \<Longrightarrow> same_kind w z \<Longrightarrow> to_v1beta1 z w = Ok x"
  by (cases x; cases y; cases w; force simp: conversion_simps casts)+

lemma to_node_any: "to_node x y = Ok z \<Longrightarrow> same_kind x y' \<Longrightarrow> to_node x y' = Ok z"
  by (cases x; cases y; cases y'; force simp: conversion_simps)

lemma to_v1beta1_any: "to_v1beta1 y x = Ok z \<Longrightarrow> same_kind x' y \<Longrightarrow> to_v1beta1 y x' = Ok z"
  by (cases y; cases x; cases x'; force simp: conversion_simps)

definition sample_list_meta :: ListMeta where
  "sample_list_meta = \<lparr>lm_SelfLink = [], lm_ResourceVersion = ''7'', lm_Continue = [], lm_RemainingItemCount = None\<rparr>"

lemma to_v1beta1_kinds:
  "is_ok (to_v1beta1 y x) \<longleftrightarrow> same_kind x y"
  "to_v1beta1 y x = Ok z \<Longrightarrow> same_kind z y"
  "to_v1beta1 y x = Ok z \<Longrightarrow> same_kind z w \<Longrightarrow> to_node z w = Ok y"
  by (cases x; cases y; cases w; force simp: conversion_simps casts)+

lemma is_ok_omap [simp]: "is_ok (omap f r) = is_ok r"
  by (cases r) simp_all

lemma traverse_pure [simp]: "traverse (\<lambda>x. Ok (f x)) xs = Ok (map f xs)"
  by (induction xs) simp_all

section \<open>Properties\<close>

text \<open>
  C20. The conversions are total and lose nothing.  An object of the API is converted exactly to its own kind in the
  other version, never fails there, is not affected by what was in the target before, and converting the
  result back gives the object again.
\<close>

theorem conversions_roundtrip:
  "(is_ok (convert_object x y) \<longleftrightarrow> counterparts x y) \<and>
   (\<forall>z. convert_object x y = Ok z \<longrightarrow> counterparts x z \<and>
      (\<forall>w. counterparts z w \<longrightarrow> convert_object z w = Ok x) \<and>
      (\<forall>y'. counterparts x y' \<longrightarrow> convert_object x y' = Ok z))"
proof (cases x; cases y)
  fix a b
  assume x: "x = V1beta1 a" and y: "y = Node b"
  have "convert_object x y' = Ok z" if "counterparts x y'" "convert_object x y = Ok z" for y' z
    using that by (cases y') (auto simp: x y dest: to_node_any)
  moreover have "convert_object z w = Ok x" if "convert_object x y = Ok z" "counterparts z w" for z w
    using that by (cases z; cases w) (auto simp: x y dest: to_node_kinds(3))
  ultimately show ?thesis by (auto simp: x y to_node_kinds(1) dest: to_node_kinds(2))
next
  fix b a
  assume x: "x = Node b" and y: "y = V1beta1 a"
  have "convert_object x y' = Ok z" if "counterparts x y'" "convert_object x y = Ok z" for y' z
    using that by (cases y') (auto simp: x y dest: to_v1beta1_any)
  moreover have "convert_object z w = Ok x" if "convert_object x y = Ok z" "counterparts z w" for z w
    using that by (cases z; cases w) (auto simp: x y dest: to_v1beta1_kinds(3))
  ultimately show ?thesis by (auto simp: x y to_v1beta1_kinds(1) dest: to_v1beta1_kinds(2))
qed simp_all

theorem conversions_roundtrip_witness:
  "let x = V1beta1 (V1MachineList \<lparr>ml_ListMeta = sample_list_meta, ml_Items = [zero_Machine]\<rparr>);
       y = Node (NMachineList \<lparr>hml_ListMeta = sample_list_meta, hml_Items = []\<rparr>)
   in \<exists>z. convert_object x y = Ok z \<and> z \<noteq> y \<and> convert_object z x = Ok x"
proof -
  let ?x = "V1beta1 (V1MachineList \<lparr>ml_ListMeta = sample_list_meta, ml_Items = [zero_Machine]\<rparr>)"
  let ?y = "Node (NMachineList \<lparr>hml_ListMeta = sample_list_meta, hml_Items = []\<rparr>)"
  have kinds: "counterparts ?x ?y" "counterparts ?x z \<longrightarrow> counterparts z ?x" for z by (simp, cases z) simp_all
  obtain z where z: "convert_object ?x ?y = Ok z"
    using conversions_roundtrip [of ?x ?y] kinds(1) by (cases "convert_object ?x ?y") auto
  moreover have "z \<noteq> ?y" using z by (auto simp: conversion_simps as_node_MachineList_def)
  ultimately show ?thesis
    using conversions_roundtrip [of ?x ?y] kinds(2) [of z] unfolding Let_def by blast
qed


end
