(* ===== verification/NodeClass.thy ===== *)
theory NodeClass
  imports NativeNode
begin

text \<open>
  The TKEMachineNodeClass resource (\<open>pkg/apis/v1beta1/tkemachinenodeclass.go\<close> and
  \<open>_status.go\<close>): selectors, disks, network and scripts of the spec, and the resolved status.
  The conditions are managed by operatorpkg, whose condition set is a parameter with the one law
  the program relies on: a condition that was set true reads as true, one that was set false does
  not.
\<close>

section \<open>Spec\<close>

text \<open>The three selector term types have the same two fields.\<close>

record SelectorTerm =
  st_Tags :: gomap
  st_ID :: string

type_synonym SubnetSelectorTerm = SelectorTerm
type_synonym SecurityGroupSelectorTerm = SelectorTerm
type_synonym SSHKeySelectorTerm = SelectorTerm

record SystemDisk =
  sd_Size :: int
  sd_Type :: string

record DataDisk =
  dd_Size :: int
  dd_Type :: string
  dd_MountTarget :: "string option"
  dd_FileSystem :: "string option"

record NcInternetAccessible =
  nia_MaxBandwidthOut :: "int option"
  nia_ChargeType :: "string option"
  nia_BandwidthPackageID :: "string option"

record LifecycleScript =
  ls_PreInitScript :: "string option"
  ls_PostInitScript :: "string option"

definition DiskTypeCloudPremium :: string where "DiskTypeCloudPremium = ''CloudPremium''"
definition DiskTypeCloudSSD :: string where "DiskTypeCloudSSD = ''CloudSSD''"
definition DiskTypeCloudHSSD :: string where "DiskTypeCloudHSSD = ''CloudHSSD''"
definition DiskTypeTSSD :: string where "DiskTypeTSSD = ''CloudTSSD''"
definition DiskTypeBSSD :: string where "DiskTypeBSSD = ''CloudBSSD''"
definition FileSystemEXT4 :: string where "FileSystemEXT4 = ''ext4''"
definition NcTrafficPostpaidByHour :: string where
  "NcTrafficPostpaidByHour = ''TrafficPostpaidByHour''"

record TKEMachineNodeClassSpec =
  ncs_SubnetSelectorTerms :: "SubnetSelectorTerm list"
  ncs_SecurityGroupSelectorTerms :: "SecurityGroupSelectorTerm list"
  ncs_SSHKeySelectorTerms :: "SSHKeySelectorTerm list"
  ncs_SystemDisk :: "SystemDisk option"
  ncs_DataDisks :: "DataDisk list"
  ncs_InternetAccessible :: "NcInternetAccessible option"
  ncs_LifecycleScript :: "LifecycleScript option"
  ncs_Tags :: gomap

section \<open>Status\<close>

record Subnet =
  sn_ID :: string
  sn_Zone :: string
  sn_ZoneID :: string

record SecurityGroup =
  sg_ID :: string

record SSHKey =
  sk_ID :: string

record OpCondition =
  oc_Type :: string
  oc_Status :: string
  oc_Reason :: string
  oc_Message :: string

record TKEMachineNodeClassStatus =
  nct_Subnets :: "Subnet list"
  nct_SecurityGroups :: "SecurityGroup list"
  nct_SSHKeys :: "SSHKey list"
  nct_Conditions :: "OpCondition list"

record TKEMachineNodeClass =
  nc_ObjectMeta :: ObjectMeta
  nc_Spec :: TKEMachineNodeClassSpec
  nc_Status :: TKEMachineNodeClassStatus

definition ConditionTypeNodeClassReady :: string where "ConditionTypeNodeClassReady = ''Ready''"

text \<open>operatorpkg's \<open>ConditionSet\<close>: the operations on the conditions of an object.\<close>

record condition_ops =
  co_SetTrue :: "string \<Rightarrow> OpCondition list \<Rightarrow> OpCondition list"
  co_SetFalse :: "string \<Rightarrow> string \<Rightarrow> string \<Rightarrow> OpCondition list \<Rightarrow> OpCondition list"

definition condition_true :: "string \<Rightarrow> OpCondition list \<Rightarrow> bool" where
  "condition_true t cs = (case find (\<lambda>c. oc_Type c = t) cs of None \<Rightarrow> False | Some c \<Rightarrow> oc_Status c = ''True'')"

definition condition_laws :: "condition_ops \<Rightarrow> bool" where
  "condition_laws ops \<longleftrightarrow>
     (\<forall>t cs. condition_true t (co_SetTrue ops t cs)) \<and>
     (\<forall>t r m cs. \<not> condition_true t (co_SetFalse ops t r m cs))"

definition GetConditions :: "TKEMachineNodeClass \<Rightarrow> OpCondition list" where
  "GetConditions nc = nct_Conditions (nc_Status nc)"

definition SetConditions :: "OpCondition list \<Rightarrow> TKEMachineNodeClass \<Rightarrow> TKEMachineNodeClass" where
  "SetConditions cs nc = nc\<lparr>nc_Status := (nc_Status nc)\<lparr>nct_Conditions := cs\<rparr>\<rparr>"

text \<open>A condition set that keeps one entry per type, for the witnesses.\<close>

fun set_condition :: "OpCondition \<Rightarrow> OpCondition list \<Rightarrow> OpCondition list" where
  "set_condition c [] = [c]"
| "set_condition c (d # ds) = (if oc_Type d = oc_Type c then c # ds else d # set_condition c ds)"

definition sample_conditions :: condition_ops where
  "sample_conditions =
     \<lparr>co_SetTrue = \<lambda>t. set_condition \<lparr>oc_Type = t, oc_Status = ''True'', oc_Reason = t, oc_Message = []\<rparr>,
      co_SetFalse = \<lambda>t r m. set_condition \<lparr>oc_Type = t, oc_Status = ''False'', oc_Reason = r, oc_Message = m\<rparr>\<rparr>"

lemma find_set_condition: "find (\<lambda>d. oc_Type d = oc_Type c) (set_condition c cs) = Some c"
  by (induction cs) auto

lemma sample_conditions_laws: "condition_laws sample_conditions"
proof -
  have "find (\<lambda>d. oc_Type d = t) (set_condition c cs) = Some c" if "oc_Type c = t" for c t cs
    using find_set_condition [of c cs] that by simp
  then show ?thesis by (simp add: condition_laws_def condition_true_def sample_conditions_def)
qed

text \<open>\<open>controllerutil\<close>'s finalizer operations.\<close>

definition ContainsFinalizer :: "ObjectMeta \<Rightarrow> string \<Rightarrow> bool" where
  "ContainsFinalizer m f \<longleftrightarrow> f \<in> set (om_Finalizers m)"

definition AddFinalizer :: "ObjectMeta \<Rightarrow> string \<Rightarrow> ObjectMeta" where
  "AddFinalizer m f = (if ContainsFinalizer m f then m else m\<lparr>om_Finalizers := om_Finalizers m @ [f]\<rparr>)"

definition RemoveFinalizer :: "ObjectMeta \<Rightarrow> string \<Rightarrow> ObjectMeta" where
  "RemoveFinalizer m f = m\<lparr>om_Finalizers := filter (\<lambda>g. g \<noteq> f) (om_Finalizers m)\<rparr>"

definition zero_NodeClassSpec :: TKEMachineNodeClassSpec where
  "zero_NodeClassSpec = \<lparr>ncs_SubnetSelectorTerms = [], ncs_SecurityGroupSelectorTerms = [],
     ncs_SSHKeySelectorTerms = [], ncs_SystemDisk = None, ncs_DataDisks = [],
     ncs_InternetAccessible = None, ncs_LifecycleScript = None, ncs_Tags = None\<rparr>"

definition zero_NodeClass :: TKEMachineNodeClass where
  "zero_NodeClass = \<lparr>nc_ObjectMeta = zero_ObjectMeta, nc_Spec = zero_NodeClassSpec,
     nc_Status = \<lparr>nct_Subnets = [], nct_SecurityGroups = [], nct_SSHKeys = [], nct_Conditions = []\<rparr>\<rparr>"

definition nc_Name :: "TKEMachineNodeClass \<Rightarrow> string" where
  "nc_Name nc = om_Name (nc_ObjectMeta nc)"

end
