(* ===== verification/Selectors.thy ===== *)
theory Selectors
  imports NodeClass GoStrings
begin

text \<open>
  The selector providers: \<open>pkg/providers/vpc/subnet.go\<close>, \<open>sg.go\<close> and
  \<open>pkg/providers/sshkey/sshkey.go\<close>.  The terms of a node class become filter sets, one API call
  each, and the results are collected in a map by ID.  The API of the cloud is a parameter: a
  call is a program over the state of the world.  The tags of a term and the collected map are
  entry lists, in the order in which Go happens to visit them.
\<close>

section \<open>The cloud API\<close>

record Filter =
  f_Name :: string
  f_Values :: "string list"

text \<open>The fields of the SDK's answers that the program reads.\<close>

record VpcSubnet =
  vs_SubnetId :: "string option"
  vs_Zone :: "string option"
  vs_AvailableIpAddressCount :: "int option"

record VpcSecurityGroup =
  vg_SecurityGroupId :: "string option"

record CvmKeyPair =
  kp_KeyId :: "string option"

type_synonym ('w, 'x) describe = "Filter list \<Rightarrow> ('w, 'x list outcome) state"

section \<open>Filter sets\<close>

definition tag_filter :: "string \<times> string \<Rightarrow> Filter" where
  "tag_filter kv = (case kv of (k, v) \<Rightarrow>
     if v = ''*'' then \<lparr>f_Name = ''tag-key'', f_Values = [k]\<rparr>
     else \<lparr>f_Name = ''tag:'' @ k, f_Values = [v]\<rparr>)"

text \<open>The loop over the terms: the IDs, and a filter set for every term without an ID.\<close>

fun split_terms :: "SelectorTerm list \<Rightarrow> string list \<times> Filter list list" where
  "split_terms [] = ([], [])"
| "split_terms (t # ts) =
     (let (ids, res) = split_terms ts
      in if st_ID t \<noteq> [] then (st_ID t # ids, res)
         else (ids, map tag_filter (gm_entries (st_Tags t)) # res))"

text \<open>\<open>DescribeSubnets\<close> takes at most five IDs, so the IDs are sent in batches.\<close>

function id_batches :: "string list \<Rightarrow> nat \<Rightarrow> Filter list list" where
  "id_batches vs i =
     (if i < length vs
      then (let end = (if i + 5 > length vs then length vs else i + 5)
            in [\<lparr>f_Name = ''subnet-id'', f_Values = take (end - i) (drop i vs)\<rparr>] # id_batches vs (i + 5))
      else [])"
  by pat_completeness auto
termination
  by (relation "measure (\<lambda>(vs, i). length vs - i)") auto

declare id_batches.simps [simp del]

definition getSubnetFilterSets :: "SubnetSelectorTerm list \<Rightarrow> Filter list list" where
  "getSubnetFilterSets terms =
     (let (ids, res) = split_terms terms
      in if length ids > 0 then res @ id_batches ids 0 else res)"

definition getSGFilterSets :: "SecurityGroupSelectorTerm list \<Rightarrow> Filter list list" where
  "getSGFilterSets terms =
     (let (ids, res) = split_terms terms
      in if length ids > 0 then res @ [[\<lparr>f_Name = ''security-group-id'', f_Values = ids\<rparr>]] else res)"

definition getFilterSets :: "SSHKeySelectorTerm list \<Rightarrow> string list \<times> Filter list list" where
  "getFilterSets terms = split_terms terms"

section \<open>Listing\<close>

text \<open>Each answer is put into the map under its ID; a failed call ends the loop.\<close>

fun collect :: "('x \<Rightarrow> string option) \<Rightarrow> 'x list \<Rightarrow> (string, 'x) entries \<Rightarrow> (string, 'x) entries" where
  "collect key [] m = m"
| "collect key (x # xs) m = collect key xs (put (str_ptr (key x)) x m)"

fun describe_loop ::
  "('w, 'x) describe \<Rightarrow> ('x \<Rightarrow> string option) \<Rightarrow> string \<Rightarrow> Filter list list \<Rightarrow> (string, 'x) entries \<Rightarrow>
   ('w, (string, 'x) entries outcome) state" where
  "describe_loop call key msg [] m = State_Monad.return (Ok m)"
| "describe_loop call key msg (f # fs) m = do {
     resp \<leftarrow> call f;
     case resp of
       Ok xs \<Rightarrow> describe_loop call key msg fs (collect key xs m)
     | Err e \<Rightarrow> State_Monad.return (Err (Describef msg e))
     | Panic \<Rightarrow> State_Monad.return Panic }"

definition vpc_filter :: "string \<Rightarrow> Filter" where
  "vpc_filter vpcID = \<lparr>f_Name = ''vpc-id'', f_Values = [vpcID]\<rparr>"

definition ListSubnets ::
  "('w, VpcSubnet) describe \<Rightarrow> string \<Rightarrow> TKEMachineNodeClass \<Rightarrow> ('w, VpcSubnet list outcome) state" where
  "ListSubnets call vpcID nc =
     (let filterSets = getSubnetFilterSets (ncs_SubnetSelectorTerms (nc_Spec nc)) in
      if length filterSets = 0 then State_Monad.return (Ok [])
      else do {
        subnets \<leftarrow> describe_loop (\<lambda>filter. call (vpc_filter vpcID # filter)) vs_SubnetId
                     ''describe subnets failed'' filterSets [];
        State_Monad.return (omap (map snd) subnets) })"

definition ListSecurityGroups ::
  "('w, VpcSecurityGroup) describe \<Rightarrow> TKEMachineNodeClass \<Rightarrow> ('w, VpcSecurityGroup list outcome) state" where
  "ListSecurityGroups call nc =
     (let filterSets = getSGFilterSets (ncs_SecurityGroupSelectorTerms (nc_Spec nc)) in
      if length filterSets = 0 then State_Monad.return (Ok [])
      else do {
        sgs \<leftarrow> describe_loop call vg_SecurityGroupId ''describe subnets failed'' filterSets [];
        State_Monad.return (omap (map snd) sgs) })"

text \<open>Key pairs are described by IDs or by filters.\<close>

datatype key_request = ByKeyIds "string list" | ByFilters "Filter list"

definition ListSSHKeys ::
  "(key_request \<Rightarrow> ('w, CvmKeyPair list outcome) state) \<Rightarrow> TKEMachineNodeClass \<Rightarrow>
   ('w, CvmKeyPair list outcome) state" where
  "ListSSHKeys call nc =
     (let (ids, filterSets) = getFilterSets (ncs_SSHKeySelectorTerms (nc_Spec nc)) in
      if length filterSets = 0 \<and> length ids = 0 then State_Monad.return (Ok [])
      else do {
        resp \<leftarrow> (if length ids \<noteq> 0 then call (ByKeyIds ids) else State_Monad.return (Ok []));
        case resp of
          Err e \<Rightarrow> State_Monad.return (Err (Describef ''describe key pairs failed'' e))
        | Panic \<Rightarrow> State_Monad.return Panic
        | Ok byId \<Rightarrow> do {
            keypairs \<leftarrow> describe_loop (\<lambda>filter. call (ByFilters filter)) kp_KeyId
                          ''describe key pairs failed'' filterSets (collect kp_KeyId byId []);
            State_Monad.return (omap (map snd) keypairs) } })"

section \<open>Batches\<close>

lemma id_batches_all:
  "concat (map f_Values (concat (id_batches vs i))) = drop i vs"
proof (induction vs i rule: id_batches.induct)
  case (1 vs i)
  show ?case
  proof (cases "i < length vs")
    case True
    let ?e = "if i + 5 > length vs then length vs else i + 5"
    have "take (?e - i) (drop i vs) @ drop (i + 5) vs = drop i vs"
      using append_take_drop_id [of 5 "drop i vs"] by (simp add: add.commute)
    then show ?thesis using 1 True by (simp add: id_batches.simps [of vs i] Let_def)
  next
    case False
    then show ?thesis by (simp add: id_batches.simps [of vs i])
  qed
qed

lemma id_batches_sizes:
  "fs \<in> set (id_batches vs i) \<Longrightarrow>
     \<exists>ids. fs = [\<lparr>f_Name = ''subnet-id'', f_Values = ids\<rparr>] \<and> ids \<noteq> [] \<and> length ids \<le> 5"
proof (induction vs i rule: id_batches.induct)
  case (1 vs i)
  then show ?case
    by (cases "i < length vs") (auto simp: id_batches.simps [of vs i] Let_def split: if_splits)
qed

lemma split_terms_eq:
  "split_terms ts =
     (filter (\<lambda>i. i \<noteq> []) (map st_ID ts),
      map (\<lambda>t. map tag_filter (gm_entries (st_Tags t))) (filter (\<lambda>t. st_ID t = []) ts))"
  by (induction ts) auto

section \<open>The collected map\<close>

definition keyed :: "('x \<Rightarrow> string option) \<Rightarrow> (string, 'x) entries \<Rightarrow> bool" where
  "keyed key m \<longleftrightarrow> distinct_keys m \<and> (\<forall>(k, x) \<in> set m. k = str_ptr (key x))"

lemma set_put: "set (put k v es) \<subseteq> insert (k, v) (set es)"
  by (induction es) (auto split: if_splits)

lemma keyed_Nil [simp]: "keyed key []"
  by (simp add: keyed_def distinct_keys_def)

lemma keyed_put: "keyed key m \<Longrightarrow> keyed key (put (str_ptr (key x)) x m)"
  using set_put [of "str_ptr (key x)" x m] by (auto simp: keyed_def)

lemma keyed_collect: "keyed key m \<Longrightarrow> keyed key (collect key xs m)"
  by (induction xs arbitrary: m) (auto intro: keyed_put)

lemma keys_collect:
  "fst ` set (collect key xs m) = fst ` set m \<union> (\<lambda>x. str_ptr (key x)) ` set xs"
proof (induction xs arbitrary: m)
  case Nil
  then show ?case by simp
next
  case (Cons x xs)
  have "fst ` set (put (str_ptr (key x)) x m) = insert (str_ptr (key x)) (fst ` set m)"
    by (simp add: keys_put flip: set_map) auto
  then show ?case by (simp add: Cons.IH)
qed

lemma values_collect: "snd ` set (collect key xs m) \<subseteq> snd ` set m \<union> set xs"
proof (induction xs arbitrary: m)
  case Nil
  then show ?case by simp
next
  case (Cons x xs)
  have "snd ` set (put (str_ptr (key x)) x m) \<subseteq> insert x (snd ` set m)"
    using image_mono [OF set_put, of snd "str_ptr (key x)" x m] by simp
  then have "snd ` set (put (str_ptr (key x)) x m) \<union> set xs \<subseteq> snd ` set m \<union> set (x # xs)"
    by auto
  from order_trans [OF Cons.IH [of "put (str_ptr (key x)) x m"] this] show ?case by simp
qed

lemma keyed_values: "keyed key m \<Longrightarrow> map (\<lambda>x. str_ptr (key x)) (map snd m) = map fst m"
  by (auto simp: keyed_def)

section \<open>What a listing returns\<close>

text \<open>
  A run of the loop with every call and its answer logged: on success all the filter sets were
  asked for in order, and the map holds the answers, one per ID.
\<close>

definition answers :: "('q \<times> 'x list outcome) list \<Rightarrow> 'x set" where
  "answers tr = \<Union> ((\<lambda>(q, r). case r of Ok xs \<Rightarrow> set xs | _ \<Rightarrow> {}) ` set tr)"

lemma answers_simps [simp]:
  "answers [] = {}"
  "answers ((q, r) # tr) = (case r of Ok xs \<Rightarrow> set xs | _ \<Rightarrow> {}) \<union> answers tr"
  "answers (tr @ tr') = answers tr \<union> answers tr'"
  by (auto simp: answers_def)

definition asked :: "('q \<Rightarrow> ('w, 'x list outcome) state) \<Rightarrow> 'q \<Rightarrow>
    ('w \<times> ('q \<times> 'x list outcome) list, 'x list outcome) state" where
  "asked call q = logged (\<lambda>r. (q, r)) (call q)"

lemma describe_loop_Ok:
  assumes "run_state (describe_loop (\<lambda>f. asked call (g f)) key msg fs m) (w, tr) = (Ok m', (w', tr'))"
    and "keyed key m"
  shows "\<exists>new. tr' = tr @ new \<and> map fst new = map g fs \<and> list_all (\<lambda>(q, r). is_ok r) new \<and> keyed key m' \<and>
    fst ` set m' = fst ` set m \<union> (\<lambda>x. str_ptr (key x)) ` answers new \<and>
    snd ` set m' \<subseteq> snd ` set m \<union> answers new"
  using assms
proof (induction fs arbitrary: m w tr)
  case Nil
  then show ?case by (simp add: run_simps)
next
  case (Cons f fs)
  obtain r w1 where call: "run_state (call (g f)) w = (r, w1)" by fastforce
  obtain xs where r: "r = Ok xs"
    using Cons.prems(1) call by (cases r) (auto simp: asked_def run_simps)
  have "run_state (describe_loop (\<lambda>f. asked call (g f)) key msg fs (collect key xs m))
      (w1, tr @ [(g f, Ok xs)]) = (Ok m', (w', tr'))"
    using Cons.prems(1) call r by (simp add: asked_def run_simps)
  from Cons.IH [OF this keyed_collect [OF Cons.prems(2)]] obtain new where
    new: "tr' = tr @ (g f, Ok xs) # new" "map fst new = map g fs" "list_all (\<lambda>(q, r). is_ok r) new"
    "keyed key m'"
    "fst ` set m' = fst ` set (collect key xs m) \<union> (\<lambda>x. str_ptr (key x)) ` answers new"
    "snd ` set m' \<subseteq> snd ` set (collect key xs m) \<union> answers new"
    by auto
  have "snd ` set m' \<subseteq> snd ` set m \<union> (set xs \<union> answers new)"
    using new(6) values_collect [of key xs m] by blast
  then show ?case
    using new(1-5)
    by (intro exI [of _ "(g f, Ok xs) # new"]) (simp add: keys_collect image_Un Un_assoc)
qed

lemma describe_loop_Err:
  assumes "run_state (describe_loop (\<lambda>f. asked call (g f)) key msg fs m) (w, tr) = (Err e, (w', tr'))"
  shows "\<exists>oks q e'. tr' = tr @ oks @ [(q, Err e')] \<and> e = Describef msg e' \<and>
    list_all (\<lambda>(q, r). is_ok r) oks \<and> prefix (map fst oks @ [q]) (map g fs)"
  using assms
proof (induction fs arbitrary: m w tr)
  case Nil
  then show ?case by (simp add: run_simps)
next
  case (Cons f fs)
  obtain r w1 where call: "run_state (call (g f)) w = (r, w1)" by fastforce
  show ?case
  proof (cases r)
    case (Ok xs)
    then have "run_state (describe_loop (\<lambda>f. asked call (g f)) key msg fs (collect key xs m))
        (w1, tr @ [(g f, Ok xs)]) = (Err e, (w', tr'))"
      using Cons.prems call by (simp add: asked_def run_simps)
    from Cons.IH [OF this] obtain oks q e' where
      "tr' = tr @ (g f, Ok xs) # oks @ [(q, Err e')]" "e = Describef msg e'"
      "list_all (\<lambda>(q, r). is_ok r) oks" "prefix (map fst oks @ [q]) (map g fs)"
      by auto
    then show ?thesis by (intro exI [of _ "(g f, Ok xs) # oks"]) auto
  next
    case (Err e')
    then show ?thesis using Cons.prems call
      by (intro exI [of _ "[]"] exI [of _ "g f"] exI [of _ e']) (simp add: asked_def run_simps)
  next
    case Panic
    then show ?thesis using Cons.prems call by (simp add: asked_def run_simps)
  qed
qed

section \<open>The interface of the providers\<close>

text \<open>
  What the status reconcilers rely on: a listing has one element per ID.  The client may then
  sort it by ID, or by any key and then ID, and get a determined order.
\<close>

locale listing =
  fixes list_all_of :: "TKEMachineNodeClass \<Rightarrow> ('w, 'x list outcome) state"
    and item_id :: "'x \<Rightarrow> string option"
  assumes one_per_id:
    "run_state (list_all_of nc) w = (Ok xs, w') \<Longrightarrow> distinct (map (\<lambda>x. str_ptr (item_id x)) xs)"
begin

lemma ids_inj:
  "run_state (list_all_of nc) w = (Ok xs, w') \<Longrightarrow> inj_on (\<lambda>x. str_ptr (item_id x)) (set xs)"
  using one_per_id by (simp add: distinct_map)

lemma sort_by_id_unique:
  assumes "run_state (list_all_of nc) w = (Ok xs, w')" "mset xs = mset ys"
  shows "sort_by (\<lambda>x y. str_ptr (item_id x) < str_ptr (item_id y)) xs =
         sort_by (\<lambda>x y. str_ptr (item_id x) < str_ptr (item_id y)) ys"
  by (rule sort_by_perm [OF orders_key [OF ids_inj [OF assms(1)]] assms(2)])

lemma sort_by_rank_unique:
  fixes rank :: "'x \<Rightarrow> int"
  assumes "run_state (list_all_of nc) w = (Ok xs, w')" "mset xs = mset ys"
  shows "sort_by (\<lambda>x y. if rank x \<noteq> rank y then rank x > rank y
                         else str_ptr (item_id x) < str_ptr (item_id y)) xs =
         sort_by (\<lambda>x y. if rank x \<noteq> rank y then rank x > rank y
                         else str_ptr (item_id x) < str_ptr (item_id y)) ys"
  by (rule sort_by_perm [OF orders_rank_key [OF ids_inj [OF assms(1)]] assms(2)])

end

lemma describe_loop_keyed:
  "run_state (describe_loop call key msg fs m) w = (Ok m', w') \<Longrightarrow> keyed key m \<Longrightarrow> keyed key m'"
proof (induction fs arbitrary: m w)
  case Nil
  then show ?case by (simp add: run_simps)
next
  case (Cons f fs)
  obtain r w1 where call: "run_state (call f) w = (r, w1)" by fastforce
  obtain xs where r: "r = Ok xs"
    using Cons.prems(1) call by (cases r) (auto simp: run_simps)
  show ?case
    using Cons.IH [of "collect key xs m" w1] Cons.prems call r keyed_collect
    by (auto simp: run_simps)
qed

lemma run_then_values:
  "(case run_state m w of (r, w1) \<Rightarrow> (omap (map snd) r, w1)) = (Ok xs, w') \<longleftrightarrow>
     (\<exists>r. run_state m w = (Ok r, w') \<and> xs = map snd r)"
  by (auto split: prod.splits)

lemma loop_values_distinct:
  assumes "(case run_state (describe_loop call key msg fs m) w of (r, w1) \<Rightarrow> (omap (map snd) r, w1)) =
      (Ok xs, w')" "keyed key m"
  shows "distinct (map (\<lambda>x. str_ptr (key x)) xs)"
proof -
  obtain m' where m': "run_state (describe_loop call key msg fs m) w = (Ok m', w')" "xs = map snd m'"
    using assms(1) unfolding run_then_values by blast
  have k: "keyed key m'" using m'(1) assms(2) by (rule describe_loop_keyed)
  then show ?thesis
    unfolding m'(2) keyed_values [OF k] by (simp add: keyed_def distinct_keys_def)
qed

interpretation vpc_subnets: listing "ListSubnets call vpcID" vs_SubnetId for call vpcID
proof
  fix nc w xs w'
  assume "run_state (ListSubnets call vpcID nc) w = (Ok xs, w')"
  then show "distinct (map (\<lambda>x. str_ptr (vs_SubnetId x)) xs)"
    unfolding ListSubnets_def Let_def run_state_if
    by (auto simp: run_state_return split: if_splits dest: loop_values_distinct)
qed

interpretation vpc_security_groups: listing "ListSecurityGroups call" vg_SecurityGroupId for call
proof
  fix nc w xs w'
  assume "run_state (ListSecurityGroups call nc) w = (Ok xs, w')"
  then show "distinct (map (\<lambda>x. str_ptr (vg_SecurityGroupId x)) xs)"
    unfolding ListSecurityGroups_def Let_def run_state_if
    by (auto simp: run_state_return split: if_splits dest: loop_values_distinct)
qed

interpretation ssh_keys: listing "ListSSHKeys call" kp_KeyId for call
proof
  fix nc w xs w'
  assume run: "run_state (ListSSHKeys call nc) w = (Ok xs, w')"
  obtain ids fss where g: "getFilterSets (ncs_SSHKeySelectorTerms (nc_Spec nc)) = (ids, fss)"
    by fastforce
  show "distinct (map (\<lambda>x. str_ptr (kp_KeyId x)) xs)"
  proof (cases "ids = [] \<and> fss = []")
    case True
    then show ?thesis using run g by (simp add: ListSSHKeys_def run_simps)
  next
    case False
    obtain r w1 where first:
      "run_state (if ids \<noteq> [] then call (ByKeyIds ids) else State_Monad.return (Ok [])) w = (r, w1)"
      by fastforce
    have rest: "run_state (case r of
          Err e \<Rightarrow> State_Monad.return (Err (Describef ''describe key pairs failed'' e))
        | Panic \<Rightarrow> State_Monad.return Panic
        | Ok byId \<Rightarrow> do {
            keypairs \<leftarrow> describe_loop (\<lambda>filter. call (ByFilters filter)) kp_KeyId
                          ''describe key pairs failed'' fss (collect kp_KeyId byId []);
            State_Monad.return (omap (map snd) keypairs) }) w1 = (Ok xs, w')"
      using run False first g by (simp add: ListSSHKeys_def Let_def split: if_splits)
    then obtain byId where "r = Ok byId"
      by (cases r) (auto simp: run_simps)
    with rest have "(case run_state
        (describe_loop (\<lambda>filter. call (ByFilters filter)) kp_KeyId ''describe key pairs failed''
           fss (collect kp_KeyId byId [])) w1 of (r, w1) \<Rightarrow> (omap (map snd) r, w1)) = (Ok xs, w')"
      by (simp add: run_simps)
    then show ?thesis by (rule loop_values_distinct) (simp add: keyed_collect)
  qed
qed

section \<open>Properties\<close>

text \<open>
  C30. The filter sets of the subnet selector: one set of tag filters for every term without an ID,
  and the IDs of the other terms in batches that hold them all, once and in order, never more
  than the five IDs that one DescribeSubnets call accepts and never none.
\<close>

theorem getSubnetFilterSets_correct:
  "\<exists>batches. getSubnetFilterSets terms =
      map (\<lambda>t. map tag_filter (gm_entries (st_Tags t))) (filter (\<lambda>t. st_ID t = []) terms) @ batches \<and>
    concat (map f_Values (concat batches)) = filter (\<lambda>i. i \<noteq> []) (map st_ID terms) \<and>
    list_all (\<lambda>b. length b = 1 \<and> f_Name (hd b) = ''subnet-id'' \<and>
                   1 \<le> length (f_Values (hd b)) \<and> length (f_Values (hd b)) \<le> 5) batches"
proof -
  let ?ids = "filter (\<lambda>i. i \<noteq> []) (map st_ID terms)"
  let ?batches = "if ?ids = [] then [] else id_batches ?ids 0"
  have "list_all (\<lambda>b. length b = 1 \<and> f_Name (hd b) = ''subnet-id'' \<and>
      1 \<le> length (f_Values (hd b)) \<and> length (f_Values (hd b)) \<le> 5) ?batches"
    using id_batches_sizes by (fastforce simp: list_all_iff Suc_le_eq)
  moreover have "concat (map f_Values (concat ?batches)) = ?ids"
    using id_batches_all [of ?ids 0] by simp
  moreover have "getSubnetFilterSets terms =
      map (\<lambda>t. map tag_filter (gm_entries (st_Tags t))) (filter (\<lambda>t. st_ID t = []) terms) @ ?batches"
    by (simp add: getSubnetFilterSets_def split_terms_eq Let_def)
  ultimately show ?thesis by blast
qed

text \<open>
  C29. Listing the subnets of a node class, in any world and with any API: a successful listing has
  asked for every filter set, in order and restricted to the cluster's VPC, every call has
  succeeded, and the result holds exactly one of the answered subnets for each answered ID.
\<close>

theorem ListSubnets_union:
  assumes "run_state (ListSubnets (asked call) vpcID nc) (w, []) = (Ok xs, (w', tr))"
  shows "map fst tr =
      map (\<lambda>f. vpc_filter vpcID # f) (getSubnetFilterSets (ncs_SubnetSelectorTerms (nc_Spec nc))) \<and>
    list_all (\<lambda>(q, r). is_ok r) tr \<and> set xs \<subseteq> answers tr \<and>
    distinct (map (\<lambda>x. str_ptr (vs_SubnetId x)) xs) \<and>
    (\<lambda>x. str_ptr (vs_SubnetId x)) ` set xs = (\<lambda>x. str_ptr (vs_SubnetId x)) ` answers tr"
proof (cases "getSubnetFilterSets (ncs_SubnetSelectorTerms (nc_Spec nc)) = []")
  case True
  then show ?thesis using assms by (simp add: ListSubnets_def run_simps)
next
  case False
  let ?g = "\<lambda>f. vpc_filter vpcID # f"
  obtain m where m: "run_state (describe_loop (\<lambda>f. asked call (?g f)) vs_SubnetId
      ''describe subnets failed'' (getSubnetFilterSets (ncs_SubnetSelectorTerms (nc_Spec nc))) [])
      (w, []) = (Ok m, (w', tr))" "xs = map snd m"
    using assms False by (auto simp: ListSubnets_def run_then_values run_state_if)
  from describe_loop_Ok [OF m(1)] have d: "keyed vs_SubnetId m"
    "map fst tr = map ?g (getSubnetFilterSets (ncs_SubnetSelectorTerms (nc_Spec nc)))"
    "list_all (\<lambda>(q, r). is_ok r) tr"
    "fst ` set m = (\<lambda>x. str_ptr (vs_SubnetId x)) ` answers tr" "snd ` set m \<subseteq> answers tr"
    by auto
  have k: "map (\<lambda>x. str_ptr (vs_SubnetId x)) xs = map fst m"
    unfolding m(2) using d(1) by (rule keyed_values)
  then have "(\<lambda>x. str_ptr (vs_SubnetId x)) ` set xs = fst ` set m"
    by (metis set_map)
  moreover have "distinct (map (\<lambda>x. str_ptr (vs_SubnetId x)) xs)"
    unfolding k using d(1) by (simp add: keyed_def distinct_keys_def)
  moreover have "set xs \<subseteq> answers tr"
    using d(5) m(2) by simp
  ultimately show ?thesis
    using d(2-4) by simp
qed

definition sample_subnet :: "string \<Rightarrow> VpcSubnet" where
  "sample_subnet i = \<lparr>vs_SubnetId = Some i, vs_Zone = Some ''ap-guangzhou-3'',
     vs_AvailableIpAddressCount = Some 10\<rparr>"

definition sample_describe :: "(unit, VpcSubnet) describe" where
  "sample_describe fs = State_Monad.return
     (Ok (map sample_subnet (filter (\<lambda>i. i \<noteq> ''vpc-1'') (concat (map f_Values fs)))))"

definition sample_class :: TKEMachineNodeClass where
  "sample_class = zero_NodeClass\<lparr>nc_Spec := zero_NodeClassSpec\<lparr>ncs_SubnetSelectorTerms :=
     [\<lparr>st_Tags = None, st_ID = ''subnet-1''\<rparr>, \<lparr>st_Tags = None, st_ID = ''subnet-2''\<rparr>]\<rparr>\<rparr>"

theorem ListSubnets_union_witness:
  "\<exists>xs tr. run_state (ListSubnets (asked sample_describe) ''vpc-1'' sample_class) ((), []) = (Ok xs, ((), tr)) \<and>
     (\<lambda>x. str_ptr (vs_SubnetId x)) ` set xs = (\<lambda>x. str_ptr (vs_SubnetId x)) ` answers tr"
proof -
  have ids: "id_batches [''subnet-1'', ''subnet-2''] 0 =
      [[\<lparr>f_Name = ''subnet-id'', f_Values = [''subnet-1'', ''subnet-2'']\<rparr>]]"
    by (simp add: id_batches.simps)
  obtain xs tr where run:
    "run_state (ListSubnets (asked sample_describe) ''vpc-1'' sample_class) ((), []) = (Ok xs, ((), tr))"
    by (simp add: ListSubnets_def sample_class_def zero_NodeClass_def zero_NodeClassSpec_def
        getSubnetFilterSets_def ids asked_def sample_describe_def run_simps)
  from ListSubnets_union [OF this] run show ?thesis by blast
qed

end
