(* ===== verification/Zone.thy ===== *)
theory Zone
  imports GoStrings
begin

text \<open>
  The zone provider (\<open>pkg/providers/zone/zone.go\<close>): the table of regions and their zone-ID
  bases, and the two translations between zone names and zone IDs.  The table is a Go map, so it
  is a list of entries in the order a \<open>range\<close> happens to visit them; the lemmas hold for every
  order.  The locale \<open>zone_naming\<close> is the interface the other components use.
\<close>

section \<open>The provider\<close>

record zone_provider =
  zoneGroups :: "(string, int) entries"

definition new_zone_provider :: zone_provider where
  "new_zone_provider = \<lparr>zoneGroups =
    [(''ap-guangzhou'', 100000), (''ap-shenzhen-fsi'', 110000), (''ap-guangzhou-open'', 120000),
     (''na-siliconvalley'', 150000), (''ap-chengdu'', 160000), (''eu-frankfurt'', 170000),
     (''ap-seoul'', 180000), (''ap-chongqing'', 190000), (''ap-shanghai'', 200000),
     (''ap-mumbai'', 210000), (''na-ashburn'', 220000), (''ap-bangkok'', 230000),
     (''ap-tokyo'', 250000), (''ap-hongkong'', 300000), (''ap-jinan-ec'', 310000),
     (''ap-hangzhou-ec'', 320000), (''ap-nanjing'', 330000), (''ap-fuzhou-ec'', 340000),
     (''ap-wuhan-ec'', 350000), (''ap-tianjin'', 360000), (''ap-shenzhen'', 370000),
     (''ap-taipei'', 390000), (''na-toronto'', 400000), (''ap-changsha-ec'', 450000),
     (''ap-beijing-fsi'', 460000), (''ap-shijiazhuang-ec'', 530000), (''ap-qingyuan'', 540000),
     (''ap-hefei-ec'', 550000), (''ap-shenyang-ec'', 560000), (''ap-xian-ec'', 570000),
     (''ap-xibei-ec'', 580000), (''ap-shanghai-fsi'', 700000), (''ap-zhengzhou-ec'', 710000),
     (''ap-jakarta'', 720000), (''sa-saopaulo'', 740000), (''ap-shanghai-adc'', 780000),
     (''ap-beijing'', 800000), (''ap-guangzhou-wxzf'', 820000), (''ap-shanghai-wxzf'', 830000),
     (''ap-singapore'', 900000)]\<rparr>"

definition zone_from_id :: "zone_provider \<Rightarrow> string \<Rightarrow> string outcome" where
  "zone_from_id p zid =
     (case atoi zid of
        None \<Rightarrow> Err (Errorf ''failed to convert id'')
      | Some idNum \<Rightarrow>
          (case find (\<lambda>(ap, apNum). apNum < idNum \<and> idNum < i64 (apNum + 1000)) (zoneGroups p) of
             Some (ap, apNum) \<Rightarrow> Ok (ap @ ''-'' @ itoa (i64 (idNum - apNum)))
           | None \<Rightarrow> Err (Errorf ''failed to find zone for id'')))"

definition id_from_zone :: "zone_provider \<Rightarrow> string \<Rightarrow> string outcome" where
  "id_from_zone p zone =
     (let zoneSlice = go_split ''-'' zone in
      if length zoneSlice < 3 then Err (Errorf ''invalid zone'')
      else
        let (region, suffix) =
              (if length zoneSlice = 4
               then (zoneSlice ! 0 @ ''-'' @ zoneSlice ! 1 @ ''-'' @ zoneSlice ! 2, zoneSlice ! 3)
               else (zoneSlice ! 0 @ ''-'' @ zoneSlice ! 1, zoneSlice ! 2))
        in case atoi suffix of
             None \<Rightarrow> Err (Errorf ''invalid zone'')
           | Some idNum \<Rightarrow>
               (case map_of (zoneGroups p) region of
                  Some apNum \<Rightarrow> Ok (itoa (i64 (apNum + idNum)))
                | None \<Rightarrow> Err (Errorf ''failed to find zone'')))"

section \<open>Tables on which the two translations agree\<close>

text \<open>
  A region name has two or three segments, its base is far from the width of an integer, and
  the thousand IDs after a base belong to one region only.
\<close>

definition region_name_ok :: "string \<Rightarrow> bool" where
  "region_name_ok ap \<longleftrightarrow> length (go_split ''-'' ap) \<in> {2, 3}"

definition bases_apart :: "(string, int) entries \<Rightarrow> bool" where
  "bases_apart gs \<longleftrightarrow> sorted_wrt (\<lambda>a b. snd a + 1000 \<le> snd b \<or> snd b + 1000 \<le> snd a) gs"

definition table_ok :: "(string, int) entries \<Rightarrow> bool" where
  "table_ok gs \<longleftrightarrow>
     distinct_keys gs \<and> list_all (\<lambda>(ap, b). region_name_ok ap \<and> 0 \<le> b \<and> b \<le> 10 ^ 9) gs \<and>
     bases_apart gs"

text \<open>The zone names the table gives an ID of their own.\<close>

definition known_zone :: "zone_provider \<Rightarrow> string \<Rightarrow> bool" where
  "known_zone p z \<longleftrightarrow>
     (\<exists>ap b n. (ap, b) \<in> set (zoneGroups p) \<and> 1 \<le> n \<and> n \<le> 999 \<and> z = ap @ ''-'' @ itoa n)"

lemma new_zone_provider_keys: "distinct_keys (zoneGroups new_zone_provider)"
  by code_simp

lemma new_zone_provider_names:
  "list_all (\<lambda>(ap, b). region_name_ok ap \<and> 0 \<le> b \<and> b \<le> 10 ^ 9) (zoneGroups new_zone_provider)"
  by (simp add: new_zone_provider_def region_name_ok_def go_split_char_Cons go_split_Nil)

lemma new_zone_provider_bases: "bases_apart (zoneGroups new_zone_provider)"
  by code_simp

lemma table_ok_new [simp]: "table_ok (zoneGroups new_zone_provider)"
  unfolding table_ok_def
  using new_zone_provider_keys new_zone_provider_names new_zone_provider_bases by blast

text \<open>The iteration order of the map does not matter to these conditions.\<close>

lemma bases_apartD:
  assumes "bases_apart gs" "(a, x) \<in> set gs" "(b, y) \<in> set gs" "(a, x) \<noteq> (b, y)"
  shows "x + 1000 \<le> y \<or> y + 1000 \<le> x"
  using assms
proof (induction gs)
  case Nil
  then show ?case by simp
next
  case (Cons g gs)
  then show ?case by (auto simp: bases_apart_def)
qed

lemma bases_apartI:
  assumes "distinct gs"
    and "\<And>a x b y. (a, x) \<in> set gs \<Longrightarrow> (b, y) \<in> set gs \<Longrightarrow> (a, x) \<noteq> (b, y) \<Longrightarrow> x + 1000 \<le> y \<or> y + 1000 \<le> x"
  shows "bases_apart gs"
  using assms
proof (induction gs)
  case Nil
  then show ?case by (simp add: bases_apart_def)
next
  case (Cons g gs)
  have "bases_apart gs"
    by (rule Cons.IH) (use Cons.prems in \<open>simp, meson list.set_intros(2)\<close>)
  moreover have "\<forall>h\<in>set gs. snd g + 1000 \<le> snd h \<or> snd h + 1000 \<le> snd g"
  proof
    fix h assume "h \<in> set gs"
    then show "snd g + 1000 \<le> snd h \<or> snd h + 1000 \<le> snd g"
      using Cons.prems(1) Cons.prems(2) [of "fst g" "snd g" "fst h" "snd h"] by auto
  qed
  ultimately show ?case by (simp add: bases_apart_def)
qed

lemma table_ok_perm:
  assumes "table_ok gs" "mset gs = mset hs"
  shows "table_ok hs"
proof -
  have set: "set gs = set hs" using assms(2) by (metis set_mset_mset)
  have dist: "distinct (map fst hs)"
    using assms by (metis table_ok_def distinct_keys_def mset_map mset_eq_imp_distinct_iff)
  have "bases_apart hs"
    by (rule bases_apartI) (use assms(1) dist set in \<open>auto simp: table_ok_def distinct_map dest: bases_apartD\<close>)
  then show ?thesis using assms(1) dist set by (auto simp: table_ok_def distinct_keys_def list_all_iff)
qed

section \<open>The two translations are inverse on known zones\<close>

lemma join_snoc: "ws \<noteq> [] \<Longrightarrow> join sep (ws @ [w]) = join sep ws @ sep @ w"
  by (induction ws rule: induct_list012) (simp_all add: join_Cons_ne)

lemma itoa_no_dash: "0 \<le> n \<Longrightarrow> CHR ''-'' \<notin> set (itoa n)"
  by (auto simp: itoa_def dest: set_digits)

lemma split_zone:
  assumes "0 \<le> n"
  shows "go_split ''-'' (ap @ ''-'' @ itoa n) = go_split ''-'' ap @ [itoa n]"
proof -
  let ?ws = "go_split ''-'' ap @ [itoa n]"
  have "join ''-'' ?ws = ap @ ''-'' @ itoa n"
    by (simp add: join_snoc)
  moreover have "\<forall>w\<in>set ?ws. CHR ''-'' \<notin> set w"
    using itoa_no_dash [OF assms] split_parts_no_sep by auto
  ultimately show ?thesis using split_join [of ?ws "CHR ''-''"] by simp
qed

lemma region_of_split:
  assumes "region_name_ok ap"
  shows "length (go_split ''-'' ap) = 2 \<and> ap = go_split ''-'' ap ! 0 @ ''-'' @ go_split ''-'' ap ! 1 \<or>
         length (go_split ''-'' ap) = 3 \<and>
           ap = go_split ''-'' ap ! 0 @ ''-'' @ go_split ''-'' ap ! 1 @ ''-'' @ go_split ''-'' ap ! 2"
proof -
  have j: "join ''-'' (go_split ''-'' ap) = ap" by simp
  show ?thesis
  proof (cases "length (go_split ''-'' ap) = 2")
    case True
    then obtain a b where ab: "go_split ''-'' ap = [a, b]"
      by (auto simp: numeral_2_eq_2 length_Suc_conv)
    then have "ap = a @ ''-'' @ b" using j by simp
    then show ?thesis using ab by simp
  next
    case False
    then have "length (go_split ''-'' ap) = 3" using assms by (simp add: region_name_ok_def)
    then obtain a b c where abc: "go_split ''-'' ap = [a, b, c]"
      by (auto simp: numeral_3_eq_3 length_Suc_conv)
    then have "ap = a @ ''-'' @ b @ ''-'' @ c" using j by simp
    then show ?thesis using abc by simp
  qed
qed

lemma id_from_known_zone:
  assumes "table_ok (zoneGroups p)" "(ap, b) \<in> set (zoneGroups p)" "0 \<le> n" "n \<le> 10 ^ 9"
  shows "id_from_zone p (ap @ ''-'' @ itoa n) = Ok (itoa (b + n))"
proof -
  let ?parts = "go_split ''-'' ap"
  have ok: "region_name_ok ap" and b: "0 \<le> b" "b \<le> 10 ^ 9"
    using assms(1,2) by (auto simp: table_ok_def list_all_iff)
  have map: "map_of (zoneGroups p) ap = Some b"
    using assms(1,2) by (simp add: table_ok_def distinct_keys_def)
  have split: "go_split ''-'' (ap @ ''-'' @ itoa n) = ?parts @ [itoa n]"
    by (rule split_zone [OF assms(3)])
  have n: "atoi (itoa n) = Some n" "i64 (b + n) = b + n"
    using assms(3,4) b by (simp_all add: in_i64_def)
  from region_of_split [OF ok] show ?thesis
  proof (elim disjE conjE)
    assume "length ?parts = 2" "ap = ?parts ! 0 @ ''-'' @ ?parts ! 1"
    then show ?thesis using map n unfolding id_from_zone_def split
      by (simp add: nth_append Let_def)
  next
    assume "length ?parts = 3" "ap = ?parts ! 0 @ ''-'' @ ?parts ! 1 @ ''-'' @ ?parts ! 2"
    then show ?thesis using map n unfolding id_from_zone_def split
      by (simp add: nth_append Let_def)
  qed
qed

lemma find_region:
  assumes "table_ok gs" "(ap, b) \<in> set gs" "1 \<le> n" "n \<le> 999"
  shows "find (\<lambda>(ap, apNum). apNum < b + n \<and> b + n < i64 (apNum + 1000)) gs = Some (ap, b)"
proof -
  let ?P = "\<lambda>(ap, apNum). apNum < b + n \<and> b + n < i64 (apNum + 1000)"
  have range: "i64 (x + 1000) = x + 1000" if "(a, x) \<in> set gs" for a x
  proof -
    have "0 \<le> x" "x \<le> 10 ^ 9" using that assms(1) by (auto simp: table_ok_def list_all_iff)
    then show ?thesis by (simp add: in_i64_def)
  qed
  have only: "g = (ap, b)" if "g \<in> set gs" "?P g" for g
  proof (rule ccontr)
    obtain a x where g: "g = (a, x)" by (cases g)
    assume "g \<noteq> (ap, b)"
    then have "x + 1000 \<le> b \<or> b + 1000 \<le> x"
      using bases_apartD [of gs a x ap b] assms(1,2) that(1) g by (auto simp: table_ok_def)
    then show False using that range assms(3,4) g by auto
  qed
  have yes: "?P (ap, b)" using assms range by auto
  show ?thesis
  proof (cases "find ?P gs")
    case None
    then show ?thesis using assms(2) yes by (auto simp: find_None_iff)
  next
    case (Some g)
    then have "g \<in> set gs" "?P g" using find_SomeD [OF Some] by blast+
    then show ?thesis using only Some by simp
  qed
qed

lemma zone_from_known_id:
  assumes "table_ok (zoneGroups p)" "(ap, b) \<in> set (zoneGroups p)" "1 \<le> n" "n \<le> 999"
    and "atoi zid = Some (b + n)"
  shows "zone_from_id p zid = Ok (ap @ ''-'' @ itoa n)"
proof -
  have "i64 (b + n - b) = n" using assms(3,4) by (simp add: in_i64_def)
  then show ?thesis
    using find_region [OF assms(1-4)] assms(5) by (simp add: zone_from_id_def)
qed

lemma zone_from_id_Ok:
  assumes "table_ok (zoneGroups p)" "zone_from_id p zid = Ok z"
  obtains ap b n where "(ap, b) \<in> set (zoneGroups p)" "1 \<le> n" "n \<le> 999"
    "atoi zid = Some (b + n)" "z = ap @ ''-'' @ itoa n"
proof -
  from assms(2) obtain idNum ap b where f:
    "atoi zid = Some idNum"
    "find (\<lambda>(ap, apNum). apNum < idNum \<and> idNum < i64 (apNum + 1000)) (zoneGroups p) = Some (ap, b)"
    "z = ap @ ''-'' @ itoa (i64 (idNum - b))"
    by (auto simp: zone_from_id_def split: option.splits prod.splits)
  then have mem: "(ap, b) \<in> set (zoneGroups p)" "b < idNum" "idNum < i64 (b + 1000)"
    by (auto dest!: find_SomeD)
  have "0 \<le> b" "b \<le> 10 ^ 9"
    using mem(1) assms(1) by (auto simp: table_ok_def list_all_iff)
  then have "i64 (b + 1000) = b + 1000" "i64 (idNum - b) = idNum - b"
    using mem by (simp_all add: in_i64_def)
  then show ?thesis using that [of ap b "idNum - b"] f mem by simp
qed

section \<open>The interface\<close>

text \<open>
  What the other components rely on: an ID is only handed out for a zone the provider knows,
  and the ID of a known zone leads back to that zone.
\<close>

locale zone_naming =
  fixes zoneFromID :: "string \<Rightarrow> string outcome"
    and idFromZone :: "string \<Rightarrow> string outcome"
    and known :: "string \<Rightarrow> bool"
  assumes zone_known: "zoneFromID zid = Ok z \<Longrightarrow> known z"
    and known_roundtrip: "known z \<Longrightarrow> \<exists>zid. idFromZone z = Ok zid \<and> zoneFromID zid = Ok z"
begin

lemma id_of_zone_of_id:
  assumes "zoneFromID zid = Ok z"
  shows "\<exists>zid'. idFromZone z = Ok zid' \<and> zoneFromID zid' = Ok z"
  using known_roundtrip [OF zone_known [OF assms]] .

lemma id_inj:
  assumes "known z" "known z'" "idFromZone z = idFromZone z'"
  shows "z = z'"
  using known_roundtrip [OF assms(1)] known_roundtrip [OF assms(2)] assms(3) by auto

lemma zone_of_id_of_known:
  assumes "known z" "idFromZone z = Ok zid"
  shows "zoneFromID zid = Ok z"
  using known_roundtrip [OF assms(1)] assms(2) by auto

end

lemma zone_naming_of_table:
  assumes "table_ok (zoneGroups p)"
  shows "zone_naming (zone_from_id p) (id_from_zone p) (known_zone p)"
proof
  fix zid z
  assume "zone_from_id p zid = Ok z"
  with assms show "known_zone p z"
    by (elim zone_from_id_Ok) (auto simp: known_zone_def)
next
  fix z
  assume "known_zone p z"
  then obtain ap b n where z: "(ap, b) \<in> set (zoneGroups p)" "1 \<le> n" "n \<le> 999" "z = ap @ ''-'' @ itoa n"
    by (auto simp: known_zone_def)
  have "0 \<le> b" "b \<le> 10 ^ 9"
    using z(1) assms by (auto simp: table_ok_def list_all_iff)
  then have "atoi (itoa (b + n)) = Some (b + n)" using z by (simp add: in_i64_def)
  then show "\<exists>zid. id_from_zone p z = Ok zid \<and> zone_from_id p zid = Ok z"
    using id_from_known_zone [OF assms z(1)] zone_from_known_id [OF assms z(1-3)] z by auto
qed

interpretation tke_zones:
  zone_naming "zone_from_id new_zone_provider" "id_from_zone new_zone_provider"
    "known_zone new_zone_provider"
  by (rule zone_naming_of_table) simp

section \<open>Properties\<close>

text \<open>
  C18. The two translations of zone names are inverse to each other, whatever order the table of
  regions is visited in: a zone that \<open>ZoneFromID\<close> gives for an ID is translated back by
  \<open>IDFromZone\<close> to the decimal numeral of the same ID, and the zones \<open>ZoneFromID\<close> can give are
  exactly the regions of the table with a number from 1 to 999.
\<close>

theorem zone_id_roundtrip:
  assumes order: "mset (zoneGroups p) = mset (zoneGroups new_zone_provider)"
    and z: "zone_from_id p zid = Ok z"
  shows "known_zone p z \<and> (\<exists>n. atoi zid = Some n \<and> id_from_zone p z = Ok (itoa n))"
proof -
  have ok: "table_ok (zoneGroups p)"
    using table_ok_perm [OF table_ok_new] order by simp
  show ?thesis
    using z
    by (rule zone_from_id_Ok [OF ok])
       (use id_from_known_zone [OF ok] in \<open>auto simp: known_zone_def\<close>)
qed

theorem zone_id_roundtrip_witness:
  "known_zone new_zone_provider ''ap-shenzhen-fsi-3'' \<and>
   (\<exists>n. atoi ''110003'' = Some n \<and> id_from_zone new_zone_provider ''ap-shenzhen-fsi-3'' = Ok (itoa n))"
proof (rule zone_id_roundtrip)
  show "zone_from_id new_zone_provider ''110003'' = Ok ''ap-shenzhen-fsi-3''"
    by code_simp
qed simp

text \<open>
  C36. \<open>ZoneFromID\<close> and \<open>IDFromZone\<close> range over a Go map, but their results do not depend on the
  order in which the map is visited.
\<close>

theorem zone_order_independent:
  assumes "mset (zoneGroups p) = mset (zoneGroups new_zone_provider)"
  shows "zone_from_id p = zone_from_id new_zone_provider \<and>
    id_from_zone p = id_from_zone new_zone_provider"
proof -
  let ?q = new_zone_provider
  have ok: "table_ok (zoneGroups p)"
    using table_ok_perm [OF table_ok_new] assms by simp
  have mem: "set (zoneGroups p) = set (zoneGroups ?q)"
    using assms by (metis set_mset_mset)
  have to: "zone_from_id p zid = Ok z \<longleftrightarrow> zone_from_id ?q zid = Ok z" for zid z
    using zone_from_known_id [OF ok] zone_from_known_id [OF table_ok_new] mem
    by (metis zone_from_id_Ok [OF ok] zone_from_id_Ok [OF table_ok_new])
  have "zone_from_id p zid = zone_from_id ?q zid" for zid
  proof (cases "\<exists>z. zone_from_id p zid = Ok z")
    case True
    then show ?thesis using to by auto
  next
    case False
    then have "\<nexists>z. zone_from_id ?q zid = Ok z" using to by simp
    with False show ?thesis
      by (auto simp: zone_from_id_def split: option.splits prod.splits)
  qed
  moreover have map: "map_of (zoneGroups p) = map_of (zoneGroups ?q)"
    using ok assms by (intro map_of_perm) (simp_all add: table_ok_def)
  have "id_from_zone p = id_from_zone ?q"
    unfolding id_from_zone_def map ..
  ultimately show ?thesis by (simp add: fun_eq_iff)
qed

theorem zone_order_independent_witness:
  "zone_from_id \<lparr>zoneGroups = rev (zoneGroups new_zone_provider)\<rparr> ''300002'' = Ok ''ap-hongkong-2''"
proof -
  have "zone_from_id \<lparr>zoneGroups = rev (zoneGroups new_zone_provider)\<rparr> = zone_from_id new_zone_provider"
    using zone_order_independent [of "\<lparr>zoneGroups = rev (zoneGroups new_zone_provider)\<rparr>"] by simp
  moreover have "zone_from_id new_zone_provider ''300002'' = Ok ''ap-hongkong-2''"
    by code_simp
  ultimately show ?thesis by simp
qed

end
