(* ===== verification/NodeClassStatus.thy ===== *)
theory NodeClassStatus
  imports Selectors Zone
begin

text \<open>
  The status controller of node classes (\<open>pkg/controllers/nodeclass/status\<close>): four
  sub-reconcilers (subnets, security groups, SSH keys, readiness) run in turn on one node class,
  then one status patch.  A sub-reconciler takes the node class behind the pointer and gives it
  back with its result and error.  The locale \<open>status_reconciler\<close> is the Go interface
  \<open>nodeClassStatusReconciler\<close> with the contract its users rely on; all four are interpretations
  of it.
\<close>

section \<open>The sub-reconcilers\<close>

type_synonym reconciled = "TKEMachineNodeClass \<times> reconcile_result \<times> goerr option"

definition set_Subnets :: "Subnet list \<Rightarrow> TKEMachineNodeClass \<Rightarrow> TKEMachineNodeClass" where
  "set_Subnets v nc = nc\<lparr>nc_Status := (nc_Status nc)\<lparr>nct_Subnets := v\<rparr>\<rparr>"

definition set_SecurityGroups :: "SecurityGroup list \<Rightarrow> TKEMachineNodeClass \<Rightarrow> TKEMachineNodeClass" where
  "set_SecurityGroups v nc = nc\<lparr>nc_Status := (nc_Status nc)\<lparr>nct_SecurityGroups := v\<rparr>\<rparr>"

definition set_SSHKeys :: "SSHKey list \<Rightarrow> TKEMachineNodeClass \<Rightarrow> TKEMachineNodeClass" where
  "set_SSHKeys v nc = nc\<lparr>nc_Status := (nc_Status nc)\<lparr>nct_SSHKeys := v\<rparr>\<rparr>"

text \<open>Subnets with more free addresses come first; \<open>int(uint64)\<close> wraps.\<close>

definition free_ips :: "VpcSubnet \<Rightarrow> int" where
  "free_ips s = i64 (from_ptr 0 (vs_AvailableIpAddressCount s))"

definition subnet_before :: "VpcSubnet \<Rightarrow> VpcSubnet \<Rightarrow> bool" where
  "subnet_before x y =
     (if free_ips x \<noteq> free_ips y then free_ips x > free_ips y
      else str_ptr (vs_SubnetId x) < str_ptr (vs_SubnetId y))"

definition status_subnet :: "(string \<Rightarrow> string outcome) \<Rightarrow> VpcSubnet \<Rightarrow> Subnet" where
  "status_subnet idFromZone s =
     \<lparr>sn_ID = str_ptr (vs_SubnetId s), sn_Zone = str_ptr (vs_Zone s),
      sn_ZoneID = (case idFromZone (str_ptr (vs_Zone s)) of Ok zid \<Rightarrow> zid | _ \<Rightarrow> [])\<rparr>"

definition subnet_Reconcile ::
  "(string \<Rightarrow> string outcome) \<Rightarrow> (TKEMachineNodeClass \<Rightarrow> ('w, VpcSubnet list outcome) state) \<Rightarrow>
   TKEMachineNodeClass \<Rightarrow> ('w, reconciled outcome) state" where
  "subnet_Reconcile idFromZone listSubnets nc = do {
     resp \<leftarrow> listSubnets nc;
     State_Monad.return (case resp of
       Panic \<Rightarrow> Panic
     | Err e \<Rightarrow> Ok (nc, no_result, Some (Wrapf ''getting subnets'' e))
     | Ok subnets \<Rightarrow>
         if length subnets = 0 then Ok (set_Subnets [] nc, no_result, None)
         else Ok (set_Subnets (map (status_subnet idFromZone) (sort_by subnet_before subnets)) nc,
                  requeue_after (minutes 1), None)) }"

text \<open>
  The comparators of the other two dereference the ID pointers, so a nil ID panics once there is
  something to compare.
\<close>

definition sort_ids :: "('x \<Rightarrow> string option) \<Rightarrow> 'x list \<Rightarrow> 'x list outcome" where
  "sort_ids key xs =
     (if length xs \<ge> 2 \<and> (\<exists>x \<in> set xs. key x = None) then Panic
      else Ok (sort_by (\<lambda>x y. str_ptr (key x) < str_ptr (key y)) xs))"

definition sg_Reconcile ::
  "(TKEMachineNodeClass \<Rightarrow> ('w, VpcSecurityGroup list outcome) state) \<Rightarrow>
   TKEMachineNodeClass \<Rightarrow> ('w, reconciled outcome) state" where
  "sg_Reconcile listSGs nc = do {
     resp \<leftarrow> listSGs nc;
     State_Monad.return (case resp of
       Panic \<Rightarrow> Panic
     | Err e \<Rightarrow> Ok (nc, no_result, Some (Wrapf ''getting securitygroups'' e))
     | Ok sgs \<Rightarrow>
         if length sgs = 0 then Ok (set_SecurityGroups [] nc, no_result, None)
         else omap (\<lambda>sgs. (set_SecurityGroups (map (\<lambda>sg. \<lparr>sg_ID = str_ptr (vg_SecurityGroupId sg)\<rparr>) sgs) nc,
                           requeue_after (minutes 1), None))
                (sort_ids vg_SecurityGroupId sgs)) }"

definition sshkey_Reconcile ::
  "(TKEMachineNodeClass \<Rightarrow> ('w, CvmKeyPair list outcome) state) \<Rightarrow>
   TKEMachineNodeClass \<Rightarrow> ('w, reconciled outcome) state" where
  "sshkey_Reconcile listKeys nc = do {
     resp \<leftarrow> listKeys nc;
     State_Monad.return (case resp of
       Panic \<Rightarrow> Panic
     | Err e \<Rightarrow> Ok (nc, no_result, Some (Wrapf ''getting ssh key pairs'' e))
     | Ok keys \<Rightarrow>
         if length keys = 0 then Ok (set_SSHKeys [] nc, no_result, None)
         else omap (\<lambda>keys. (set_SSHKeys (map (\<lambda>k. \<lparr>sk_ID = str_ptr (kp_KeyId k)\<rparr>) keys) nc,
                            requeue_after (minutes 1), None))
                (sort_ids kp_KeyId keys)) }"

definition ConditionReady :: string where "ConditionReady = ''Ready''"

definition readiness_Reconcile ::
  "condition_ops \<Rightarrow> TKEMachineNodeClass \<Rightarrow> ('w, reconciled outcome) state" where
  "readiness_Reconcile cond nc = State_Monad.return (Ok (
     (if length (nct_Subnets (nc_Status nc)) = 0
      then SetConditions (co_SetFalse cond ConditionReady ''NodeClassNotReady''
             ''Failed to resolve subnets'' (GetConditions nc)) nc
      else if length (nct_SecurityGroups (nc_Status nc)) = 0
      then SetConditions (co_SetFalse cond ConditionReady ''NodeClassNotReady''
             ''Failed to resolve security groups'' (GetConditions nc)) nc
      else SetConditions (co_SetTrue cond ConditionReady (GetConditions nc)) nc),
     no_result, None))"

section \<open>The controller\<close>

record 'w status_env =
  se_IDFromZone :: "string \<Rightarrow> string outcome"
  se_ListSubnets :: "TKEMachineNodeClass \<Rightarrow> ('w, VpcSubnet list outcome) state"
  se_ListSecurityGroups :: "TKEMachineNodeClass \<Rightarrow> ('w, VpcSecurityGroup list outcome) state"
  se_ListSSHKeys :: "TKEMachineNodeClass \<Rightarrow> ('w, CvmKeyPair list outcome) state"
  se_Conditions :: condition_ops
  se_Patch :: "TKEMachineNodeClass \<Rightarrow> TKEMachineNodeClass \<Rightarrow> ('w, TKEMachineNodeClass outcome) state"
  se_StatusPatch :: "TKEMachineNodeClass \<Rightarrow> TKEMachineNodeClass \<Rightarrow> ('w, TKEMachineNodeClass outcome) state"
  se_ResultMin :: "reconcile_result list \<Rightarrow> reconcile_result"

definition reconcilers ::
  "'w status_env \<Rightarrow> (TKEMachineNodeClass \<Rightarrow> ('w, reconciled outcome) state) list" where
  "reconcilers env =
     [subnet_Reconcile (se_IDFromZone env) (se_ListSubnets env),
      sg_Reconcile (se_ListSecurityGroups env),
      sshkey_Reconcile (se_ListSSHKeys env),
      readiness_Reconcile (se_Conditions env)]"

text \<open>The loop over the sub-reconcilers goes on after an error and keeps the errors in order.\<close>

fun reconcile_loop ::
  "(TKEMachineNodeClass \<Rightarrow> ('w, reconciled outcome) state) list \<Rightarrow> TKEMachineNodeClass \<Rightarrow>
   reconcile_result list \<Rightarrow> goerr option list \<Rightarrow>
   ('w, (TKEMachineNodeClass \<times> reconcile_result list \<times> goerr option list) outcome) state" where
  "reconcile_loop [] nc results errs = State_Monad.return (Ok (nc, results, errs))"
| "reconcile_loop (r # rs) nc results errs = do {
     out \<leftarrow> r nc;
     case out of
       Ok (nc', res, err) \<Rightarrow> reconcile_loop rs nc' (results @ [res]) (errs @ [err])
     | Err e \<Rightarrow> State_Monad.return (Err e)
     | Panic \<Rightarrow> State_Monad.return Panic }"

definition finalizer_patch ::
  "'w status_env \<Rightarrow> TKEMachineNodeClass \<Rightarrow> ('w, TKEMachineNodeClass outcome) state" where
  "finalizer_patch env nc =
     (if \<not> ContainsFinalizer (nc_ObjectMeta nc) TerminationFinalizer
      then se_Patch env (nc\<lparr>nc_ObjectMeta := AddFinalizer (nc_ObjectMeta nc) TerminationFinalizer\<rparr>) nc
      else State_Monad.return (Ok nc))"

definition status_patch ::
  "'w status_env \<Rightarrow> TKEMachineNodeClass \<Rightarrow> TKEMachineNodeClass \<Rightarrow> goerr option list \<Rightarrow>
   ('w, goerr option list outcome) state" where
  "status_patch env stored nc errs =
     (if stored \<noteq> nc
      then do {
        out \<leftarrow> se_StatusPatch env nc stored;
        State_Monad.return (case out of
          Ok _ \<Rightarrow> Ok errs
        | Err e \<Rightarrow> Ok (errs @ [ignore_not_found e])
        | Panic \<Rightarrow> Panic) }
      else State_Monad.return (Ok errs))"

definition status_Reconcile ::
  "'w status_env \<Rightarrow> TKEMachineNodeClass \<Rightarrow> ('w, reconcile_result outcome) state" where
  "status_Reconcile env nc = do {
     patched \<leftarrow> finalizer_patch env nc;
     case patched of
       Err e \<Rightarrow> State_Monad.return (Err e)
     | Panic \<Rightarrow> State_Monad.return Panic
     | Ok stored \<Rightarrow> do {
         out \<leftarrow> reconcile_loop (reconcilers env) stored [] [];
         case out of
           Err e \<Rightarrow> State_Monad.return (Err e)
         | Panic \<Rightarrow> State_Monad.return Panic
         | Ok (nc', results, errs) \<Rightarrow> do {
             errs' \<leftarrow> status_patch env stored nc' errs;
             State_Monad.return (obind errs' (\<lambda>es.
               case multierr_combine es of Some e \<Rightarrow> Err e | None \<Rightarrow> Ok (se_ResultMin env results))) } } }"

section \<open>The contract of a sub-reconciler\<close>

locale status_reconciler =
  fixes reconcile :: "TKEMachineNodeClass \<Rightarrow> ('w, reconciled outcome) state"
  assumes keeps: "run_state (reconcile nc) w = (Ok (nc', res, err), w') \<Longrightarrow>
      nc_ObjectMeta nc' = nc_ObjectMeta nc \<and> nc_Spec nc' = nc_Spec nc"
    and error_keeps: "run_state (reconcile nc) w = (Ok (nc', res, Some e), w') \<Longrightarrow> nc' = nc \<and> res = no_result"
    and error_value: "run_state (reconcile nc) w \<noteq> (Err e, w')"
begin

text \<open>One step of the loop: either a panic, or the loop goes on with metadata and spec unchanged.\<close>

lemma step_cases:
  obtains (panic) w' where "run_state (reconcile nc) w = (Panic, w')"
  | (steps) nc' res err w' where "run_state (reconcile nc) w = (Ok (nc', res, err), w')"
      "nc_ObjectMeta nc' = nc_ObjectMeta nc" "nc_Spec nc' = nc_Spec nc"
      "\<And>e. err = Some e \<Longrightarrow> nc' = nc"
proof -
  obtain out w' where run: "run_state (reconcile nc) w = (out, w')" by fastforce
  show ?thesis
  proof (cases out)
    case (Ok o')
    obtain nc' res err where o': "o' = (nc', res, err)" by (cases o')
    show ?thesis
      using steps [of nc' res err w'] run Ok o' keeps [of nc w nc' res err w'] error_keeps [of nc w nc' res _ w']
      by auto
  next
    case (Err e)
    then show ?thesis using run error_value by blast
  next
    case Panic
    then show ?thesis using run panic by blast
  qed
qed

end

lemma set_status_simps [simp]:
  "nc_ObjectMeta (set_Subnets v nc) = nc_ObjectMeta nc" "nc_Spec (set_Subnets v nc) = nc_Spec nc"
  "nc_ObjectMeta (set_SecurityGroups g nc) = nc_ObjectMeta nc"
  "nc_Spec (set_SecurityGroups g nc) = nc_Spec nc"
  "nc_ObjectMeta (set_SSHKeys k nc) = nc_ObjectMeta nc" "nc_Spec (set_SSHKeys k nc) = nc_Spec nc"
  "nc_ObjectMeta (SetConditions c nc) = nc_ObjectMeta nc" "nc_Spec (SetConditions c nc) = nc_Spec nc"
  "nct_Subnets (nc_Status (set_SecurityGroups g nc)) = nct_Subnets (nc_Status nc)"
  "nct_Subnets (nc_Status (set_SSHKeys k nc)) = nct_Subnets (nc_Status nc)"
  "nct_Subnets (nc_Status (SetConditions c nc)) = nct_Subnets (nc_Status nc)"
  "nct_SecurityGroups (nc_Status (set_Subnets v nc)) = nct_SecurityGroups (nc_Status nc)"
  "nct_SecurityGroups (nc_Status (set_SSHKeys k nc)) = nct_SecurityGroups (nc_Status nc)"
  "nct_SecurityGroups (nc_Status (SetConditions c nc)) = nct_SecurityGroups (nc_Status nc)"
  "nct_SSHKeys (nc_Status (set_Subnets v nc)) = nct_SSHKeys (nc_Status nc)"
  "nct_SSHKeys (nc_Status (set_SecurityGroups g nc)) = nct_SSHKeys (nc_Status nc)"
  "nct_SSHKeys (nc_Status (SetConditions c nc)) = nct_SSHKeys (nc_Status nc)"
  "GetConditions (SetConditions c nc) = c"
  by (simp_all add: set_Subnets_def set_SecurityGroups_def set_SSHKeys_def SetConditions_def
      GetConditions_def)

interpretation subnets: status_reconciler "subnet_Reconcile idz ls" for idz ls
  by unfold_locales
    (auto simp: subnet_Reconcile_def run_simps split: prod.splits outcome.splits if_splits)

interpretation security_groups: status_reconciler "sg_Reconcile lg" for lg
  by unfold_locales
    (auto simp: sg_Reconcile_def sort_ids_def run_simps split: prod.splits outcome.splits if_splits)

interpretation ssh_key_pairs: status_reconciler "sshkey_Reconcile lk" for lk
  by unfold_locales
    (auto simp: sshkey_Reconcile_def sort_ids_def run_simps split: prod.splits outcome.splits if_splits)

interpretation ready: status_reconciler "readiness_Reconcile cond" for cond
  by unfold_locales (auto simp: readiness_Reconcile_def run_simps)

lemma reconcilers_contract: "list_all status_reconciler (reconcilers env)"
  by (simp add: reconcilers_def subnets.status_reconciler_axioms
      security_groups.status_reconciler_axioms ssh_key_pairs.status_reconciler_axioms
      ready.status_reconciler_axioms)

text \<open>Any loop over reconcilers under the contract keeps metadata and spec and adds one result each.\<close>

lemma reconcile_loop_keeps:
  assumes "list_all status_reconciler rs"
    and "run_state (reconcile_loop rs nc results errs) w = (out, w')"
  shows "out = Panic \<or> (\<exists>nc' new_results new_errs. out = Ok (nc', results @ new_results, errs @ new_errs) \<and>
    nc_ObjectMeta nc' = nc_ObjectMeta nc \<and> nc_Spec nc' = nc_Spec nc \<and>
    length new_results = length rs \<and> length new_errs = length rs)"
  using assms
proof (induction rs arbitrary: nc results errs w)
  case Nil
  then show ?case by (auto simp: run_simps)
next
  case (Cons r rs)
  then have contract: "status_reconciler r" by simp
  show ?case
  proof (cases rule: status_reconciler.step_cases [OF contract, of nc w])
    case (1 w1)
    then show ?thesis using Cons.prems(2) by (simp add: run_simps)
  next
    case (2 nc1 res err w1)
    then have "run_state (reconcile_loop rs nc1 (results @ [res]) (errs @ [err])) w1 = (out, w')"
      using Cons.prems(2) by (simp add: run_simps)
    from Cons.IH [OF _ this] Cons.prems(1) 2(2,3) show ?thesis
      by (auto simp: length_Suc_conv)
  qed
qed

text \<open>What the last reconciler leaves: readiness is the conjunction of the two resolved lists.\<close>

lemma readiness_correct:
  assumes "condition_laws cond" "run_state (readiness_Reconcile cond nc) w = (Ok (nc', res, err), w')"
  shows "(condition_true ConditionReady (GetConditions nc') \<longleftrightarrow>
      nct_Subnets (nc_Status nc') \<noteq> [] \<and> nct_SecurityGroups (nc_Status nc') \<noteq> []) \<and> err = None"
  using assms by (auto simp: readiness_Reconcile_def condition_laws_def run_simps split: if_splits)

text \<open>Each reconciler writes its own field of the status only.\<close>

lemma subnet_frame:
  "run_state (subnet_Reconcile idz ls nc) w = (Ok (nc', res, err), w') \<Longrightarrow>
     nct_SecurityGroups (nc_Status nc') = nct_SecurityGroups (nc_Status nc) \<and>
     nct_SSHKeys (nc_Status nc') = nct_SSHKeys (nc_Status nc) \<and>
     (err \<noteq> None \<longrightarrow> nc' = nc)"
  by (auto simp: subnet_Reconcile_def run_simps split: prod.splits outcome.splits if_splits)

lemma sg_frame:
  "run_state (sg_Reconcile lg nc) w = (Ok (nc', res, err), w') \<Longrightarrow>
     nct_Subnets (nc_Status nc') = nct_Subnets (nc_Status nc) \<and>
     nct_SSHKeys (nc_Status nc') = nct_SSHKeys (nc_Status nc) \<and>
     (err \<noteq> None \<longrightarrow> nc' = nc)"
  by (auto simp: sg_Reconcile_def sort_ids_def run_simps split: prod.splits outcome.splits if_splits)

lemma sshkey_frame:
  "run_state (sshkey_Reconcile lk nc) w = (Ok (nc', res, err), w') \<Longrightarrow>
     nct_Subnets (nc_Status nc') = nct_Subnets (nc_Status nc) \<and>
     nct_SecurityGroups (nc_Status nc') = nct_SecurityGroups (nc_Status nc) \<and>
     (err \<noteq> None \<longrightarrow> nc' = nc)"
  by (auto simp: sshkey_Reconcile_def sort_ids_def run_simps split: prod.splits outcome.splits if_splits)

lemma readiness_frame:
  "run_state (readiness_Reconcile cond nc) w = (Ok (nc', res, err), w') \<Longrightarrow>
     nct_Subnets (nc_Status nc') = nct_Subnets (nc_Status nc) \<and>
     nct_SecurityGroups (nc_Status nc') = nct_SecurityGroups (nc_Status nc) \<and>
     nct_SSHKeys (nc_Status nc') = nct_SSHKeys (nc_Status nc)"
  by (auto simp: readiness_Reconcile_def run_simps split: if_splits)

lemma reconcile_loop_Cons_Ok:
  assumes "run_state (reconcile_loop (r # rs) nc results errs) w = (Ok out, w')"
  obtains nc1 res err w1 where "run_state (r nc) w = (Ok (nc1, res, err), w1)"
    "run_state (reconcile_loop rs nc1 (results @ [res]) (errs @ [err])) w1 = (Ok out, w')"
proof -
  obtain o1 w1 where run: "run_state (r nc) w = (o1, w1)" by fastforce
  then obtain nc1 res err where "o1 = Ok (nc1, res, err)"
    using assms by (cases o1) (auto simp: run_simps)
  then show ?thesis using that [of nc1 res err w1] run assms by (simp add: run_simps)
qed

lemma reconcile_pass:
  assumes run: "run_state (reconcile_loop (reconcilers env) nc [] []) w = (Ok (nc', results, errs), w')"
    and cond: "condition_laws (se_Conditions env)"
  shows "\<exists>e1 e2 e3. errs = [e1, e2, e3, None] \<and>
    (condition_true ConditionReady (GetConditions nc') \<longleftrightarrow>
      nct_Subnets (nc_Status nc') \<noteq> [] \<and> nct_SecurityGroups (nc_Status nc') \<noteq> []) \<and>
    (e1 \<noteq> None \<longrightarrow> nct_Subnets (nc_Status nc') = nct_Subnets (nc_Status nc)) \<and>
    (e2 \<noteq> None \<longrightarrow> nct_SecurityGroups (nc_Status nc') = nct_SecurityGroups (nc_Status nc)) \<and>
    (e3 \<noteq> None \<longrightarrow> nct_SSHKeys (nc_Status nc') = nct_SSHKeys (nc_Status nc))"
proof -
  obtain nc1 r1 e1 w1 nc2 r2 e2 w2 nc3 r3 e3 w3 nc4 r4 e4 w4 where steps:
    "run_state (subnet_Reconcile (se_IDFromZone env) (se_ListSubnets env) nc) w = (Ok (nc1, r1, e1), w1)"
    "run_state (sg_Reconcile (se_ListSecurityGroups env) nc1) w1 = (Ok (nc2, r2, e2), w2)"
    "run_state (sshkey_Reconcile (se_ListSSHKeys env) nc2) w2 = (Ok (nc3, r3, e3), w3)"
    "run_state (readiness_Reconcile (se_Conditions env) nc3) w3 = (Ok (nc4, r4, e4), w4)"
    "nc' = nc4" "errs = [e1, e2, e3, e4]"
    using run unfolding reconcilers_def
    by (elim reconcile_loop_Cons_Ok) (simp add: run_state_return)
  show ?thesis
    using subnet_frame [OF steps(1)] sg_frame [OF steps(2)] sshkey_frame [OF steps(3)]
      readiness_frame [OF steps(4)] readiness_correct [OF cond steps(4)] steps(5,6)
    by auto
qed

section \<open>The calls of a reconciliation\<close>

text \<open>The patches of a reconciliation are logged; the listings are not.\<close>

datatype nodeclass_call =
    Patched TKEMachineNodeClass TKEMachineNodeClass "TKEMachineNodeClass outcome"
  | StatusPatched TKEMachineNodeClass TKEMachineNodeClass

definition logged_status :: "'w status_env \<Rightarrow> ('w \<times> nodeclass_call list) status_env" where
  "logged_status env =
     \<lparr>se_IDFromZone = se_IDFromZone env,
      se_ListSubnets = \<lambda>nc. lifted (se_ListSubnets env nc),
      se_ListSecurityGroups = \<lambda>nc. lifted (se_ListSecurityGroups env nc),
      se_ListSSHKeys = \<lambda>nc. lifted (se_ListSSHKeys env nc),
      se_Conditions = se_Conditions env,
      se_Patch = \<lambda>nc stored. logged (\<lambda>out. Patched nc stored out) (se_Patch env nc stored),
      se_StatusPatch = \<lambda>nc stored. logged (\<lambda>_. StatusPatched nc stored) (se_StatusPatch env nc stored),
      se_ResultMin = se_ResultMin env\<rparr>"

definition silent :: "(TKEMachineNodeClass \<Rightarrow> ('w \<times> 'c list, 'a) state) \<Rightarrow> bool" where
  "silent r \<longleftrightarrow> (\<forall>nc w tr. snd (snd (run_state (r nc) (w, tr))) = tr)"

lemma silent_reconcilers: "list_all silent (reconcilers (logged_status env))"
  by (simp add: reconcilers_def logged_status_def silent_def subnet_Reconcile_def sg_Reconcile_def
      sshkey_Reconcile_def readiness_Reconcile_def run_simps split_def Let_def)

lemma silent_loop:
  assumes "list_all silent rs"
    and "run_state (reconcile_loop rs nc results errs) (w, tr) = (out, (w', tr'))"
  shows "tr' = tr"
  using assms
proof (induction rs arbitrary: nc results errs w tr)
  case Nil
  then show ?case by (simp add: run_simps)
next
  case (Cons r rs)
  obtain o1 w1 tr1 where run: "run_state (r nc) (w, tr) = (o1, (w1, tr1))" by (metis prod.exhaust)
  have "silent r" using Cons.prems(1) by simp
  then have "snd (snd (run_state (r nc) (w, tr))) = tr" unfolding silent_def by blast
  then have tr1: "tr1 = tr" using run by simp
  then show ?case
    using Cons.IH [of _ _ _ w1 tr] Cons.prems run tr1 by (cases o1) (auto simp: run_simps)
qed

section \<open>Properties\<close>

text \<open>
  C28. The subnets of the status do not depend on the order in which the provider returns them (Go's
  map order): they are the listed subnets, most free addresses first and then by ID, whichever
  permutation of the listing is sorted, by whichever algorithm.  A listing that fails leaves the
  node class unchanged and is reported.
\<close>

theorem subnet_Reconcile_determined:
  assumes "run_state (ListSubnets call vpcID nc) w = (Ok xs, w')"
    and "run_state (other nc) w = (Ok ys, w')" "mset ys = mset xs"
  shows "run_state (subnet_Reconcile idz other nc) w =
    (Ok (set_Subnets (map (status_subnet idz) (sort_by subnet_before xs)) nc,
         if xs = [] then no_result else requeue_after (minutes 1), None), w') \<and>
    sorted_wrt (\<lambda>x y. \<not> subnet_before y x) (sort_by subnet_before xs)"
proof -
  have eq: "subnet_before = (\<lambda>x y. if free_ips x \<noteq> free_ips y then free_ips x > free_ips y
      else str_ptr (vs_SubnetId x) < str_ptr (vs_SubnetId y))"
    by (simp add: subnet_before_def fun_eq_iff)
  have sort: "sort_by subnet_before xs = sort_by subnet_before ys"
    unfolding eq by (rule vpc_subnets.sort_by_rank_unique [OF assms(1)]) (simp add: assms(3))
  have "orders subnet_before (set xs)"
    unfolding eq by (rule orders_rank_key [OF vpc_subnets.ids_inj [OF assms(1)]])
  then have "sorted_wrt (\<lambda>x y. \<not> subnet_before y x) (sort_by subnet_before xs)"
    by (rule sorted_sort_by) simp
  moreover have "ys = [] \<longleftrightarrow> xs = []" using assms(3) by auto
  ultimately show ?thesis
    using assms(2) sort by (auto simp: subnet_Reconcile_def run_simps)
qed

theorem subnet_Reconcile_determined_witness:
  "run_state (subnet_Reconcile (id_from_zone new_zone_provider) (ListSubnets sample_describe ''vpc-1'') sample_class) () =
    (Ok (set_Subnets [\<lparr>sn_ID = ''subnet-1'', sn_Zone = ''ap-guangzhou-3'', sn_ZoneID = ''100003''\<rparr>,
                      \<lparr>sn_ID = ''subnet-2'', sn_Zone = ''ap-guangzhou-3'', sn_ZoneID = ''100003''\<rparr>]
          sample_class, requeue_after (minutes 1), None), ())"
proof -
  have ids: "id_batches [''subnet-1'', ''subnet-2''] 0 =
      [[\<lparr>f_Name = ''subnet-id'', f_Values = [''subnet-1'', ''subnet-2'']\<rparr>]]"
    by (simp add: id_batches.simps)
  have list: "run_state (ListSubnets sample_describe ''vpc-1'' sample_class) () =
      (Ok [sample_subnet ''subnet-1'', sample_subnet ''subnet-2''], ())"
    by (simp add: ListSubnets_def sample_class_def zero_NodeClass_def zero_NodeClassSpec_def
        getSubnetFilterSets_def ids sample_describe_def sample_subnet_def vpc_filter_def run_simps)
  have zid: "id_from_zone new_zone_provider ''ap-guangzhou-3'' = Ok ''100003''"
    by code_simp
  have "sort_by subnet_before [sample_subnet ''subnet-1'', sample_subnet ''subnet-2''] =
      [sample_subnet ''subnet-1'', sample_subnet ''subnet-2'']"
    by (simp add: subnet_before_def sample_subnet_def free_ips_def)
  then show ?thesis
    using subnet_Reconcile_determined [where other = "ListSubnets sample_describe ''vpc-1''"
        and idz = "id_from_zone new_zone_provider", OF list list refl]
    by (simp add: status_subnet_def sample_subnet_def zid)
qed

text \<open>A reconciliation as a whole: the patch of the finalizer, and then perhaps that of the status.\<close>

definition finalizer_written :: "TKEMachineNodeClass \<Rightarrow> nodeclass_call list \<Rightarrow> bool \<Rightarrow> bool" where
  "finalizer_written nc tr ok \<longleftrightarrow>
     (if ContainsFinalizer (nc_ObjectMeta nc) TerminationFinalizer then tr = []
      else \<exists>res. tr = [Patched (nc\<lparr>nc_ObjectMeta := AddFinalizer (nc_ObjectMeta nc) TerminationFinalizer\<rparr>) nc res] \<and>
        is_ok res = ok)"

lemma run_finalizer_patch:
  assumes "run_state (finalizer_patch (logged_status env) nc) (w, []) = (patched, (w', tr))"
  shows "finalizer_written nc tr (is_ok patched)"
  using assms
  by (auto simp: finalizer_written_def finalizer_patch_def logged_status_def run_simps Let_def split: prod.splits if_splits)

lemma run_status_Reconcile:
  assumes laws: "condition_laws (se_Conditions env)"
    and run: "run_state (status_Reconcile (logged_status env) nc) (w, []) = (out, (w', tr))"
  obtains (stopped) ok where "finalizer_written nc tr ok"
  | (passed) first new stored where "finalizer_written nc first True"
      "tr = first @ (if stored \<noteq> new then [StatusPatched new stored] else [])"
      "nc_ObjectMeta new = nc_ObjectMeta stored" "nc_Spec new = nc_Spec stored"
      "condition_true ConditionReady (GetConditions new) \<longleftrightarrow>
         nct_Subnets (nc_Status new) \<noteq> [] \<and> nct_SecurityGroups (nc_Status new) \<noteq> []"
proof -
  let ?env = "logged_status env"
  obtain patched w1 tr1 where fp: "run_state (finalizer_patch ?env nc) (w, []) = (patched, (w1, tr1))"
    by (metis prod.exhaust)
  note first = run_finalizer_patch [OF fp]
  show ?thesis
  proof (cases "\<exists>stored. patched = Ok stored")
    case True
    then obtain stored where stored: "patched = Ok stored" by blast
    obtain lo w2 tr2 where loop: "run_state (reconcile_loop (reconcilers ?env) stored [] []) (w1, tr1) = (lo, (w2, tr2))"
      by (metis prod.exhaust)
    have tr2: "tr2 = tr1" by (rule silent_loop [OF silent_reconcilers loop])
    from reconcile_loop_keeps [OF reconcilers_contract loop] consider
        (panic) "lo = Panic"
      | (finished) new results errs where "lo = Ok (new, results, errs)"
          "nc_ObjectMeta new = nc_ObjectMeta stored" "nc_Spec new = nc_Spec stored"
      by auto
    then show ?thesis
    proof cases
      case panic
      then have "tr = tr1" using run fp stored loop tr2 by (simp add: status_Reconcile_def run_simps)
      then show ?thesis using stopped first by simp
    next
      case finished
      have "condition_laws (se_Conditions ?env)" using laws by (simp add: logged_status_def)
      from reconcile_pass [OF _ this] loop finished(1)
      have ready: "condition_true ConditionReady (GetConditions new) \<longleftrightarrow>
          nct_Subnets (nc_Status new) \<noteq> [] \<and> nct_SecurityGroups (nc_Status new) \<noteq> []" by blast
      have "tr = tr1 @ (if stored \<noteq> new then [StatusPatched new stored] else [])"
        using run fp stored loop tr2 finished(1)
        by (auto simp: status_Reconcile_def status_patch_def logged_status_def run_simps Let_def
            split: prod.splits if_splits)
      then show ?thesis using passed [of tr1 stored new] first stored finished(2,3) ready by simp
    qed
  next
    case False
    then have "tr = tr1" using run fp by (cases patched) (simp_all add: status_Reconcile_def run_simps)
    then show ?thesis using stopped first by simp
  qed
qed

text \<open>
  C12. The writes of a reconciliation of a node class, in any environment: the finalizer is added
  first, and only when it is missing, and nothing else is written when that fails; after that
  there is at most one status patch, only when something changed, which leaves metadata and spec
  alone and whose Ready condition is true exactly when both subnets and security groups are
  resolved.
\<close>

theorem status_Reconcile_calls:
  assumes laws: "condition_laws (se_Conditions env)"
    and run: "run_state (status_Reconcile (logged_status env) nc) (w, []) = (out, (w', tr))"
  shows "\<exists>first rest. tr = first @ rest \<and>
    (if ContainsFinalizer (nc_ObjectMeta nc) TerminationFinalizer then first = []
     else \<exists>res. first = [Patched (nc\<lparr>nc_ObjectMeta :=
                      AddFinalizer (nc_ObjectMeta nc) TerminationFinalizer\<rparr>) nc res] \<and>
                (\<not> is_ok res \<longrightarrow> rest = [])) \<and>
    (rest = [] \<or> (\<exists>new stored. rest = [StatusPatched new stored] \<and> new \<noteq> stored \<and>
       nc_ObjectMeta new = nc_ObjectMeta stored \<and> nc_Spec new = nc_Spec stored \<and>
       (condition_true ConditionReady (GetConditions new) \<longleftrightarrow>
          nct_Subnets (nc_Status new) \<noteq> [] \<and> nct_SecurityGroups (nc_Status new) \<noteq> [])))"
proof -
  show ?thesis
    using laws run
  proof (cases rule: run_status_Reconcile)
    case (stopped ok)
    then show ?thesis by (intro exI [of _ tr] exI [of _ "[]"]) (auto simp: finalizer_written_def)
  next
    case (passed first new stored)
    then show ?thesis
      by (intro exI [of _ first] exI [of _ "if stored \<noteq> new then [StatusPatched new stored] else []"])
        (auto simp: finalizer_written_def)
  qed
qed

text \<open>
  An environment for a concrete run: the API server accepts every patch, the subnets of the
  sample class exist, there are no security groups.
\<close>

definition sample_status_env :: "unit status_env" where
  "sample_status_env =
     \<lparr>se_IDFromZone = id_from_zone new_zone_provider,
      se_ListSubnets = ListSubnets sample_describe ''vpc-1'',
      se_ListSecurityGroups = \<lambda>nc. State_Monad.return (Err (SDKError ''unavailable'')),
      se_ListSSHKeys = \<lambda>nc. State_Monad.return (Ok []),
      se_Conditions = sample_conditions,
      se_Patch = \<lambda>nc stored. State_Monad.return (Ok nc),
      se_StatusPatch = \<lambda>nc stored. State_Monad.return (Ok nc),
      se_ResultMin = hd\<rparr>"

theorem status_Reconcile_calls_witness:
  "\<exists>out tr first rest.
    run_state (status_Reconcile (logged_status sample_status_env) sample_class) ((), []) = (out, ((), tr)) \<and>
    tr = first @ rest \<and> first \<noteq> [] \<and>
    (rest = [] \<or> (\<exists>new stored. rest = [StatusPatched new stored] \<and> new \<noteq> stored))"
proof -
  obtain out u tr where
    run: "run_state (status_Reconcile (logged_status sample_status_env) sample_class) ((), []) = (out, (u, tr))"
    by (metis prod.exhaust)
  have laws: "condition_laws (se_Conditions sample_status_env)"
    by (simp add: sample_status_env_def sample_conditions_laws)
  have "\<not> ContainsFinalizer (nc_ObjectMeta sample_class) TerminationFinalizer"
    by (simp add: ContainsFinalizer_def sample_class_def zero_NodeClass_def zero_ObjectMeta_def)
  with status_Reconcile_calls [OF laws run] run show ?thesis by auto
qed

end
