(* ===== verification/GoFloat.thy ===== *)
theory GoFloat
  imports Prelude "HOL-Library.Log_Nat"
begin

text \<open>
  Go's \<open>float64\<close>: finite IEEE binary64 values are rationals, and every arithmetic operation
  is the exact rational operation followed by \<open>fl\<close>, which rounds to 53 significant bits (to the
  nearest, ties to even; subnormals below \<open>2 powi -1022\<close>).  Go may fuse \<open>x * y + z\<close> into one
  rounding on some architectures; the model rounds each operation, as the amd64 compiler does.
  Infinities and NaN are outside the model: the values the program computes with are below
  \<open>2 powi 70\<close>.  The lemmas say that rounding is monotone, exact on integers up to \<open>2 ^ 53\<close> and
  off by at most one part in \<open>2 ^ 53\<close>.
\<close>

section \<open>Rounding to the nearest integer, ties to even\<close>

definition rnd_even :: "rat \<Rightarrow> int" where
  "rnd_even z =
     (let f = floor z; d = z - of_int f
      in if d < 1/2 then f else if d > 1/2 then f + 1 else if even f then f else f + 1)"

lemma rnd_even_of_int [simp]: "rnd_even (of_int n) = n"
  by (simp add: rnd_even_def)

lemma rnd_even_bounds: "floor z \<le> rnd_even z \<and> rnd_even z \<le> floor z + 1"
  by (simp add: rnd_even_def Let_def)

lemma rnd_even_error: "\<bar>of_int (rnd_even z) - z\<bar> \<le> 1/2"
proof -
  have "of_int (floor z) \<le> z" "z < of_int (floor z) + 1"
    by linarith+
  then show ?thesis by (simp add: rnd_even_def Let_def abs_if) linarith
qed

lemma rnd_even_mono: "x \<le> y \<Longrightarrow> rnd_even x \<le> rnd_even y"
proof (cases "floor x = floor y")
  case True
  assume "x \<le> y"
  then show ?thesis using True by (auto simp: rnd_even_def Let_def)
next
  case False
  assume "x \<le> y"
  then have "floor x + 1 \<le> floor y" using False floor_mono [of x y] by linarith
  then show ?thesis using rnd_even_bounds [of x] rnd_even_bounds [of y] by linarith
qed

lemma rnd_even_minus: "rnd_even (- z) = - rnd_even z"
proof (cases "z = of_int (floor z)")
  case True
  then have "rnd_even (- z) = rnd_even (of_int (- floor z))" by simp
  also have "\<dots> = - rnd_even (of_int (floor z))" by (simp only: rnd_even_of_int)
  finally show ?thesis using True by simp
next
  case False
  let ?f = "floor z"
  have b: "of_int ?f < z" "z < of_int ?f + 1"
    using False by linarith+
  have fl: "floor (- z) = - ?f - 1"
    by (rule floor_unique) (use b in auto)
  show ?thesis
    unfolding rnd_even_def Let_def fl using b by auto
qed

lemma rnd_even_le: "z \<le> of_int n \<Longrightarrow> rnd_even z \<le> n"
  using rnd_even_mono [of z "of_int n"] by simp

lemma rnd_even_ge: "of_int n \<le> z \<Longrightarrow> n \<le> rnd_even z"
  using rnd_even_mono [of "of_int n" z] by simp

section \<open>The exponent of a positive rational\<close>

definition pow2 :: "int \<Rightarrow> rat" where
  "pow2 e = 2 powi e"

lemma pow2_pos [simp]: "0 < pow2 e"
  by (simp add: pow2_def)

lemma pow2_neq_0 [simp]: "pow2 e \<noteq> 0"
  by (simp add: pow2_def)

lemma pow2_add: "pow2 (a + b) = pow2 a * pow2 b"
  by (simp add: pow2_def power_int_add)

lemma pow2_diff: "pow2 (a - b) = pow2 a / pow2 b"
  by (simp add: pow2_def power_int_diff)

lemma pow2_nat: "0 \<le> e \<Longrightarrow> pow2 e = of_int (2 ^ nat e)"
  by (simp add: pow2_def power_int_def)

lemma pow2_mono: "a \<le> b \<Longrightarrow> pow2 a \<le> pow2 b"
  by (simp add: pow2_def power_int_increasing)

lemma pow2_less_iff [simp]: "pow2 a < pow2 b \<longleftrightarrow> a < b"
proof
  assume "a < b"
  then show "pow2 a < pow2 b" by (simp add: pow2_def power_int_strict_increasing)
next
  assume "pow2 a < pow2 b"
  then show "a < b" using pow2_mono [of b a] by (meson leD leI)
qed

lemma pow2_le_iff [simp]: "pow2 a \<le> pow2 b \<longleftrightarrow> a \<le> b"
  using pow2_less_iff [of b a] by (simp only: not_less [symmetric] simp_thms)

definition flog2 :: "rat \<Rightarrow> int" where
  "flog2 x =
     (let (a, b) = quotient_of x; k = bitlen a - bitlen b
      in if pow2 k \<le> x then k else k - 1)"

lemma bitlen_pow2_bounds:
  assumes "0 < n"
  shows "pow2 (bitlen n - 1) \<le> of_int n" "of_int n < pow2 (bitlen n)"
proof -
  have pos: "0 \<le> bitlen n - 1"
    using assms bitlen_eq_zero_iff [of n] bitlen_nonneg [of n] by linarith
  have b: "2 ^ nat (bitlen n - 1) \<le> n" "n < 2 ^ nat (bitlen n)"
    using bitlen_bounds [OF assms] by simp_all
  show "pow2 (bitlen n - 1) \<le> of_int n"
    unfolding pow2_nat [OF pos] using b(1) by (simp only: of_int_le_iff)
  show "of_int n < pow2 (bitlen n)"
    unfolding pow2_nat [OF bitlen_nonneg] using b(2) by (simp only: of_int_less_iff)
qed

lemma flog2_bounds:
  assumes "0 < x"
  shows "pow2 (flog2 x) \<le> x" "x < pow2 (flog2 x + 1)"
proof -
  obtain a b where q: "quotient_of x = (a, b)" by (cases "quotient_of x")
  have b: "0 < b" using quotient_of_denom_pos [OF q] .
  have x: "x = of_int a / of_int b" using quotient_of_div [OF q] .
  have a: "0 < a" using assms x b by (simp add: zero_less_divide_iff)
  let ?k = "bitlen a - bitlen b"
  have up: "x < pow2 (?k + 1)"
  proof -
    have "x < pow2 (bitlen a) / pow2 (bitlen b - 1)"
      unfolding x using bitlen_pow2_bounds [OF a] bitlen_pow2_bounds [OF b] a b
      by (intro frac_less) simp_all
    also have "\<dots> = pow2 (?k + 1)" by (simp flip: pow2_diff) (simp add: algebra_simps)
    finally show ?thesis .
  qed
  have low: "pow2 (?k - 1) \<le> x"
  proof -
    have "pow2 (?k - 1) = pow2 (bitlen a - 1) / pow2 (bitlen b)"
      by (simp flip: pow2_diff) (simp add: algebra_simps)
    also have "\<dots> \<le> x"
      unfolding x using bitlen_pow2_bounds [OF a] bitlen_pow2_bounds [OF b] a b
      by (intro frac_le) simp_all
    finally show ?thesis .
  qed
  show "pow2 (flog2 x) \<le> x" "x < pow2 (flog2 x + 1)"
    using up low by (auto simp: flog2_def q Let_def)
qed

lemma flog2_mono:
  assumes "0 < x" "x \<le> y"
  shows "flog2 x \<le> flog2 y"
proof -
  have "pow2 (flog2 x) < pow2 (flog2 y + 1)"
    using flog2_bounds [of x] flog2_bounds [of y] assms by linarith
  then show ?thesis by simp
qed

section \<open>Rounding to binary64\<close>

definition ulp_exp :: "rat \<Rightarrow> int" where
  "ulp_exp x = max (flog2 \<bar>x\<bar> - 52) (- 1074)"

definition fl :: "rat \<Rightarrow> rat" where
  "fl x = (if x = 0 then 0 else of_int (rnd_even (x / pow2 (ulp_exp x))) * pow2 (ulp_exp x))"

definition f64_add :: "rat \<Rightarrow> rat \<Rightarrow> rat" where
  "f64_add x y = fl (x + y)"

definition f64_sub :: "rat \<Rightarrow> rat \<Rightarrow> rat" where
  "f64_sub x y = fl (x - y)"

definition f64_mul :: "rat \<Rightarrow> rat \<Rightarrow> rat" where
  "f64_mul x y = fl (x * y)"

definition f64_div :: "rat \<Rightarrow> rat \<Rightarrow> rat" where
  "f64_div x y = fl (x / y)"

text \<open>\<open>float64(n)\<close> of an integer, and \<open>int64(x)\<close>, which truncates towards zero.\<close>

definition f64_of_int :: "int \<Rightarrow> rat" where
  "f64_of_int n = fl (of_int n)"

definition trunc_rat :: "rat \<Rightarrow> int" where
  "trunc_rat x = (if 0 \<le> x then floor x else - floor (- x))"

lemma fl_0 [simp]: "fl 0 = 0"
  by (simp add: fl_def)

lemma fl_minus: "fl (- x) = - fl x"
  by (simp add: fl_def ulp_exp_def rnd_even_minus)

lemma fl_nonneg: "0 \<le> x \<Longrightarrow> 0 \<le> fl x"
  using rnd_even_ge [of 0 "x / pow2 (ulp_exp x)"]
  by (simp add: fl_def divide_nonneg_pos less_imp_le)

lemma fl_mono_pos:
  assumes "0 < x" "x \<le> y"
  shows "fl x \<le> fl y"
proof -
  let ?a = "ulp_exp x" and ?b = "ulp_exp y"
  have ab: "?a \<le> ?b" using flog2_mono [OF assms] assms by (simp add: ulp_exp_def)
  show ?thesis
  proof (cases "?a = ?b")
    case True
    have "rnd_even (x / pow2 ?a) \<le> rnd_even (y / pow2 ?a)"
      by (rule rnd_even_mono) (simp add: divide_right_mono assms(2) less_imp_le)
    then show ?thesis using True assms by (simp add: fl_def mult_right_mono less_imp_le)
  next
    case False
    then have lt: "?a + 1 \<le> ?b" using ab by linarith
    then have ub: "?b = flog2 y - 52" using assms by (auto simp: ulp_exp_def)
    have "x < pow2 (flog2 x + 1)" using flog2_bounds assms(1) by blast
    also have "\<dots> \<le> pow2 (?a + 53)" using assms by (intro pow2_mono) (simp add: ulp_exp_def)
    finally have "x / pow2 ?a \<le> of_int (2 ^ 53)"
      by (simp add: pow2_add pos_divide_le_eq pow2_nat mult.commute)
    then have "rnd_even (x / pow2 ?a) \<le> 2 ^ 53" by (rule rnd_even_le)
    then have "of_int (rnd_even (x / pow2 ?a)) \<le> (of_int (2 ^ 53) :: rat)"
      by (simp only: of_int_le_iff)
    then have "fl x \<le> of_int (2 ^ 53) * pow2 ?a"
      using assms by (simp add: fl_def mult_right_mono less_imp_le)
    also have "\<dots> = pow2 (?a + 53)" by (simp add: pow2_add pow2_nat)
    also have "\<dots> \<le> pow2 (?b + 52)" using lt by (intro pow2_mono) simp
    also have "\<dots> = of_int (2 ^ 52) * pow2 ?b" by (simp add: pow2_add pow2_nat)
    also have "\<dots> \<le> fl y"
    proof -
      have "pow2 (?b + 52) \<le> y" using flog2_bounds(1) [of y] assms by (simp add: ub)
      then have "of_int (2 ^ 52) \<le> y / pow2 ?b"
        by (simp add: pow2_add pos_le_divide_eq pow2_nat mult.commute)
      then have "2 ^ 52 \<le> rnd_even (y / pow2 ?b)" by (rule rnd_even_ge)
      then have "(of_int (2 ^ 52) :: rat) \<le> of_int (rnd_even (y / pow2 ?b))"
        by (simp only: of_int_le_iff)
      then show ?thesis using assms by (simp add: fl_def mult_right_mono less_imp_le)
    qed
    finally show ?thesis .
  qed
qed

lemma fl_mono:
  assumes "x \<le> y"
  shows "fl x \<le> fl y"
proof -
  consider "0 < x" | "x \<le> 0" "0 \<le> y" | "y < 0" by linarith
  then show ?thesis
  proof cases
    case 1
    then show ?thesis using fl_mono_pos assms by blast
  next
    case 2
    then have "fl x \<le> 0" using fl_nonneg [of "- x"] by (simp add: fl_minus)
    then show ?thesis using fl_nonneg [OF 2(2)] by linarith
  next
    case 3
    then show ?thesis using fl_mono_pos [of "- y" "- x"] assms by (simp add: fl_minus)
  qed
qed

lemma fl_exact:
  assumes "x = of_int m * pow2 (ulp_exp x)"
  shows "fl x = x"
proof (cases "x = 0")
  case False
  have "x / pow2 (ulp_exp x) = of_int m" using assms by (simp add: divide_eq_eq)
  then show ?thesis using assms False by (simp add: fl_def)
qed simp

text \<open>Integers of at most 53 bits are represented exactly.\<close>

lemma fl_of_int_pos:
  assumes "0 < n" "n < 2 ^ 53"
  shows "fl (of_int n) = of_int n"
proof -
  let ?x = "of_int n :: rat"
  have pos: "0 < ?x" using assms by simp
  have "pow2 (flog2 ?x) < pow2 53"
  proof -
    have "?x < of_int (2 ^ 53)" using assms(2) by (simp only: of_int_less_iff)
    then show ?thesis using flog2_bounds(1) [OF pos] by (simp add: pow2_nat)
  qed
  then have f53: "flog2 ?x \<le> 52" by simp
  have "pow2 0 < pow2 (flog2 ?x + 1)"
    using flog2_bounds(2) [OF pos] assms(1) by (simp add: pow2_nat)
  then have "0 \<le> flog2 ?x" by simp
  then have u: "ulp_exp ?x = flog2 ?x - 52" using assms by (simp add: ulp_exp_def)
  let ?m = "n * 2 ^ nat (52 - flog2 ?x)"
  have "of_int ?m * pow2 (flog2 ?x - 52) = ?x * (pow2 (52 - flog2 ?x) * pow2 (flog2 ?x - 52))"
    using f53 by (simp add: pow2_nat)
  also have "\<dots> = ?x" by (simp flip: pow2_add) (simp add: pow2_def)
  finally have "?x = of_int ?m * pow2 (ulp_exp ?x)" using u by simp
  then show ?thesis by (rule fl_exact)
qed

lemma fl_of_int:
  assumes "\<bar>n\<bar> < 2 ^ 53"
  shows "fl (of_int n) = of_int n"
proof -
  consider "n = 0" | "0 < n" | "n < 0" by linarith
  then show ?thesis
  proof cases
    case 3
    then have "fl (of_int (- n)) = of_int (- n)" using assms by (intro fl_of_int_pos) auto
    then show ?thesis by (simp add: fl_minus)
  qed (use assms fl_of_int_pos in auto)
qed

lemma f64_of_int_exact: "\<bar>n\<bar> < 2 ^ 53 \<Longrightarrow> f64_of_int n = of_int n"
  unfolding f64_of_int_def by (rule fl_of_int)

text \<open>The rounding error is at most one part in \<open>2 ^ 53\<close> away from the subnormals.\<close>

lemma fl_error:
  assumes "pow2 (- 1022) \<le> x"
  shows "\<bar>fl x - x\<bar> \<le> x * pow2 (- 53)"
proof -
  have pos: "0 < x" using assms pow2_pos [of "- 1022"] by linarith
  have "pow2 (- 1022) < pow2 (flog2 x + 1)" using flog2_bounds(2) [OF pos] assms by linarith
  then have u: "ulp_exp x = flog2 x - 52" using pos by (simp add: ulp_exp_def)
  let ?q = "pow2 (ulp_exp x)"
  have "fl x - x = (of_int (rnd_even (x / ?q)) - x / ?q) * ?q"
    using pos by (simp add: fl_def left_diff_distrib)
  then have "\<bar>fl x - x\<bar> = \<bar>of_int (rnd_even (x / ?q)) - x / ?q\<bar> * ?q"
    by (simp add: abs_mult less_imp_le)
  also have "\<dots> \<le> 1/2 * ?q" by (intro mult_right_mono rnd_even_error) (simp add: less_imp_le)
  also have "\<dots> = pow2 (flog2 x) * pow2 (- 53)"
  proof -
    have "?q = pow2 (flog2 x) * pow2 (- 52)" by (simp add: u flip: pow2_add)
    moreover have "pow2 (- 52) = 2 * pow2 (- 53)"
      using pow2_add [of 1 "- 53"] pow2_nat [of 1] by simp
    ultimately show ?thesis by simp
  qed
  also have "\<dots> \<le> x * pow2 (- 53)"
    using flog2_bounds(1) [OF pos] by (intro mult_right_mono) (simp_all add: less_imp_le)
  finally show ?thesis .
qed

text \<open>With the subnormals, the smallest of them is added to the bound.\<close>

lemma fl_abs_error:
  assumes "0 \<le> x"
  shows "\<bar>fl x - x\<bar> \<le> x * pow2 (- 53) + pow2 (- 1075)"
proof (cases "x < pow2 (- 1022)")
  case False
  then show ?thesis using fl_error [of x] pow2_pos [of "- 1075"] by linarith
next
  case small: True
  show ?thesis
  proof (cases "x = 0")
    case False
    then have pos: "0 < x" using assms by simp
    have "pow2 (flog2 x) < pow2 (- 1022)" using flog2_bounds(1) [OF pos] small by linarith
    then have u: "ulp_exp x = - 1074" using pos by (simp add: ulp_exp_def)
    let ?q = "pow2 (- 1074)"
    have "fl x - x = (of_int (rnd_even (x / ?q)) - x / ?q) * ?q"
      using pos by (simp add: fl_def u left_diff_distrib)
    then have "\<bar>fl x - x\<bar> = \<bar>of_int (rnd_even (x / ?q)) - x / ?q\<bar> * ?q"
      by (simp add: abs_mult less_imp_le)
    also have "\<dots> \<le> 1/2 * ?q" by (intro mult_right_mono rnd_even_error) (simp add: less_imp_le)
    also have "\<dots> = pow2 (- 1075)"
      using pow2_add [of 1 "- 1075"] pow2_nat [of 1] by simp
    finally show ?thesis using pos pow2_pos [of "- 53"] mult_pos_pos [OF pos pow2_pos [of "- 53"]] by linarith
  qed (simp add: less_imp_le)
qed

lemma f64_add_mono: "x \<le> x' \<Longrightarrow> y \<le> y' \<Longrightarrow> f64_add x y \<le> f64_add x' y'"
  unfolding f64_add_def by (rule fl_mono) simp

lemma f64_mul_mono: "x \<le> x' \<Longrightarrow> 0 \<le> y \<Longrightarrow> f64_mul x y \<le> f64_mul x' y"
  unfolding f64_mul_def by (rule fl_mono) (rule mult_right_mono)

lemma f64_of_int_mono: "m \<le> n \<Longrightarrow> f64_of_int m \<le> f64_of_int n"
  unfolding f64_of_int_def by (rule fl_mono) simp

lemma f64_of_int_nonneg: "0 \<le> n \<Longrightarrow> 0 \<le> f64_of_int n"
  unfolding f64_of_int_def by (rule fl_nonneg) simp

lemma trunc_rat_mono: "x \<le> y \<Longrightarrow> trunc_rat x \<le> trunc_rat y"
proof -
  assume xy: "x \<le> y"
  consider "0 \<le> x" | "x < 0" "0 \<le> y" | "y < 0" using xy by linarith
  then show ?thesis
  proof cases
    case 1
    then show ?thesis using xy by (simp add: trunc_rat_def floor_mono)
  next
    case 2
    have "0 \<le> floor (- x)" "0 \<le> floor y" using 2 by simp_all
    then have "- floor (- x) \<le> floor y" by linarith
    then show ?thesis using 2 by (simp add: trunc_rat_def)
  next
    case 3
    then show ?thesis using xy floor_mono [of "- y" "- x"] by (simp add: trunc_rat_def)
  qed
qed

lemma trunc_rat_of_int [simp]: "trunc_rat (of_int n) = n"
  by (simp add: trunc_rat_def)

end
