(* ===== verification/NodeClassTermination.thy ===== *)
theory NodeClassTermination
  imports NodeClass GoStrings GoFloat
begin

text \<open>
  The termination controller of node classes (\<open>pkg/controllers/nodeclass/termination\<close>) with its
  event, and the helpers of \<open>pkg/util/util.go\<close>.  The API server and the event recorder are
  parameters.
\<close>

section \<open>Helpers\<close>

fun pretty_loop :: "nat \<Rightarrow> int \<Rightarrow> int \<Rightarrow> string list \<Rightarrow> string" where
  "pretty_loop i len maxItems [] = []"
| "pretty_loop i len maxItems (elem # es) =
     (if int i > maxItems - 1 then '' and '' @ itoa (len - int i) @ '' other(s)''
      else (if i > 0 then '', '' else []) @ elem @ pretty_loop (i + 1) len maxItems es)"

definition PrettySlice :: "string list \<Rightarrow> int \<Rightarrow> string" where
  "PrettySlice s maxItems = pretty_loop 0 (int (length s)) maxItems s"

text \<open>The environment and \<open>strconv.ParseFloat\<close> are parameters; a float64 is a rational.\<close>

definition WithDefaultFloat64 ::
  "(string \<Rightarrow> string option) \<Rightarrow> (string \<Rightarrow> rat option) \<Rightarrow> string \<Rightarrow> rat \<Rightarrow> rat" where
  "WithDefaultFloat64 lookupEnv parseFloat key def =
     (case lookupEnv key of
        None \<Rightarrow> def
      | Some val \<Rightarrow> (case parseFloat val of None \<Rightarrow> def | Some f \<Rightarrow> f))"

section \<open>The event\<close>

record Event =
  ev_Involved :: TKEMachineNodeClass
  ev_Type :: string
  ev_Reason :: string
  ev_Message :: string
  ev_DedupeValues :: "string list"

definition WaitingOnNodeClaimTerminationEvent :: "TKEMachineNodeClass \<Rightarrow> string list \<Rightarrow> Event" where
  "WaitingOnNodeClaimTerminationEvent nc names =
     \<lparr>ev_Involved = nc, ev_Type = ''Normal'', ev_Reason = ''WaitingOnNodeClaimTermination'',
      ev_Message = ''Waiting on NodeClaim termination for '' @ PrettySlice names 5,
      ev_DedupeValues = [om_UID (nc_ObjectMeta nc)]\<rparr>"

section \<open>The controller\<close>

text \<open>Listing node claims by their node class gives their names.\<close>

record 'w termination_env =
  te_ListNodeClaims :: "string \<Rightarrow> ('w, string list outcome) state"
  te_Update :: "TKEMachineNodeClass \<Rightarrow> ('w, unit outcome) state"
  te_Publish :: "Event \<Rightarrow> ('w, unit) state"

definition finalize :: "'w termination_env \<Rightarrow> TKEMachineNodeClass \<Rightarrow> ('w, reconcile_result outcome) state" where
  "finalize env nc =
     (if \<not> ContainsFinalizer (nc_ObjectMeta nc) TerminationFinalizer then State_Monad.return (Ok no_result)
      else do {
        resp \<leftarrow> te_ListNodeClaims env (nc_Name nc);
        case resp of
          Err e \<Rightarrow> State_Monad.return (Err (Wrapf ''listing nodeclaims that are using nodeclass'' e))
        | Panic \<Rightarrow> State_Monad.return Panic
        | Ok names \<Rightarrow>
            if length names > 0 then do {
              _ \<leftarrow> te_Publish env (WaitingOnNodeClaimTerminationEvent nc names);
              State_Monad.return (Ok (requeue_after (minutes 10))) }
            else
              let new = nc\<lparr>nc_ObjectMeta := RemoveFinalizer (nc_ObjectMeta nc) TerminationFinalizer\<rparr> in
              if nc \<noteq> new then do {
                out \<leftarrow> te_Update env new;
                State_Monad.return (case out of
                  Ok _ \<Rightarrow> Ok no_result
                | Panic \<Rightarrow> Panic
                | Err e \<Rightarrow>
                    if is_conflict e then Ok \<lparr>rr_Requeue = True, rr_RequeueAfter = 0\<rparr>
                    else (case ignore_not_found (Wrapf ''removing termination finalizer'' e) of
                            Some e' \<Rightarrow> Err e' | None \<Rightarrow> Ok no_result)) }
              else State_Monad.return (Ok no_result) })"

definition termination_Reconcile ::
  "'w termination_env \<Rightarrow> TKEMachineNodeClass \<Rightarrow> ('w, reconcile_result outcome) state" where
  "termination_Reconcile env nc =
     (if om_DeletionTimestamp (nc_ObjectMeta nc) \<noteq> None then finalize env nc
      else State_Monad.return (Ok no_result))"

text \<open>The watch on node claims wakes the node class a deleted node claim refers to.\<close>

datatype watch_event = ClaimCreated | ClaimUpdated | ClaimDeleted

definition claim_predicate :: "watch_event \<Rightarrow> bool" where
  "claim_predicate e \<longleftrightarrow> e = ClaimDeleted"

definition claim_requests :: "string option \<Rightarrow> string list" where
  "claim_requests nodeClassRef = (case nodeClassRef of None \<Rightarrow> [] | Some name \<Rightarrow> [name])"

section \<open>The calls of a reconciliation\<close>

datatype termination_call =
    ListedClaims string "string list outcome"
  | Updated TKEMachineNodeClass "unit outcome"
  | Published Event

definition logged_termination :: "'w termination_env \<Rightarrow> ('w \<times> termination_call list) termination_env" where
  "logged_termination env =
     \<lparr>te_ListNodeClaims = \<lambda>name. logged (\<lambda>out. ListedClaims name out) (te_ListNodeClaims env name),
      te_Update = \<lambda>nc. logged (\<lambda>out. Updated nc out) (te_Update env nc),
      te_Publish = \<lambda>e. logged (\<lambda>_. Published e) (te_Publish env e)\<rparr>"

lemma RemoveFinalizer_changes:
  "ContainsFinalizer m f \<Longrightarrow> RemoveFinalizer m f \<noteq> m"
proof
  assume f: "ContainsFinalizer m f" and eq: "RemoveFinalizer m f = m"
  have "om_Finalizers (RemoveFinalizer m f) = filter (\<lambda>g. g \<noteq> f) (om_Finalizers m)"
    by (simp add: RemoveFinalizer_def)
  moreover have "f \<notin> set (filter (\<lambda>g. g \<noteq> f) (om_Finalizers m))" by simp
  ultimately show False using f eq unfolding ContainsFinalizer_def by metis
qed

lemma RemoveFinalizer_changes_class:
  assumes "ContainsFinalizer (nc_ObjectMeta nc) f"
  shows "nc \<noteq> nc\<lparr>nc_ObjectMeta := RemoveFinalizer (nc_ObjectMeta nc) f\<rparr>"
proof
  assume eq: "nc = nc\<lparr>nc_ObjectMeta := RemoveFinalizer (nc_ObjectMeta nc) f\<rparr>"
  have "nc_ObjectMeta (nc\<lparr>nc_ObjectMeta := RemoveFinalizer (nc_ObjectMeta nc) f\<rparr>) =
      RemoveFinalizer (nc_ObjectMeta nc) f" by simp
  then show False using RemoveFinalizer_changes [OF assms] eq by metis
qed

text \<open>How a finalization goes: its calls and its result.\<close>

lemma run_finalize:
  fixes nc
  defines "new \<equiv> nc\<lparr>nc_ObjectMeta := RemoveFinalizer (nc_ObjectMeta nc) TerminationFinalizer\<rparr>"
  assumes fin: "ContainsFinalizer (nc_ObjectMeta nc) TerminationFinalizer"
    and run: "run_state (finalize (logged_termination env) nc) (w, []) = (out, (w', tr))"
  obtains (failed) e where "tr = [ListedClaims (nc_Name nc) (Err e)]" "\<exists>m. out = Err (Wrapf m e)"
  | (panicked) "tr = [ListedClaims (nc_Name nc) Panic]" "out = Panic"
  | (waiting) names where "names \<noteq> []" "out = Ok (requeue_after (minutes 10))"
      "tr = [ListedClaims (nc_Name nc) (Ok names), Published (WaitingOnNodeClaimTerminationEvent nc names)]"
  | (removing) res where "tr = [ListedClaims (nc_Name nc) (Ok []), Updated new res]"
      "case res of Ok _ \<Rightarrow> out = Ok no_result
         | Panic \<Rightarrow> out = Panic
         | Err e \<Rightarrow> if is_conflict e then out = Ok \<lparr>rr_Requeue = True, rr_RequeueAfter = 0\<rparr>
                    else if is_not_found e then out = Ok no_result
                    else \<exists>m. out = Err (Wrapf m e)"
proof -
  note new = RemoveFinalizer_changes_class [OF fin, folded new_def]
  note body = finalize_def [of _ nc, folded new_def] logged_termination_def run_simps Let_def
  obtain resp w1 where list: "run_state (te_ListNodeClaims env (nc_Name nc)) w = (resp, w1)" by fastforce
  show ?thesis
  proof (cases resp)
    case (Ok names)
    show ?thesis
    proof (cases "names = []")
      case True
      obtain res w2 where upd: "run_state (te_Update env new) w1 = (res, w2)" by fastforce
      have "tr = [ListedClaims (nc_Name nc) (Ok []), Updated new res]"
        using run list Ok True upd fin new by (auto simp: body)
      then show ?thesis
        by (rule removing) (use run list Ok True upd fin new in
          \<open>cases res; auto simp: body ignore_not_found_def is_not_found_def\<close>)
    next
      case False
      then show ?thesis using run list Ok fin waiting by (auto simp: body split: prod.splits)
    qed
  qed (use run list fin failed panicked in \<open>auto simp: body\<close>)
qed

section \<open>Properties\<close>

text \<open>
  C13. The finalizer of a node class is removed only when it is safe: an update is sent only for a
  node class that is being deleted and still has the finalizer, after a listing has found no
  node claim that uses it; the update takes the finalizer away and changes nothing else.  With
  node claims left the controller publishes an event and comes back in ten minutes; a conflict
  is retried at once; an update of a vanished object counts as done.
\<close>

theorem termination_safe:
  assumes run: "run_state (termination_Reconcile (logged_termination env) nc) (w, []) = (out, (w', tr))"
  shows "(om_DeletionTimestamp (nc_ObjectMeta nc) = None \<or>
            \<not> ContainsFinalizer (nc_ObjectMeta nc) TerminationFinalizer) \<and> tr = [] \<and> out = Ok no_result \<or>
    om_DeletionTimestamp (nc_ObjectMeta nc) \<noteq> None \<and>
    ContainsFinalizer (nc_ObjectMeta nc) TerminationFinalizer \<and>
    ((\<exists>e. tr = [ListedClaims (nc_Name nc) (Err e)] \<and> (\<exists>m. out = Err (Wrapf m e))) \<or>
     (tr = [ListedClaims (nc_Name nc) Panic] \<and> out = Panic) \<or>
     (\<exists>names. names \<noteq> [] \<and> tr = [ListedClaims (nc_Name nc) (Ok names),
          Published (WaitingOnNodeClaimTerminationEvent nc names)] \<and> out = Ok (requeue_after (minutes 10))) \<or>
     (\<exists>res new. tr = [ListedClaims (nc_Name nc) (Ok []), Updated new res] \<and>
        new = nc\<lparr>nc_ObjectMeta := (nc_ObjectMeta nc)\<lparr>om_Finalizers :=
                filter (\<lambda>f. f \<noteq> TerminationFinalizer) (om_Finalizers (nc_ObjectMeta nc))\<rparr>\<rparr> \<and>
        (case res of Ok _ \<Rightarrow> out = Ok no_result
         | Panic \<Rightarrow> out = Panic
         | Err e \<Rightarrow> if is_conflict e then out = Ok \<lparr>rr_Requeue = True, rr_RequeueAfter = 0\<rparr>
                    else if is_not_found e then out = Ok no_result
                    else \<exists>m. out = Err (Wrapf m e))))"
proof (cases "om_DeletionTimestamp (nc_ObjectMeta nc) = None \<or>
    \<not> ContainsFinalizer (nc_ObjectMeta nc) TerminationFinalizer")
  case True
  then show ?thesis using run by (auto simp: termination_Reconcile_def finalize_def run_simps split: if_splits)
next
  case False
  then have del: "om_DeletionTimestamp (nc_ObjectMeta nc) \<noteq> None"
    and fin: "ContainsFinalizer (nc_ObjectMeta nc) TerminationFinalizer" by auto
  have "run_state (finalize (logged_termination env) nc) (w, []) = (out, (w', tr))"
    using run del by (simp add: termination_Reconcile_def)
  with fin show ?thesis
  proof (cases rule: run_finalize)
    case (removing res)
    then show ?thesis using del fin unfolding RemoveFinalizer_def by blast
  qed (use del fin in blast)+
qed

definition sample_termination_env :: "unit termination_env" where
  "sample_termination_env =
     \<lparr>te_ListNodeClaims = \<lambda>_. State_Monad.return (Ok []),
      te_Update = \<lambda>_. State_Monad.return (Ok ()),
      te_Publish = \<lambda>_. State_Monad.return ()\<rparr>"

definition deleting_class :: TKEMachineNodeClass where
  "deleting_class = zero_NodeClass\<lparr>nc_ObjectMeta := zero_ObjectMeta\<lparr>om_Name := ''default'',
     om_Finalizers := [''other'', TerminationFinalizer], om_DeletionTimestamp := Some 1\<rparr>\<rparr>"

theorem termination_safe_witness:
  "\<exists>out tr. run_state (termination_Reconcile (logged_termination sample_termination_env) deleting_class) ((), []) =
      (out, ((), tr)) \<and> tr \<noteq> [] \<and> ListedClaims ''default'' (Ok []) = hd tr"
proof -
  obtain out u tr where run: "run_state (termination_Reconcile (logged_termination sample_termination_env)
      deleting_class) ((), []) = (out, (u, tr))"
    by (metis prod.exhaust)
  moreover have "hd tr = ListedClaims ''default'' (Ok [])"
    using run by (auto simp: termination_Reconcile_def finalize_def deleting_class_def zero_ObjectMeta_def
        zero_NodeClass_def ContainsFinalizer_def logged_termination_def sample_termination_env_def
        run_simps nc_Name_def RemoveFinalizer_def label_defs split: if_splits)
  ultimately show ?thesis
    using termination_safe [OF run]
    by (auto simp: deleting_class_def zero_ObjectMeta_def ContainsFinalizer_def)
qed

text \<open>
  \<open>PrettySlice\<close> shows up to the given number of items, separated by commas, and counts the rest:
  the number it names is the number of items it left out.
\<close>

theorem PrettySlice_correct:
  "PrettySlice s (int k) =
     (if length s \<le> k then join '', '' s
      else join '', '' (take k s) @ '' and '' @ itoa (int (length s - k)) @ '' other(s)'')"
proof -
  have cons: "join sep (x # xs) = x @ concat (map (\<lambda>y. sep @ y) xs)" for sep x xs
    by (induction xs arbitrary: x) (simp_all add: join_Cons_ne)
  have rest: "pretty_loop i len (int k) es =
      concat (map (\<lambda>y. '', '' @ y) (take (k - i) es)) @
      (if length es \<le> k - i then [] else '' and '' @ itoa (len - int k) @ '' other(s)'')"
    if "0 < i" "i \<le> k" for i len es
    using that
  proof (induction es arbitrary: i)
    case Nil
    then show ?case by simp
  next
    case (Cons e es)
    show ?case
    proof (cases "i = k")
      case True
      then show ?thesis by simp
    next
      case False
      then have "k - i = Suc (k - Suc i)" "i < k" using Cons.prems by auto
      then show ?thesis using Cons.IH [of "Suc i"] Cons.prems by simp
    qed
  qed
  show ?thesis
  proof (cases s)
    case Nil
    then show ?thesis by (simp add: PrettySlice_def)
  next
    case s: (Cons e es)
    show ?thesis
    proof (cases k)
      case 0
      then show ?thesis by (simp add: PrettySlice_def s)
    next
      case (Suc k')
      then have "PrettySlice s (int k) = e @ pretty_loop 1 (int (length s)) (int k) es"
        by (simp add: PrettySlice_def s)
      also have "\<dots> = e @ concat (map (\<lambda>y. '', '' @ y) (take k' es)) @
          (if length es \<le> k' then [] else '' and '' @ itoa (int (length s) - int k) @ '' other(s)'')"
        using rest [of 1 "int (length s)" es] Suc by simp
      finally show ?thesis
        using Suc by (auto simp: s cons of_nat_diff)
    qed
  qed
qed

end
