(* ===== verification/Scheduling.thy ===== *)
theory Scheduling
  imports GoStrings Labels
begin

text \<open>
  What the program uses of Kubernetes' resource quantities and of karpenter's scheduling and
  cloudprovider packages.  Their code is not part of the repository: quantities, requirements
  and the operations on offerings and instance types are parameters, collected in two records,
  and the documented behaviour a theorem relies on is one of the named laws.  The last section
  gives concrete operations that satisfy the laws, for the witnesses.
\<close>

section \<open>Quantities\<close>

text \<open>\<open>'q\<close> is \<open>resource.Quantity\<close>; \<open>MustParse\<close> panics on a malformed string.\<close>

record 'q quantity_ops =
  q_MustParse :: "string \<Rightarrow> 'q outcome"
  q_Zero :: 'q
  q_IsZero :: "'q \<Rightarrow> bool"
  q_Value :: "'q \<Rightarrow> int"
  q_MilliValue :: "'q \<Rightarrow> int"
  q_NewMilliQuantity :: "int \<Rightarrow> 'q"
  q_Less :: "'q \<Rightarrow> 'q \<Rightarrow> bool"
  q_AsApproximateFloat64 :: "'q \<Rightarrow> rat"
  q_String :: "'q \<Rightarrow> string"

text \<open>\<open>corev1.ResourceList\<close>: a map from resource names; a missing CPU, memory, ... reads as zero.\<close>

type_synonym 'q resource_list = "(string, 'q) entries"

definition rl_get :: "'q quantity_ops \<Rightarrow> 'q resource_list \<Rightarrow> string \<Rightarrow> 'q" where
  "rl_get q rl name = (case map_of rl name of None \<Rightarrow> q_Zero q | Some v \<Rightarrow> v)"

text \<open>The documented behaviour: a printed quantity parses to itself.\<close>

definition quantity_laws :: "'q quantity_ops \<Rightarrow> bool" where
  "quantity_laws q \<longleftrightarrow> (\<forall>v. q_MustParse q (q_String q v) = Ok v)"

section \<open>Requirements\<close>

datatype req_operator = OpIn | OpNotIn | OpExists | OpDoesNotExist | OpGt | OpLt

record Requirement =
  rq_Key :: string
  rq_Operator :: req_operator
  rq_Values :: "string list"

text \<open>A requirement of a node claim: a node selector requirement with an optional minimum.\<close>

record ClaimRequirement =
  cr_Requirement :: Requirement
  cr_MinValues :: "int option"

text \<open>\<open>'r\<close> is \<open>scheduling.Requirements\<close>.\<close>

record 'r Offering =
  of_Requirements :: 'r
  of_Price :: rat
  of_Available :: bool

record 'q InstanceTypeOverhead =
  ov_KubeReserved :: "'q resource_list"
  ov_SystemReserved :: "'q resource_list"
  ov_EvictionThreshold :: "'q resource_list"

record ('q, 'r) InstanceType =
  it_Name :: string
  it_Requirements :: 'r
  it_Offerings :: "'r Offering list"
  it_Capacity :: "'q resource_list"
  it_Overhead :: "'q InstanceTypeOverhead"

record ('q, 'r) scheduling_ops =
  sc_NewRequirements :: "Requirement list \<Rightarrow> 'r"
  sc_FromClaim :: "ClaimRequirement list \<Rightarrow> 'r"
  sc_HasMinValues :: "'r \<Rightarrow> bool"
  sc_Keys :: "'r \<Rightarrow> string list"
  sc_Any :: "'r \<Rightarrow> string \<Rightarrow> string"
  sc_Len :: "'r \<Rightarrow> string \<Rightarrow> int"
  sc_Values :: "'r \<Rightarrow> string \<Rightarrow> string list"
  sc_Has :: "'r \<Rightarrow> string \<Rightarrow> string \<Rightarrow> bool"
  sc_Compatible :: "'r \<Rightarrow> 'r \<Rightarrow> bool"
  so_Available :: "'r Offering list \<Rightarrow> 'r Offering list"
  so_Compatible :: "'r Offering list \<Rightarrow> 'r \<Rightarrow> 'r Offering list"
  so_Cheapest :: "'r Offering list \<Rightarrow> 'r Offering option"
  si_Truncate :: "('q, 'r) InstanceType list \<Rightarrow> 'r \<Rightarrow> int \<Rightarrow> ('q, 'r) InstanceType list outcome"
  si_Allocatable :: "('q, 'r) InstanceType \<Rightarrow> 'q resource_list"
  sr_Fits :: "'q resource_list \<Rightarrow> 'q resource_list \<Rightarrow> bool"
  sr_MaxResources :: "'q resource_list \<Rightarrow> 'q resource_list \<Rightarrow> 'q resource_list"

text \<open>
  The documented behaviour of the operations on offerings and instance types: \<open>Available\<close> and
  \<open>Compatible\<close> filter, \<open>Cheapest\<close> is an offering of the list that no other one undercuts (nil for
  the empty list), \<open>Truncate\<close> keeps some of the instance types; and of requirements: one made
  with a single value has that value.
\<close>

definition offering_laws :: "('q, 'r) scheduling_ops \<Rightarrow> bool" where
  "offering_laws sc \<longleftrightarrow>
     (\<forall>os. so_Available sc os = filter of_Available os) \<and>
     (\<forall>os r. set (so_Compatible sc os r) \<subseteq> set os) \<and>
     (\<forall>os. so_Cheapest sc os = None \<longleftrightarrow> os = []) \<and>
     (\<forall>os x. so_Cheapest sc os = Some x \<longrightarrow> x \<in> set os \<and> (\<forall>y \<in> set os. of_Price x \<le> of_Price y)) \<and>
     (\<forall>its r n its'. si_Truncate sc its r n = Ok its' \<longrightarrow> set its' \<subseteq> set its)"

definition requirement_laws :: "('q, 'r) scheduling_ops \<Rightarrow> bool" where
  "requirement_laws sc \<longleftrightarrow>
     (\<forall>rs rq v. rq \<in> set rs \<longrightarrow> distinct (map rq_Key rs) \<longrightarrow> rq_Operator rq = OpIn \<longrightarrow> rq_Values rq = [v] \<longrightarrow>
        sc_Any sc (sc_NewRequirements sc rs) (rq_Key rq) = v \<and>
        sc_Len sc (sc_NewRequirements sc rs) (rq_Key rq) = 1 \<and>
        sc_Values sc (sc_NewRequirements sc rs) (rq_Key rq) = [v])"

lemma offering_lawsD:
  assumes "offering_laws sc"
  shows "so_Available sc os = filter of_Available os"
    and "x \<in> set (so_Compatible sc os r) \<Longrightarrow> x \<in> set os"
    and "so_Cheapest sc os = None \<longleftrightarrow> os = []"
    and "so_Cheapest sc os = Some x \<Longrightarrow> x \<in> set os"
    and "so_Cheapest sc os = Some x \<Longrightarrow> y \<in> set os \<Longrightarrow> of_Price x \<le> of_Price y"
    and "si_Truncate sc its r n = Ok its' \<Longrightarrow> set its' \<subseteq> set its"
proof -
  note laws = assms [unfolded offering_laws_def]
  show "so_Available sc os = filter of_Available os" using conjunct1 [OF laws] by simp
  note laws2 = conjunct2 [OF laws]
  show "x \<in> set (so_Compatible sc os r) \<Longrightarrow> x \<in> set os" using conjunct1 [OF laws2] by blast
  note laws3 = conjunct2 [OF laws2]
  show "so_Cheapest sc os = None \<longleftrightarrow> os = []" using conjunct1 [OF laws3] by simp
  note laws4 = conjunct2 [OF laws3]
  show "so_Cheapest sc os = Some x \<Longrightarrow> x \<in> set os" using conjunct1 [OF laws4] by simp
  show "so_Cheapest sc os = Some x \<Longrightarrow> y \<in> set os \<Longrightarrow> of_Price x \<le> of_Price y"
    using conjunct1 [OF laws4] by simp
  show "si_Truncate sc its r n = Ok its' \<Longrightarrow> set its' \<subseteq> set its"
    using conjunct2 [OF laws4] by simp
qed

definition in_req :: "string \<Rightarrow> string list \<Rightarrow> Requirement" where
  "in_req k vs = \<lparr>rq_Key = k, rq_Operator = OpIn, rq_Values = vs\<rparr>"

section \<open>Operations that satisfy the laws\<close>

text \<open>Quantities as integers, printed in decimal; requirements as their list.\<close>

definition sample_quantities :: "string quantity_ops" where
  "sample_quantities =
     \<lparr>q_MustParse = Ok, q_Zero = ''0'', q_IsZero = (\<lambda>v. v = ''0''),
      q_Value = (\<lambda>v. case atoi v of Some n \<Rightarrow> n | None \<Rightarrow> 0),
      q_MilliValue = (\<lambda>v. case atoi v of Some n \<Rightarrow> 1000 * n | None \<Rightarrow> 0),
      q_NewMilliQuantity = (\<lambda>n. itoa n @ ''m''),
      q_Less = (\<lambda>v w. case (atoi v, atoi w) of (Some m, Some n) \<Rightarrow> m < n | _ \<Rightarrow> False),
      q_AsApproximateFloat64 = (\<lambda>v. case atoi v of Some n \<Rightarrow> of_int n | None \<Rightarrow> 0),
      q_String = (\<lambda>v. v)\<rparr>"

lemma sample_quantities_laws: "quantity_laws sample_quantities"
  by (simp add: quantity_laws_def sample_quantities_def)

fun cheapest :: "'r Offering list \<Rightarrow> 'r Offering option" where
  "cheapest [] = None"
| "cheapest (x # os) = (case cheapest os of None \<Rightarrow> Some x
     | Some y \<Rightarrow> Some (if of_Price y < of_Price x then y else x))"

definition req_values :: "Requirement list \<Rightarrow> string \<Rightarrow> string list" where
  "req_values rs k = (case find (\<lambda>rq. rq_Key rq = k) rs of None \<Rightarrow> [] | Some rq \<Rightarrow> rq_Values rq)"

definition sample_scheduling :: "('q, Requirement list) scheduling_ops" where
  "sample_scheduling =
     \<lparr>sc_NewRequirements = (\<lambda>rs. rs), sc_FromClaim = map cr_Requirement,
      sc_HasMinValues = (\<lambda>_. False), sc_Keys = map rq_Key,
      sc_Any = (\<lambda>rs k. case req_values rs k of [] \<Rightarrow> [] | v # _ \<Rightarrow> v),
      sc_Len = (\<lambda>rs k. int (length (req_values rs k))), sc_Values = req_values,
      sc_Has = (\<lambda>rs k v. v \<in> set (req_values rs k)), sc_Compatible = (\<lambda>_ _. True),
      so_Available = filter of_Available, so_Compatible = (\<lambda>os r. os), so_Cheapest = cheapest,
      si_Truncate = (\<lambda>its r n. Ok (take (nat n) its)), si_Allocatable = it_Capacity,
      sr_Fits = (\<lambda>_ _. True), sr_MaxResources = puts\<rparr>"

lemma cheapest_laws:
  "cheapest os = None \<longleftrightarrow> os = []"
  "cheapest os = Some x \<Longrightarrow> x \<in> set os \<and> (\<forall>y \<in> set os. of_Price x \<le> of_Price y)"
proof -
  show none: "cheapest os = None \<longleftrightarrow> os = []" for os :: "'a Offering list"
    by (cases os) (auto split: option.splits)
  show "cheapest os = Some x \<Longrightarrow> x \<in> set os \<and> (\<forall>y \<in> set os. of_Price x \<le> of_Price y)"
  proof (induction os arbitrary: x)
    case Nil
    then show ?case by simp
  next
    case (Cons z os)
    show ?case
    proof (cases "cheapest os")
      case None
      then show ?thesis using Cons.prems none [of os] by simp
    next
      case (Some y)
      then show ?thesis using Cons.prems Cons.IH [OF Some] by (fastforce split: if_splits)
    qed
  qed
qed

lemma sample_offering_laws: "offering_laws sample_scheduling"
proof -
  have "\<forall>os x. cheapest os = Some x \<longrightarrow> x \<in> set os \<and> (\<forall>y \<in> set os. of_Price x \<le> of_Price y)"
    using cheapest_laws(2) by blast
  moreover have "\<forall>os. cheapest os = None \<longleftrightarrow> os = []"
    using cheapest_laws(1) by blast
  ultimately show ?thesis
    unfolding offering_laws_def sample_scheduling_def by (simp add: set_take_subset)
qed

lemma find_distinct_key:
  "rq \<in> set rs \<Longrightarrow> distinct (map rq_Key rs) \<Longrightarrow> find (\<lambda>r. rq_Key r = rq_Key rq) rs = Some rq"
  by (induction rs) (auto simp: rev_image_eqI)

lemma requirement_lawsD:
  assumes "requirement_laws sc" "in_req k [v] \<in> set rs" "distinct (map rq_Key rs)"
  shows "sc_Any sc (sc_NewRequirements sc rs) k = v" "sc_Len sc (sc_NewRequirements sc rs) k = 1"
    "sc_Values sc (sc_NewRequirements sc rs) k = [v]"
  using assms(1) [unfolded requirement_laws_def, rule_format, OF assms(2,3)]
  by (simp_all add: in_req_def)

lemma sample_requirement_laws: "requirement_laws sample_scheduling"
  by (auto simp: requirement_laws_def sample_scheduling_def req_values_def find_distinct_key)

end
