(* ===== verification/Karpenter.thy ===== *)
theory Karpenter
  imports Scheduling NativeNode
begin

text \<open>
  What the program uses of karpenter's API types: node claims, with the fields that are read or
  written.  Quantities stay the type parameter of \<open>Scheduling\<close>.
\<close>

record 'q NodeClaim =
  k_APIVersion :: string
  k_Kind :: string
  k_ObjectMeta :: ObjectMeta
  k_NodeClassRef :: "string option"
  k_Requirements :: "ClaimRequirement list"
  k_Requests :: "'q resource_list"
  k_ProviderID :: string
  k_Capacity :: "'q resource_list"
  k_Allocatable :: "'q resource_list"

definition zero_NodeClaim :: "'q NodeClaim" where
  "zero_NodeClaim = \<lparr>k_APIVersion = [], k_Kind = [], k_ObjectMeta = zero_ObjectMeta,
     k_NodeClassRef = None, k_Requirements = [], k_Requests = [], k_ProviderID = [],
     k_Capacity = [], k_Allocatable = []\<rparr>"

definition k_Name :: "'q NodeClaim \<Rightarrow> string" where
  "k_Name nc = om_Name (k_ObjectMeta nc)"

definition k_Label :: "'q NodeClaim \<Rightarrow> string \<Rightarrow> string" where
  "k_Label nc k = gm_idx (om_Labels (k_ObjectMeta nc)) k"

definition k_Annotation :: "'q NodeClaim \<Rightarrow> string \<Rightarrow> string" where
  "k_Annotation nc k = gm_idx (om_Annotations (k_ObjectMeta nc)) k"

text \<open>An instance name, a capacity type and a zone, any of which may be the wildcard.\<close>

type_synonym offering_name = "string \<times> string \<times> string"

definition wildcard :: string where "wildcard = ''*''"

fun covers :: "offering_name \<Rightarrow> offering_name \<Rightarrow> bool" where
  "covers (i', c', z') (i, c, z) \<longleftrightarrow> i' \<in> {i, wildcard} \<and> c' \<in> {c, wildcard} \<and> z' \<in> {z, wildcard}"

end
