(* ===== verification/Levels.thy ===== *)
theory Levels
  imports GoFloat
begin

text \<open>
  The reservation tables of \<open>pkg/providers/instancetype/level.go\<close> and \<open>kdump.go\<close>: piecewise
  linear reservations evaluated in float64 (a rational rounded after every operation, products
  and sums not fused), and the memory that a crash kernel takes.  The locale \<open>reservation\<close> is
  what the callers rely on: more of a resource never reserves less.
\<close>

section \<open>Levels\<close>

record Level =
  lv_low :: int
  lv_high :: int
  lv_base :: int
  lv_fact :: rat

definition level_eval :: "Level \<Rightarrow> int \<Rightarrow> rat" where
  "level_eval l resource =
     (if resource < lv_low l then 0
      else if resource < lv_high l
      then f64_add (f64_mul (f64_of_int (i64 (resource - lv_low l))) (lv_fact l)) (f64_of_int (lv_base l))
      else f64_add (f64_mul (f64_of_int (i64 (lv_high l - lv_low l))) (lv_fact l)) (f64_of_int (lv_base l)))"

fun levels_sum :: "Level list \<Rightarrow> int \<Rightarrow> rat \<Rightarrow> rat" where
  "levels_sum [] fraction res = res"
| "levels_sum (l # ls) fraction res = levels_sum ls fraction (f64_add res (level_eval l fraction))"

definition levels_eval :: "Level list \<Rightarrow> int \<Rightarrow> int" where
  "levels_eval ls fraction = i64 (trunc_rat (levels_sum ls fraction 0))"

definition level :: "int \<Rightarrow> int \<Rightarrow> int \<Rightarrow> rat \<Rightarrow> Level" where
  "level low high base f = \<lparr>lv_low = low, lv_high = high, lv_base = base, lv_fact = f\<rparr>"

text \<open>
  The tables of \<open>kubeReservedResources\<close>: constant expressions are exact and then rounded once.
\<close>

definition memLevel :: "Level list" where
  "memLevel =
     [level 0 4 0 (fl (1/4 * 1024)), level 4 8 0 (fl (1/5 * 1024)), level 8 16 0 (fl (1/10 * 1024)),
      level 16 128 0 (fl (6/100 * 1024)), level 128 2147483648 0 (fl (2/100 * 1024))]"

definition cpuLevel_new :: "Level list" where
  "cpuLevel_new =
     [level 0 1000 60 0, level 1000 2000 0 (fl (1/100)), level 2000 4000 0 (fl (5/1000)),
      level 4000 2147483648 0 (fl (25/10000))]"

definition cpuLevel_old :: "Level list" where
  "cpuLevel_old =
     [level 0 4000 100 0, level 4000 64000 0 (fl (25/1000)), level 64000 128000 0 (fl (125/10000)),
      level 128000 2147483648 0 (fl (5/1000))]"

section \<open>Crash kernel memory\<close>

record Kdump =
  kd_low :: int
  kd_high :: int
  kd_reserved :: int

definition KdumpLevels :: "Kdump list" where
  "KdumpLevels =
     [\<lparr>kd_low = 1800 * 1024 * 1024, kd_high = 64 * 1024 * 1024 * 1024, kd_reserved = 256 * 1024 * 1024\<rparr>,
      \<lparr>kd_low = 64 * 1024 * 1024 * 1024, kd_high = 128 * 1024 * 1024 * 1024, kd_reserved = 512 * 1024 * 1024\<rparr>,
      \<lparr>kd_low = 128 * 1024 * 1024 * 1024, kd_high = 2147483647, kd_reserved = 768 * 1024 * 1024\<rparr>]"

definition kdump_eval1 :: "Kdump \<Rightarrow> int \<Rightarrow> int" where
  "kdump_eval1 k resource = (if resource < kd_low k \<or> resource \<ge> kd_high k then 0 else kd_reserved k)"

fun kdump_loop :: "Kdump list \<Rightarrow> int \<Rightarrow> int \<Rightarrow> int" where
  "kdump_loop [] resource res = res"
| "kdump_loop (k # ks) resource res =
     (let res = kdump_eval1 k resource in if res > 0 then res else kdump_loop ks resource res)"

definition kdump_eval :: "Kdump list \<Rightarrow> int \<Rightarrow> int" where
  "kdump_eval ks resource = kdump_loop ks resource 0"

section \<open>Monotone reservations\<close>

locale reservation =
  fixes reserve_of :: "int \<Rightarrow> int"
  assumes mono: "in_i64 m \<Longrightarrow> in_i64 n \<Longrightarrow> m \<le> n \<Longrightarrow> reserve_of m \<le> reserve_of n"
    and at_zero: "reserve_of 0 \<ge> 0"
begin

lemma nonneg: "in_i64 n \<Longrightarrow> 0 \<le> n \<Longrightarrow> 0 \<le> reserve_of n"
  by (rule order_trans [OF at_zero mono [of 0 n]]) simp_all

lemma between: "in_i64 l \<Longrightarrow> in_i64 m \<Longrightarrow> in_i64 n \<Longrightarrow> l \<le> m \<Longrightarrow> m \<le> n \<Longrightarrow>
    reserve_of m \<in> {reserve_of l .. reserve_of n}"
  using mono by simp

end

text \<open>A level that does not wrap around and does not decrease.\<close>

definition level_ok :: "Level \<Rightarrow> bool" where
  "level_ok l \<longleftrightarrow> 0 \<le> lv_low l \<and> lv_low l \<le> lv_high l \<and> in_i64 (lv_high l) \<and> 0 \<le> lv_base l \<and> 0 \<le> lv_fact l"

lemma f64_add_nonneg: "0 \<le> x \<Longrightarrow> 0 \<le> y \<Longrightarrow> 0 \<le> f64_add x y"
  by (simp add: f64_add_def fl_nonneg)

lemma f64_mul_nonneg: "0 \<le> x \<Longrightarrow> 0 \<le> y \<Longrightarrow> 0 \<le> f64_mul x y"
  by (simp add: f64_mul_def fl_nonneg)

lemma level_part_nonneg:
  "0 \<le> k \<Longrightarrow> level_ok l \<Longrightarrow> 0 \<le> f64_add (f64_mul (f64_of_int k) (lv_fact l)) (f64_of_int (lv_base l))"
  by (simp add: level_ok_def f64_add_nonneg f64_mul_nonneg f64_of_int_nonneg)

lemma level_part_mono:
  "j \<le> k \<Longrightarrow> level_ok l \<Longrightarrow>
     f64_add (f64_mul (f64_of_int j) (lv_fact l)) (f64_of_int (lv_base l))
     \<le> f64_add (f64_mul (f64_of_int k) (lv_fact l)) (f64_of_int (lv_base l))"
  by (intro f64_add_mono f64_mul_mono f64_of_int_mono) (simp_all add: level_ok_def)

lemma level_sub_i64:
  "level_ok l \<Longrightarrow> in_i64 n \<Longrightarrow> lv_low l \<le> n \<Longrightarrow> i64 (n - lv_low l) = n - lv_low l"
  by (rule i64_id) (auto simp: level_ok_def in_i64_def)

lemma level_eval_mono:
  assumes "level_ok l" "in_i64 m" "in_i64 n" "m \<le> n"
  shows "level_eval l m \<le> level_eval l n"
proof -
  have h: "i64 (lv_high l - lv_low l) = lv_high l - lv_low l"
    using assms(1) by (intro level_sub_i64) (auto simp: level_ok_def)
  consider "n < lv_low l" | "m < lv_low l" "lv_low l \<le> n" | "lv_low l \<le> m"
    by linarith
  then show ?thesis
  proof cases
    case 1
    then show ?thesis using assms(4) by (simp add: level_eval_def)
  next
    case 2
    then have "0 \<le> level_eval l n"
      using assms level_sub_i64 [OF assms(1,3)] h
      by (auto simp: level_eval_def level_ok_def intro!: level_part_nonneg [unfolded level_ok_def])
    then show ?thesis using 2 by (simp add: level_eval_def)
  next
    case 3
    then have "i64 (m - lv_low l) = m - lv_low l" "i64 (n - lv_low l) = n - lv_low l"
      using level_sub_i64 assms by simp_all
    then show ?thesis
      using 3 assms h by (auto simp: level_eval_def intro!: level_part_mono)
  qed
qed

lemma levels_sum_mono:
  assumes "list_all level_ok ls" "in_i64 m" "in_i64 n" "m \<le> n" "a \<le> b"
  shows "levels_sum ls m a \<le> levels_sum ls n b"
  using assms(1,5)
  by (induction ls arbitrary: a b) (simp_all add: f64_add_mono level_eval_mono assms(2-4))

lemma i64_mono: "in_i64 a \<Longrightarrow> in_i64 b \<Longrightarrow> a \<le> b \<Longrightarrow> i64 a \<le> i64 b"
  by simp

text \<open>The sum is largest at the largest integer, where it is known and in range.\<close>

lemma levels_eval_mono:
  assumes ok: "list_all level_ok ls" and top: "trunc_rat (levels_sum ls (2 ^ 63 - 1) 0) < 2 ^ 63"
    and bottom: "0 \<le> trunc_rat (levels_sum ls (- (2 ^ 63)) 0)"
    and mn: "in_i64 m" "in_i64 n" "m \<le> n"
  shows "levels_eval ls m \<le> levels_eval ls n"
proof -
  have range: "in_i64 (trunc_rat (levels_sum ls k 0))" if "in_i64 k" for k
  proof -
    have "trunc_rat (levels_sum ls k 0) \<le> trunc_rat (levels_sum ls (2 ^ 63 - 1) 0)"
      using that by (intro trunc_rat_mono levels_sum_mono [OF ok]) (auto simp: in_i64_def)
    moreover have "trunc_rat (levels_sum ls (- (2 ^ 63)) 0) \<le> trunc_rat (levels_sum ls k 0)"
      using that by (intro trunc_rat_mono levels_sum_mono [OF ok]) (auto simp: in_i64_def)
    ultimately show ?thesis using top bottom by (simp add: in_i64_def)
  qed
  have "trunc_rat (levels_sum ls m 0) \<le> trunc_rat (levels_sum ls n 0)"
    by (intro trunc_rat_mono levels_sum_mono [OF ok]) (use mn in auto)
  then show ?thesis using range mn by (simp add: levels_eval_def)
qed

lemma tables_ok: "list_all level_ok memLevel" "list_all level_ok cpuLevel_new" "list_all level_ok cpuLevel_old"
  by (simp_all add: memLevel_def cpuLevel_new_def cpuLevel_old_def level_def level_ok_def in_i64_def
      fl_nonneg)

lemma mem_top: "trunc_rat (levels_sum memLevel (2 ^ 63 - 1) 0) < 2 ^ 63"
  by code_simp

lemma mem_bottom: "0 \<le> trunc_rat (levels_sum memLevel (- (2 ^ 63)) 0)"
  by code_simp

lemma mem_zero: "0 \<le> levels_eval memLevel 0"
  by code_simp

lemma new_top: "trunc_rat (levels_sum cpuLevel_new (2 ^ 63 - 1) 0) < 2 ^ 63"
  by code_simp

lemma new_bottom: "0 \<le> trunc_rat (levels_sum cpuLevel_new (- (2 ^ 63)) 0)"
  by code_simp

lemma new_zero: "0 \<le> levels_eval cpuLevel_new 0"
  by code_simp

lemma old_top: "trunc_rat (levels_sum cpuLevel_old (2 ^ 63 - 1) 0) < 2 ^ 63"
  by code_simp

lemma old_bottom: "0 \<le> trunc_rat (levels_sum cpuLevel_old (- (2 ^ 63)) 0)"
  by code_simp

lemma old_zero: "0 \<le> levels_eval cpuLevel_old 0"
  by code_simp

interpretation memory_reserved: reservation "levels_eval memLevel"
  by (rule reservation.intro)
    (erule (2) levels_eval_mono [OF tables_ok(1) mem_top mem_bottom], rule mem_zero)

interpretation cpu_reserved: reservation "levels_eval cpuLevel_new"
  by (rule reservation.intro)
    (erule (2) levels_eval_mono [OF tables_ok(2) new_top new_bottom], rule new_zero)

interpretation cpu_reserved_old: reservation "levels_eval cpuLevel_old"
  by (rule reservation.intro)
    (erule (2) levels_eval_mono [OF tables_ok(3) old_top old_bottom], rule old_zero)

section \<open>Properties\<close>

text \<open>
  C35. The kubelet reservation tables are monotone in spite of the float64 rounding of every product
  and sum: a machine with more memory or more CPU never has less of it reserved, over the whole
  range of int64, and nothing is ever reserved negatively.
\<close>

theorem reservations_monotone:
  assumes "table \<in> {memLevel, cpuLevel_new, cpuLevel_old}" "in_i64 m" "in_i64 n" "0 \<le> m" "m \<le> n"
  shows "0 \<le> levels_eval table m \<and> levels_eval table m \<le> levels_eval table n"
proof -
  have "0 \<le> levels_eval memLevel m \<and> levels_eval memLevel m \<le> levels_eval memLevel n"
    using memory_reserved.nonneg [OF assms(2,4)] memory_reserved.mono [OF assms(2,3,5)] ..
  moreover have "0 \<le> levels_eval cpuLevel_new m \<and> levels_eval cpuLevel_new m \<le> levels_eval cpuLevel_new n"
    using cpu_reserved.nonneg [OF assms(2,4)] cpu_reserved.mono [OF assms(2,3,5)] ..
  moreover have "0 \<le> levels_eval cpuLevel_old m \<and> levels_eval cpuLevel_old m \<le> levels_eval cpuLevel_old n"
    using cpu_reserved_old.nonneg [OF assms(2,4)] cpu_reserved_old.mono [OF assms(2,3,5)] ..
  ultimately show ?thesis using assms(1) by blast
qed

theorem reservations_monotone_witness:
  "levels_eval cpuLevel_new 8000 = 90 \<and> levels_eval cpuLevel_new 8000 \<le> levels_eval cpuLevel_new 16000"
proof -
  have "levels_eval cpuLevel_new 8000 = 90" by code_simp
  then show ?thesis
    using reservations_monotone [of cpuLevel_new 8000 16000] by (simp add: in_i64_def)
qed

text \<open>
  What the crash kernel table reserves, as it is written: 256 MiB from 1800 MiB to 64 GiB of
  memory, 512 MiB up to 128 GiB, and nothing below and nothing above: the third row ends at the
  largest 32-bit integer, below its start, so its 768 MiB are never reserved.
\<close>

theorem kdump_correct:
  "kdump_eval KdumpLevels m =
     (if m < 1800 * 2 ^ 20 then 0
      else if m < 64 * 2 ^ 30 then 256 * 2 ^ 20
      else if m < 128 * 2 ^ 30 then 512 * 2 ^ 20
      else 0)"
  by (simp add: kdump_eval_def KdumpLevels_def kdump_eval1_def Let_def)

end
