(* ===== verification/InstanceTypes.thy ===== *)
theory InstanceTypes
  imports Scheduling Levels Json
begin

text \<open>
  How an instance type is built from a quota item of the cloud
  (\<open>pkg/providers/instancetype/types.go\<close>, \<open>staging/nativenode/cxm/model.go\<close>): requirements,
  capacity and overheads.  Quantities, requirements, versions and \<open>strconv.ParseFloat\<close> are the
  parameters of \<open>Scheduling\<close> and of the record below; float64 values are rationals rounded as in
  \<open>GoFloat\<close>.  \<open>resources.Quantity\<close> is \<open>resource.MustParse\<close> behind a pointer.
\<close>

section \<open>Parameters\<close>

record 'v semver_ops =
  sv_Make :: "string \<Rightarrow> 'v option"
  sv_MustParse :: "string \<Rightarrow> 'v"
  sv_Zero :: 'v
  sv_GT :: "'v \<Rightarrow> 'v \<Rightarrow> bool"

record ('q, 'r, 'v) type_env =
  ty_q :: "'q quantity_ops"
  ty_sc :: "('q, 'r) scheduling_ops"
  ty_sv :: "'v semver_ops"
  ty_ParseFloat :: "string \<Rightarrow> rat option"
  ty_VMMemoryOverheadPercent :: rat

section \<open>Data of the cloud\<close>

record LocalDiskType =
  ld_Type :: string
  ld_PartitionType :: string
  ld_MinSize :: int
  ld_MaxSize :: int

record ItemPrice =
  ip_UnitPrice :: rat
  ip_OriginalPrice :: rat
  ip_SpotpaidPrice :: "rat option"

record StorageBlock =
  sb_Type :: string
  sb_MinSize :: int
  sb_MaxSize :: int

record GpuAttr =
  ga_Ratio :: rat
  ga_Type :: string

record Externals =
  ex_ReleaseAddress :: "bool option"
  ex_GpuAttr :: GpuAttr
  ex_GPUDesc :: string
  ex_UnsupportNetworks :: "string list"
  ex_StorageBlockAttr :: StorageBlock
  ex_PrepaidUnderwriteEnable :: bool
  ex_PrepaidUnderwritePeriods :: "int list"

record InstanceTypeQuotaItem =
  qi_Zone :: string
  qi_InstanceFamily :: string
  qi_InstanceType :: string
  qi_CPU :: int
  qi_CpuType :: string
  qi_Memory :: int
  qi_Fpga :: int
  qi_Gpu :: int
  qi_GpuCount :: rat
  qi_Inventory :: int
  qi_SpotpaidInventory :: "int option"
  qi_InstanceQuota :: int
  qi_Status :: string
  qi_Remark :: string
  qi_Externals :: Externals
  qi_LocalDiskTypeList :: "LocalDiskType list"
  qi_TypeName :: string
  qi_InstanceBandwidth :: rat
  qi_StorageBlock :: int
  qi_Price :: ItemPrice
  qi_Arch :: string

definition zero_QuotaItem :: InstanceTypeQuotaItem where
  "zero_QuotaItem = \<lparr>qi_Zone = [], qi_InstanceFamily = [], qi_InstanceType = [], qi_CPU = 0,
     qi_CpuType = [], qi_Memory = 0, qi_Fpga = 0, qi_Gpu = 0, qi_GpuCount = 0, qi_Inventory = 0,
     qi_SpotpaidInventory = None, qi_InstanceQuota = 0, qi_Status = [], qi_Remark = [],
     qi_Externals = \<lparr>ex_ReleaseAddress = None, ex_GpuAttr = \<lparr>ga_Ratio = 0, ga_Type = []\<rparr>,
       ex_GPUDesc = [], ex_UnsupportNetworks = [],
       ex_StorageBlockAttr = \<lparr>sb_Type = [], sb_MinSize = 0, sb_MaxSize = 0\<rparr>,
       ex_PrepaidUnderwriteEnable = False, ex_PrepaidUnderwritePeriods = []\<rparr>,
     qi_LocalDiskTypeList = [], qi_TypeName = [], qi_InstanceBandwidth = 0, qi_StorageBlock = 0,
     qi_Price = \<lparr>ip_UnitPrice = 0, ip_OriginalPrice = 0, ip_SpotpaidPrice = None\<rparr>, qi_Arch = []\<rparr>"

text \<open>The SDK's pod limits and cluster description, as far as they are read.\<close>

record PodLimits =
  pl_TKERouteENIStaticIP :: "int option"
  pl_TKEDirectENI :: "int option"
  pl_TKESubENI :: "int option"

record PodLimitsInstance =
  pi_InstanceType :: "string option"
  pi_PodLimits :: "PodLimits option"

text \<open>
  The property text of a cluster is kept as the JSON document it denotes; the network settings
  are their \<open>MaxNodePodNum\<close>.
\<close>

record Cluster =
  cl_Property :: "raw_extension option"
  cl_ClusterNetworkSettings :: "int option option"

record MetaFeature =
  mf_FeatureType :: string
  mf_NeedVpcLb :: bool
  mf_StaticMode :: bool

record ClusterProperty =
  cp_NodeNameType :: string
  cp_NetworkType :: string
  cp_IsNonStaticIpMode :: bool
  cp_VpcCniType :: string
  cp_MetaFeatureParam :: "MetaFeature option"
  cp_EnableCustomizedPodCIDR :: bool
  cp_BasePodNumberPerNode :: int
  cp_EnableMultiClusterCIDR :: bool
  cp_MultiClusterCIDR :: string
  cp_IgnoreClusterCIDRConflict :: bool
  cp_IgnoreServiceCIDRConflict :: bool
  cp_IsSupportMultiENI :: bool
  cp_IsDualStack :: bool
  cp_IsNetworkWithApp :: bool

text \<open>
  The error of \<open>json.Unmarshal\<close> is ignored: a text that is not JSON leaves every field zero, a
  member of the wrong type leaves its own field zero (a pointer field is allocated).
\<close>

definition lenient :: "(json \<Rightarrow> 'a option) \<Rightarrow> 'a \<Rightarrow> string \<Rightarrow> (string \<times> json) list \<Rightarrow> 'a" where
  "lenient d z k ms = (case jget k ms of None \<Rightarrow> z | Some v \<Rightarrow> (case d v of None \<Rightarrow> z | Some x \<Rightarrow> x))"

definition json_members :: "json \<Rightarrow> (string \<times> json) list" where
  "json_members v = (case v of JObj ms \<Rightarrow> ms | _ \<Rightarrow> [])"

definition dec_MetaFeature :: "json \<Rightarrow> MetaFeature" where
  "dec_MetaFeature v = (let ms = json_members v in
     \<lparr>mf_FeatureType = lenient dec_str [] ''FeatureType'' ms,
      mf_NeedVpcLb = lenient dec_bool False ''NeedVpcLb'' ms,
      mf_StaticMode = lenient dec_bool False ''StaticMode'' ms\<rparr>)"

definition dec_ClusterProperty :: "raw_extension \<Rightarrow> ClusterProperty" where
  "dec_ClusterProperty doc =
     (let ms = (case doc of None \<Rightarrow> [] | Some v \<Rightarrow> json_members v) in
      \<lparr>cp_NodeNameType = lenient dec_str [] ''NodeNameType'' ms,
       cp_NetworkType = lenient dec_str [] ''NetworkType'' ms,
       cp_IsNonStaticIpMode = lenient dec_bool False ''IsNonStaticIpMode'' ms,
       cp_VpcCniType = lenient dec_str [] ''VpcCniType'' ms,
       cp_MetaFeatureParam = (case jget ''MetaFeatureParam'' ms of
          None \<Rightarrow> None | Some JNull \<Rightarrow> None | Some v \<Rightarrow> Some (dec_MetaFeature v)),
       cp_EnableCustomizedPodCIDR = lenient dec_bool False ''EnableCustomizedPodCIDR'' ms,
       cp_BasePodNumberPerNode = lenient dec_int64 0 ''BasePodNumberPerNode'' ms,
       cp_EnableMultiClusterCIDR = lenient dec_bool False ''EnableMultiClusterCIDR'' ms,
       cp_MultiClusterCIDR = lenient dec_str [] ''MultiClusterCIDR'' ms,
       cp_IgnoreClusterCIDRConflict = lenient dec_bool False ''IgnoreClusterCIDRConflict'' ms,
       cp_IgnoreServiceCIDRConflict = lenient dec_bool False ''IgnoreServiceCIDRConflict'' ms,
       cp_IsSupportMultiENI = lenient dec_bool False ''IsSupportMultiENI'' ms,
       cp_IsDualStack = lenient dec_bool False ''IsDualStack'' ms,
       cp_IsNetworkWithApp = lenient dec_bool False ''IsNetworkWithApp'' ms\<rparr>)"

section \<open>Printing a float\<close>

text \<open>
  \<open>fmt.Sprint\<close> of a float64 that is an integer below \<open>2^53\<close>: its decimal digits, in exponent form
  from a million on, without trailing zeros in the mantissa.
\<close>

definition strip_zeros :: "string \<Rightarrow> string" where
  "strip_zeros ds = rev (dropWhile (\<lambda>c. c = CHR ''0'') (rev ds))"

definition fmt_exponent :: "int \<Rightarrow> string" where
  "fmt_exponent e = ''e+'' @ (if e < 10 then ''0'' else []) @ itoa e"

definition sprint_float_int :: "int \<Rightarrow> string" where
  "sprint_float_int n =
     (let ds = digits \<bar>n\<bar>; e = int (length ds) - 1; sign = (if n < 0 then ''-'' else []) in
      if e < 6 then sign @ ds
      else let m = strip_zeros ds in
        sign @ (case m of [] \<Rightarrow> [] | d # rest \<Rightarrow> d # (if rest = [] then [] else CHR ''.'' # rest)) @ fmt_exponent e)"

definition ceil_string :: "rat \<Rightarrow> string" where
  "ceil_string x = sprint_float_int \<lceil>x\<rceil>"

section \<open>Requirements\<close>

definition offering_labels ::
  "('q, 'r) scheduling_ops \<Rightarrow> 'r Offering list \<Rightarrow> string \<Rightarrow> string list" where
  "offering_labels sc os k = map (\<lambda>o'. sc_Any sc (of_Requirements o') k) (so_Available sc os)"

definition computeRequirements ::
  "('q, 'r) scheduling_ops \<Rightarrow> 'r Offering list \<Rightarrow> InstanceTypeQuotaItem \<Rightarrow> 'r" where
  "computeRequirements sc os i =
     sc_NewRequirements sc
       [in_req LabelInstanceTypeStable [qi_InstanceType i],
        in_req LabelArchStable [if qi_Arch i = [] then ''amd64'' else qi_Arch i],
        in_req LabelOSStable [''linux''],
        in_req LabelTopologyZone (offering_labels sc os LabelTopologyZone),
        in_req LabelCBSToplogy (offering_labels sc os LabelCBSToplogy),
        \<lparr>rq_Key = LabelWindowsBuild, rq_Operator = OpDoesNotExist, rq_Values = []\<rparr>,
        in_req CapacityTypeLabelKey (offering_labels sc os CapacityTypeLabelKey),
        in_req LabelInstanceCPU [itoa (qi_CPU i)],
        in_req LabelInstanceMemoryGB [itoa (qi_Memory i)],
        in_req LabelInstanceFamily [qi_InstanceFamily i]]"

section \<open>Capacity\<close>

definition memory :: "('q, 'r, 'v) type_env \<Rightarrow> int \<Rightarrow> 'q outcome" where
  "memory env m =
     q_MustParse (ty_q env) (itoa (i64 \<lceil>f64_mul (f64_of_int (i64 (m - kdump_eval KdumpLevels m)))
                                        (f64_sub 1 (ty_VMMemoryOverheadPercent env))\<rceil>))"

definition pods_count :: "InstanceTypeQuotaItem \<Rightarrow> int option \<Rightarrow> int option \<Rightarrow> int option \<Rightarrow> int" where
  "pods_count i eni maxPods podsPerCore =
     (let count = (if from_ptr 0 maxPods > 0 then from_ptr 0 maxPods
                   else if from_ptr 0 eni > 0
                   then (let c = from_ptr 0 eni in if c < 61 then 61 else c)
                   else 110)
      in if from_ptr 0 podsPerCore > 0 then min (i64 (from_ptr 0 podsPerCore * qi_CPU i)) count
         else count)"

definition pods ::
  "'q quantity_ops \<Rightarrow> InstanceTypeQuotaItem \<Rightarrow> int option \<Rightarrow> int option \<Rightarrow> int option \<Rightarrow> 'q outcome" where
  "pods q i eni maxPods podsPerCore = q_MustParse q (itoa (pods_count i eni maxPods podsPerCore))"

definition eip_count :: "int \<Rightarrow> int" where
  "eip_count cpu =
     (if cpu \<ge> 1 \<and> cpu \<le> 5 then 2 - 1
      else if cpu \<ge> 6 \<and> cpu \<le> 11 then 3 - 1
      else if cpu \<ge> 12 \<and> cpu \<le> 17 then 4 - 1
      else if cpu \<ge> 18 \<and> cpu \<le> 23 then 5 - 1
      else if cpu \<ge> 24 \<and> cpu \<le> 29 then 6 - 1
      else if cpu \<ge> 30 \<and> cpu \<le> 35 then 7 - 1
      else if cpu \<ge> 36 \<and> cpu \<le> 41 then 8 - 1
      else if cpu \<ge> 42 \<and> cpu \<le> 47 then 9 - 1
      else if cpu \<ge> 48 then 10 - 1
      else 1)"

text \<open>The limits of the instance type; the pointers on the way are dereferenced unchecked.\<close>

fun eni :: "InstanceTypeQuotaItem \<Rightarrow> PodLimitsInstance list \<Rightarrow>
    (int option \<times> int option \<times> int option) outcome" where
  "eni i [] = Ok (None, None, None)"
| "eni i (limit # limits) =
     (case pi_InstanceType limit of
        None \<Rightarrow> Panic
      | Some name \<Rightarrow>
          if qi_InstanceType i = name
          then (case pi_PodLimits limit of
                  None \<Rightarrow> Panic
                | Some l \<Rightarrow> Ok (pl_TKERouteENIStaticIP l, pl_TKEDirectENI l, pl_TKESubENI l))
          else eni i limits)"

text \<open>Setting an entry of a resource list to a parsed number.\<close>

definition put_parsed ::
  "'q quantity_ops \<Rightarrow> string \<Rightarrow> int \<Rightarrow> 'q resource_list \<Rightarrow> 'q resource_list outcome" where
  "put_parsed q k n rl = omap (\<lambda>v. put k v rl) (q_MustParse q (itoa n))"

definition put_opt ::
  "'q quantity_ops \<Rightarrow> string \<Rightarrow> int option \<Rightarrow> 'q resource_list \<Rightarrow> 'q resource_list outcome" where
  "put_opt q k n rl = (case n of None \<Rightarrow> Ok rl | Some n \<Rightarrow> put_parsed q k n rl)"

definition computeCapacity ::
  "('q, 'r, 'v) type_env \<Rightarrow> int \<Rightarrow> InstanceTypeQuotaItem \<Rightarrow> int option \<Rightarrow> int option \<Rightarrow>
   PodLimitsInstance list \<Rightarrow> 'q resource_list outcome" where
  "computeCapacity env storageInGB i maxPods podsPerCore eniLimits =
     (let q = ty_q env in
      obind (eni i eniLimits) (\<lambda>(eniip, directeni, subeni).
      obind (q_MustParse q (itoa (qi_CPU i))) (\<lambda>cpu.
      obind (memory env (i64 (qi_Memory i * 1024 * 1024 * 1024))) (\<lambda>mem.
      obind (q_MustParse q (itoa storageInGB @ ''G'')) (\<lambda>storage.
      obind (pods q i eniip maxPods podsPerCore) (\<lambda>podsq.
      let rl = [(ResourceCPU, cpu), (ResourceMemory, mem), (ResourceEphemeralStorage, storage),
                (ResourcePods, podsq)] in
      obind (put_opt q TKELabelEIP (if eniLimits \<noteq> [] then Some (eip_count (qi_CPU i)) else None) rl) (\<lambda>rl.
      obind (put_opt q TKELabelENIIP eniip rl) (\<lambda>rl.
      obind (put_opt q TKELabelDirectENI directeni rl) (\<lambda>rl.
      obind (put_opt q TKELabelENI directeni rl) (\<lambda>rl.
      obind (put_opt q TKELabelSubENI subeni rl) (\<lambda>rl.
      put_opt q ResourceNVIDIAGPU (if qi_Gpu i > 0 then Some (qi_Gpu i) else None) rl)))))))))))"

section \<open>Overhead\<close>

definition MemoryAvailable :: string where "MemoryAvailable = ''memory.available''"
definition NodeFSAvailable :: string where "NodeFSAvailable = ''nodefs.available''"

text \<open>\<open>lo.MapEntries\<close> with \<open>MustParse\<close> on the values; a nil map has no entries.\<close>

fun parse_entries :: "'q quantity_ops \<Rightarrow> (string, string) entries \<Rightarrow> 'q resource_list outcome" where
  "parse_entries q [] = Ok []"
| "parse_entries q ((k, v) # es) =
     obind (q_MustParse q v) (\<lambda>x. omap (\<lambda>rl. (k, x) # rl) (parse_entries q es))"

definition systemReservedResources :: "'q quantity_ops \<Rightarrow> gomap \<Rightarrow> 'q resource_list outcome" where
  "systemReservedResources q systemReserved = parse_entries q (gm_entries systemReserved)"

definition mebi :: "int \<Rightarrow> string" where
  "mebi n = itoa n @ ''Mi''"

definition kubeReservedResources ::
  "('q, 'r, 'v) type_env \<Rightarrow> 'v \<Rightarrow> 'q \<Rightarrow> 'q \<Rightarrow> int \<Rightarrow> gomap \<Rightarrow> 'q resource_list outcome" where
  "kubeReservedResources env k8sVersion cpus podsq memInGB kubeReserved =
     (let q = ty_q env; sv = ty_sv env in
      obind (q_MustParse q (mebi (i64 (20 * q_Value q podsq + 256)))) (\<lambda>by_pods.
      obind (q_MustParse q (mebi (levels_eval memLevel memInGB))) (\<lambda>legacy.
      let (cpuLevel, mem) =
            (if sv_GT sv k8sVersion (sv_MustParse sv ''1.29.0-0'')
             then (cpuLevel_new, if q_Less q legacy by_pods then legacy else by_pods)
             else (cpuLevel_old, legacy));
          resources = [(ResourceMemory, mem),
                       (ResourceCPU, q_NewMilliQuantity q (levels_eval cpuLevel (q_MilliValue q cpus)))]
      in omap (\<lambda>own. puts resources own) (parse_entries q (gm_entries kubeReserved)))))"

text \<open>A percentage of 100 disables the threshold; a percentage that is not a number panics.\<close>

definition trim_percent :: "string \<Rightarrow> string" where
  "trim_percent v =
     rev (dropWhile (\<lambda>c. c = CHR ''%'') (rev (dropWhile (\<lambda>c. c = CHR ''%'') v)))"

definition mustParsePercentage :: "(string \<Rightarrow> rat option) \<Rightarrow> string \<Rightarrow> rat outcome" where
  "mustParsePercentage parseFloat v =
     (case parseFloat (trim_percent v) of
        None \<Rightarrow> Panic
      | Some p \<Rightarrow> Ok (if p = 100 then 0 else p))"

definition computeEvictionSignal :: "('q, 'r, 'v) type_env \<Rightarrow> 'q \<Rightarrow> string \<Rightarrow> 'q outcome" where
  "computeEvictionSignal env capacity signalValue =
     (if has_suffix signalValue ''%''
      then obind (mustParsePercentage (ty_ParseFloat env) signalValue) (\<lambda>p.
        q_MustParse (ty_q env)
          (ceil_string (f64_mul (f64_div (q_AsApproximateFloat64 (ty_q env) capacity) 100) p)))
      else q_MustParse (ty_q env) signalValue)"

definition eviction_signal ::
  "('q, 'r, 'v) type_env \<Rightarrow> (string, string) entries \<Rightarrow> string \<Rightarrow> 'q \<Rightarrow> string \<Rightarrow> 'q resource_list \<Rightarrow>
   'q resource_list outcome" where
  "eviction_signal env m signal capacity resource temp =
     (case map_of m signal of
        None \<Rightarrow> Ok temp
      | Some v \<Rightarrow> omap (\<lambda>x. put resource x temp) (computeEvictionSignal env capacity v))"

definition evictionThreshold ::
  "('q, 'r, 'v) type_env \<Rightarrow> 'q \<Rightarrow> 'q \<Rightarrow> gomap \<Rightarrow> 'q resource_list outcome" where
  "evictionThreshold env mem storage evictionHard =
     (let q = ty_q env in
      obind (q_MustParse q ''100Mi'') (\<lambda>m.
      obind (q_MustParse q (ceil_string (f64_mul (f64_div (f64_of_int (q_Value q storage)) 100) 10))) (\<lambda>e.
      let overhead = [(ResourceMemory, m), (ResourceEphemeralStorage, e)] in
      case evictionHard of
        None \<Rightarrow> Ok overhead
      | Some signals \<Rightarrow>
          obind (eviction_signal env signals MemoryAvailable mem ResourceMemory []) (\<lambda>temp.
          obind (eviction_signal env signals NodeFSAvailable storage ResourceEphemeralStorage temp) (\<lambda>temp.
          Ok (puts overhead (sr_MaxResources (ty_sc env) [] temp)))))))"

section \<open>The instance type\<close>

text \<open>The cluster description overrides the pod limit and may switch the ENI limits off.\<close>

definition cluster_overrides ::
  "Cluster option \<Rightarrow> int option \<Rightarrow> PodLimitsInstance list \<Rightarrow> int option \<times> PodLimitsInstance list" where
  "cluster_overrides clsinfo maxPods eniLimits =
     (case clsinfo of
        None \<Rightarrow> (maxPods, eniLimits)
      | Some c \<Rightarrow>
          (case cl_Property c of
             None \<Rightarrow> (maxPods, eniLimits)
           | Some doc \<Rightarrow>
               let p = dec_ClusterProperty doc;
                   maxPods' = (if cp_NetworkType p \<noteq> ''VPC-CNI''
                               then (case cl_ClusterNetworkSettings c of
                                       None \<Rightarrow> maxPods
                                     | Some n \<Rightarrow> if from_ptr 0 n > 3 then Some (i32 (from_ptr 0 n - 3)) else maxPods)
                               else maxPods);
                   eniLimits' = (if cp_VpcCniType p = [] \<and> cp_NetworkType p \<noteq> ''VPC-CNI'' \<and>
                                    cp_MetaFeatureParam p = None
                                 then [] else eniLimits)
               in (maxPods', eniLimits')))"

definition NewInstanceType ::
  "('q, 'r, 'v) type_env \<Rightarrow> int \<Rightarrow> InstanceTypeQuotaItem \<Rightarrow> 'v \<Rightarrow> int option \<Rightarrow> int option \<Rightarrow>
   gomap \<Rightarrow> gomap \<Rightarrow> gomap \<Rightarrow> 'r Offering list \<Rightarrow> PodLimitsInstance list \<Rightarrow> Cluster option \<Rightarrow>
   ('q, 'r) InstanceType outcome" where
  "NewInstanceType env storageInGB i k8sVersion maxPods podsPerCore kubeReserved systemReserved
       evictionHard offerings eniLimits clsinfo =
     (let q = ty_q env; (maxPods, eniLimits) = cluster_overrides clsinfo maxPods eniLimits in
      obind (computeCapacity env storageInGB i maxPods podsPerCore eniLimits) (\<lambda>capacity.
      obind (kubeReservedResources env k8sVersion (rl_get q capacity ResourceCPU)
               (rl_get q capacity ResourcePods) (qi_Memory i) kubeReserved) (\<lambda>kube.
      obind (systemReservedResources q systemReserved) (\<lambda>sys.
      obind (evictionThreshold env (rl_get q capacity ResourceMemory)
               (rl_get q capacity ResourceEphemeralStorage) evictionHard) (\<lambda>ev.
      Ok \<lparr>it_Name = qi_InstanceType i,
          it_Requirements = computeRequirements (ty_sc env) offerings i,
          it_Offerings = offerings, it_Capacity = capacity,
          it_Overhead = \<lparr>ov_KubeReserved = kube, ov_SystemReserved = sys, ov_EvictionThreshold = ev\<rparr>\<rparr>)))))"

section \<open>Lemmas\<close>

text \<open>The resource names a capacity may have are distinct.\<close>

definition capacity_names :: "string list" where
  "capacity_names =
     [ResourceCPU, ResourceMemory, ResourceEphemeralStorage, ResourcePods, TKELabelEIP,
      TKELabelENIIP, TKELabelDirectENI, TKELabelENI, TKELabelSubENI, ResourceNVIDIAGPU]"

lemma resource_names_distinct: "distinct capacity_names"
  by (simp add: capacity_names_def label_defs k8s_label_defs)

lemma resource_names_neq [simp]:
  "ResourceCPU \<noteq> ResourceMemory" "ResourceCPU \<noteq> ResourceEphemeralStorage"
  "ResourceCPU \<noteq> ResourcePods" "ResourceCPU \<noteq> TKELabelEIP"
  "ResourceCPU \<noteq> TKELabelENIIP" "ResourceCPU \<noteq> TKELabelDirectENI"
  "ResourceCPU \<noteq> TKELabelENI" "ResourceCPU \<noteq> TKELabelSubENI"
  "ResourceCPU \<noteq> ResourceNVIDIAGPU" "ResourceMemory \<noteq> ResourceCPU"
  "ResourceMemory \<noteq> ResourceEphemeralStorage" "ResourceMemory \<noteq> ResourcePods"
  "ResourceMemory \<noteq> TKELabelEIP" "ResourceMemory \<noteq> TKELabelENIIP"
  "ResourceMemory \<noteq> TKELabelDirectENI" "ResourceMemory \<noteq> TKELabelENI"
  "ResourceMemory \<noteq> TKELabelSubENI" "ResourceMemory \<noteq> ResourceNVIDIAGPU"
  "ResourceEphemeralStorage \<noteq> ResourceCPU" "ResourceEphemeralStorage \<noteq> ResourceMemory"
  "ResourceEphemeralStorage \<noteq> ResourcePods" "ResourceEphemeralStorage \<noteq> TKELabelEIP"
  "ResourceEphemeralStorage \<noteq> TKELabelENIIP"
  "ResourceEphemeralStorage \<noteq> TKELabelDirectENI" "ResourceEphemeralStorage \<noteq> TKELabelENI"
  "ResourceEphemeralStorage \<noteq> TKELabelSubENI"
  "ResourceEphemeralStorage \<noteq> ResourceNVIDIAGPU" "ResourcePods \<noteq> ResourceCPU"
  "ResourcePods \<noteq> ResourceMemory" "ResourcePods \<noteq> ResourceEphemeralStorage"
  "ResourcePods \<noteq> TKELabelEIP" "ResourcePods \<noteq> TKELabelENIIP"
  "ResourcePods \<noteq> TKELabelDirectENI" "ResourcePods \<noteq> TKELabelENI"
  "ResourcePods \<noteq> TKELabelSubENI" "ResourcePods \<noteq> ResourceNVIDIAGPU"
  "TKELabelEIP \<noteq> ResourceCPU" "TKELabelEIP \<noteq> ResourceMemory"
  "TKELabelEIP \<noteq> ResourceEphemeralStorage" "TKELabelEIP \<noteq> ResourcePods"
  "TKELabelEIP \<noteq> TKELabelENIIP" "TKELabelEIP \<noteq> TKELabelDirectENI"
  "TKELabelEIP \<noteq> TKELabelENI" "TKELabelEIP \<noteq> TKELabelSubENI"
  "TKELabelEIP \<noteq> ResourceNVIDIAGPU" "TKELabelENIIP \<noteq> ResourceCPU"
  "TKELabelENIIP \<noteq> ResourceMemory" "TKELabelENIIP \<noteq> ResourceEphemeralStorage"
  "TKELabelENIIP \<noteq> ResourcePods" "TKELabelENIIP \<noteq> TKELabelEIP"
  "TKELabelENIIP \<noteq> TKELabelDirectENI" "TKELabelENIIP \<noteq> TKELabelENI"
  "TKELabelENIIP \<noteq> TKELabelSubENI" "TKELabelENIIP \<noteq> ResourceNVIDIAGPU"
  "TKELabelDirectENI \<noteq> ResourceCPU" "TKELabelDirectENI \<noteq> ResourceMemory"
  "TKELabelDirectENI \<noteq> ResourceEphemeralStorage" "TKELabelDirectENI \<noteq> ResourcePods"
  "TKELabelDirectENI \<noteq> TKELabelEIP" "TKELabelDirectENI \<noteq> TKELabelENIIP"
  "TKELabelDirectENI \<noteq> TKELabelENI" "TKELabelDirectENI \<noteq> TKELabelSubENI"
  "TKELabelDirectENI \<noteq> ResourceNVIDIAGPU" "TKELabelENI \<noteq> ResourceCPU"
  "TKELabelENI \<noteq> ResourceMemory" "TKELabelENI \<noteq> ResourceEphemeralStorage"
  "TKELabelENI \<noteq> ResourcePods" "TKELabelENI \<noteq> TKELabelEIP"
  "TKELabelENI \<noteq> TKELabelENIIP" "TKELabelENI \<noteq> TKELabelDirectENI"
  "TKELabelENI \<noteq> TKELabelSubENI" "TKELabelENI \<noteq> ResourceNVIDIAGPU"
  "TKELabelSubENI \<noteq> ResourceCPU" "TKELabelSubENI \<noteq> ResourceMemory"
  "TKELabelSubENI \<noteq> ResourceEphemeralStorage" "TKELabelSubENI \<noteq> ResourcePods"
  "TKELabelSubENI \<noteq> TKELabelEIP" "TKELabelSubENI \<noteq> TKELabelENIIP"
  "TKELabelSubENI \<noteq> TKELabelDirectENI" "TKELabelSubENI \<noteq> TKELabelENI"
  "TKELabelSubENI \<noteq> ResourceNVIDIAGPU" "ResourceNVIDIAGPU \<noteq> ResourceCPU"
  "ResourceNVIDIAGPU \<noteq> ResourceMemory" "ResourceNVIDIAGPU \<noteq> ResourceEphemeralStorage"
  "ResourceNVIDIAGPU \<noteq> ResourcePods" "ResourceNVIDIAGPU \<noteq> TKELabelEIP"
  "ResourceNVIDIAGPU \<noteq> TKELabelENIIP" "ResourceNVIDIAGPU \<noteq> TKELabelDirectENI"
  "ResourceNVIDIAGPU \<noteq> TKELabelENI" "ResourceNVIDIAGPU \<noteq> TKELabelSubENI"
  using resource_names_distinct [unfolded capacity_names_def] by auto

lemma put_opt_Ok:
  "put_opt q k n rl = Ok rl' \<Longrightarrow>
     map_of rl' = (case n of None \<Rightarrow> map_of rl | Some n \<Rightarrow> (map_of rl)(k := ok_value (q_MustParse q (itoa n))))"
  by (auto simp: put_opt_def put_parsed_def split: option.splits)

lemma parse_entries_Ok:
  "parse_entries q es = Ok rl \<Longrightarrow> map fst rl = map fst es \<and>
     (\<forall>k. map_of rl k = (case map_of es k of None \<Rightarrow> None | Some v \<Rightarrow> ok_value (q_MustParse q v)))"
proof (induction es arbitrary: rl)
  case Nil
  then show ?case by simp
next
  case (Cons e es)
  obtain k v where e: "e = (k, v)" by (cases e)
  obtain x rl' where "q_MustParse q v = Ok x" "parse_entries q es = Ok rl'" "rl = (k, x) # rl'"
    using Cons.prems by (auto simp: e)
  then show ?case using Cons.IH by (simp add: e)
qed

lemma map_of_rev_distinct: "distinct_keys es \<Longrightarrow> map_of (rev es) = map_of es"
  by (rule sym, rule map_of_perm) simp_all

text \<open>A named resource read from a list of optional entries, later entries first.\<close>

definition opt_entry :: "'q quantity_ops \<Rightarrow> int option \<Rightarrow> 'q option" where
  "opt_entry q n = (case n of None \<Rightarrow> None | Some n \<Rightarrow> ok_value (q_MustParse q (itoa n)))"

lemma map_of_put_opt:
  "put_opt q k n rl = Ok rl' \<Longrightarrow> map_of rl k = None \<Longrightarrow>
     map_of rl' k = opt_entry q n \<and> (\<forall>k'. k' \<noteq> k \<longrightarrow> map_of rl' k' = map_of rl k')"
  by (auto dest!: put_opt_Ok simp: opt_entry_def split: option.splits)

lemma computeCapacity_Ok:
  assumes cap: "computeCapacity env storageInGB i maxPods podsPerCore limits = Ok rl"
  obtains eniip directeni subeni where "eni i limits = Ok (eniip, directeni, subeni)"
    "map_of rl ResourceCPU = ok_value (q_MustParse (ty_q env) (itoa (qi_CPU i)))"
    "map_of rl ResourceMemory = ok_value (memory env (i64 (qi_Memory i * 1024 * 1024 * 1024)))"
    "map_of rl ResourceEphemeralStorage = ok_value (q_MustParse (ty_q env) (itoa storageInGB @ ''G''))"
    "map_of rl ResourcePods = ok_value (q_MustParse (ty_q env) (itoa (pods_count i eniip maxPods podsPerCore)))"
    "map_of rl TKELabelEIP = opt_entry (ty_q env) (if limits \<noteq> [] then Some (eip_count (qi_CPU i)) else None)"
    "map_of rl TKELabelENIIP = opt_entry (ty_q env) eniip"
    "map_of rl TKELabelDirectENI = opt_entry (ty_q env) directeni"
    "map_of rl TKELabelENI = opt_entry (ty_q env) directeni"
    "map_of rl TKELabelSubENI = opt_entry (ty_q env) subeni"
    "map_of rl ResourceNVIDIAGPU = opt_entry (ty_q env) (if qi_Gpu i > 0 then Some (qi_Gpu i) else None)"
    "\<forall>k. k \<notin> set capacity_names \<longrightarrow> map_of rl k = None"
proof -
  let ?q = "ty_q env"
  obtain eniip directeni subeni cpu mem storage podsq rl1 rl2 rl3 rl4 rl5 where
    e: "eni i limits = Ok (eniip, directeni, subeni)"
    and base: "q_MustParse ?q (itoa (qi_CPU i)) = Ok cpu"
      "memory env (i64 (qi_Memory i * 1024 * 1024 * 1024)) = Ok mem"
      "q_MustParse ?q (itoa storageInGB @ ''G'') = Ok storage"
      "pods ?q i eniip maxPods podsPerCore = Ok podsq"
    and r1: "put_opt ?q TKELabelEIP (if limits \<noteq> [] then Some (eip_count (qi_CPU i)) else None)
         [(ResourceCPU, cpu), (ResourceMemory, mem), (ResourceEphemeralStorage, storage), (ResourcePods, podsq)]
       = Ok rl1"
    and r2: "put_opt ?q TKELabelENIIP eniip rl1 = Ok rl2"
    and r3: "put_opt ?q TKELabelDirectENI directeni rl2 = Ok rl3"
    and r4: "put_opt ?q TKELabelENI directeni rl3 = Ok rl4"
    and r5: "put_opt ?q TKELabelSubENI subeni rl4 = Ok rl5"
    and r6: "put_opt ?q ResourceNVIDIAGPU (if qi_Gpu i > 0 then Some (qi_Gpu i) else None) rl5 = Ok rl"
    using cap unfolding computeCapacity_def Let_def
    by (auto split: prod.splits)
  note steps = map_of_put_opt [OF r1] map_of_put_opt [OF r2] map_of_put_opt [OF r3] map_of_put_opt [OF r4]
    map_of_put_opt [OF r5] map_of_put_opt [OF r6]
  show ?thesis
    using that [OF e] steps base by (simp add: pods_def capacity_names_def)
qed

lemma NewInstanceType_Ok:
  assumes "NewInstanceType env storageInGB i v maxPods podsPerCore kr sr eh offerings limits cls = Ok it"
  shows "computeCapacity env storageInGB i (fst (cluster_overrides cls maxPods limits)) podsPerCore
           (snd (cluster_overrides cls maxPods limits)) = Ok (it_Capacity it) \<and>
    it_Name it = qi_InstanceType i \<and> it_Offerings it = offerings \<and>
    it_Requirements it = computeRequirements (ty_sc env) offerings i"
  using assms by (auto simp: NewInstanceType_def case_prod_unfold Let_def)

text \<open>
  The specification of the capacity.  The description of a cluster says something when it has a
  property text; the limits of an instance type are those of the first entry that names it; and
  the memory is what the crash kernel leaves of it, less the overhead.
\<close>

definition cluster_property :: "Cluster option \<Rightarrow> ClusterProperty option" where
  "cluster_property cls = Option.bind cls (\<lambda>c. map_option dec_ClusterProperty (cl_Property c))"

definition cluster_node_pods :: "Cluster option \<Rightarrow> int" where
  "cluster_node_pods cls =
     from_ptr 0 (Option.bind cls (\<lambda>c. Option.bind (cl_ClusterNetworkSettings c) (\<lambda>n. n)))"

definition type_limits :: "string \<Rightarrow> PodLimitsInstance list \<Rightarrow> PodLimits option" where
  "type_limits name limits =
     Option.bind (find (\<lambda>l. pi_InstanceType l = Some name) limits) pi_PodLimits"

definition usable_memory :: "int \<Rightarrow> int" where
  "usable_memory g =
     g * 2 ^ 30 - (if g < 2 then 0 else if g < 64 then 256 else if g < 128 then 512 else 0) * 2 ^ 20"

lemma cluster_overrides_property:
  "cluster_property cls = None \<Longrightarrow> cluster_overrides cls maxPods limits = (maxPods, limits)"
  "cluster_property cls = Some p \<Longrightarrow> cluster_node_pods cls < 2 ^ 31 \<Longrightarrow>
     cluster_overrides cls maxPods limits =
       (if cp_NetworkType p \<noteq> ''VPC-CNI'' \<and> 3 < cluster_node_pods cls
        then Some (cluster_node_pods cls - 3) else maxPods,
        if cp_NetworkType p = ''VPC-CNI'' \<or> cp_VpcCniType p \<noteq> [] \<or> cp_MetaFeatureParam p \<noteq> None
        then limits else [])"
  by (auto simp: cluster_property_def cluster_node_pods_def cluster_overrides_def Let_def from_ptr_def
      in_i32_def bind_eq_None_conv bind_eq_Some_conv split: option.splits)

lemma eni_limits:
  "eni i limits = Ok (a, b, c) \<Longrightarrow>
     a = Option.bind (type_limits (qi_InstanceType i) limits) pl_TKERouteENIStaticIP \<and>
     b = Option.bind (type_limits (qi_InstanceType i) limits) pl_TKEDirectENI \<and>
     c = Option.bind (type_limits (qi_InstanceType i) limits) pl_TKESubENI"
proof (induction limits)
  case Nil
  then show ?case by (simp add: type_limits_def)
next
  case (Cons l limits)
  obtain name where name: "pi_InstanceType l = Some name"
    using Cons.prems by (cases "pi_InstanceType l") simp_all
  show ?case
  proof (cases "name = qi_InstanceType i")
    case True
    then show ?thesis using Cons.prems name by (auto simp: type_limits_def split: option.splits)
  next
    case False
    then have "type_limits (qi_InstanceType i) (l # limits) = type_limits (qi_InstanceType i) limits"
      using name by (simp add: type_limits_def)
    then show ?thesis using Cons name False by simp
  qed
qed

lemma eip_count_closed: "eip_count cpu = max 1 (min 9 (cpu div 6 + 1))"
proof (cases "cpu < 48")
  case True
  show ?thesis
  proof (cases "cpu < 0")
    case True
    then have "cpu div 6 < 0" by (simp add: div_neg_pos_less0)
    then show ?thesis using True by (simp add: eip_count_def)
  next
    case False
    have "cpu = 6 * (cpu div 6) + cpu mod 6" "0 \<le> cpu mod 6" "cpu mod 6 < 6" by simp_all
    then show ?thesis using \<open>cpu < 48\<close> False by (simp add: eip_count_def) linarith
  qed
next
  case False
  then have "8 \<le> cpu div 6" by linarith
  then show ?thesis using False by (simp add: eip_count_def)
qed

lemma core_pods_i64:
  assumes "0 \<le> cpu" "cpu < 2 ^ 31" "in_i32 n"
  shows "in_i64 (n * cpu)"
proof -
  have "\<bar>n * cpu\<bar> \<le> 2 ^ 31 * 2 ^ 31"
    unfolding abs_mult using assms by (intro mult_mono) (auto simp: in_i32_def)
  then show ?thesis by (simp add: in_i64_def abs_le_iff)
qed

lemma usable_memory_kdump:
  assumes "0 \<le> g" "g < 2 ^ 22"
  shows "i64 (i64 (g * 1024 * 1024 * 1024) - kdump_eval KdumpLevels (i64 (g * 1024 * 1024 * 1024))) =
      usable_memory g"
    and "0 \<le> usable_memory g" "usable_memory g < 2 ^ 52"
proof -
  have bytes: "i64 (g * 1024 * 1024 * 1024) = g * 2 ^ 30"
    using assms by (subst i64_id) (auto simp: in_i64_def)
  have range: "0 \<le> usable_memory g \<and> usable_memory g < 2 ^ 52"
    using assms by (simp add: usable_memory_def)
  have "g * 2 ^ 30 - kdump_eval KdumpLevels (g * 2 ^ 30) = usable_memory g"
    by (simp add: kdump_correct usable_memory_def)
  then show "i64 (i64 (g * 1024 * 1024 * 1024) - kdump_eval KdumpLevels (i64 (g * 1024 * 1024 * 1024))) =
      usable_memory g"
    using range unfolding bytes by (subst i64_id) (auto simp: in_i64_def)
  show "0 \<le> usable_memory g" "usable_memory g < 2 ^ 52" using range by simp_all
qed

text \<open>The memory in bytes: two roundings move it by less than two bytes, and it is rounded up.\<close>

lemma rounded_memory:
  fixes p :: rat
  assumes m: "0 \<le> m" "m < 2 ^ 52" and p: "0 \<le> p" "p \<le> 1"
  defines "n \<equiv> \<lceil>f64_mul (of_int m) (f64_sub 1 p)\<rceil>"
  shows "0 \<le> n" "n \<le> m" "\<bar>of_int n - of_int m * (1 - p)\<bar> < 3"
proof -
  define x where "x = fl (1 - p)"
  define y where "y = fl (of_int m * x)"
  have n: "n = \<lceil>y\<rceil>" by (simp add: n_def f64_mul_def f64_sub_def x_def y_def)
  have x: "0 \<le> x" "x \<le> 1"
    using fl_nonneg [of "1 - p"] fl_mono [of "1 - p" 1] fl_of_int [of 1] p by (simp_all add: x_def)
  have m': "0 \<le> (of_int m :: rat)" "(of_int m :: rat) \<le> 2 ^ 52"
    using m by (simp_all add: less_imp_le)
  have mx: "0 \<le> of_int m * x" "of_int m * x \<le> of_int m"
    using m' x by (simp_all add: mult_left_le)
  have y: "0 \<le> y" "y \<le> of_int m"
    using fl_nonneg [OF mx(1)] fl_mono [OF mx(2)] fl_of_int [of m] m by (simp_all add: y_def)
  show "0 \<le> n" "n \<le> m" unfolding n using y by (simp_all add: ceiling_le_iff)
  have tiny: "pow2 (- 1075) \<le> pow2 (- 53)" by simp
  have "\<bar>x - (1 - p)\<bar> \<le> pow2 (- 52)"
  proof -
    have "\<bar>x - (1 - p)\<bar> \<le> (1 - p) * pow2 (- 53) + pow2 (- 1075)"
      unfolding x_def using p by (intro fl_abs_error) simp
    also have "\<dots> \<le> 1 * pow2 (- 53) + pow2 (- 53)"
      using p tiny by (intro add_mono mult_right_mono) (simp_all add: less_imp_le)
    also have "\<dots> = pow2 (- 52)" using pow2_add [of 1 "- 53"] pow2_nat [of 1] by simp
    finally show ?thesis .
  qed
  then have "of_int m * \<bar>x - (1 - p)\<bar> \<le> 2 ^ 52 * pow2 (- 52)"
    using m' by (intro mult_mono) simp_all
  also have "\<dots> = 1" using pow2_add [of 52 "- 52"] pow2_nat [of 52] by (simp add: pow2_def)
  finally have first: "\<bar>of_int m * x - of_int m * (1 - p)\<bar> \<le> 1"
    using m' by (simp add: abs_mult flip: right_diff_distrib)
  have "\<bar>y - of_int m * x\<bar> \<le> of_int m * x * pow2 (- 53) + pow2 (- 1075)"
    unfolding y_def by (rule fl_abs_error [OF mx(1)])
  also have "\<dots> \<le> 2 ^ 52 * pow2 (- 53) + pow2 (- 53)"
    using mx m' tiny by (intro add_mono mult_right_mono) (simp_all add: less_imp_le)
  also have "\<dots> < 1" by (simp add: pow2_def power_int_def power_divide)
  finally have second: "\<bar>y - of_int m * x\<bar> < 1" .
  have "y \<le> of_int n" "of_int n < y + 1" unfolding n by linarith+
  then show "\<bar>of_int n - of_int m * (1 - p)\<bar> < 3" using first second by linarith
qed

lemma memory_usable:
  assumes "0 \<le> g" "g < 2 ^ 22" "0 \<le> ty_VMMemoryOverheadPercent env" "ty_VMMemoryOverheadPercent env \<le> 1"
  shows "memory env (i64 (g * 1024 * 1024 * 1024)) =
    q_MustParse (ty_q env) (itoa \<lceil>f64_mul (of_int (usable_memory g))
      (f64_sub 1 (ty_VMMemoryOverheadPercent env))\<rceil>)"
proof -
  note range = usable_memory_kdump [OF assms(1,2)]
  note n = rounded_memory [OF range(2,3) assms(3,4)]
  have exact: "f64_of_int (usable_memory g) = of_int (usable_memory g)"
    using range by (intro f64_of_int_exact) simp
  have in_range: "in_i64 a" if "0 \<le> a" "a \<le> m" "m < 2 ^ 52" for a m
    using that by (simp add: in_i64_def)
  have "in_i64 \<lceil>f64_mul (of_int (usable_memory g)) (f64_sub 1 (ty_VMMemoryOverheadPercent env))\<rceil>"
    using in_range [OF n(1,2) range(3)] .
  then show ?thesis unfolding memory_def range(1) exact by (simp only: i64_id)
qed

section \<open>Properties\<close>

text \<open>
  C26. The capacity of an instance type, resource by resource.  The description of the cluster comes
  first: three of the pods of its nodes are kept back, unless the network is VPC-CNI, and without any
  sign of VPC-CNI there are no limits of ENIs.  Then the CPU, the GPU and the storage are those that were
  given; the memory is within three bytes of what the crash kernel leaves, less the overhead, and never
  more than that; the pods are the limit of the cluster or the kubelet, otherwise the static IPs of the
  type but at least 61, otherwise 110, and the pods per core times the cores where that is less; the ENI entries are
  the limits of the type, when there are any; the EIPs are one more than the CPUs divided by six,
  one at least and nine at most.  There are no other entries.
\<close>

theorem NewInstanceType_capacity:
  assumes it: "NewInstanceType env storageInGB i v maxPods podsPerCore kr sr eh offerings limits cls = Ok it"
    and cpu: "0 \<le> qi_CPU i" "qi_CPU i < 2 ^ 31"
    and mem: "0 \<le> qi_Memory i" "qi_Memory i < 2 ^ 22"
    and overhead: "0 \<le> ty_VMMemoryOverheadPercent env" "ty_VMMemoryOverheadPercent env \<le> 1"
    and pods: "in_i32 (from_ptr 0 podsPerCore)" "cluster_node_pods cls < 2 ^ 31"
  shows "\<exists>maxPods' limits' n.
    (case cluster_property cls of
       None \<Rightarrow> maxPods' = maxPods \<and> limits' = limits
     | Some p \<Rightarrow>
         maxPods' = (if cp_NetworkType p \<noteq> ''VPC-CNI'' \<and> 3 < cluster_node_pods cls
                     then Some (cluster_node_pods cls - 3) else maxPods) \<and>
         limits' = (if cp_NetworkType p = ''VPC-CNI'' \<or> cp_VpcCniType p \<noteq> [] \<or> cp_MetaFeatureParam p \<noteq> None
                    then limits else [])) \<and>
    n = \<lceil>f64_mul (of_int (usable_memory (qi_Memory i))) (f64_sub 1 (ty_VMMemoryOverheadPercent env))\<rceil> \<and>
    0 \<le> n \<and> n \<le> usable_memory (qi_Memory i) \<and>
    \<bar>of_int n - of_int (usable_memory (qi_Memory i)) * (1 - ty_VMMemoryOverheadPercent env)\<bar> < 3 \<and>
    (let entry = \<lambda>k. map_of (it_Capacity it) k; number = opt_entry (ty_q env);
         lim = type_limits (qi_InstanceType i) limits';
         ips = Option.bind lim pl_TKERouteENIStaticIP;
         base = (if 0 < from_ptr 0 maxPods' then from_ptr 0 maxPods'
                 else if 0 < from_ptr 0 ips then max 61 (from_ptr 0 ips) else 110)
     in entry ResourceCPU = number (Some (qi_CPU i)) \<and>
        entry ResourceMemory = number (Some n) \<and>
        entry ResourceEphemeralStorage = ok_value (q_MustParse (ty_q env) (itoa storageInGB @ ''G'')) \<and>
        entry ResourcePods = number (Some
          (if 0 < from_ptr 0 podsPerCore then min (from_ptr 0 podsPerCore * qi_CPU i) base else base)) \<and>
        entry TKELabelEIP = number (if limits' = [] then None else Some (max 1 (min 9 (qi_CPU i div 6 + 1)))) \<and>
        entry TKELabelENIIP = number ips \<and>
        entry TKELabelDirectENI = number (Option.bind lim pl_TKEDirectENI) \<and>
        entry TKELabelENI = number (Option.bind lim pl_TKEDirectENI) \<and>
        entry TKELabelSubENI = number (Option.bind lim pl_TKESubENI) \<and>
        entry ResourceNVIDIAGPU = number (if 0 < qi_Gpu i then Some (qi_Gpu i) else None) \<and>
        (\<forall>k. k \<notin> set capacity_names \<longrightarrow> entry k = None))"
proof -
  let ?o = "cluster_overrides cls maxPods limits"
  let ?n = "\<lceil>f64_mul (of_int (usable_memory (qi_Memory i))) (f64_sub 1 (ty_VMMemoryOverheadPercent env))\<rceil>"
  note n = rounded_memory [OF usable_memory_kdump(2,3) [OF mem] overhead]
  have described: "case cluster_property cls of
       None \<Rightarrow> fst ?o = maxPods \<and> snd ?o = limits
     | Some p \<Rightarrow>
         fst ?o = (if cp_NetworkType p \<noteq> ''VPC-CNI'' \<and> 3 < cluster_node_pods cls
                   then Some (cluster_node_pods cls - 3) else maxPods) \<and>
         snd ?o = (if cp_NetworkType p = ''VPC-CNI'' \<or> cp_VpcCniType p \<noteq> [] \<or> cp_MetaFeatureParam p \<noteq> None
                   then limits else [])"
    using cluster_overrides_property [of cls] pods(2) by (simp split: option.split)
  have cap: "computeCapacity env storageInGB i (fst ?o) podsPerCore (snd ?o) = Ok (it_Capacity it)"
    using NewInstanceType_Ok [OF it] by blast
  note evaluated = memory_usable [OF mem overhead, simplified] eip_count_closed pods_count_def opt_entry_def
    i64_id [OF core_pods_i64 [OF cpu pods(1)]]
  show ?thesis
    by (rule computeCapacity_Ok [OF cap], drule eni_limits,
        intro exI [of _ "fst ?o"] exI [of _ "snd ?o"] exI [of _ ?n] conjI)
      (use described n in \<open>simp_all add: Let_def evaluated max_def\<close>)
qed

definition sample_env :: "(string, Requirement list, string) type_env" where
  "sample_env = \<lparr>ty_q = sample_quantities, ty_sc = sample_scheduling,
     ty_sv = \<lparr>sv_Make = Some, sv_MustParse = (\<lambda>v. v), sv_Zero = [], sv_GT = (\<lambda>v w. v > w)\<rparr>,
     ty_ParseFloat = (\<lambda>s. map_option of_int (atoi s)), ty_VMMemoryOverheadPercent = 0\<rparr>"

definition sample_item :: InstanceTypeQuotaItem where
  "sample_item = zero_QuotaItem\<lparr>qi_InstanceType := ''S5.MEDIUM4'', qi_CPU := 2, qi_Memory := 4,
     qi_Gpu := 1, qi_Zone := ''ap-guangzhou-3''\<rparr>"

definition sample_limits :: "PodLimitsInstance list" where
  "sample_limits = [\<lparr>pi_InstanceType = Some ''S5.MEDIUM4'', pi_PodLimits = Some
     \<lparr>pl_TKERouteENIStaticIP = Some 9, pl_TKEDirectENI = None, pl_TKESubENI = None\<rparr>\<rparr>]"

text \<open>A cluster with global routing and 64 pods per node.\<close>

definition sample_cluster :: Cluster where
  "sample_cluster = \<lparr>cl_Property = Some (Some (JObj [(''NetworkType'', JStr ''GR'')])),
     cl_ClusterNetworkSettings = Some (Some 64)\<rparr>"

theorem NewInstanceType_capacity_witness:
  "\<exists>it. NewInstanceType sample_env 35 sample_item ''1.30.0'' None None None None None [] sample_limits
       (Some sample_cluster) = Ok it \<and>
     map_of (it_Capacity it) ResourceMemory = Some (itoa 4026531840) \<and>
     map_of (it_Capacity it) ResourcePods = Some (itoa 61) \<and> map_of (it_Capacity it) TKELabelEIP = None \<and>
     map_of (it_Capacity it) ResourceNVIDIAGPU = Some (itoa 1)"
proof -
  let ?it = "NewInstanceType sample_env 35 sample_item ''1.30.0'' None None None None None [] sample_limits
       (Some sample_cluster)"
  have cls: "cluster_overrides (Some sample_cluster) None sample_limits = (Some 61, [])"
    by code_simp
  have parse: "q_MustParse (ty_q sample_env) v = Ok v" for v
    by (simp add: sample_env_def sample_quantities_def)
  have "\<exists>it. ?it = Ok it"
    unfolding NewInstanceType_def cls computeCapacity_def kubeReservedResources_def
      evictionThreshold_def systemReservedResources_def put_opt_def put_parsed_def memory_def pods_def
      Let_def split_def parse
    by (simp add: parse)
  then obtain it where it: "?it = Ok it" ..
  have item: "qi_CPU sample_item = 2" "qi_Memory sample_item = 4" "qi_Gpu sample_item = 1"
    by (simp_all add: sample_item_def)
  have overhead: "ty_VMMemoryOverheadPercent sample_env = 0" by (simp add: sample_env_def)
  have entry: "opt_entry (ty_q sample_env) n = map_option itoa n" for n
    by (simp add: opt_entry_def parse split: option.split)
  have cluster: "cluster_node_pods (Some sample_cluster) = 64"
    "map_option (\<lambda>p. (cp_NetworkType p, cp_VpcCniType p, cp_MetaFeatureParam p))
       (cluster_property (Some sample_cluster)) = Some (''GR'', [], None)"
    by code_simp+
  have usable: "usable_memory 4 = 4026531840" "f64_sub 1 0 = 1" "f64_mul 4026531840 1 = of_int 4026531840"
    using fl_of_int [of 1] fl_of_int [of 4026531840]
    by (simp_all add: usable_memory_def f64_sub_def f64_mul_def)
  show ?thesis
    using NewInstanceType_capacity [OF it] cluster
    by (auto simp: it item overhead entry usable Let_def)
qed

text \<open>
  C25. What the kubelet reserves: the entries of the kubelet configuration win over the computed
  ones.  Otherwise the CPU comes from the table of the Kubernetes version, and the memory is the
  legacy table's amount up to 1.29, and after it the smaller of that amount and 20 MiB per pod
  plus 256 MiB.
\<close>

theorem kubeReservedResources_correct:
  assumes run: "kubeReservedResources env v cpus podsq memInGB kubeReserved = Ok rl"
    and keys: "distinct_keys (gm_entries kubeReserved)"
  shows "\<exists>legacy by_pods. q_MustParse (ty_q env) (mebi (levels_eval memLevel memInGB)) = Ok legacy \<and>
    q_MustParse (ty_q env) (mebi (i64 (20 * q_Value (ty_q env) podsq + 256))) = Ok by_pods \<and>
    (\<forall>k. map_of rl k = (case gm_get kubeReserved k of
       Some own \<Rightarrow> ok_value (q_MustParse (ty_q env) own)
     | None \<Rightarrow>
         let new = sv_GT (ty_sv env) v (sv_MustParse (ty_sv env) ''1.29.0-0'') in
         if k = ResourceMemory
         then Some (if new \<and> \<not> q_Less (ty_q env) legacy by_pods then by_pods else legacy)
         else if k = ResourceCPU
         then Some (q_NewMilliQuantity (ty_q env)
                (levels_eval (if new then cpuLevel_new else cpuLevel_old) (q_MilliValue (ty_q env) cpus)))
         else None))"
proof -
  let ?q = "ty_q env" and ?new = "sv_GT (ty_sv env) v (sv_MustParse (ty_sv env) ''1.29.0-0'')"
  obtain legacy by_pods own where parsed:
    "q_MustParse ?q (mebi (levels_eval memLevel memInGB)) = Ok legacy"
    "q_MustParse ?q (mebi (i64 (20 * q_Value ?q podsq + 256))) = Ok by_pods"
    "parse_entries ?q (gm_entries kubeReserved) = Ok own"
    "rl = puts [(ResourceMemory, if ?new \<and> \<not> q_Less ?q legacy by_pods then by_pods else legacy),
                (ResourceCPU, q_NewMilliQuantity ?q
                   (levels_eval (if ?new then cpuLevel_new else cpuLevel_old) (q_MilliValue ?q cpus)))] own"
    using run by (auto simp: kubeReservedResources_def Let_def split: if_splits)
  have own: "map fst own = map fst (gm_entries kubeReserved)"
    "\<And>k. map_of own k = (case gm_get kubeReserved k of None \<Rightarrow> None | Some v \<Rightarrow> ok_value (q_MustParse ?q v))"
    using parse_entries_Ok [OF parsed(3)] by (simp_all add: gm_get_def)
  have rev: "map_of (rev own) = map_of own"
    using keys own(1) by (intro map_of_rev_distinct) (simp add: distinct_keys_def)
  have some: "map_of own k \<noteq> None" if "gm_get kubeReserved k = Some w" for k w
  proof -
    have "k \<in> fst ` set own"
      using that own(1) by (metis gm_get_def map_of_SomeD fst_conv image_eqI list.set_map)
    then show ?thesis by (simp add: map_of_eq_None_iff)
  qed
  have "map_of rl k = (case gm_get kubeReserved k of
       Some own \<Rightarrow> ok_value (q_MustParse ?q own)
     | None \<Rightarrow> let new = ?new in
         if k = ResourceMemory
         then Some (if new \<and> \<not> q_Less ?q legacy by_pods then by_pods else legacy)
         else if k = ResourceCPU
         then Some (q_NewMilliQuantity ?q
                (levels_eval (if new then cpuLevel_new else cpuLevel_old) (q_MilliValue ?q cpus)))
         else None)" for k
    using some [of k] own(2) [of k] unfolding parsed(4) map_of_puts rev
    by (cases "gm_get kubeReserved k") (auto simp: map_add_def Let_def split: option.split)
  then show ?thesis using parsed(1,2) by blast
qed

text \<open>The kubelet's own CPU reservation wins; the memory comes from the tables.\<close>

theorem kubeReservedResources_correct_witness:
  "\<exists>rl. kubeReservedResources sample_env ''1.30.0'' ''2'' ''61'' 4 (Some [(ResourceCPU, ''100m'')]) = Ok rl \<and>
     map_of rl ResourceCPU = Some ''100m''"
proof -
  have "\<exists>rl. kubeReservedResources sample_env ''1.30.0'' ''2'' ''61'' 4 (Some [(ResourceCPU, ''100m'')]) = Ok rl"
    unfolding kubeReservedResources_def Let_def split_def
    by (simp add: sample_env_def sample_quantities_def)
  then obtain rl where run:
    "kubeReservedResources sample_env ''1.30.0'' ''2'' ''61'' 4 (Some [(ResourceCPU, ''100m'')]) = Ok rl" ..
  have "distinct_keys (gm_entries (Some [(ResourceCPU, ''100m'')]))"
    by (simp add: distinct_keys_def)
  note correct = kubeReservedResources_correct [OF run this]
  have "ok_value (q_MustParse (ty_q sample_env) ''100m'') = Some ''100m''"
    by (simp add: sample_env_def sample_quantities_def)
  then show ?thesis using correct run by auto
qed

end
