(* ===== verification/Blocklist.thy ===== *)
theory Blocklist
  imports Karpenter InstanceTypes
begin

text \<open>
  The part of the instance type provider (\<open>pkg/providers/instancetype/instancetype.go\<close>) that
  remembers what cannot be launched: blocked offerings, with wildcards, and counts of capacity
  failures, both in one cache whose entries expire, and the metric of blocked offerings.
  The cache library is a parameter with its documented behaviour as laws; the provider carries
  its cache operations like the Go struct carries its \<open>*cache.Cache\<close>.  The locale \<open>blocklist\<close> is
  what other components use of the Go interface \<open>instancetype.Provider\<close>; the provider is an
  interpretation of it.
\<close>

declare split_paired_All [simp del] split_paired_Ex [simp del]

section \<open>Caches\<close>

text \<open>The values the program keeps in its caches; a type assertion on another one panics.\<close>

datatype cache_item =
    CBool bool
  | CInt int
  | CTypes "InstanceTypeQuotaItem list"
  | CLimits "(string, PodLimitsInstance list) entries"
  | CCluster Cluster

record 'c cache_ops =
  ca_Get :: "string \<Rightarrow> 'c \<Rightarrow> cache_item option"
  ca_Set :: "string \<Rightarrow> cache_item \<Rightarrow> int \<Rightarrow> 'c \<Rightarrow> 'c"
  ca_SetDefault :: "string \<Rightarrow> cache_item \<Rightarrow> 'c \<Rightarrow> 'c"
  ca_Flush :: "'c \<Rightarrow> 'c"
  ca_ItemCount :: "'c \<Rightarrow> nat"
  ca_Later :: "'c \<Rightarrow> 'c \<Rightarrow> bool"

text \<open>
  What the program relies on: a value just set (for a positive time) is read back and hides no
  other key, flushing removes everything, \<open>Items\<close> is empty exactly when nothing can be read, and
  while time passes entries only disappear.
\<close>

definition cache_laws :: "'c cache_ops \<Rightarrow> bool" where
  "cache_laws ops \<longleftrightarrow>
     (\<forall>k k' v c. ca_Get ops k' (ca_SetDefault ops k v c) = (if k' = k then Some v else ca_Get ops k' c)) \<and>
     (\<forall>k k' v d c. 0 < d \<longrightarrow>
        ca_Get ops k' (ca_Set ops k v d c) = (if k' = k then Some v else ca_Get ops k' c)) \<and>
     (\<forall>k c. ca_Get ops k (ca_Flush ops c) = None) \<and>
     (\<forall>c. ca_ItemCount ops c = 0 \<longleftrightarrow> (\<forall>k. ca_Get ops k c = None)) \<and>
     (\<forall>k c c'. ca_Later ops c c' \<longrightarrow> ca_Get ops k c' \<in> {None, ca_Get ops k c})"

lemma cache_lawsD:
  assumes "cache_laws ops"
  shows "ca_Get ops k' (ca_SetDefault ops k v c) = (if k' = k then Some v else ca_Get ops k' c)"
    and "0 < d \<Longrightarrow> ca_Get ops k' (ca_Set ops k v d c) = (if k' = k then Some v else ca_Get ops k' c)"
    and "ca_Get ops k (ca_Flush ops c) = None"
    and "ca_ItemCount ops c = 0 \<longleftrightarrow> (\<forall>k. ca_Get ops k c = None)"
    and "ca_Later ops c c' \<Longrightarrow> ca_Get ops k c' \<in> {None, ca_Get ops k c}"
  using assms unfolding cache_laws_def by blast+

text \<open>A cache that is a list of entries, for the witnesses.\<close>

definition sample_cache :: "(string, cache_item) entries cache_ops" where
  "sample_cache = \<lparr>ca_Get = \<lambda>k c. map_of c k, ca_Set = \<lambda>k v d c. put k v c,
     ca_SetDefault = \<lambda>k v c. put k v c, ca_Flush = \<lambda>c. [], ca_ItemCount = \<lambda>c. length c,
     ca_Later = \<lambda>c c'. list_all (\<lambda>e. map_of c' (fst e) = map_of c (fst e)) c'\<rparr>"

lemma sample_cache_laws: "cache_laws sample_cache"
proof -
  have "(\<forall>k. map_of c k = None) \<Longrightarrow> c = []" for c :: "(string, cache_item) entries"
    by (cases c) (auto split: if_splits)
  moreover have "map_of c' k \<in> {None, map_of c k}"
    if "list_all (\<lambda>e. map_of c' (fst e) = map_of c (fst e)) c'" for c c' :: "(string, cache_item) entries" and k
    using that by (cases "map_of c' k") (fastforce simp: list_all_iff dest: map_of_SomeD)+
  ultimately show ?thesis by (auto simp: cache_laws_def sample_cache_def)
qed

section \<open>The provider\<close>

record 'c InstanceTypeProvider =
  ip_zoneProvider :: "string \<Rightarrow> string outcome"
  ip_cache :: "'c cache_ops"
  ip_providerCache :: 'c
  ip_blacklistCache :: 'c
  ip_gauge :: "offering_name list"

definition NewDefaultProvider_it :: "(string \<Rightarrow> string outcome) \<Rightarrow> 'c cache_ops \<Rightarrow> 'c \<Rightarrow> 'c \<Rightarrow> 'c InstanceTypeProvider" where
  "NewDefaultProvider_it zoneProvider ops providerCache blacklistCache =
     \<lparr>ip_zoneProvider = zoneProvider, ip_cache = ops, ip_providerCache = providerCache,
      ip_blacklistCache = blacklistCache, ip_gauge = []\<rparr>"

definition offering_key :: "string \<Rightarrow> offering_name \<Rightarrow> string" where
  "offering_key kind n = (case n of (i, c, z) \<Rightarrow> kind @ i @ ''-'' @ c @ ''-'' @ z)"

definition blocked_key :: "offering_name \<Rightarrow> string" where
  "blocked_key = offering_key ''blocked-ins-''"

definition failure_key :: "offering_name \<Rightarrow> string" where
  "failure_key = offering_key ''failure-ins-''"

definition BlockInstanceType :: "offering_name \<Rightarrow> 'c InstanceTypeProvider \<Rightarrow> 'c InstanceTypeProvider" where
  "BlockInstanceType n p =
     p\<lparr>ip_blacklistCache := ca_SetDefault (ip_cache p) (blocked_key n) (CBool True) (ip_blacklistCache p),
       ip_gauge := List.insert n (ip_gauge p)\<rparr>"

definition GetInsufficientFailureCount :: "offering_name \<Rightarrow> 'c InstanceTypeProvider \<Rightarrow> int outcome" where
  "GetInsufficientFailureCount n p =
     (case ca_Get (ip_cache p) (failure_key n) (ip_blacklistCache p) of
        None \<Rightarrow> Ok 0
      | Some (CInt cnt) \<Rightarrow> Ok cnt
      | Some _ \<Rightarrow> Panic)"

definition AddInsufficientFailure ::
  "offering_name \<Rightarrow> 'c InstanceTypeProvider \<Rightarrow> 'c InstanceTypeProvider outcome" where
  "AddInsufficientFailure n p =
     omap (\<lambda>setCount. p\<lparr>ip_blacklistCache := ca_Set (ip_cache p) (failure_key n) (CInt setCount)
                                               (minutes 60) (ip_blacklistCache p)\<rparr>)
       (case ca_Get (ip_cache p) (failure_key n) (ip_blacklistCache p) of
          None \<Rightarrow> Ok 1
        | Some (CInt cnt) \<Rightarrow> Ok (i64 (1 + cnt))
        | Some _ \<Rightarrow> Panic)"

definition is_blocked_key :: "'c InstanceTypeProvider \<Rightarrow> offering_name \<Rightarrow> bool" where
  "is_blocked_key p n \<longleftrightarrow> ca_Get (ip_cache p) (blocked_key n) (ip_blacklistCache p) \<noteq> None"

definition isBlocked :: "'c InstanceTypeProvider \<Rightarrow> offering_name \<Rightarrow> bool" where
  "isBlocked p n = (case n of (instName, capacityType, zone) \<Rightarrow>
     if is_blocked_key p (instName, capacityType, zone) then True
     else if is_blocked_key p (''*'', ''*'', ''*'') then True
     else if is_blocked_key p (instName, capacityType, ''*'') then True
     else if is_blocked_key p (instName, ''*'', zone) then True
     else if is_blocked_key p (instName, ''*'', ''*'') then True
     else if is_blocked_key p (''*'', capacityType, zone) then True
     else if is_blocked_key p (''*'', capacityType, ''*'') then True
     else if is_blocked_key p (''*'', ''*'', zone) then True
     else False)"

text \<open>The metric is reset when a listing finds the whole cache empty.\<close>

definition reset_gauge :: "'c InstanceTypeProvider \<Rightarrow> 'c InstanceTypeProvider" where
  "reset_gauge p = (if ca_ItemCount (ip_cache p) (ip_blacklistCache p) = 0 then p\<lparr>ip_gauge := []\<rparr> else p)"

section \<open>The interface\<close>

text \<open>The calls that change the memory, in the order they are made.\<close>

datatype block_op = Block offering_name | Failure offering_name

locale blocklist =
  fixes good :: "'s \<Rightarrow> bool"
    and name_ok :: "offering_name \<Rightarrow> bool"
    and block :: "offering_name \<Rightarrow> 's \<Rightarrow> 's"
    and add :: "offering_name \<Rightarrow> 's \<Rightarrow> 's outcome"
    and blocked :: "'s \<Rightarrow> offering_name \<Rightarrow> bool"
    and count_of :: "offering_name \<Rightarrow> 's \<Rightarrow> int outcome"
  assumes good_block: "good s \<Longrightarrow> good (block n s)"
    and good_add: "good s \<Longrightarrow> \<exists>s'. add n s = Ok s' \<and> good s'"
    and good_count: "good s \<Longrightarrow> \<exists>i. count_of n s = Ok i"
    and blocked_block: "good s \<Longrightarrow> name_ok n \<Longrightarrow> name_ok m \<Longrightarrow>
      blocked (block n s) m \<longleftrightarrow> covers n m \<or> blocked s m"
    and blocked_add: "good s \<Longrightarrow> add n s = Ok s' \<Longrightarrow> blocked s' m = blocked s m"
    and count_block: "good s \<Longrightarrow> count_of m (block n s) = count_of m s"
    and count_add: "good s \<Longrightarrow> name_ok n \<Longrightarrow> name_ok m \<Longrightarrow> add n s = Ok s' \<Longrightarrow>
      count_of m s = Ok i \<Longrightarrow> i < 2 ^ 63 - 1 \<Longrightarrow> count_of m s' = Ok (if m = n then i + 1 else i)"
begin

fun run :: "block_op list \<Rightarrow> 's \<Rightarrow> 's outcome" where
  "run [] s = Ok s"
| "run (Block n # ops) s = run ops (block n s)"
| "run (Failure n # ops) s = obind (add n s) (run ops)"

lemma run_good: "good s \<Longrightarrow> \<exists>s'. run ops s = Ok s' \<and> good s'"
proof (induction ops arbitrary: s)
  case Nil
  then show ?case by simp
next
  case (Cons x ops)
  show ?case
  proof (cases x)
    case (Block n)
    then show ?thesis using Cons good_block by simp
  next
    case (Failure n)
    then show ?thesis using Cons good_add [OF Cons.prems, of n] by auto
  qed
qed

lemma run_blocked:
  assumes "good s" "\<forall>n. Block n \<in> set ops \<longrightarrow> name_ok n" "name_ok m" "run ops s = Ok s'"
  shows "blocked s' m \<longleftrightarrow> (\<exists>n. Block n \<in> set ops \<and> covers n m) \<or> blocked s m"
  using assms
proof (induction ops arbitrary: s)
  case Nil
  then show ?case by simp
next
  case (Cons x ops)
  show ?case
  proof (cases x)
    case (Block n)
    have "name_ok n" using Cons.prems(2) Block by simp
    then have head: "blocked (block n s) m \<longleftrightarrow> covers n m \<or> blocked s m"
      using blocked_block [OF Cons.prems(1) _ Cons.prems(3)] by blast
    have "blocked s' m \<longleftrightarrow> (\<exists>n. Block n \<in> set ops \<and> covers n m) \<or> blocked (block n s) m"
      by (rule Cons.IH) (use Cons.prems Block good_block in auto)
    then show ?thesis using head Block by auto
  next
    case (Failure n)
    obtain t where t: "add n s = Ok t" "good t" using good_add [OF Cons.prems(1)] by blast
    have "blocked s' m \<longleftrightarrow> (\<exists>n. Block n \<in> set ops \<and> covers n m) \<or> blocked t m"
      by (rule Cons.IH) (use Cons.prems Failure t in auto)
    then show ?thesis using blocked_add [OF Cons.prems(1) t(1), of m] Failure by simp
  qed
qed

lemma run_count:
  assumes "good s" "\<forall>n. Failure n \<in> set ops \<longrightarrow> name_ok n" "name_ok m" "run ops s = Ok s'"
    and "count_of m s = Ok i" "i + int (length ops) < 2 ^ 63"
  shows "count_of m s' = Ok (i + int (count_list ops (Failure m)))"
  using assms
proof (induction ops arbitrary: s i)
  case Nil
  then show ?case by simp
next
  case (Cons x ops)
  show ?case
  proof (cases x)
    case (Block n)
    have "count_of m s' = Ok (i + int (count_list ops (Failure m)))"
      by (rule Cons.IH [of "block n s"])
        (use Cons.prems Block good_block count_block [OF Cons.prems(1)] in auto)
    then show ?thesis using Block by simp
  next
    case (Failure n)
    obtain t where t: "add n s = Ok t" "good t" using good_add [OF Cons.prems(1)] by blast
    have n: "name_ok n" using Cons.prems(2) Failure by simp
    have i: "i < 2 ^ 63 - 1" using Cons.prems(6) by simp
    have head: "count_of m t = Ok (if m = n then i + 1 else i)"
      by (rule count_add [OF Cons.prems(1) n Cons.prems(3) t(1) Cons.prems(5) i])
    have "count_of m s' = Ok ((if m = n then i + 1 else i) + int (count_list ops (Failure m)))"
      by (rule Cons.IH [OF t(2) _ Cons.prems(3) _ head]) (use Cons.prems Failure t in auto)
    then show ?thesis using Failure by auto
  qed
qed

end

section \<open>The provider provides it\<close>

text \<open>
  Names whose keys tell them apart: no dash in the instance name, and a capacity type that
  karpenter knows, or the wildcard.
\<close>

definition plain_name :: "offering_name \<Rightarrow> bool" where
  "plain_name n \<longleftrightarrow> (case n of (i, c, z) \<Rightarrow>
     CHR ''-'' \<notin> set i \<and> c \<in> {CapacityTypeOnDemand, CapacityTypeSpot, wildcard})"

lemma offering_key_inj:
  assumes "plain_name n" "plain_name m" "offering_key kind n = offering_key kind m"
  shows "n = m"
proof -
  obtain i c z i' c' z' where n: "n = (i, c, z)" and m: "m = (i', c', z')" by (cases n, cases m)
  have "i = i' \<and> c @ CHR ''-'' # z = c' @ CHR ''-'' # z'"
    using assms by (simp add: n m plain_name_def offering_key_def append_sep_eq)
  then show ?thesis
    using assms(1,2)
    by (auto simp: n m plain_name_def CapacityTypeOnDemand_def CapacityTypeSpot_def wildcard_def)
qed

lemma blocked_key_inj: "plain_name n \<Longrightarrow> plain_name m \<Longrightarrow> blocked_key n = blocked_key m \<longleftrightarrow> n = m"
  unfolding blocked_key_def using offering_key_inj by blast

lemma failure_key_inj: "plain_name n \<Longrightarrow> plain_name m \<Longrightarrow> failure_key n = failure_key m \<longleftrightarrow> n = m"
  unfolding failure_key_def using offering_key_inj by blast

lemma keys_apart [simp]: "blocked_key n \<noteq> failure_key m" "failure_key m \<noteq> blocked_key n"
  by (simp_all add: blocked_key_def failure_key_def offering_key_def split: prod.splits)

text \<open>
  The invariant: the counters are integers, and every blocked offering shows in the metric.
\<close>

definition blocklist_ok :: "'c InstanceTypeProvider \<Rightarrow> bool" where
  "blocklist_ok p \<longleftrightarrow> cache_laws (ip_cache p) \<and>
     (\<forall>n v. ca_Get (ip_cache p) (failure_key n) (ip_blacklistCache p) = Some v \<longrightarrow>
        (\<exists>i. v = CInt i \<and> in_i64 i)) \<and>
     (\<forall>n. is_blocked_key p n \<longrightarrow> blocked_key n \<in> blocked_key ` set (ip_gauge p))"

lemma blocklist_okD:
  assumes "blocklist_ok p"
  shows "cache_laws (ip_cache p)"
    and "ca_Get (ip_cache p) (failure_key n) (ip_blacklistCache p) = Some v \<Longrightarrow> \<exists>i. v = CInt i \<and> in_i64 i"
    and "is_blocked_key p n \<Longrightarrow> blocked_key n \<in> blocked_key ` set (ip_gauge p)"
  using assms unfolding blocklist_ok_def by blast+

lemma isBlocked_iff:
  "isBlocked p n \<longleftrightarrow> (\<exists>m. is_blocked_key p m \<and> covers m n)"
  by (cases n) (auto simp: isBlocked_def wildcard_def)

lemma is_blocked_key_block:
  assumes "blocklist_ok p"
  shows "is_blocked_key (BlockInstanceType n p) m \<longleftrightarrow> blocked_key m = blocked_key n \<or> is_blocked_key p m"
  using cache_lawsD(1) [OF blocklist_okD(1) [OF assms]]
  by (simp add: is_blocked_key_def BlockInstanceType_def)

lemma AddInsufficientFailure_Ok:
  assumes "blocklist_ok p"
  obtains i where "AddInsufficientFailure n p = Ok (p\<lparr>ip_blacklistCache :=
      ca_Set (ip_cache p) (failure_key n) (CInt i) (minutes 60) (ip_blacklistCache p)\<rparr>)"
    "i = (case GetInsufficientFailureCount n p of Ok cnt \<Rightarrow> i64 (1 + cnt) | _ \<Rightarrow> 0)"
proof (cases "ca_Get (ip_cache p) (failure_key n) (ip_blacklistCache p)")
  case None
  have "i64 1 = 1" by (rule i64_id) (simp add: in_i64_def)
  then show ?thesis
    using None that by (simp add: AddInsufficientFailure_def GetInsufficientFailureCount_def)
next
  case (Some v)
  then show ?thesis
    using blocklist_okD(2) [OF assms Some] that
    by (auto simp: AddInsufficientFailure_def GetInsufficientFailureCount_def)
qed

lemma Get_after_add:
  assumes "blocklist_ok p" "AddInsufficientFailure n p = Ok p'"
  obtains i where "ip_cache p' = ip_cache p" "ip_gauge p' = ip_gauge p"
    "\<And>k. ca_Get (ip_cache p') k (ip_blacklistCache p') =
       (if k = failure_key n then Some (CInt i) else ca_Get (ip_cache p) k (ip_blacklistCache p))"
    "i = (case GetInsufficientFailureCount n p of Ok cnt \<Rightarrow> i64 (1 + cnt) | _ \<Rightarrow> 0)"
proof -
  have laws: "cache_laws (ip_cache p)" by (rule blocklist_okD(1) [OF assms(1)])
  obtain i where i: "AddInsufficientFailure n p = Ok (p\<lparr>ip_blacklistCache :=
      ca_Set (ip_cache p) (failure_key n) (CInt i) (minutes 60) (ip_blacklistCache p)\<rparr>)"
    "i = (case GetInsufficientFailureCount n p of Ok cnt \<Rightarrow> i64 (1 + cnt) | _ \<Rightarrow> 0)"
    by (rule AddInsufficientFailure_Ok [OF assms(1)])
  then have "p' = p\<lparr>ip_blacklistCache :=
      ca_Set (ip_cache p) (failure_key n) (CInt i) (minutes 60) (ip_blacklistCache p)\<rparr>"
    using assms(2) by simp
  then show ?thesis using that [of i] i(2) cache_lawsD(2) [OF laws] by simp
qed

lemma blocklist_ok_block: "blocklist_ok p \<Longrightarrow> blocklist_ok (BlockInstanceType n p)"
  unfolding blocklist_ok_def
  by (auto simp: BlockInstanceType_def is_blocked_key_def cache_lawsD(1) split: if_splits)

lemma blocklist_ok_add:
  assumes "blocklist_ok p" "AddInsufficientFailure n p = Ok p'"
  shows "blocklist_ok p'"
  by (rule Get_after_add [OF assms])
    (use assms(1) in \<open>auto simp: blocklist_ok_def is_blocked_key_def split: if_splits outcome.splits\<close>)

lemma blocklist_ok_reset: "blocklist_ok p \<Longrightarrow> blocklist_ok (reset_gauge p)"
  unfolding blocklist_ok_def
  by (auto simp: reset_gauge_def is_blocked_key_def cache_lawsD(4))

lemma blocklist_ok_later:
  assumes "blocklist_ok p" "ca_Later (ip_cache p) (ip_blacklistCache p) c"
  shows "blocklist_ok (p\<lparr>ip_blacklistCache := c\<rparr>)"
proof -
  have "ca_Get (ip_cache p) k c = None \<or> ca_Get (ip_cache p) k c = ca_Get (ip_cache p) k (ip_blacklistCache p)"
    for k
    using cache_lawsD(5) [OF blocklist_okD(1) [OF assms(1)] assms(2), of k] by blast
  then have "ca_Get (ip_cache p) k c = Some v \<Longrightarrow> ca_Get (ip_cache p) k (ip_blacklistCache p) = Some v"
    for k v
    by (metis option.distinct(1))
  then show ?thesis using assms(1) by (fastforce simp: blocklist_ok_def is_blocked_key_def)
qed

lemma blocklist_ok_provider_cache:
  "blocklist_ok (p\<lparr>ip_providerCache := c\<rparr>) \<longleftrightarrow> blocklist_ok p"
  by (simp add: blocklist_ok_def is_blocked_key_def)

interpretation offerings: blocklist blocklist_ok plain_name BlockInstanceType AddInsufficientFailure
    isBlocked GetInsufficientFailureCount
proof (unfold_locales, goal_cases)
  case (1 p n)
  then show ?case by (rule blocklist_ok_block)
next
  case (2 p n)
  then show ?case by (metis AddInsufficientFailure_Ok blocklist_ok_add)
next
  case (3 p n)
  then show ?case
    using blocklist_okD(2) [OF 3] by (fastforce simp: GetInsufficientFailureCount_def split: option.split)
next
  case (4 p n m)
  have "(\<exists>m'. blocked_key m' = blocked_key n \<and> covers m' m) \<longleftrightarrow> covers n m"
  proof
    assume "\<exists>m'. blocked_key m' = blocked_key n \<and> covers m' m"
    then obtain m' where m': "blocked_key m' = blocked_key n" "covers m' m" by blast
    then have "plain_name m'" using 4(3)
      by (cases m', cases m) (auto simp: plain_name_def wildcard_def)
    then show "covers n m" using m' blocked_key_inj [of m' n] 4(2) by simp
  qed blast
  then show ?case using is_blocked_key_block [OF 4(1)] isBlocked_iff by metis
next
  case (5 p n p' m)
  show ?case
    by (rule Get_after_add [OF 5]) (simp add: isBlocked_iff is_blocked_key_def)
next
  case (6 p m n)
  then show ?case
    using cache_lawsD(1) [OF blocklist_okD(1) [OF 6]]
    by (simp add: GetInsufficientFailureCount_def BlockInstanceType_def)
next
  case (7 p n m p' i)
  have "in_i64 i"
    using 7(5) blocklist_okD(2) [OF 7(1), of m]
    by (fastforce simp: GetInsufficientFailureCount_def split: option.splits)
  then have "i64 (1 + i) = i + 1"
    using 7(6) by (subst i64_id) (simp_all add: in_i64_def)
  moreover obtain j where get: "\<And>k. ca_Get (ip_cache p') k (ip_blacklistCache p') =
       (if k = failure_key n then Some (CInt j) else ca_Get (ip_cache p) k (ip_blacklistCache p))"
    and j: "j = (case GetInsufficientFailureCount n p of Ok cnt \<Rightarrow> i64 (1 + cnt) | _ \<Rightarrow> 0)"
    by (rule Get_after_add [OF 7(1,4)]) (rule that, assumption+)
  ultimately have "m = n \<Longrightarrow> j = i + 1" using 7(5) by simp
  then show ?case
    using 7(5) failure_key_inj [OF 7(3,2)] unfolding GetInsufficientFailureCount_def get
    by (cases "m = n") simp_all
qed

section \<open>Properties\<close>

text \<open>The memory after a sequence of calls, from the provider's own operations.\<close>

fun memory_run :: "block_op list \<Rightarrow> 'c InstanceTypeProvider \<Rightarrow> 'c InstanceTypeProvider outcome" where
  "memory_run [] p = Ok p"
| "memory_run (Block n # ops) p = memory_run ops (BlockInstanceType n p)"
| "memory_run (Failure n # ops) p = obind (AddInsufficientFailure n p) (memory_run ops)"

lemma memory_run_eq: "memory_run ops p = offerings.run ops p"
  by (induction ops p rule: memory_run.induct) (auto intro: arg_cong2 [where f = obind])

fun op_name :: "block_op \<Rightarrow> offering_name" where
  "op_name (Block n) = n"
| "op_name (Failure n) = n"

lemma blocklist_ok_fresh:
  "cache_laws (ip_cache p) \<Longrightarrow> \<forall>k. ca_Get (ip_cache p) k (ip_blacklistCache p) = None \<Longrightarrow> blocklist_ok p"
  by (simp add: blocklist_ok_def is_blocked_key_def)

text \<open>
  C14. The provider's memory implements its specification, a set of blocked patterns and a count per
  offering: started empty, after any sequence of calls an offering is blocked exactly when
  one of the blocked names covers it, field by field or by a wildcard, and its failure count is
  the number of failures reported for it; no call fails, and blocks and failures do not
  disturb each other although they share one cache with printed keys.
\<close>

theorem memory_refines:
  assumes "cache_laws (ip_cache p)" "\<forall>k. ca_Get (ip_cache p) k (ip_blacklistCache p) = None"
    and names: "\<forall>x \<in> set ops. plain_name (op_name x)" "plain_name m" "int (length ops) < 2 ^ 63"
  shows "\<exists>p'. memory_run ops p = Ok p' \<and>
    (isBlocked p' m \<longleftrightarrow> (\<exists>n. Block n \<in> set ops \<and> covers n m)) \<and>
    GetInsufficientFailureCount m p' = Ok (int (count_list ops (Failure m)))"
proof -
  have ok: "blocklist_ok p" by (rule blocklist_ok_fresh [OF assms(1,2)])
  obtain p' where p': "memory_run ops p = Ok p'"
    using offerings.run_good [OF ok] by (auto simp: memory_run_eq)
  have n: "\<forall>n. Block n \<in> set ops \<longrightarrow> plain_name n" "\<forall>n. Failure n \<in> set ops \<longrightarrow> plain_name n"
    using names(1) by (metis op_name.simps)+
  have "\<not> isBlocked p m" using assms(2) by (simp add: isBlocked_iff is_blocked_key_def)
  moreover have "GetInsufficientFailureCount m p = Ok 0"
    using assms(2) by (simp add: GetInsufficientFailureCount_def)
  ultimately show ?thesis
    using p' offerings.run_blocked [OF ok n(1) names(2), of p']
      offerings.run_count [OF ok n(2) names(2), of p' 0] names(3)
    by (auto simp: memory_run_eq)
qed

definition sample_provider :: "(string, cache_item) entries InstanceTypeProvider" where
  "sample_provider = NewDefaultProvider_it (\<lambda>_. Ok ''100003'') sample_cache [] []"

lemma sample_provider_fields [simp]:
  "ip_cache sample_provider = sample_cache" "ip_blacklistCache sample_provider = []"
  "ip_providerCache sample_provider = []" "ip_gauge sample_provider = []"
  "ca_Get sample_cache k [] = None"
  by (simp_all add: sample_provider_def NewDefaultProvider_it_def sample_cache_def)

theorem memory_refines_witness:
  "\<exists>p'. memory_run [Block (''*'', ''spot'', ''ap-guangzhou-3''),
            Failure (''S5.MEDIUM4'', ''on-demand'', ''ap-guangzhou-3'')] sample_provider = Ok p' \<and>
     isBlocked p' (''S5.MEDIUM4'', ''spot'', ''ap-guangzhou-3'') \<and>
     GetInsufficientFailureCount (''S5.MEDIUM4'', ''spot'', ''ap-guangzhou-3'') p' = Ok 0"
proof -
  let ?ops = "[Block (''*'', ''spot'', ''ap-guangzhou-3''),
    Failure (''S5.MEDIUM4'', ''on-demand'', ''ap-guangzhou-3'')]"
  let ?m = "(''S5.MEDIUM4'', ''spot'', ''ap-guangzhou-3'')"
  have "cache_laws (ip_cache sample_provider)" by (simp add: sample_cache_laws)
  moreover have "\<forall>k. ca_Get (ip_cache sample_provider) k (ip_blacklistCache sample_provider) = None" by simp
  moreover have "\<forall>x \<in> set ?ops. plain_name (op_name x)" "plain_name ?m" "int (length ?ops) < 2 ^ 63"
    by (simp_all add: plain_name_def CapacityTypeOnDemand_def CapacityTypeSpot_def)
  moreover have "covers (''*'', ''spot'', ''ap-guangzhou-3'') ?m" by (simp add: wildcard_def)
  ultimately show ?thesis
    using memory_refines [of sample_provider ?ops ?m] by auto
qed

text \<open>What may happen to the memory: the calls, time passing, and the reset by a listing.\<close>

inductive memory_step :: "'c InstanceTypeProvider \<Rightarrow> 'c InstanceTypeProvider \<Rightarrow> bool" where
  blocks: "memory_step p (BlockInstanceType n p)"
| fails: "AddInsufficientFailure n p = Ok p' \<Longrightarrow> memory_step p p'"
| expires: "ca_Later (ip_cache p) (ip_blacklistCache p) c \<Longrightarrow> memory_step p (p\<lparr>ip_blacklistCache := c\<rparr>)"
| lists: "memory_step p (reset_gauge (p\<lparr>ip_providerCache := c\<rparr>))"

inductive_cases memory_stepE: "memory_step p p'"

lemma memory_step_ok:
  assumes "memory_step p p'" "blocklist_ok p"
  shows "blocklist_ok p'"
  using assms
proof (cases rule: memory_step.cases)
  case (blocks n)
  then show ?thesis using assms(2) blocklist_ok_block by simp
next
  case (fails n)
  then show ?thesis using assms(2) blocklist_ok_add by blast
next
  case (expires c)
  then show ?thesis using assms(2) blocklist_ok_later by simp
next
  case (lists c)
  then show ?thesis using assms(2) by (simp add: blocklist_ok_reset blocklist_ok_provider_cache)
qed

text \<open>
  C15. In every state the memory can reach, with entries expiring at any moment: counting and
  reporting failures never panics on a type assertion, and whatever is blocked at that moment is
  shown by the metric under its key, although listings reset the metric.
\<close>

theorem memory_invariant:
  assumes "memory_step\<^sup>*\<^sup>* p p'" "cache_laws (ip_cache p)"
    and "\<forall>k. ca_Get (ip_cache p) k (ip_blacklistCache p) = None"
  shows "(\<exists>i. GetInsufficientFailureCount n p' = Ok i) \<and> (\<exists>p''. AddInsufficientFailure n p' = Ok p'') \<and>
    (isBlocked p' n \<longrightarrow> (\<exists>m. covers m n \<and> (\<exists>g \<in> set (ip_gauge p'). blocked_key g = blocked_key m)))"
proof -
  have "blocklist_ok p'"
    using assms(1)
  proof induction
    case base
    then show ?case by (rule blocklist_ok_fresh [OF assms(2,3)])
  next
    case (step y z)
    then show ?case using memory_step_ok by blast
  qed
  then show ?thesis
    using offerings.good_count offerings.good_add blocklist_okD(3)
    by (fastforce simp: isBlocked_iff)
qed

theorem memory_invariant_witness:
  "isBlocked (BlockInstanceType (''S5.MEDIUM4'', ''spot'', ''*'') sample_provider)
     (''S5.MEDIUM4'', ''spot'', ''ap-guangzhou-3'') \<and>
   (\<exists>i. GetInsufficientFailureCount (''S5.MEDIUM4'', ''spot'', ''ap-guangzhou-3'')
     (BlockInstanceType (''S5.MEDIUM4'', ''spot'', ''*'') sample_provider) = Ok i)"
proof -
  have "memory_step\<^sup>*\<^sup>* sample_provider (BlockInstanceType (''S5.MEDIUM4'', ''spot'', ''*'') sample_provider)"
    by (rule r_into_rtranclp) (rule blocks)
  moreover have "isBlocked (BlockInstanceType (''S5.MEDIUM4'', ''spot'', ''*'') sample_provider)
     (''S5.MEDIUM4'', ''spot'', ''ap-guangzhou-3'')"
    by code_simp
  ultimately show ?thesis
    using memory_invariant [OF _ _ _, of sample_provider _ "(''S5.MEDIUM4'', ''spot'', ''ap-guangzhou-3'')"]
      sample_cache_laws by simp
qed

end
