(* ===== verification/InstanceTypeList.thy ===== *)
theory InstanceTypeList
  imports Blocklist Selectors
begin

text \<open>
  The listing of instance types (\<open>List\<close> of \<open>pkg/providers/instancetype/instancetype.go\<close>): what the
  cloud offers in the zones of a node class, fetched through a cache, without the blocked
  offerings.  The Kubernetes API, the cloud API and the decoding of the cloud's JSON texts are
  parameters; the provider's own state (its two caches and the metric) is threaded next to the
  state of the outside world.
\<close>

section \<open>Parameters\<close>

record cxm_response =
  rs_InstanceTypeQuotaSet :: "string option"
  rs_RequestId :: "string option"

text \<open>
  The body of an answer: the API error it reports, if any, and the decoded document, if it decodes.
\<close>

record cxm_body =
  cb_Error :: "goerr option"
  cb_Response :: "cxm_response option option"

record ('w, 'q, 'r, 'v) list_env =
  le_types :: "('q, 'r, 'v) type_env"
  le_ServerVersion :: "('w, string outcome) state"
  le_ListNodeClaims :: "('w, 'q NodeClaim list outcome) state"
  le_Send :: "Filter list \<Rightarrow> ('w, cxm_body outcome) state"
  le_UnmarshalItems :: "string \<Rightarrow> InstanceTypeQuotaItem list option"
  le_DescribeVpcCniPodLimits :: "string \<Rightarrow> ('w, PodLimitsInstance list outcome) state"
  le_DescribeClusters :: "string list \<Rightarrow> ('w, Cluster option list outcome) state"
  le_zonesHash :: "string set \<Rightarrow> string"
  le_ClusterID :: string

section \<open>Asking the cloud\<close>

definition zone_not_supported :: "goerr \<Rightarrow> bool" where
  "zone_not_supported e = contains (error_text e) ''ZoneNotSupported''"

text \<open>The zone of a node claim of the node class; the class reference is dereferenced unchecked.\<close>

definition claim_zone :: "TKEMachineNodeClass \<Rightarrow> 'q NodeClaim \<Rightarrow> string outcome" where
  "claim_zone nodeClass nc =
     (case k_NodeClassRef nc of
        None \<Rightarrow> Panic
      | Some name \<Rightarrow> Ok (if name = nc_Name nodeClass then k_Label nc LabelCBSToplogy else []))"

definition subnet_zones :: "TKEMachineNodeClass \<Rightarrow> string list" where
  "subnet_zones nodeClass = map sn_Zone (nct_Subnets (nc_Status nodeClass))"

text \<open>The zones asked for: those of the subnets, then those existing node claims are in.\<close>

definition request_zones :: "TKEMachineNodeClass \<Rightarrow> string list \<Rightarrow> string list" where
  "request_zones nodeClass existed =
     subnet_zones nodeClass @
     filter (\<lambda>z. z \<noteq> [] \<and> z \<notin> set (subnet_zones nodeClass)) (uniq existed)"

definition request_filters :: "string list \<Rightarrow> string \<Rightarrow> bool \<Rightarrow> bool \<Rightarrow> Filter list" where
  "request_filters zones arch isSpot refresh =
     [\<lparr>f_Name = ''zone'', f_Values = zones\<rparr>,
      \<lparr>f_Name = ''architecture'', f_Values = [arch]\<rparr>,
      \<lparr>f_Name = ''instance-charge-type'',
        f_Values = [if isSpot then ''SPOTPAID'' else ''POSTPAID_BY_HOUR'']\<rparr>] @
     (if refresh then [\<lparr>f_Name = ''refresh-cache'', f_Values = [''true'']\<rparr>] else [])"

definition parse_body ::
  "(string \<Rightarrow> InstanceTypeQuotaItem list option) \<Rightarrow> string \<Rightarrow> cxm_body \<Rightarrow> InstanceTypeQuotaItem list outcome" where
  "parse_body unmarshal arch body =
     (case cb_Error body of
        Some e \<Rightarrow> if zone_not_supported e then Ok []
                  else Err (Describef ''failed to describe instance config infos'' e)
      | None \<Rightarrow>
          (case cb_Response body of
             None \<Rightarrow> Err (Errorf ''unmarshal instanceInfos failed'')
           | Some None \<Rightarrow> Err (Errorf ''invaild response'')
           | Some (Some r) \<Rightarrow>
               (case (rs_RequestId r, rs_InstanceTypeQuotaSet r) of
                  (Some _, Some txt) \<Rightarrow>
                    (case unmarshal txt of
                       None \<Rightarrow> Err (Errorf ''failed to unmarshal instanceTypeQuotaSet'')
                     | Some items \<Rightarrow> Ok (map (\<lambda>i. i\<lparr>qi_Arch := arch\<rparr>) items))
                | _ \<Rightarrow> Err (Errorf ''invaild response''))))"

definition getInstanceTypes ::
  "('w, 'q, 'r, 'v) list_env \<Rightarrow> string \<Rightarrow> bool \<Rightarrow> bool \<Rightarrow> TKEMachineNodeClass \<Rightarrow>
   ('w, InstanceTypeQuotaItem list outcome) state" where
  "getInstanceTypes env arch isSpot refresh nodeClass =
     sbind (swrap (Describef ''get nodeclaim failed'') (le_ListNodeClaims env)) (\<lambda>claims.
     sbind (State_Monad.return (traverse (claim_zone nodeClass) claims)) (\<lambda>existed. do {
       resp \<leftarrow> le_Send env (request_filters (request_zones nodeClass existed) arch isSpot refresh);
       State_Monad.return (case resp of
         Panic \<Rightarrow> Panic
       | Err e \<Rightarrow> if zone_not_supported e then Ok []
                  else Err (Describef ''failed to describe instance config infos, requestID'' e)
       | Ok body \<Rightarrow> parse_body (le_UnmarshalItems env) arch body) }))"

definition charge_name :: "bool \<Rightarrow> string" where
  "charge_name isSpot = (if isSpot then ''spot'' else ''on-demand'')"

definition both_archs ::
  "('w, 'q, 'r, 'v) list_env \<Rightarrow> bool \<Rightarrow> bool \<Rightarrow> TKEMachineNodeClass \<Rightarrow>
   ('w, InstanceTypeQuotaItem list outcome) state" where
  "both_archs env isSpot refresh nodeClass =
     sbind (swrap (Describef (''get '' @ charge_name isSpot @ '' amd64 instance types failed''))
              (getInstanceTypes env ''amd64'' isSpot refresh nodeClass)) (\<lambda>amd.
     sbind (swrap (Describef (''get '' @ charge_name isSpot @ '' arm64 instance types failed''))
              (getInstanceTypes env ''arm64'' isSpot refresh nodeClass)) (\<lambda>arm.
     State_Monad.return (Ok (amd @ arm))))"

fun eni_loop ::
  "('w, 'q, 'r, 'v) list_env \<Rightarrow> string list \<Rightarrow> (string, PodLimitsInstance list) entries \<Rightarrow>
   ('w, (string, PodLimitsInstance list) entries outcome) state" where
  "eni_loop env [] limits = State_Monad.return (Ok limits)"
| "eni_loop env (z # zs) limits =
     (if map_of limits z \<noteq> None then eni_loop env zs limits
      else do {
        resp \<leftarrow> le_DescribeVpcCniPodLimits env z;
        case resp of
          Panic \<Rightarrow> State_Monad.return Panic
        | Err e \<Rightarrow> if zone_not_supported e then eni_loop env zs limits
                   else State_Monad.return (Err (Describef ''failed to get vpc cni pod limits'' e))
        | Ok ls \<Rightarrow> eni_loop env zs (put z ls limits) })"

definition getENILimits ::
  "('w, 'q, 'r, 'v) list_env \<Rightarrow> TKEMachineNodeClass \<Rightarrow>
   ('w, (string, PodLimitsInstance list) entries outcome) state" where
  "getENILimits env nodeClass = eni_loop env (subnet_zones nodeClass) []"

definition normalizeVersion :: "string \<Rightarrow> string" where
  "normalizeVersion v = (if has_prefix v ''v'' then drop 1 v else v)"

section \<open>From the cloud's items to instance types\<close>

text \<open>The disk a node has for containers; sizes are 32-bit integers.\<close>

fun data_disk_storage :: "DataDisk list \<Rightarrow> int \<Rightarrow> int" where
  "data_disk_storage [] storage = storage"
| "data_disk_storage (d # ds) storage =
     data_disk_storage ds
       (if path_clean (str_ptr (dd_MountTarget d)) \<in>
             {''/var/lib/container'', ''/var/lib/kubelet'', ''/var/lib'', ''/var''}
        then i32 (dd_Size d - 5) else storage)"

definition storageInGB :: "TKEMachineNodeClass \<Rightarrow> int" where
  "storageInGB nodeClass =
     (let storage = data_disk_storage (ncs_DataDisks (nc_Spec nodeClass))
            (case ncs_SystemDisk (nc_Spec nodeClass) of
               Some d \<Rightarrow> i32 (sd_Size d - 15) | None \<Rightarrow> 50 - 15)
      in if storage < 0 then 0 else storage)"

text \<open>The one offering of an item; an unknown zone has the empty ID.\<close>

definition create_offering ::
  "('q, 'r) scheduling_ops \<Rightarrow> (string \<Rightarrow> string outcome) \<Rightarrow> string \<Rightarrow> InstanceTypeQuotaItem \<Rightarrow> 'r Offering" where
  "create_offering sc idFromZone capacityType i =
     \<lparr>of_Requirements = sc_NewRequirements sc
        [in_req CapacityTypeLabelKey [capacityType],
         in_req LabelTopologyZone [case idFromZone (qi_Zone i) of Ok zid \<Rightarrow> zid | _ \<Rightarrow> []],
         in_req LabelCBSToplogy [qi_Zone i]],
      of_Price = ip_UnitPrice (qi_Price i),
      of_Available = (qi_Status i = ''SELL'' \<and> qi_Inventory i > 0)\<rparr>"

definition createOfferings ::
  "('q, 'r) scheduling_ops \<Rightarrow> (string \<Rightarrow> string outcome) \<Rightarrow> string \<Rightarrow> InstanceTypeQuotaItem \<Rightarrow> 'r Offering list" where
  "createOfferings sc idFromZone capacityType i = [] @ [create_offering sc idFromZone capacityType i]"

definition item_blocked :: "'c InstanceTypeProvider \<Rightarrow> string \<Rightarrow> InstanceTypeQuotaItem \<Rightarrow> bool" where
  "item_blocked p capacityType i = isBlocked p (qi_InstanceType i, capacityType, qi_Zone i)"

definition map_list :: "('k, 'x list) entries \<Rightarrow> 'k \<Rightarrow> 'x list" where
  "map_list m k = (case map_of m k of None \<Rightarrow> [] | Some xs \<Rightarrow> xs)"

fun add_offerings ::
  "('q, 'r) scheduling_ops \<Rightarrow> 'c InstanceTypeProvider \<Rightarrow> string \<Rightarrow> InstanceTypeQuotaItem list \<Rightarrow>
   (string, 'r Offering list) entries \<Rightarrow> (string, 'r Offering list) entries" where
  "add_offerings sc p cap [] m = m"
| "add_offerings sc p cap (i # is) m =
     add_offerings sc p cap is
       (if item_blocked p cap i then m
        else put (qi_InstanceType i)
               (map_list m (qi_InstanceType i) @ createOfferings sc (ip_zoneProvider p) cap i) m)"

text \<open>\<open>lo.SliceToMap\<close> keeps the last item of a name; a spot item only adds a new name.\<close>

fun od_type_map ::
  "InstanceTypeQuotaItem list \<Rightarrow> (string, InstanceTypeQuotaItem) entries \<Rightarrow> (string, InstanceTypeQuotaItem) entries" where
  "od_type_map [] m = m"
| "od_type_map (i # is) m = od_type_map is (put (qi_InstanceType i) i m)"

fun spot_type_map ::
  "'c InstanceTypeProvider \<Rightarrow> InstanceTypeQuotaItem list \<Rightarrow> (string, InstanceTypeQuotaItem) entries \<Rightarrow>
   (string, InstanceTypeQuotaItem) entries" where
  "spot_type_map p [] m = m"
| "spot_type_map p (i # is) m =
     spot_type_map p is
       (if item_blocked p CapacityTypeSpot i then m
        else if map_of m (qi_InstanceType i) \<noteq> None then m
        else put (qi_InstanceType i) i m)"

definition build_instance_types ::
  "('q, 'r, 'v) type_env \<Rightarrow> 'c InstanceTypeProvider \<Rightarrow> TKEMachineNodeClass \<Rightarrow> 'v \<Rightarrow>
   InstanceTypeQuotaItem list \<Rightarrow> InstanceTypeQuotaItem list \<Rightarrow>
   (string, PodLimitsInstance list) entries \<Rightarrow> Cluster \<Rightarrow> ('q, 'r) InstanceType list outcome" where
  "build_instance_types env p nodeClass v od spot limits cls =
     (let sc = ty_sc env;
          offeringsMap = add_offerings sc p CapacityTypeSpot spot (add_offerings sc p CapacityTypeOnDemand od []);
          instanceTypeMap = spot_type_map p spot (od_type_map od [])
      in traverse (\<lambda>(k, i). NewInstanceType env (storageInGB nodeClass) i v None None None None None
                     (map_list offeringsMap k) (map_list limits (qi_Zone i)) (Some cls)) instanceTypeMap)"

section \<open>Listing\<close>

text \<open>What the cache has, or else what the cloud says, which is then cached.\<close>

definition cache_put :: "string \<Rightarrow> cache_item \<Rightarrow> 'c InstanceTypeProvider \<Rightarrow> 'c InstanceTypeProvider" where
  "cache_put key item p = p\<lparr>ip_providerCache := ca_SetDefault (ip_cache p) key item (ip_providerCache p)\<rparr>"

definition cached ::
  "string \<Rightarrow> (cache_item \<Rightarrow> 'a option) \<Rightarrow> ('a \<Rightarrow> cache_item) \<Rightarrow> ('w, 'a outcome) state \<Rightarrow>
   ('w \<times> 'c InstanceTypeProvider, 'a outcome) state" where
  "cached key out into fetch = do {
     p \<leftarrow> get_own;
     case ca_Get (ip_cache p) key (ip_providerCache p) of
       Some item \<Rightarrow> State_Monad.return (case out item of Some x \<Rightarrow> Ok x | None \<Rightarrow> Panic)
     | None \<Rightarrow> sbind (on_world fetch) (\<lambda>x. do {
         _ \<leftarrow> modify_own (cache_put key (into x));
         State_Monad.return (Ok x) }) }"

fun types_item :: "cache_item \<Rightarrow> InstanceTypeQuotaItem list option" where
  "types_item (CTypes ts) = Some ts"
| "types_item _ = None"

fun limits_item :: "cache_item \<Rightarrow> (string, PodLimitsInstance list) entries option" where
  "limits_item (CLimits ls) = Some ls"
| "limits_item _ = None"

definition zero_Cluster :: Cluster where
  "zero_Cluster = \<lparr>cl_Property = None, cl_ClusterNetworkSettings = None\<rparr>"

text \<open>The description of the cluster is cached, but the call that fetches it goes on without it.\<close>

definition cluster_info ::
  "('w, 'q, 'r, 'v) list_env \<Rightarrow> ('w \<times> 'c InstanceTypeProvider, Cluster outcome) state" where
  "cluster_info env = do {
     p \<leftarrow> get_own;
     case ca_Get (ip_cache p) ''cluster-info'' (ip_providerCache p) of
       Some item \<Rightarrow> State_Monad.return (case item of CCluster c \<Rightarrow> Ok c | _ \<Rightarrow> Panic)
     | None \<Rightarrow>
         sbind (on_world (swrap (Describef ''get cluster info failed'')
                  (le_DescribeClusters env [le_ClusterID env]))) (\<lambda>clusters.
         case clusters of
           Some c # _ \<Rightarrow> do {
             _ \<leftarrow> modify_own (cache_put ''cluster-info'' (CCluster c));
             State_Monad.return (Ok zero_Cluster) }
         | _ \<Rightarrow> State_Monad.return (Err (Errorf ''no cluster found''))) }"

definition flush :: "'c InstanceTypeProvider \<Rightarrow> 'c InstanceTypeProvider" where
  "flush p = p\<lparr>ip_providerCache := ca_Flush (ip_cache p) (ip_providerCache p)\<rparr>"

definition od_key :: "string \<Rightarrow> string" where "od_key h = ''instance-types-od-'' @ h"
definition spot_key :: "string \<Rightarrow> string" where "spot_key h = ''instance-types-spot-'' @ h"
definition eni_key :: "string \<Rightarrow> string" where "eni_key h = ''eni-limits-spot-'' @ h"

definition list_types ::
  "('w, 'q, 'r, 'v) list_env \<Rightarrow> TKEMachineNodeClass \<Rightarrow> bool \<Rightarrow> 'v \<Rightarrow>
   ('w \<times> 'c InstanceTypeProvider, ('q, 'r) InstanceType list outcome) state" where
  "list_types env nodeClass refresh v =
     (let h = le_zonesHash env (set (subnet_zones nodeClass)) in
      sbind (cached (od_key h) types_item CTypes (both_archs env False refresh nodeClass)) (\<lambda>od.
      sbind (cached (spot_key h) types_item CTypes (both_archs env True refresh nodeClass)) (\<lambda>spot.
      sbind (cached (eni_key h) limits_item CLimits
               (swrap (Describef ''get pod eni limits failed'') (getENILimits env nodeClass))) (\<lambda>limits.
      sbind (cluster_info env) (\<lambda>cls. do {
        p \<leftarrow> get_own;
        _ \<leftarrow> modify_own reset_gauge;
        State_Monad.return
          (build_instance_types (le_types env) p nodeClass v od spot limits cls) })))))"

definition it_List ::
  "('w, 'q, 'r, 'v) list_env \<Rightarrow> TKEMachineNodeClass \<Rightarrow> bool \<Rightarrow>
   ('w \<times> 'c InstanceTypeProvider, ('q, 'r) InstanceType list outcome) state" where
  "it_List env nodeClass refresh = do {
     _ \<leftarrow> (if refresh then modify_own flush else State_Monad.return ());
     sbind (on_world (swrap (Describef ''get server version failed'') (le_ServerVersion env))) (\<lambda>git.
     case sv_Make (ty_sv (le_types env)) (normalizeVersion git) of
       None \<Rightarrow> State_Monad.return (Err (Errorf ''parse server version failed''))
     | Some v \<Rightarrow>
         if length (nct_Subnets (nc_Status nodeClass)) = 0
         then State_Monad.return (Err (Errorf ''no subnets found''))
         else list_types env nodeClass refresh v) }"

section \<open>Lemmas\<close>

lemma map_list_put [simp]: "map_list (put k xs m) k' = (if k' = k then xs else map_list m k')"
  by (simp add: map_list_def)

lemma map_list_Nil [simp]: "map_list [] k = []"
  by (simp add: map_list_def)

text \<open>The offerings of a type: its unblocked items, in their order, after what was there.\<close>

definition unblocked ::
  "'c InstanceTypeProvider \<Rightarrow> string \<Rightarrow> string \<Rightarrow> InstanceTypeQuotaItem list \<Rightarrow> InstanceTypeQuotaItem list" where
  "unblocked p cap name items = filter (\<lambda>i. qi_InstanceType i = name \<and> \<not> item_blocked p cap i) items"

lemma map_list_add_offerings:
  "map_list (add_offerings sc p cap is m) k =
     map_list m k @ map (create_offering sc (ip_zoneProvider p) cap) (unblocked p cap k is)"
  by (induction "is" arbitrary: m) (auto simp: unblocked_def createOfferings_def)

lemma od_type_map_keys:
  "fst ` set (od_type_map is m) = fst ` set m \<union> qi_InstanceType ` set is"
  "distinct_keys m \<Longrightarrow> distinct_keys (od_type_map is m)"
  by (induction "is" arbitrary: m) (auto simp: keys_put simp flip: set_map)

lemma put_named:
  "\<forall>(k, i) \<in> set m. qi_InstanceType i = k \<Longrightarrow>
     \<forall>(k, i') \<in> set (put (qi_InstanceType i) i m). qi_InstanceType i' = k"
  by (induction m) (auto split: if_splits)

lemma od_type_map_named:
  "\<forall>(k, i) \<in> set m. qi_InstanceType i = k \<Longrightarrow> \<forall>(k, i) \<in> set (od_type_map is m). qi_InstanceType i = k"
proof (induction "is" arbitrary: m)
  case Nil
  then show ?case by simp
next
  case (Cons i "is")
  show ?case using Cons.IH [OF put_named [OF Cons.prems]] by simp
qed

lemma spot_type_map_keys:
  "fst ` set (spot_type_map p is m) =
     fst ` set m \<union> qi_InstanceType ` {i \<in> set is. \<not> item_blocked p CapacityTypeSpot i}"
  "distinct_keys m \<Longrightarrow> distinct_keys (spot_type_map p is m)"
  by (induction "is" arbitrary: m)
    (auto simp: keys_put map_of_eq_None_iff rev_image_eqI simp flip: set_map)

lemma spot_type_map_named:
  "\<forall>(k, i) \<in> set m. qi_InstanceType i = k \<Longrightarrow> \<forall>(k, i) \<in> set (spot_type_map p is m). qi_InstanceType i = k"
proof (induction "is" arbitrary: m)
  case Nil
  then show ?case by simp
next
  case (Cons i "is")
  show ?case using Cons.IH [OF Cons.prems] Cons.IH [OF put_named [OF Cons.prems]] by simp
qed

text \<open>Getting through the cache: the value is in the cache afterwards, other entries are as before.\<close>

lemma run_cached:
  assumes run: "run_state (cached key out into fetch) (w, p) = (Ok x, (w', p'))"
    and laws: "cache_laws (ip_cache p)" and out: "\<And>item y. out item = Some y \<Longrightarrow> item = into y"
  shows "ip_cache p' = ip_cache p \<and> ip_blacklistCache p' = ip_blacklistCache p \<and>
    ip_zoneProvider p' = ip_zoneProvider p \<and>
    ca_Get (ip_cache p) key (ip_providerCache p') = Some (into x) \<and>
    (\<forall>k. k \<noteq> key \<longrightarrow> ca_Get (ip_cache p) k (ip_providerCache p') = ca_Get (ip_cache p) k (ip_providerCache p))"
proof (cases "ca_Get (ip_cache p) key (ip_providerCache p)")
  case None
  have "p' = cache_put key (into x) p"
    using run None by (auto simp: cached_def run_simps split: prod.splits outcome.splits)
  then show ?thesis by (simp add: cache_put_def cache_lawsD(1) [OF laws])
next
  case (Some item)
  then have "out item = Some x \<and> p' = p"
    using run by (auto simp: cached_def run_simps split: option.splits)
  then show ?thesis using Some out by simp
qed

lemma run_cluster_info:
  assumes run: "run_state (cluster_info env) (w, p) = (Ok cls, (w', p'))" and laws: "cache_laws (ip_cache p)"
  shows "ip_cache p' = ip_cache p \<and> ip_blacklistCache p' = ip_blacklistCache p \<and>
    ip_zoneProvider p' = ip_zoneProvider p \<and>
    (\<exists>c. ca_Get (ip_cache p) ''cluster-info'' (ip_providerCache p') = Some (CCluster c)) \<and>
    (\<forall>k. k \<noteq> ''cluster-info'' \<longrightarrow>
       ca_Get (ip_cache p) k (ip_providerCache p') = ca_Get (ip_cache p) k (ip_providerCache p)) \<and>
    cls = (case ca_Get (ip_cache p) ''cluster-info'' (ip_providerCache p) of
             Some (CCluster c) \<Rightarrow> c | _ \<Rightarrow> zero_Cluster)"
proof (cases "ca_Get (ip_cache p) ''cluster-info'' (ip_providerCache p)")
  case None
  have "\<exists>c. p' = cache_put ''cluster-info'' (CCluster c) p \<and> cls = zero_Cluster"
    using run None
    by (auto simp: cluster_info_def run_simps split: prod.splits outcome.splits list.splits option.splits)
  then show ?thesis using None by (auto simp: cache_put_def cache_lawsD(1) [OF laws])
next
  case (Some item)
  then show ?thesis
    using run by (auto simp: cluster_info_def run_simps split: cache_item.splits)
qed

text \<open>Whatever a listing returns, it leaves the memory of blocked offerings alone.\<close>

definition same_memory :: "'c InstanceTypeProvider \<Rightarrow> 'c InstanceTypeProvider \<Rightarrow> bool" where
  "same_memory p p' \<longleftrightarrow> ip_cache p' = ip_cache p \<and> ip_blacklistCache p' = ip_blacklistCache p \<and>
     ip_zoneProvider p' = ip_zoneProvider p"

text \<open>
  A step of the outside world under \<open>Q\<close> next to a step of the provider under \<open>M\<close>; the steps of the
  provider in a listing are writes to its other cache and resets of the metric.
\<close>

definition beside :: "('w \<Rightarrow> 'w \<Rightarrow> bool) \<Rightarrow> ('p \<Rightarrow> 'p \<Rightarrow> bool) \<Rightarrow> 'w \<times> 'p \<Rightarrow> 'w \<times> 'p \<Rightarrow> bool" where
  "beside Q M s s' \<longleftrightarrow> Q (fst s) (fst s') \<and> M (snd s) (snd s')"

definition listing_steps :: "('c InstanceTypeProvider \<Rightarrow> 'c InstanceTypeProvider \<Rightarrow> bool) \<Rightarrow> bool" where
  "listing_steps M \<longleftrightarrow> reflp M \<and> transp M \<and>
     (\<forall>p key item. M p (cache_put key item p)) \<and> (\<forall>p. M p (flush p)) \<and> (\<forall>p. M p (reset_gauge p))"

lemma same_memory_refl [simp]: "same_memory p p"
  by (simp add: same_memory_def)

lemma same_memory_updates [simp]:
  "same_memory p (cache_put key item p)" "same_memory p (flush p)" "same_memory p (reset_gauge p)"
  by (simp_all add: same_memory_def cache_put_def flush_def reset_gauge_def)

lemma listing_steps_memory: "listing_steps same_memory"
  by (auto simp: listing_steps_def same_memory_def cache_put_def flush_def reset_gauge_def intro!: reflpI transpI)

lemma listing_steps_ok: "listing_steps (\<lambda>p p'. blocklist_ok p \<longrightarrow> blocklist_ok p')"
  by (auto simp: listing_steps_def cache_put_def flush_def blocklist_ok_provider_cache blocklist_ok_reset intro!: reflpI transpI)

lemma beside_order: "reflp Q \<Longrightarrow> reflp M \<Longrightarrow> reflp (beside Q M)" "transp Q \<Longrightarrow> transp M \<Longrightarrow> transp (beside Q M)"
  by (auto simp: beside_def intro!: reflpI transpI dest: reflpD transpD)

lemma beside_own:
  "reflp Q \<Longrightarrow> reflp M \<Longrightarrow> preserves (beside Q M) get_own"
  "reflp Q \<Longrightarrow> (\<And>p. M p (f p)) \<Longrightarrow> preserves (beside Q M) (modify_own f)"
  "reflp M \<Longrightarrow> preserves Q m \<Longrightarrow> preserves (beside Q M) (on_world m)"
  by (simp_all add: preserves_def beside_def get_own_def modify_own_def on_world_def reflpD split: prod.split)
    (metis snd_conv)

text \<open>The calls a listing makes to the outside world.\<close>

definition listing_calls :: "('w \<Rightarrow> 'w \<Rightarrow> bool) \<Rightarrow> ('w, 'q, 'r, 'v) list_env \<Rightarrow> bool" where
  "listing_calls Q env \<longleftrightarrow> preserves Q (le_ServerVersion env) \<and> preserves Q (le_ListNodeClaims env) \<and>
     (\<forall>fs. preserves Q (le_Send env fs)) \<and> (\<forall>z. preserves Q (le_DescribeVpcCniPodLimits env z)) \<and>
     (\<forall>ids. preserves Q (le_DescribeClusters env ids))"

lemma preserves_List:
  assumes Q: "reflp Q" "transp Q" and calls: "listing_calls Q env" and M: "listing_steps M"
  shows "preserves (beside Q M) (it_List env nodeClass refresh)"
proof -
  note steps = M [unfolded listing_steps_def]
  have M': "reflp M" "transp M" using steps by simp_all
  note R = beside_order(1) [OF Q(1) M'(1)] beside_order(2) [OF Q(2) M'(2)]
  note own = beside_own(1) [OF Q(1) M'(1)] beside_own(2) [OF Q(1)] beside_own(3) [OF M'(1)]
  note ret = preserves_return [OF Q(1)] preserves_return [OF R(1)]
  note bind = preserves_bind [OF Q(2)] preserves_bind [OF R(2)]
  note sbind = preserves_sbind [OF Q] preserves_sbind [OF R]
  note call = calls [unfolded listing_calls_def]
  have types: "preserves Q (both_archs env isSpot refresh nodeClass)" for isSpot
    unfolding both_archs_def getInstanceTypes_def
    by (intro sbind(1) bind(1) ret(1)) (auto simp: preserves_swrap call intro!: sbind(1) bind(1) ret(1))
  have "preserves Q (eni_loop env zs limits)" for zs limits
    by (induction zs arbitrary: limits)
      (auto simp: call intro!: bind(1) ret(1) split: outcome.split)
  then have limits: "preserves Q (getENILimits env nodeClass)"
    by (simp add: getENILimits_def)
  have cached: "preserves (beside Q M) (cached key out into fetch)" if "preserves Q fetch"
    for key out and "into" :: "'x \<Rightarrow> cache_item" and fetch
    unfolding cached_def
    by (intro bind(2) own) (auto simp: steps intro!: bind(2) sbind(2) ret(2) own that split: option.split)
  have "preserves (beside Q M) (cluster_info env)"
    unfolding cluster_info_def
    by (intro bind(2) own)
      (auto simp: preserves_swrap call steps intro!: bind(2) sbind(2) ret(2) own split: option.split list.split)
  then have "preserves (beside Q M) (list_types env nodeClass refresh v)" for v
    unfolding list_types_def Let_def
    by (intro sbind(2) cached bind(2) own ret(2)) (simp_all add: preserves_swrap types limits steps)
  then show ?thesis
    unfolding it_List_def
    by (intro bind(2) sbind(2)) (auto simp: preserves_swrap call steps intro!: own ret(2) split: option.split)
qed

lemma item_of: "types_item item = Some ts \<Longrightarrow> item = CTypes ts" "limits_item item = Some ls \<Longrightarrow> item = CLimits ls"
  by (cases item; simp)+

section \<open>Properties\<close>

lemma list_keys [simp]:
  "od_key h \<noteq> spot_key h" "od_key h \<noteq> eni_key h" "spot_key h \<noteq> eni_key h"
  "spot_key h \<noteq> od_key h" "eni_key h \<noteq> od_key h" "eni_key h \<noteq> spot_key h"
  "od_key h \<noteq> ''cluster-info''" "spot_key h \<noteq> ''cluster-info''" "eni_key h \<noteq> ''cluster-info''"
  "''cluster-info'' \<noteq> od_key h" "''cluster-info'' \<noteq> spot_key h" "''cluster-info'' \<noteq> eni_key h"
  by (simp_all add: od_key_def spot_key_def eni_key_def)

lemma item_blocked_cong:
  "ip_cache p' = ip_cache p \<Longrightarrow> ip_blacklistCache p' = ip_blacklistCache p \<Longrightarrow> item_blocked p' = item_blocked p"
  by (auto simp: fun_eq_iff item_blocked_def isBlocked_iff is_blocked_key_def)

lemma build_cong:
  fixes env :: "('q, 'r, 'v) type_env"
  assumes "ip_cache p' = ip_cache p" "ip_blacklistCache p' = ip_blacklistCache p"
    "ip_zoneProvider p' = ip_zoneProvider p"
  shows "build_instance_types env p' = build_instance_types env p"
proof -
  have "add_offerings sc p' cap is m = add_offerings sc p cap is m"
    for sc :: "('q, 'r) scheduling_ops" and cap "is" and m :: "(string, 'r Offering list) entries"
    by (induction "is" arbitrary: m) (simp_all add: item_blocked_cong [OF assms(1,2)] assms(3))
  moreover have "spot_type_map p' is m = spot_type_map p is m" for "is" m
    by (induction "is" arbitrary: m) (simp_all add: item_blocked_cong [OF assms(1,2)])
  ultimately show ?thesis by (simp add: build_instance_types_def fun_eq_iff)
qed

lemma run_list_types:
  fixes p :: "'c InstanceTypeProvider"
  assumes run: "run_state (list_types env nodeClass refresh v) (w, p) = (Ok its, (w', p'))"
    and laws: "cache_laws (ip_cache p)" and h: "h = le_zonesHash env (set (subnet_zones nodeClass))"
  obtains od spot limits c cls where
    "ip_blacklistCache p' = ip_blacklistCache p"
    "ca_Get (ip_cache p) (od_key h) (ip_providerCache p') = Some (CTypes od)"
    "ca_Get (ip_cache p) (spot_key h) (ip_providerCache p') = Some (CTypes spot)"
    "ca_Get (ip_cache p) (eni_key h) (ip_providerCache p') = Some (CLimits limits)"
    "ca_Get (ip_cache p) ''cluster-info'' (ip_providerCache p') = Some (CCluster c)"
    "cls = (case ca_Get (ip_cache p) ''cluster-info'' (ip_providerCache p) of
       Some (CCluster c) \<Rightarrow> c | _ \<Rightarrow> zero_Cluster)"
    "build_instance_types (le_types env) p nodeClass v od spot limits cls = Ok its"
proof -
  obtain od w2 p2 spot w3 p3 limits w4 p4 cls w5 p5 where
    r2: "run_state (cached (od_key h) types_item CTypes (both_archs env False refresh nodeClass)) (w, p)
           = (Ok od, (w2, p2))" and
    r3: "run_state (cached (spot_key h) types_item CTypes (both_archs env True refresh nodeClass)) (w2, p2)
           = (Ok spot, (w3, p3))" and
    r4: "run_state (cached (eni_key h) limits_item CLimits
           (swrap (Describef ''get pod eni limits failed'') (getENILimits env nodeClass))) (w3, p3)
           = (Ok limits, (w4, p4))" and
    r5: "run_state (cluster_info env) (w4, p4) = (Ok cls, (w5, p5))" and
    fin: "p' = reset_gauge p5" "build_instance_types (le_types env) p5 nodeClass v od spot limits cls = Ok its"
    using run unfolding list_types_def Let_def h [symmetric]
    by (elim sbind_OkE) (auto simp: run_simps elim!: sbind_OkE)
  note c2 = run_cached [OF r2 laws item_of(1)]
  then have l2: "cache_laws (ip_cache p2)" using laws by simp
  note c3 = run_cached [OF r3 l2 item_of(1)]
  then have l3: "cache_laws (ip_cache p3)" using l2 by simp
  note c4 = run_cached [OF r4 l3 item_of(2)]
  then have l4: "cache_laws (ip_cache p4)" using l3 by simp
  note c5 = run_cluster_info [OF r5 l4]
  have same: "ip_cache p5 = ip_cache p" "ip_blacklistCache p5 = ip_blacklistCache p"
    "ip_zoneProvider p5 = ip_zoneProvider p" using c2 c3 c4 c5 by simp_all
  have reset: "ip_providerCache p' = ip_providerCache p5" "ip_blacklistCache p' = ip_blacklistCache p5"
    using fin(1) by (simp_all add: reset_gauge_def)
  obtain c where c: "ca_Get (ip_cache p) ''cluster-info'' (ip_providerCache p5) = Some (CCluster c)"
    using c2 c3 c4 c5 by auto
  show ?thesis
  proof (rule that [of od spot limits c cls])
    show "build_instance_types (le_types env) p nodeClass v od spot limits cls = Ok its"
      using fin(2) build_cong [OF same, of "le_types env"] by simp
  qed (use c c2 c3 c4 c5 same reset in simp_all)
qed

lemma run_it_List:
  assumes run: "run_state (it_List env nodeClass refresh) (w, p) = (Ok its, (w', p'))"
    and laws: "cache_laws (ip_cache p)" and h: "h = le_zonesHash env (set (subnet_zones nodeClass))"
    and before: "before = (if refresh then flush p else p)"
  obtains v od spot limits c cls where
    "nct_Subnets (nc_Status nodeClass) \<noteq> []" "ip_blacklistCache p' = ip_blacklistCache p"
    "ca_Get (ip_cache p) (od_key h) (ip_providerCache p') = Some (CTypes od)"
    "ca_Get (ip_cache p) (spot_key h) (ip_providerCache p') = Some (CTypes spot)"
    "ca_Get (ip_cache p) (eni_key h) (ip_providerCache p') = Some (CLimits limits)"
    "ca_Get (ip_cache p) ''cluster-info'' (ip_providerCache p') = Some (CCluster c)"
    "cls = (case ca_Get (ip_cache p) ''cluster-info'' (ip_providerCache before) of
       Some (CCluster c) \<Rightarrow> c | _ \<Rightarrow> zero_Cluster)"
    "build_instance_types (le_types env) p nodeClass v od spot limits cls = Ok its"
proof -
  have "run_state (if refresh then modify_own flush else State_Monad.return ()) (w, p) = ((), (w, before))"
    by (simp add: run_simps before)
  then obtain v w1 where ne: "nct_Subnets (nc_Status nodeClass) \<noteq> []"
    and run1: "run_state (list_types env nodeClass refresh v) (w1, before) = (Ok its, (w', p'))"
    using run by (auto simp: it_List_def run_simps split: prod.splits outcome.splits option.splits if_splits)
  have fields: "ip_cache before = ip_cache p" "ip_blacklistCache before = ip_blacklistCache p"
    "ip_zoneProvider before = ip_zoneProvider p"
    by (simp_all add: flush_def before)
  then have "cache_laws (ip_cache before)" using laws by simp
  then show ?thesis
    by (rule run_list_types [OF run1 _ h])
      (rule that [OF ne], use fields build_cong [OF fields, of "le_types env"] in simp_all)
qed

text \<open>
  C16. What a successful listing is made of.  The types come from the two lists of items, the ENI limits
  and the cluster description only; afterwards the lists and limits used are the ones in the cache,
  under keys made from the set of subnet zones, and a cluster description is cached as well; the
  memory of blocked offerings is unchanged.  The description used is the one that was cached
  before the call: with a cold cache the types are computed as if the cluster had none.
\<close>

theorem List_correct:
  assumes run: "run_state (it_List env nodeClass refresh) (w, p) = (Ok its, (w', p'))"
    and laws: "cache_laws (ip_cache p)"
  shows "nct_Subnets (nc_Status nodeClass) \<noteq> [] \<and> ip_blacklistCache p' = ip_blacklistCache p \<and>
    (\<exists>v od spot limits c.
       let h = le_zonesHash env (set (subnet_zones nodeClass));
           before = (if refresh then flush p else p);
           cls = (case ca_Get (ip_cache p) ''cluster-info'' (ip_providerCache before) of
                    Some (CCluster c) \<Rightarrow> c | _ \<Rightarrow> zero_Cluster) in
       ca_Get (ip_cache p) (od_key h) (ip_providerCache p') = Some (CTypes od) \<and>
       ca_Get (ip_cache p) (spot_key h) (ip_providerCache p') = Some (CTypes spot) \<and>
       ca_Get (ip_cache p) (eni_key h) (ip_providerCache p') = Some (CLimits limits) \<and>
       ca_Get (ip_cache p) ''cluster-info'' (ip_providerCache p') = Some (CCluster c) \<and>
       build_instance_types (le_types env) p nodeClass v od spot limits cls = Ok its)"
  by (rule run_it_List [OF run laws refl refl]) (auto simp: Let_def)

lemma build_instance_types_types:
  assumes "build_instance_types env p nodeClass v od spot limits cls = Ok its"
  shows "map it_Name its = map fst (spot_type_map p spot (od_type_map od []))"
    "it \<in> set its \<Longrightarrow> it_Offerings it =
       map (create_offering (ty_sc env) (ip_zoneProvider p) CapacityTypeOnDemand)
         (unblocked p CapacityTypeOnDemand (it_Name it) od) @
       map (create_offering (ty_sc env) (ip_zoneProvider p) CapacityTypeSpot)
         (unblocked p CapacityTypeSpot (it_Name it) spot)"
proof -
  let ?im = "spot_type_map p spot (od_type_map od [])"
  let ?offs = "\<lambda>k. map (create_offering (ty_sc env) (ip_zoneProvider p) CapacityTypeOnDemand)
         (unblocked p CapacityTypeOnDemand k od) @
       map (create_offering (ty_sc env) (ip_zoneProvider p) CapacityTypeSpot)
         (unblocked p CapacityTypeSpot k spot)"
  have named: "\<forall>(k, i) \<in> set ?im. qi_InstanceType i = k"
    by (rule spot_type_map_named) (rule od_type_map_named, simp)
  have all: "list_all2 (\<lambda>(k, i) it. it_Name it = k \<and> it_Offerings it = ?offs k) ?im its"
    using assms named unfolding build_instance_types_def Let_def traverse_Ok
    by (elim list.rel_mono_strong)
      (auto simp: map_list_add_offerings dest!: NewInstanceType_Ok)
  show "map it_Name its = map fst ?im"
    using all by (induction rule: list_all2_induct) (auto split: prod.splits)
  have "\<forall>it \<in> set its. it_Offerings it = ?offs (it_Name it)"
    using all by (induction rule: list_all2_induct) (auto split: prod.splits)
  then show "it \<in> set its \<Longrightarrow> it_Offerings it = ?offs (it_Name it)" by blast
qed

text \<open>
  C17. The types of a listing.  There is exactly one for every name among the on-demand items and the
  unblocked spot items; its offerings are those of its on-demand items and then of its spot items,
  in the order of the cloud, without any item whose type, capacity type and zone are blocked.
\<close>

theorem build_instance_types_correct:
  assumes "build_instance_types env p nodeClass v od spot limits cls = Ok its"
  shows "distinct (map it_Name its) \<and>
    it_Name ` set its =
      qi_InstanceType ` (set od \<union> {i \<in> set spot. \<not> item_blocked p CapacityTypeSpot i}) \<and>
    (\<forall>it \<in> set its. it_Offerings it =
       map (create_offering (ty_sc env) (ip_zoneProvider p) CapacityTypeOnDemand)
         (unblocked p CapacityTypeOnDemand (it_Name it) od) @
       map (create_offering (ty_sc env) (ip_zoneProvider p) CapacityTypeSpot)
         (unblocked p CapacityTypeSpot (it_Name it) spot))"
proof -
  note types = build_instance_types_types [OF assms]
  have "distinct (map it_Name its)"
    unfolding types(1)
    using spot_type_map_keys(2) [OF od_type_map_keys(2) [of "[]"], of p spot od]
    by (simp add: distinct_keys_def)
  moreover have "it_Name ` set its = fst ` set (spot_type_map p spot (od_type_map od []))"
    using types(1) by (metis list.set_map)
  ultimately show ?thesis
    using types(2) by (simp add: spot_type_map_keys(1) od_type_map_keys(1) image_Un)
qed

lemma sample_NewInstanceType_Ok:
  assumes "eni i (snd (cluster_overrides cls None limits)) = Ok e"
  shows "\<exists>it. NewInstanceType sample_env storage i v None None None None None offs limits cls = Ok it"
proof -
  obtain mp ls where cls: "cluster_overrides cls None limits = (mp, ls)" by fastforce
  have parse: "q_MustParse (ty_q sample_env) v = Ok v" for v
    by (simp add: sample_env_def sample_quantities_def)
  obtain e1 e2 e3 where eni: "eni i ls = Ok (e1, e2, e3)" using assms cls by (cases e) auto
  show ?thesis
    unfolding NewInstanceType_def cls computeCapacity_def kubeReservedResources_def
      evictionThreshold_def systemReservedResources_def put_opt_def put_parsed_def memory_def pods_def
      Let_def split_def parse
    using eni by (simp add: parse split: option.split)
qed

definition sample_spot_item :: InstanceTypeQuotaItem where
  "sample_spot_item = sample_item\<lparr>qi_InstanceType := ''SA2.SMALL1''\<rparr>"

definition sample_zone_class :: TKEMachineNodeClass where
  "sample_zone_class = zero_NodeClass\<lparr>nc_Status := \<lparr>nct_Subnets =
     [\<lparr>sn_ID = ''subnet-1'', sn_Zone = ''ap-guangzhou-3'', sn_ZoneID = ''100003''\<rparr>],
     nct_SecurityGroups = [\<lparr>sg_ID = ''sg-1''\<rparr>], nct_SSHKeys = [],
     nct_Conditions = [\<lparr>oc_Type = ''Ready'', oc_Status = ''True'', oc_Reason = [], oc_Message = []\<rparr>]\<rparr>\<rparr>"

text \<open>One type on demand and as spot, another one as blocked spot only.\<close>

theorem build_instance_types_correct_witness:
  "\<exists>its. build_instance_types sample_env
       (BlockInstanceType (''*'', ''spot'', ''ap-guangzhou-3'') sample_provider) sample_zone_class ''1.30.0''
       [sample_item] [sample_item, sample_spot_item] [] zero_Cluster = Ok its \<and>
     it_Name ` set its = {''S5.MEDIUM4''} \<and> (\<forall>it \<in> set its. length (it_Offerings it) = 1)"
proof -
  let ?p = "BlockInstanceType (''*'', ''spot'', ''ap-guangzhou-3'') sample_provider"
  let ?run = "build_instance_types sample_env ?p sample_zone_class ''1.30.0''
       [sample_item] [sample_item, sample_spot_item] [] zero_Cluster"
  have blocked: "item_blocked ?p ''spot'' sample_item" "item_blocked ?p ''spot'' sample_spot_item"
    "\<not> item_blocked ?p ''on-demand'' sample_item"
    by code_simp+
  have name: "qi_InstanceType sample_item = ''S5.MEDIUM4''" "qi_InstanceType sample_spot_item = ''SA2.SMALL1''"
    by (simp_all add: sample_item_def sample_spot_item_def)
  have "\<exists>it. NewInstanceType sample_env storage i v None None None None None offs [] (Some zero_Cluster) = Ok it"
    for storage i v offs
    by (rule sample_NewInstanceType_Ok) (simp add: cluster_overrides_def zero_Cluster_def)
  then have "\<exists>its. ?run = Ok its"
    by (simp add: build_instance_types_def CapacityTypeSpot_def blocked name Let_def)
  then obtain its where its: "?run = Ok its" ..
  note correct = build_instance_types_correct [OF its]
  have none: "{i \<in> set [sample_item, sample_spot_item]. \<not> item_blocked ?p CapacityTypeSpot i} = {}"
    using blocked(1,2) by (auto simp: CapacityTypeSpot_def)
  have names: "it_Name ` set its = {''S5.MEDIUM4''}"
    using conjunct1 [OF conjunct2 [OF correct]] unfolding none by (simp add: name)
  have "unblocked ?p CapacityTypeOnDemand ''S5.MEDIUM4'' [sample_item] = [sample_item]"
    "unblocked ?p CapacityTypeSpot ''S5.MEDIUM4'' [sample_item, sample_spot_item] = []"
    using blocked by (simp_all add: unblocked_def CapacityTypeSpot_def CapacityTypeOnDemand_def name)
  moreover have "it_Name it = ''S5.MEDIUM4''" if "it \<in> set its" for it
    using names that by blast
  ultimately have "length (it_Offerings it) = 1" if "it \<in> set its" for it
    using correct that by simp
  then show ?thesis using its names by blast
qed

text \<open>
  The storage of a node is never negative and never more than a 32-bit integer holds, whatever
  the sizes of the disks, and it is the system disk less 15 GB, but at least zero, when no data
  disk is mounted where containers live; the last such data disk counts less 5 GB.
\<close>

theorem storageInGB_bounds:
  "0 \<le> storageInGB nc \<and> storageInGB nc < 2 ^ 31 \<and>
   (let container = filter (\<lambda>d. path_clean (str_ptr (dd_MountTarget d)) \<in>
          {''/var/lib/container'', ''/var/lib/kubelet'', ''/var/lib'', ''/var''}) (ncs_DataDisks (nc_Spec nc))
    in storageInGB nc = max 0 (if container = []
         then (case ncs_SystemDisk (nc_Spec nc) of Some d \<Rightarrow> i32 (sd_Size d - 15) | None \<Rightarrow> 35)
         else i32 (dd_Size (last container) - 5)))"
proof -
  have loop: "data_disk_storage ds storage =
      (let container = filter (\<lambda>d. path_clean (str_ptr (dd_MountTarget d)) \<in>
          {''/var/lib/container'', ''/var/lib/kubelet'', ''/var/lib'', ''/var''}) ds
       in if container = [] then storage else i32 (dd_Size (last container) - 5))" for ds storage
    by (induction ds arbitrary: storage) (simp_all add: Let_def)
  have "i32 n < 2 ^ 31" for n using in_i32_i32 [of n] by (simp add: in_i32_def)
  then show ?thesis
    unfolding storageInGB_def loop Let_def by (auto simp: max_def split: option.split)
qed

text \<open>A cold cache: everything is fetched, and the description of the cluster is only cached.\<close>

definition sample_stock_item :: InstanceTypeQuotaItem where
  "sample_stock_item = sample_item\<lparr>qi_Status := ''SELL'', qi_Inventory := 3\<rparr>"

abbreviation sample_items :: "InstanceTypeQuotaItem list" where
  "sample_items \<equiv> [sample_stock_item\<lparr>qi_Arch := ''amd64''\<rparr>, sample_stock_item\<lparr>qi_Arch := ''arm64''\<rparr>]"

definition sample_list_env :: "('w, string, Requirement list, string) list_env" where
  "sample_list_env = \<lparr>le_types = sample_env, le_ServerVersion = State_Monad.return (Ok ''v1.30.0''),
     le_ListNodeClaims = State_Monad.return (Ok []),
     le_Send = (\<lambda>_. State_Monad.return (Ok \<lparr>cb_Error = None,
       cb_Response = Some (Some \<lparr>rs_InstanceTypeQuotaSet = Some ''[]'', rs_RequestId = Some ''r''\<rparr>)\<rparr>)),
     le_UnmarshalItems = (\<lambda>_. Some [sample_stock_item]),
     le_DescribeVpcCniPodLimits = (\<lambda>_. State_Monad.return (Ok [])),
     le_DescribeClusters = (\<lambda>_. State_Monad.return (Ok [Some sample_cluster])),
     le_zonesHash = (\<lambda>_. ''00000000000000ff''), le_ClusterID = ''cls-1''\<rparr>"

lemma sample_both_archs:
  "run_state (both_archs sample_list_env isSpot refresh sample_zone_class) w = (Ok sample_items, w)"
  by (simp add: both_archs_def getInstanceTypes_def run_simps sample_list_env_def parse_body_def)

lemma sample_getENILimits:
  "run_state (getENILimits sample_list_env sample_zone_class) w = (Ok [(''ap-guangzhou-3'', [])], w)"
  by (simp add: getENILimits_def subnet_zones_def sample_zone_class_def run_simps sample_list_env_def)

lemma sample_cluster_info:
  assumes "ca_Get (ip_cache p) ''cluster-info'' (ip_providerCache p) = None"
  shows "run_state (cluster_info sample_list_env) (w, p) =
    (Ok zero_Cluster, (w, cache_put ''cluster-info'' (CCluster sample_cluster) p))"
  using assms by (simp add: cluster_info_def run_simps sample_list_env_def)

lemma run_cached_miss:
  assumes "ca_Get (ip_cache p) key (ip_providerCache p) = None" "run_state fetch w = (Ok x, w')"
  shows "run_state (cached key out into fetch) (w, p) = (Ok x, (w', cache_put key (into x) p))"
  using assms by (simp add: cached_def run_simps)

lemma Get_sample_cache_put [simp]:
  "ip_cache p = sample_cache \<Longrightarrow> ip_cache (cache_put key item p) = sample_cache"
  "ip_cache p = sample_cache \<Longrightarrow> ca_Get sample_cache k (ip_providerCache (cache_put key item p)) =
     (if k = key then Some item else ca_Get sample_cache k (ip_providerCache p))"
  by (simp_all add: cache_put_def sample_cache_def)

lemma sample_build_Ok:
  "\<exists>its. build_instance_types sample_env p sample_zone_class v od spot [(''ap-guangzhou-3'', [])] zero_Cluster = Ok its"
proof -
  have none: "map_list [(''ap-guangzhou-3'', [])] z = ([] :: PodLimitsInstance list)" for z
    by (simp add: map_list_def)
  have "\<exists>it. NewInstanceType sample_env storage i v None None None None None offs [] (Some zero_Cluster) = Ok it"
    for storage i v offs
    by (rule sample_NewInstanceType_Ok) (simp add: cluster_overrides_def zero_Cluster_def)
  then have "\<exists>its. traverse (\<lambda>(k, i). NewInstanceType sample_env storage i v None None None None None
      (offs k) [] (Some zero_Cluster)) im = Ok its" for storage v offs im
    by (induction im) (auto split: prod.split)
  then show ?thesis unfolding build_instance_types_def Let_def none by blast
qed

lemma sample_List:
  assumes p: "ip_cache p = sample_cache" "ip_providerCache p = []"
  obtains its p' v limits where
    "run_state (it_List sample_list_env sample_zone_class False) (w, p) = (Ok its, (w, p'))"
    "build_instance_types sample_env p sample_zone_class v sample_items sample_items limits zero_Cluster = Ok its"
    "same_memory p p'"
    "\<And>k items. ca_Get sample_cache k (ip_providerCache p') = Some (CTypes items) \<Longrightarrow> items = sample_items"
proof -
  let ?h = "''00000000000000ff''" and ?z = "[(''ap-guangzhou-3'', [])]"
  define p1 where "p1 = cache_put (od_key ?h) (CTypes sample_items) p"
  define p2 where "p2 = cache_put (spot_key ?h) (CTypes sample_items) p1"
  define p3 where "p3 = cache_put (eni_key ?h) (CLimits ?z) p2"
  define p4 where "p4 = cache_put ''cluster-info'' (CCluster sample_cluster) p3"
  have [simp]: "ip_cache p1 = sample_cache" "ip_cache p2 = sample_cache" "ip_cache p3 = sample_cache"
    using p by (simp_all add: p1_def p2_def p3_def)
  have r1: "run_state (cached (od_key ?h) types_item CTypes (both_archs sample_list_env False False sample_zone_class))
      (w, p) = (Ok sample_items, (w, p1))"
    unfolding p1_def by (rule run_cached_miss) (simp_all add: sample_both_archs p)
  have r2: "run_state (cached (spot_key ?h) types_item CTypes (both_archs sample_list_env True False sample_zone_class))
      (w, p1) = (Ok sample_items, (w, p2))"
    unfolding p2_def by (rule run_cached_miss) (simp_all add: sample_both_archs p1_def p)
  have r3: "run_state (cached (eni_key ?h) limits_item CLimits
      (swrap f (getENILimits sample_list_env sample_zone_class))) (w, p2) = (Ok ?z, (w, p3))" for f
    unfolding p3_def by (rule run_cached_miss) (simp_all add: run_simps sample_getENILimits p1_def p2_def p)
  have r4: "run_state (cluster_info sample_list_env) (w, p3) = (Ok zero_Cluster, (w, p4))"
    unfolding p4_def by (rule sample_cluster_info) (simp add: p1_def p2_def p3_def p)
  have fields: "le_types sample_list_env = sample_env" "le_zonesHash sample_list_env Z = ?h"
    "le_ServerVersion sample_list_env = State_Monad.return (Ok ''v1.30.0'')" for Z
    by (simp_all add: sample_list_env_def)
  obtain its where its: "build_instance_types sample_env p4 sample_zone_class ''1.30.0'' sample_items sample_items ?z zero_Cluster = Ok its"
    using sample_build_Ok by blast
  have types: "run_state (list_types sample_list_env sample_zone_class False ''1.30.0'') (w, p) =
      (Ok its, (w, reset_gauge p4))"
    unfolding list_types_def Let_def fields by (simp add: run_simps r1 r2 r3 r4 its)
  have run: "run_state (it_List sample_list_env sample_zone_class False) (w, p) = (Ok its, (w, reset_gauge p4))"
    using types
    by (simp add: it_List_def run_simps fields sample_env_def normalizeVersion_def has_prefix_def)
      (simp add: sample_zone_class_def)
  have "same_memory p p4" by (simp add: p1_def p2_def p3_def p4_def same_memory_def cache_put_def)
  then have "build_instance_types sample_env p sample_zone_class ''1.30.0'' sample_items sample_items ?z zero_Cluster = Ok its"
    using its build_cong [of p4 p sample_env] by (simp add: same_memory_def)
  moreover have "same_memory p (reset_gauge p4)" "ip_providerCache (reset_gauge p4) = ip_providerCache p4"
    using \<open>same_memory p p4\<close> by (simp_all add: same_memory_def reset_gauge_def)
  moreover have "items = sample_items" if "ca_Get sample_cache k (ip_providerCache p4) = Some (CTypes items)" for k items
    using that by (simp add: p1_def p2_def p3_def p4_def p split: if_splits)
  ultimately show ?thesis using that [OF run] by simp
qed

theorem List_correct_witness:
  "\<exists>its p' c. run_state (it_List sample_list_env sample_zone_class False) ((), sample_provider) = (Ok its, ((), p')) \<and>
     ca_Get sample_cache ''cluster-info'' (ip_providerCache p') = Some (CCluster c)"
proof -
  obtain its p' where "run_state (it_List sample_list_env sample_zone_class False) ((), sample_provider) = (Ok its, ((), p'))"
    by (rule sample_List [of sample_provider "()"]) simp_all
  then show ?thesis
    using List_correct [of sample_list_env sample_zone_class False "()" sample_provider its "()" p']
      sample_cache_laws by (auto simp: Let_def)
qed

end
