(* ===== verification/MachineSelect.thy ===== *)
theory MachineSelect
  imports Karpenter NodeClass
begin

text \<open>
  How the machine provider picks the instance type to launch
  (\<open>filterInstanceTypes\<close>, \<open>isMixedCapacityLaunch\<close>, \<open>filterUnwantedSpot\<close> and
  \<open>orderInstanceTypesByPrice\<close> of \<open>pkg/providers/machine/machine.go\<close>).  Offerings and
  requirements are the parameters of \<open>Scheduling\<close>; a price is a float64, so at most
  \<open>math.MaxFloat64\<close>.
\<close>

definition maxInstanceTypes :: int where "maxInstanceTypes = 60"

definition MaxFloat64 :: rat where "MaxFloat64 = of_int (2 ^ 1024 - 2 ^ 971)"

section \<open>Filtering\<close>

fun filterExotic_loop :: "'i list \<Rightarrow> 'i list \<Rightarrow> 'i list" where
  "filterExotic_loop acc [] = acc"
| "filterExotic_loop acc (it # its) = filterExotic_loop (acc @ [it]) its"

definition filterExoticInstanceTypes :: "'i list \<Rightarrow> 'i list" where
  "filterExoticInstanceTypes its =
     (let generic = filterExotic_loop [] its in if length generic \<noteq> 0 then generic else its)"

text \<open>The cheapest available on-demand offering of all types.\<close>

fun cheapest_offering :: "('q, 'r) scheduling_ops \<Rightarrow> rat \<Rightarrow> 'r Offering list \<Rightarrow> rat" where
  "cheapest_offering sc best [] = best"
| "cheapest_offering sc best (x # os) =
     cheapest_offering sc
       (if sc_Any sc (of_Requirements x) CapacityTypeLabelKey = CapacityTypeOnDemand \<and> of_Price x < best
        then of_Price x else best) os"

fun cheapest_on_demand :: "('q, 'r) scheduling_ops \<Rightarrow> rat \<Rightarrow> ('q, 'r) InstanceType list \<Rightarrow> rat" where
  "cheapest_on_demand sc best [] = best"
| "cheapest_on_demand sc best (it # its) =
     cheapest_on_demand sc (cheapest_offering sc best (so_Available sc (it_Offerings it))) its"

text \<open>\<open>Cheapest\<close> of a non-empty list is not nil, by the laws of offerings.\<close>

definition wanted :: "('q, 'r) scheduling_ops \<Rightarrow> rat \<Rightarrow> ('q, 'r) InstanceType \<Rightarrow> bool" where
  "wanted sc cheapestOnDemand it =
     (let available = so_Available sc (it_Offerings it) in
      if length available = 0 then False
      else case so_Cheapest sc available of
             Some x \<Rightarrow> of_Price x \<le> cheapestOnDemand
           | None \<Rightarrow> False)"

definition filterUnwantedSpot ::
  "('q, 'r) scheduling_ops \<Rightarrow> ('q, 'r) InstanceType list \<Rightarrow> ('q, 'r) InstanceType list" where
  "filterUnwantedSpot sc its =
     (let cheapestOnDemand = cheapest_on_demand sc MaxFloat64 its in filter (wanted sc cheapestOnDemand) its)"

text \<open>Whether available offerings that fit the requirements are spot, and whether others are not.\<close>

fun mixed_offerings ::
  "('q, 'r) scheduling_ops \<Rightarrow> 'r \<Rightarrow> bool \<times> bool \<Rightarrow> 'r Offering list \<Rightarrow> bool \<times> bool" where
  "mixed_offerings sc reqs (spot, od) [] = (spot, od)"
| "mixed_offerings sc reqs (spot, od) (x # os) =
     mixed_offerings sc reqs
       (if \<not> sc_Compatible sc reqs (of_Requirements x) then (spot, od)
        else if sc_Any sc (of_Requirements x) CapacityTypeLabelKey = CapacityTypeSpot then (True, od)
        else (spot, True)) os"

fun mixed_loop ::
  "('q, 'r) scheduling_ops \<Rightarrow> 'r \<Rightarrow> bool \<times> bool \<Rightarrow> ('q, 'r) InstanceType list \<Rightarrow> bool \<times> bool" where
  "mixed_loop sc reqs flags [] = flags"
| "mixed_loop sc reqs flags (it # its) =
     mixed_loop sc reqs (mixed_offerings sc reqs flags (so_Available sc (it_Offerings it))) its"

definition isMixedCapacityLaunch ::
  "('q, 'r) scheduling_ops \<Rightarrow> 'q NodeClaim \<Rightarrow> ('q, 'r) InstanceType list \<Rightarrow> bool" where
  "isMixedCapacityLaunch sc nodeClaim its =
     (let reqs = sc_FromClaim sc (k_Requirements nodeClaim) in
      if \<not> sc_Has sc reqs CapacityTypeLabelKey CapacityTypeSpot \<or>
         \<not> sc_Has sc reqs CapacityTypeLabelKey CapacityTypeOnDemand
      then False
      else case (if sc_Has sc reqs CapacityTypeLabelKey CapacityTypeSpot
                 then mixed_loop sc reqs (False, False) its else (False, False)) of
             (hasSpotOfferings, hasODOffering) \<Rightarrow> hasSpotOfferings \<and> hasODOffering)"

definition filterInstanceTypes ::
  "('q, 'r) scheduling_ops \<Rightarrow> 'q NodeClaim \<Rightarrow> ('q, 'r) InstanceType list \<Rightarrow> ('q, 'r) InstanceType list" where
  "filterInstanceTypes sc nodeClaim its =
     (let its = filterExoticInstanceTypes its in
      if isMixedCapacityLaunch sc nodeClaim its then filterUnwantedSpot sc its else its)"

section \<open>Ordering\<close>

definition compatible_offerings :: "('q, 'r) scheduling_ops \<Rightarrow> 'r \<Rightarrow> ('q, 'r) InstanceType \<Rightarrow> 'r Offering list" where
  "compatible_offerings sc reqs it = so_Compatible sc (so_Available sc (it_Offerings it)) reqs"

definition compatible_price :: "('q, 'r) scheduling_ops \<Rightarrow> 'r \<Rightarrow> ('q, 'r) InstanceType \<Rightarrow> rat" where
  "compatible_price sc reqs it =
     (if length (compatible_offerings sc reqs it) > 0
      then case so_Cheapest sc (compatible_offerings sc reqs it) of
             Some x \<Rightarrow> of_Price x | None \<Rightarrow> MaxFloat64
      else MaxFloat64)"

definition price_before ::
  "('q, 'r) scheduling_ops \<Rightarrow> 'r \<Rightarrow> ('q, 'r) InstanceType \<Rightarrow> ('q, 'r) InstanceType \<Rightarrow> bool" where
  "price_before sc reqs x y =
     (let iPrice = compatible_price sc reqs x; jPrice = compatible_price sc reqs y in
      if iPrice = jPrice then it_Name x < it_Name y else iPrice < jPrice)"

definition orderInstanceTypesByPrice ::
  "('q, 'r) scheduling_ops \<Rightarrow> 'r \<Rightarrow> ('q, 'r) InstanceType list \<Rightarrow> ('q, 'r) InstanceType list" where
  "orderInstanceTypesByPrice sc reqs its = sort_by (price_before sc reqs) its"

section \<open>Lemmas\<close>

lemma filterExotic_id [simp]: "filterExoticInstanceTypes its = its"
proof -
  have "filterExotic_loop acc its = acc @ its" for acc :: "'a list"
    by (induction its arbitrary: acc) simp_all
  then show ?thesis by (simp add: filterExoticInstanceTypes_def)
qed

definition on_demand :: "('q, 'r) scheduling_ops \<Rightarrow> 'r Offering \<Rightarrow> bool" where
  "on_demand sc x \<longleftrightarrow> sc_Any sc (of_Requirements x) CapacityTypeLabelKey = CapacityTypeOnDemand"

definition available_offerings :: "('q, 'r) scheduling_ops \<Rightarrow> ('q, 'r) InstanceType list \<Rightarrow> 'r Offering list" where
  "available_offerings sc its = concat (map (\<lambda>it. so_Available sc (it_Offerings it)) its)"

text \<open>The loops over types and offerings are loops over all available offerings.\<close>

lemma cheapest_offering_append:
  "cheapest_offering sc best (xs @ ys) = cheapest_offering sc (cheapest_offering sc best xs) ys"
  by (induction xs arbitrary: best) simp_all

lemma cheapest_on_demand_all: "cheapest_on_demand sc best its = cheapest_offering sc best (available_offerings sc its)"
  by (induction its arbitrary: best) (simp_all add: available_offerings_def cheapest_offering_append)

lemma mixed_offerings_append:
  "mixed_offerings sc reqs flags (xs @ ys) = mixed_offerings sc reqs (mixed_offerings sc reqs flags xs) ys"
  by (induction sc reqs flags xs rule: mixed_offerings.induct) simp_all

lemma mixed_offerings_Nil [simp]: "mixed_offerings sc reqs flags [] = flags"
  by (cases flags) simp

lemma mixed_loop_all: "mixed_loop sc reqs flags its = mixed_offerings sc reqs flags (available_offerings sc its)"
  by (induction its arbitrary: flags) (simp_all add: available_offerings_def mixed_offerings_append)

lemma cheapest_offering_le: "cheapest_offering sc best os \<le> best"
proof (induction os arbitrary: best)
  case Nil
  show ?case by simp
next
  case (Cons y os)
  have "cheapest_offering sc (of_Price y) os \<le> best" if "of_Price y < best"
    using Cons.IH [of "of_Price y"] that by linarith
  then show ?case using Cons.IH [of best] by simp
qed

lemma cheapest_offering_props:
  "x \<in> set os \<Longrightarrow> on_demand sc x \<Longrightarrow> cheapest_offering sc best os \<le> of_Price x"
  "cheapest_offering sc best os = best \<or>
     (\<exists>x \<in> set os. on_demand sc x \<and> of_Price x = cheapest_offering sc best os)"
proof (induction os arbitrary: best)
  case Nil
  { case 1 then show ?case by simp }
  { case 2 show ?case by simp }
next
  case (Cons y os)
  { case 1
    then show ?case
      using Cons.IH(1) cheapest_offering_le [of sc "of_Price y" os] cheapest_offering_le [of sc best os]
      by (auto simp: on_demand_def) }
  { case 2
    show ?case
      using Cons.IH(2) [of "of_Price y"] Cons.IH(2) [of best] by (auto simp: on_demand_def) }
qed

lemma mixed_offerings_flags:
  "mixed_offerings sc reqs (s, d) os =
     (s \<or> (\<exists>x \<in> set os. sc_Compatible sc reqs (of_Requirements x) \<and>
            sc_Any sc (of_Requirements x) CapacityTypeLabelKey = CapacityTypeSpot),
      d \<or> (\<exists>x \<in> set os. sc_Compatible sc reqs (of_Requirements x) \<and>
            sc_Any sc (of_Requirements x) CapacityTypeLabelKey \<noteq> CapacityTypeSpot))"
  by (induction os arbitrary: s d) auto

lemma wanted_iff:
  assumes "offering_laws sc"
  shows "wanted sc limit it \<longleftrightarrow> (\<exists>x \<in> set (so_Available sc (it_Offerings it)). of_Price x \<le> limit)"
proof (cases "so_Cheapest sc (so_Available sc (it_Offerings it))")
  case None
  then show ?thesis using offering_lawsD(3) [OF assms] by (simp add: wanted_def Let_def)
next
  case (Some x)
  then show ?thesis
    using offering_lawsD(3-5) [OF assms, of "so_Available sc (it_Offerings it)"]
    by (fastforce simp: wanted_def Let_def)
qed

text \<open>The limit of the filter: the cheapest on-demand offering, or the largest price when there is none.\<close>

lemma below_limit:
  assumes "of_Price x \<le> MaxFloat64"
  shows "of_Price x \<le> cheapest_on_demand sc MaxFloat64 its \<longleftrightarrow>
    (\<forall>y \<in> set (available_offerings sc its). on_demand sc y \<longrightarrow> of_Price x \<le> of_Price y)"
proof -
  let ?all = "available_offerings sc its" and ?limit = "cheapest_on_demand sc MaxFloat64 its"
  have "?limit \<le> of_Price y" if "y \<in> set ?all" "on_demand sc y" for y
    unfolding cheapest_on_demand_all using that by (rule cheapest_offering_props(1))
  moreover have "?limit = MaxFloat64 \<or> (\<exists>y \<in> set ?all. on_demand sc y \<and> of_Price y = ?limit)"
    unfolding cheapest_on_demand_all by (rule cheapest_offering_props(2))
  ultimately show ?thesis using assms by (metis (no_types) order_trans)
qed

lemma mixed_keeps:
  assumes laws: "offering_laws sc" and mixed: "isMixedCapacityLaunch sc nc its"
    and price: "\<And>x. x \<in> set (available_offerings sc its) \<Longrightarrow> of_Price x \<le> MaxFloat64"
  shows "filter (wanted sc (cheapest_on_demand sc MaxFloat64 its)) its \<noteq> []"
proof -
  let ?all = "available_offerings sc its"
  have "?all \<noteq> []"
    using mixed by (auto simp: isMixedCapacityLaunch_def mixed_loop_all Let_def split: if_splits)
  then obtain x where x: "x \<in> set ?all" "of_Price x \<le> cheapest_on_demand sc MaxFloat64 its"
    using cheapest_offering_props(2) [of sc MaxFloat64 ?all] price unfolding cheapest_on_demand_all
    by (metis list.set_intros(1) list.exhaust order_refl)
  then obtain it where "it \<in> set its" "x \<in> set (so_Available sc (it_Offerings it))"
    by (auto simp: available_offerings_def)
  then show ?thesis using x(2) wanted_iff [OF laws] by (auto simp: filter_empty_conv)
qed

section \<open>Properties\<close>

text \<open>
  C22. Filtering before a launch.  Types are only dropped when the node claim accepts spot and
  on-demand and both are on offer for it; then exactly those go whose cheapest available offering
  costs more than the cheapest available on-demand offering of all, and types without available
  offerings; what is kept stays in order, and a launch that had types to choose from keeps at
  least one.
\<close>

theorem filterInstanceTypes_correct:
  fixes its :: "('q, 'r) InstanceType list"
  assumes laws: "offering_laws sc"
    and prices: "\<forall>it \<in> set its. \<forall>x \<in> set (it_Offerings it). of_Price x \<le> MaxFloat64"
  shows "(\<not> isMixedCapacityLaunch sc nc its \<longrightarrow> filterInstanceTypes sc nc its = its) \<and>
    (isMixedCapacityLaunch sc nc its \<longrightarrow>
       filterInstanceTypes sc nc its = filter (\<lambda>it. \<exists>x \<in> set (so_Available sc (it_Offerings it)).
         \<forall>it' \<in> set its. \<forall>y \<in> set (so_Available sc (it_Offerings it')).
           on_demand sc y \<longrightarrow> of_Price x \<le> of_Price y) its \<and>
       filterInstanceTypes sc nc its \<noteq> [])"
proof -
  let ?all = "available_offerings sc its" and ?limit = "cheapest_on_demand sc MaxFloat64 its"
  have price: "of_Price x \<le> MaxFloat64" if "x \<in> set ?all" for x
    using that prices offering_lawsD(1) [OF laws] by (auto simp: available_offerings_def)
  have "wanted sc ?limit it \<longleftrightarrow> (\<exists>x \<in> set (so_Available sc (it_Offerings it)).
         \<forall>it' \<in> set its. \<forall>y \<in> set (so_Available sc (it_Offerings it')).
           on_demand sc y \<longrightarrow> of_Price x \<le> of_Price y)" if it: "it \<in> set its" for it
  proof -
    have all: "x \<in> set ?all" if "x \<in> set (so_Available sc (it_Offerings it))" for x
      using that it by (auto simp: available_offerings_def)
    show ?thesis
      unfolding wanted_iff [OF laws]
      by (intro bex_cong refl) (simp add: below_limit [OF price [OF all]], simp add: available_offerings_def)
  qed
  then have "filter (wanted sc ?limit) its = filter (\<lambda>it. \<exists>x \<in> set (so_Available sc (it_Offerings it)).
         \<forall>it' \<in> set its. \<forall>y \<in> set (so_Available sc (it_Offerings it')).
           on_demand sc y \<longrightarrow> of_Price x \<le> of_Price y) its"
    by (intro filter_cong refl)
  moreover have "filter (wanted sc ?limit) its \<noteq> []" if "isMixedCapacityLaunch sc nc its"
    using laws that price by (rule mixed_keeps)
  ultimately show ?thesis by (simp add: filterInstanceTypes_def filterUnwantedSpot_def Let_def)
qed

text \<open>Two capacity types on offer: the dear spot type goes.\<close>

definition sample_offering :: "string \<Rightarrow> rat \<Rightarrow> Requirement list Offering" where
  "sample_offering ct price =
     \<lparr>of_Requirements = [in_req CapacityTypeLabelKey [ct], in_req LabelTopologyZone [''100003'']],
      of_Price = price, of_Available = True\<rparr>"

definition sample_type :: "string \<Rightarrow> string \<Rightarrow> rat \<Rightarrow> (string, Requirement list) InstanceType" where
  "sample_type name ct price =
     \<lparr>it_Name = name, it_Requirements = [in_req LabelInstanceFamily [''S5'']],
      it_Offerings = [sample_offering ct price],
      it_Capacity = [], it_Overhead = \<lparr>ov_KubeReserved = [], ov_SystemReserved = [], ov_EvictionThreshold = []\<rparr>\<rparr>"

definition sample_nodeclaim :: "string NodeClaim" where
  "sample_nodeclaim = zero_NodeClaim\<lparr>k_Kind := ''NodeClaim'',
     k_ObjectMeta := zero_ObjectMeta\<lparr>om_Name := ''claim-1''\<rparr>,
     k_Requirements := [\<lparr>cr_Requirement = in_req CapacityTypeLabelKey [''spot'', ''on-demand''],
       cr_MinValues = None\<rparr>]\<rparr>"

theorem filterInstanceTypes_correct_witness:
  "filterInstanceTypes sample_scheduling sample_nodeclaim
     [sample_type ''a'' ''spot'' 3, sample_type ''b'' ''on-demand'' 2] = [sample_type ''b'' ''on-demand'' 2]"
proof -
  let ?its = "[sample_type ''a'' ''spot'' 3, sample_type ''b'' ''on-demand'' 2]"
  have "isMixedCapacityLaunch sample_scheduling sample_nodeclaim ?its" by code_simp
  moreover have "(3 :: rat) \<le> MaxFloat64" "(2 :: rat) \<le> MaxFloat64"
    by (simp_all add: MaxFloat64_def)
  moreover have "\<forall>it \<in> set ?its. \<forall>x \<in> set (it_Offerings it). of_Price x \<le> MaxFloat64"
    using calculation by (simp add: sample_type_def sample_offering_def)
  moreover have "on_demand sample_scheduling (sample_offering ''on-demand'' 2)" by code_simp
  ultimately show ?thesis
    using filterInstanceTypes_correct [OF sample_offering_laws, of ?its sample_nodeclaim]
    by (auto simp: sample_scheduling_def sample_type_def sample_offering_def)
qed

text \<open>
  C21. The order of a launch.  Types with different names are put in the one order of their cheapest
  available compatible offering, equal prices by name, whatever order they came in and however
  the library sorts; the first type has the lowest price of all.
\<close>

theorem orderInstanceTypesByPrice_correct:
  assumes names: "distinct (map it_Name its)"
    and sorted: "mset ys = mset its" "sorted_wrt (\<lambda>x y. \<not> price_before sc reqs y x) ys"
  shows "orderInstanceTypesByPrice sc reqs its = ys \<and>
    (its \<noteq> [] \<longrightarrow> (\<forall>it \<in> set its. compatible_price sc reqs (hd ys) \<le> compatible_price sc reqs it \<and>
       (compatible_price sc reqs (hd ys) = compatible_price sc reqs it \<longrightarrow> it_Name (hd ys) \<le> it_Name it)))"
proof -
  have ord: "orders (price_before sc reqs) (set its)"
    unfolding orders_def price_before_def Let_def
    using names by (auto simp: distinct_map inj_on_def not_less less_le split: if_splits)
  have eq: "orderInstanceTypesByPrice sc reqs its = ys"
    unfolding orderInstanceTypesByPrice_def by (rule sort_by_unique [OF ord]) (simp_all add: sorted)
  have "\<not> price_before sc reqs it (hd ys)" if "its \<noteq> []" "it \<in> set its" for it
  proof -
    have "it \<in> set ys" using that(2) sorted(1) by (metis mset_eq_setD)
    moreover from this obtain y ys' where ys: "ys = y # ys'" by (cases ys) auto
    ultimately show ?thesis
      using sorted(2) by (auto simp: price_before_def Let_def)
  qed
  then show ?thesis using eq by (fastforce simp: price_before_def Let_def not_less split: if_splits)
qed

theorem orderInstanceTypesByPrice_correct_witness:
  "orderInstanceTypesByPrice sample_scheduling [] [sample_type ''b'' ''spot'' 3, sample_type ''a'' ''spot'' 3,
       sample_type ''c'' ''spot'' 2] =
     [sample_type ''c'' ''spot'' 2, sample_type ''a'' ''spot'' 3, sample_type ''b'' ''spot'' 3]"
proof -
  have price: "compatible_price sample_scheduling [] (sample_type n ct p) = p" for n ct p
    by (simp add: compatible_price_def compatible_offerings_def sample_scheduling_def sample_type_def
        sample_offering_def)
  have name: "it_Name (sample_type n ct p) = n" for n ct p by (simp add: sample_type_def)
  show ?thesis
    by (rule conjunct1 [OF orderInstanceTypesByPrice_correct])
      (simp_all add: price name price_before_def)
qed

end
