(* ===== verification/MachineProvider.thy ===== *)
theory MachineProvider
  imports MachineSelect ProviderSpecJson Zone
begin

text \<open>
  The machine provider (\<open>pkg/providers/machine/machine.go\<close>): how a machine object is built from a node
  class, a node claim and the chosen instance type, and created, found, listed and deleted through
  the Kubernetes API, which is a parameter.  The code's assignments to the fields of the machine and
  of its provider spec are grouped into one definition per block of the source, in its order.
\<close>

section \<open>Parameters\<close>

text \<open>
  \<open>Create\<close> fills in the object it is given and may return an error; \<open>mp_FormatPrice\<close> is
  \<open>strconv.FormatFloat(_, 'f', 10, 64)\<close>, \<open>mp_ParseIP\<close> whether \<open>net.ParseIP\<close> accepts a string,
  \<open>mp_MarshalText\<close> the text of a JSON document.
\<close>

record ('w, 'q, 'r) machine_env =
  mp_ListMachines :: "('w, Machine list outcome) state"
  mp_Create :: "Machine \<Rightarrow> ('w, Machine \<times> goerr option) state"
  mp_Delete :: "Machine \<Rightarrow> ('w, unit outcome) state"
  mp_RandString :: "('w, string) state"
  mp_quantities :: "'q quantity_ops"
  mp_scheduling :: "('q, 'r) scheduling_ops"
  mp_ZoneFromID :: "string \<Rightarrow> string outcome"
  mp_clusterID :: string
  mp_FormatPrice :: "rat \<Rightarrow> string"
  mp_ParseIP :: "string \<Rightarrow> bool"
  mp_MarshalText :: "json \<Rightarrow> string"

text \<open>\<open>v1.UnregisteredNoExecuteTaint.ToString()\<close>.\<close>

definition UnregisteredNoExecuteTaint :: string where
  "UnregisteredNoExecuteTaint = ''karpenter.sh/unregistered:NoExecute''"

record Tag =
  tg_TagKey :: string
  tg_TagValue :: string

section \<open>Annotations of the form key=value, key=value\<close>

fun target_pairs :: "string list \<Rightarrow> (string, string) entries \<Rightarrow> (string, string) entries" where
  "target_pairs [] kv = kv"
| "target_pairs (anno # annos) kv =
     target_pairs annos (case cut_at (CHR ''='') anno of Some (k, v) \<Rightarrow> put k v kv | None \<Rightarrow> kv)"

definition getTargetAnnotations :: "string \<Rightarrow> gomap \<Rightarrow> gomap" where
  "getTargetAnnotations targetKey annotations =
     (case gm_get annotations targetKey of
        Some val \<Rightarrow> Some (target_pairs (go_split '','' val) [])
      | None \<Rightarrow> None)"

section \<open>Labels\<close>

text \<open>The first value of a requirement; indexing an empty list panics.\<close>

definition first_value :: "string list \<Rightarrow> string outcome" where
  "first_value vs = (case vs of [] \<Rightarrow> Panic | v # _ \<Rightarrow> Ok v)"

definition label_value ::
  "('q, 'r) scheduling_ops \<Rightarrow> 'r \<Rightarrow> string \<Rightarrow> (string, string) entries \<Rightarrow> (string, string) entries outcome" where
  "label_value sc r key labels =
     (if sc_Len sc r key > 0 then omap (\<lambda>v. put key v labels) (first_value (sc_Values sc r key)) else Ok labels)"

definition machine_labels ::
  "('q, 'r) scheduling_ops \<Rightarrow> TKEMachineNodeClass \<Rightarrow> 'q NodeClaim \<Rightarrow> ('q, 'r) InstanceType \<Rightarrow>
   'r Offering option \<Rightarrow> (string, string) entries outcome" where
  "machine_labels sc nodeClass nodeClaim it offer =
     (let r = it_Requirements it in
      obind (label_value sc r LabelInstanceFamily
        [(NodePoolLabelKey, k_Label nodeClaim NodePoolLabelKey),
         (LabelNodeClaim, k_Name nodeClaim), (LabelNodeClass, nc_Name nodeClass)]) (\<lambda>labels.
      obind (label_value sc r LabelInstanceCPU labels) (\<lambda>labels.
      obind (label_value sc r LabelInstanceMemoryGB labels) (\<lambda>labels.
      let labels = (case sc_Values sc r LabelArchStable of
                      v # _ \<Rightarrow> put LabelArchStable v labels | [] \<Rightarrow> labels) in
      Ok (case offer of
            None \<Rightarrow> labels
          | Some x \<Rightarrow>
              if sc_Len sc (of_Requirements x) CapacityTypeLabelKey > 0
              then put CapacityTypeLabelKey (sc_Any sc (of_Requirements x) CapacityTypeLabelKey) labels
              else labels)))))"

definition is_spot :: "(string, string) entries \<Rightarrow> bool" where
  "is_spot labels \<longleftrightarrow> gm_idx (Some labels) CapacityTypeLabelKey = CapacityTypeSpot"

section \<open>Disks and network\<close>

definition annotated :: "gomap \<Rightarrow> string \<Rightarrow> string option" where
  "annotated m k = (case gm_get m k of Some v \<Rightarrow> if v \<noteq> [] then Some v else None | None \<Rightarrow> None)"

definition system_disk :: "TKEMachineNodeClass \<Rightarrow> CXMDisk" where
  "system_disk nodeClass =
     (let annots = om_Annotations (nc_ObjectMeta nodeClass);
          disk = (case ncs_SystemDisk (nc_Spec nodeClass) of
                    Some d \<Rightarrow> zero_CXMDisk\<lparr>cd_DiskSize := sd_Size d, cd_DiskType := sd_Type d\<rparr>
                  | None \<Rightarrow> zero_CXMDisk\<lparr>cd_DiskSize := 50, cd_DiskType := CloudPremiumDiskType\<rparr>);
          disk = (case annotated annots AnnotationSystemDiskEncryptKey of
                    Some encrypt \<Rightarrow> disk\<lparr>cd_Encrypt := encrypt\<rparr> | None \<Rightarrow> disk)
      in case annotated annots AnnotationSystemDiskKMSID of
           Some kmsID \<Rightarrow> disk\<lparr>cd_KmsKeyId := kmsID\<rparr> | None \<Rightarrow> disk)"

definition data_disk :: "gomap \<Rightarrow> nat \<Rightarrow> DataDisk \<Rightarrow> CXMDisk" where
  "data_disk annots i d =
     (let entry = (\<lambda>key. gm_get (getTargetAnnotations key annots) (itoa (int i)));
          disk = zero_CXMDisk\<lparr>cd_DiskType := dd_Type d, cd_DiskSize := dd_Size d,
                   cd_DeleteWithInstance := Some True, cd_FileSystem := FileSystemEXT4\<rparr>;
          disk = (case entry AnnotationDataDisksThroughputKey of
                    Some throughput \<Rightarrow>
                      (case atoi throughput of
                         Some n \<Rightarrow> disk\<lparr>cd_ThroughputPerformance := n\<rparr> | None \<Rightarrow> disk)
                  | None \<Rightarrow> disk);
          disk = (case entry AnnotationDataDisksEncryptKey of Some v \<Rightarrow> disk\<lparr>cd_Encrypt := v\<rparr> | None \<Rightarrow> disk);
          disk = (case entry AnnotationDataDisksKMSID of Some v \<Rightarrow> disk\<lparr>cd_KmsKeyId := v\<rparr> | None \<Rightarrow> disk);
          disk = (case entry AnnotationDataDisksSnapshotID of Some v \<Rightarrow> disk\<lparr>cd_SnapshotId := v\<rparr> | None \<Rightarrow> disk);
          disk = (case entry AnnotationDataDisksImageCacheID of Some v \<Rightarrow> disk\<lparr>cd_ImageCacheId := v\<rparr> | None \<Rightarrow> disk);
          disk = (case dd_FileSystem d of Some fs \<Rightarrow> disk\<lparr>cd_FileSystem := fs\<rparr> | None \<Rightarrow> disk)
      in if length (str_ptr (dd_MountTarget d)) \<noteq> 0
         then disk\<lparr>cd_AutoFormatAndMount := True, cd_MountTarget := path_clean (str_ptr (dd_MountTarget d))\<rparr>
         else disk)"

fun data_disks :: "gomap \<Rightarrow> nat \<Rightarrow> DataDisk list \<Rightarrow> CXMDisk list" where
  "data_disks annots i [] = []"
| "data_disks annots i (d # ds) = data_disk annots i d # data_disks annots (i + 1) ds"

definition internet_accessible :: "bool \<Rightarrow> NcInternetAccessible option \<Rightarrow> InternetAccessible option" where
  "internet_accessible spot ia =
     (case ia of
        None \<Rightarrow> None
      | Some n \<Rightarrow>
          let r = zero_InternetAccessible\<lparr>ia_MaxBandwidthOut := 1, ia_ChargeType := TrafficPostpaidByHour\<rparr>;
              r = (case nia_MaxBandwidthOut n of Some b \<Rightarrow> r\<lparr>ia_MaxBandwidthOut := b\<rparr> | None \<Rightarrow> r);
              r = (case nia_ChargeType n of Some c \<Rightarrow> r\<lparr>ia_ChargeType := c\<rparr> | None \<Rightarrow> r);
              r = (case nia_BandwidthPackageID n of Some p \<Rightarrow> r\<lparr>ia_BandwidthPackageID := p\<rparr> | None \<Rightarrow> r)
          in Some (if spot then r\<lparr>ia_AddressType := PublicIpAddressType, ia_PublicIPAssigned := True\<rparr> else r))"

section \<open>Annotations of the node claim\<close>

definition add_arg :: "string \<Rightarrow> string \<Rightarrow> string \<Rightarrow> string list \<Rightarrow> string list" where
  "add_arg argPrefix k v args =
     (case go_split argPrefix k of [_, name] \<Rightarrow> args @ [name @ ''='' @ v] | _ \<Rightarrow> args)"

definition split_values :: "string \<Rightarrow> string list" where
  "split_values v = go_split '','' (drop_spaces v)"

text \<open>
  One annotation: arguments and hosts by key prefix, then the single keys.  A host alias with an
  invalid address ends the iteration.
\<close>

definition gpu_annotation :: "string \<Rightarrow> string \<Rightarrow> GPUParams \<Rightarrow> GPUParams" where
  "gpu_annotation k v g =
     (let g = (if k = AnnotationGPUDriverKey \<and> length v > 0 then g\<lparr>gpu_Driver := v\<rparr> else g);
          g = (if k = AnnotationGPUCUDAKey \<and> length v > 0 then g\<lparr>gpu_CUDA := v\<rparr> else g);
          g = (if k = AnnotationGPUCUDNNKey \<and> length v > 0 then g\<lparr>gpu_CUDNN := v\<rparr> else g);
          g = (if k = AnnotationGPUMIGEnableKey \<and> v = ''true'' then g\<lparr>gpu_MIGEnable := True\<rparr> else g)
      in if k = AnnotationFabricKey \<and> v = ''true'' then g\<lparr>gpu_Fabric := True\<rparr> else g)"

definition single_keys ::
  "bool \<Rightarrow> string \<Rightarrow> string \<Rightarrow> CXMMachineProviderSpec \<times> MachineSpec \<Rightarrow> CXMMachineProviderSpec \<times> MachineSpec" where
  "single_keys gpu k v st =
     (case st of (ps, ms) \<Rightarrow>
        (let m = ps_Management ps;
             m = (if k = AnnotationNameserversKey \<and> length (split_values v) > 0
                  then m\<lparr>mc_Nameservers := uniq (mc_Nameservers m @ split_values v)\<rparr> else m);
             ps = ps\<lparr>ps_Management := m\<rparr>;
             ps = (if k = AnnotationHostnameKey \<and> length v > 0 then ps\<lparr>ps_HostName := v\<rparr> else ps);
             ms = (if k = AnnotationRuntimeRootKey \<and> length v > 0 then ms\<lparr>ms_RuntimeRootDir := v\<rparr> else ms);
             ms = (if gpu then ms\<lparr>ms_GPUConfig := gpu_annotation k v (ms_GPUConfig ms)\<rparr> else ms)
         in (ps, ms)))"

definition claim_annotation ::
  "(string \<Rightarrow> bool) \<Rightarrow> bool \<Rightarrow> string \<times> string \<Rightarrow> CXMMachineProviderSpec \<times> MachineSpec \<Rightarrow>
   CXMMachineProviderSpec \<times> MachineSpec" where
  "claim_annotation parseIP gpu kv st =
     (case (kv, st) of ((k, v), (ps, ms)) \<Rightarrow>
        let m = ps_Management ps;
            m = m\<lparr>mc_KubeletArgs := add_arg AnnotationKubeletArgPrefix k v (mc_KubeletArgs m)\<rparr>;
            m = m\<lparr>mc_KernelArgs := add_arg AnnotationKernelArgPrefix k v (mc_KernelArgs m)\<rparr>
        in case go_split AnnotationHostsPrefix k of
             [_, ip] \<Rightarrow>
               if \<not> parseIP ip then (ps\<lparr>ps_Management := m\<rparr>, ms)
               else single_keys gpu k v
                      (ps\<lparr>ps_Management := m\<lparr>mc_Hosts := mc_Hosts m @
                         [\<lparr>ha_IP = ip, ha_Hostnames = split_values v\<rparr>]\<rparr>\<rparr>, ms)
           | _ \<Rightarrow> single_keys gpu k v (ps\<lparr>ps_Management := m\<rparr>, ms))"

fun claim_annotations ::
  "(string \<Rightarrow> bool) \<Rightarrow> bool \<Rightarrow> (string, string) entries \<Rightarrow> CXMMachineProviderSpec \<times> MachineSpec \<Rightarrow>
   CXMMachineProviderSpec \<times> MachineSpec" where
  "claim_annotations parseIP gpu [] st = st"
| "claim_annotations parseIP gpu (kv # es) st =
     claim_annotations parseIP gpu es (claim_annotation parseIP gpu kv st)"

section \<open>Annotations of the machine\<close>

definition put_some :: "string \<Rightarrow> string option \<Rightarrow> (string, string) entries \<Rightarrow> (string, string) entries" where
  "put_some k v es = (case v of Some v \<Rightarrow> put k v es | None \<Rightarrow> es)"

text \<open>A resource that is printed only when it is not zero, and one only when it is there.\<close>

definition non_zero :: "'q quantity_ops \<Rightarrow> 'q resource_list \<Rightarrow> string \<Rightarrow> string option" where
  "non_zero q rl name = (if q_IsZero q (rl_get q rl name) then None else Some (q_String q (rl_get q rl name)))"

definition present :: "'q quantity_ops \<Rightarrow> 'q resource_list \<Rightarrow> string \<Rightarrow> string option" where
  "present q rl name = map_option (q_String q) (map_of rl name)"

definition base_annotations ::
  "('w, 'q, 'r) machine_env \<Rightarrow> ('q, 'r) InstanceType \<Rightarrow> rat \<Rightarrow> (string, string) entries" where
  "base_annotations env it price =
     (let q = mp_quantities env; str = (\<lambda>rl name. q_String q (rl_get q rl name)); ov = it_Overhead it in
      [(AnnotationManagedBy, mp_clusterID env),
       (AnnotationUnitPrice, mp_FormatPrice env price),
       (CapacityGroup @ AnnotationCPU, str (it_Capacity it) ResourceCPU),
       (CapacityGroup @ AnnotationMemory, str (it_Capacity it) ResourceMemory),
       (CapacityGroup @ AnnotationPods, str (it_Capacity it) ResourcePods),
       (CapacityGroup @ AnnotationEphemeralStorage, str (it_Capacity it) ResourceEphemeralStorage),
       (KubeReservedGroup @ AnnotationCPU, str (ov_KubeReserved ov) ResourceCPU),
       (KubeReservedGroup @ AnnotationMemory, str (ov_KubeReserved ov) ResourceMemory),
       (EvictionThresholdGroup @ AnnotationMemory, str (ov_EvictionThreshold ov) ResourceMemory),
       (EvictionThresholdGroup @ AnnotationEphemeralStorage,
        str (ov_EvictionThreshold ov) ResourceEphemeralStorage)])"

definition resource_annotations ::
  "('w, 'q, 'r) machine_env \<Rightarrow> ('q, 'r) InstanceType \<Rightarrow> rat \<Rightarrow> (string, string) entries" where
  "resource_annotations env it price =
     (let q = mp_quantities env; cap = it_Capacity it; ov = it_Overhead it;
          es = base_annotations env it price;
          es = put_some (KubeReservedGroup @ AnnotationMemory)
                 (non_zero q (ov_KubeReserved ov) ResourceEphemeralStorage) es;
          es = put_some (SystemReservedGroup @ AnnotationCPU) (non_zero q (ov_SystemReserved ov) ResourceCPU) es;
          es = put_some (SystemReservedGroup @ AnnotationMemory)
                 (non_zero q (ov_SystemReserved ov) ResourceMemory) es;
          es = put_some (SystemReservedGroup @ AnnotationEphemeralStorage)
                 (non_zero q (ov_SystemReserved ov) ResourceEphemeralStorage) es;
          es = put_some (CapacityGroup @ AnnotationENIIP) (present q cap TKELabelENIIP) es;
          es = put_some (CapacityGroup @ AnnotationDirectENI) (present q cap TKELabelDirectENI) es;
          es = put_some (CapacityGroup @ AnnotationENI) (present q cap TKELabelENI) es;
          es = put_some (CapacityGroup @ AnnotationSubENI) (present q cap TKELabelSubENI) es;
          es = put_some (CapacityGroup @ AnnotationEIP) (present q cap TKELabelEIP) es
      in put_some (CapacityGroup @ AnnotationGPUCount) (present q cap ResourceNVIDIAGPU) es)"

definition tag_json :: "Tag \<Rightarrow> json" where
  "tag_json t = JObj [(''tagKey'', JStr (tg_TagKey t)), (''tagValue'', JStr (tg_TagValue t))]"

definition tag_annotation :: "(json \<Rightarrow> string) \<Rightarrow> gomap \<Rightarrow> (string, string) entries \<Rightarrow> (string, string) entries" where
  "tag_annotation marshal tags es =
     (if length (gm_entries tags) \<noteq> 0
      then put AnnotationMachineCloudTag
             (marshal (JArr (map (\<lambda>(k, v). tag_json \<lparr>tg_TagKey = k, tg_TagValue = v\<rparr>) (gm_entries tags)))) es
      else es)"

definition machine_annotations ::
  "('w, 'q, 'r) machine_env \<Rightarrow> TKEMachineNodeClass \<Rightarrow> 'q NodeClaim \<Rightarrow> ('q, 'r) InstanceType \<Rightarrow> rat \<Rightarrow>
   (string, string) entries" where
  "machine_annotations env nodeClass nodeClaim it price =
     puts (tag_annotation (mp_MarshalText env) (ncs_Tags (nc_Spec nodeClass)) (resource_annotations env it price))
       (gm_entries (getTargetAnnotations AnnotationMachineMetaAnnotationsKey
          (om_Annotations (k_ObjectMeta nodeClaim))))"

section \<open>The machine\<close>

definition lifecycle_config :: "LifecycleScript option \<Rightarrow> LifecycleConfig" where
  "lifecycle_config ls =
     (case ls of
        None \<Rightarrow> zero_LifecycleConfig
      | Some s \<Rightarrow>
          let l = (case ls_PreInitScript s of Some v \<Rightarrow> zero_LifecycleConfig\<lparr>lc_PreInit := v\<rparr>
                   | None \<Rightarrow> zero_LifecycleConfig)
          in case ls_PostInitScript s of Some v \<Rightarrow> l\<lparr>lc_PostInit := v\<rparr> | None \<Rightarrow> l)"

definition security_groups :: "TKEMachineNodeClass \<Rightarrow> string list" where
  "security_groups nodeClass =
     (let ids = map sg_ID (nct_SecurityGroups (nc_Status nodeClass))
      in if length ids > 5 then take 5 ids else ids)"

text \<open>The spec before the annotations of the node claim are read.\<close>

definition initial_spec ::
  "TKEMachineNodeClass \<Rightarrow> ('q, 'r) InstanceType \<Rightarrow> bool \<Rightarrow> CXMMachineProviderSpec" where
  "initial_spec nodeClass it spot =
     zero_ProviderSpec\<lparr>
       ps_InstanceChargeType := (if spot then SpotpaidChargeType else PostpaidByHourChargeType),
       ps_InstanceType := it_Name it,
       ps_KeyIDs := map sk_ID (nct_SSHKeys (nc_Status nodeClass)),
       ps_SecurityGroupIDs := security_groups nodeClass,
       ps_SystemDisk := system_disk nodeClass,
       ps_DataDisks := data_disks (om_Annotations (nc_ObjectMeta nodeClass)) 0
                         (ncs_DataDisks (nc_Spec nodeClass)),
       ps_InternetAccessible := internet_accessible spot (ncs_InternetAccessible (nc_Spec nodeClass))\<rparr>"

definition initial_machine_spec :: "'q NodeClaim \<Rightarrow> bool \<Rightarrow> string \<Rightarrow> string \<Rightarrow> MachineSpec" where
  "initial_machine_spec nodeClaim spot zone subnetID =
     zero_MachineSpec\<lparr>
       ms_DisplayName := k_Name nodeClaim, ms_SubnetID := subnetID, ms_Zone := zone,
       ms_ProviderSpec := \<lparr>pv_Type = (if spot then MachineTypeNativeCVM else MachineTypeNative),
                           pv_Value = None\<rparr>\<rparr>"

definition owner_of :: "'q NodeClaim \<Rightarrow> OwnerReference" where
  "owner_of nodeClaim =
     \<lparr>or_APIVersion = k_APIVersion nodeClaim, or_Kind = k_Kind nodeClaim, or_Name = k_Name nodeClaim,
      or_UID = om_UID (k_ObjectMeta nodeClaim)\<rparr>"

text \<open>
  The provider spec and the machine spec after the annotations, with the argument that keeps the
  node tainted until it is registered, and the scripts.
\<close>

definition final_spec ::
  "('w, 'q, 'r) machine_env \<Rightarrow> TKEMachineNodeClass \<Rightarrow> 'q NodeClaim \<Rightarrow> ('q, 'r) InstanceType \<Rightarrow> bool \<Rightarrow>
   string \<Rightarrow> string \<Rightarrow> CXMMachineProviderSpec \<times> MachineSpec" where
  "final_spec env nodeClass nodeClaim it spot zone subnetID =
     (case claim_annotations (mp_ParseIP env) (map_of (it_Capacity it) ResourceNVIDIAGPU \<noteq> None)
             (gm_entries (om_Annotations (k_ObjectMeta nodeClaim)))
             (initial_spec nodeClass it spot, initial_machine_spec nodeClaim spot zone subnetID) of
        (ps, ms) \<Rightarrow>
          let m = ps_Management ps in
          (ps\<lparr>ps_Management := m\<lparr>mc_KubeletArgs := mc_KubeletArgs m @
                [''register-with-taints='' @ UnregisteredNoExecuteTaint]\<rparr>,
              ps_Lifecycle := lifecycle_config (ncs_LifecycleScript (nc_Spec nodeClass))\<rparr>, ms))"

definition new_machine ::
  "('w, 'q, 'r) machine_env \<Rightarrow> TKEMachineNodeClass \<Rightarrow> 'q NodeClaim \<Rightarrow> ('q, 'r) InstanceType \<Rightarrow>
   (string, string) entries \<Rightarrow> rat \<Rightarrow> string \<Rightarrow> string \<Rightarrow> string \<Rightarrow>
   (Machine \<times> CXMMachineProviderSpec) outcome" where
  "new_machine env nodeClass nodeClaim it labels price rand zone subnetID =
     (case final_spec env nodeClass nodeClaim it (is_spot labels) zone subnetID of
        (ps, ms) \<Rightarrow>
          omap (\<lambda>raw.
            (\<lparr>m_ObjectMeta = zero_ObjectMeta\<lparr>
                om_Labels := Some labels, om_GenerateName := ''np-'' @ rand @ ''-'',
                om_OwnerReferences := Some [owner_of nodeClaim],
                om_Annotations := Some (machine_annotations env nodeClass nodeClaim it price)\<rparr>,
              m_Spec = ms\<lparr>
                ms_ProviderSpec := \<lparr>pv_Type = pv_Type (ms_ProviderSpec ms), pv_Value = Some raw\<rparr>,
                ms_ObjectMeta := (ms_ObjectMeta ms)\<lparr>som_Annotations :=
                  getTargetAnnotations AnnotationMachineSpecAnnotationsKey
                    (om_Annotations (k_ObjectMeta nodeClaim))\<rparr>\<rparr>,
              m_Status = zero_MachineStatus\<rparr>, ps))
            (owrap (Wrapf ''converting provider spec to raw extension'')
               (RawExtensionFromProviderSpec (Some ps))))"

section \<open>Create\<close>

fun subnet_in :: "string \<Rightarrow> Subnet list \<Rightarrow> string" where
  "subnet_in zone [] = []"
| "subnet_in zone (z # zs) = (if sn_Zone z = zone then sn_ID z else subnet_in zone zs)"

text \<open>The result of \<open>Create\<close>: machine and spec are also returned along with an error.\<close>

type_synonym created = "Machine option \<times> CXMMachineProviderSpec option \<times> goerr option"

definition create_failed :: "goerr \<Rightarrow> created outcome" where
  "create_failed e = Ok (None, None, Some e)"

text \<open>What is launched: the types in the order of the launch.\<close>

definition launch_order ::
  "('q, 'r) scheduling_ops \<Rightarrow> 'q NodeClaim \<Rightarrow> ('q, 'r) InstanceType list \<Rightarrow>
   ('q, 'r) InstanceType list outcome" where
  "launch_order sc nodeClaim its =
     (let reqs = sc_FromClaim sc (k_Requirements nodeClaim);
          its = (if \<not> sc_HasMinValues sc reqs then filterInstanceTypes sc nodeClaim its else its)
      in obind (owrap (Wrapf ''truncating instance types'') (si_Truncate sc its reqs maxInstanceTypes)) (\<lambda>its.
         if length its = 0 then Err (Errorf ''no instance types available'')
         else Ok (orderInstanceTypesByPrice sc reqs its)))"

text \<open>
  The type and its cheapest offering, the zone of the offering and a subnet there; a type without
  an available compatible offering is a nil dereference.
\<close>

definition launch_place ::
  "('w, 'q, 'r) machine_env \<Rightarrow> TKEMachineNodeClass \<Rightarrow> 'q NodeClaim \<Rightarrow> ('q, 'r) InstanceType list \<Rightarrow>
   (('q, 'r) InstanceType \<times> 'r Offering \<times> string \<times> string) outcome" where
  "launch_place env nodeClass nodeClaim its =
     (let sc = mp_scheduling env; reqs = sc_FromClaim sc (k_Requirements nodeClaim) in
      obind (launch_order sc nodeClaim its) (\<lambda>its.
      let it = hd its in
      case so_Cheapest sc (compatible_offerings sc reqs it) of
        None \<Rightarrow> Panic
      | Some x \<Rightarrow>
          obind (owrap (Describef ''getting zone failed'')
                   (mp_ZoneFromID env (sc_Any sc (of_Requirements x) LabelTopologyZone))) (\<lambda>zone.
          let subnetID = subnet_in zone (nct_Subnets (nc_Status nodeClass)) in
          if length subnetID = 0 then Err (Errorf ''subnet not found'')
          else Ok (it, x, zone, subnetID))))"

definition m_Create ::
  "('w, 'q, 'r) machine_env \<Rightarrow> TKEMachineNodeClass \<Rightarrow> 'q NodeClaim \<Rightarrow> ('q, 'r) InstanceType list \<Rightarrow>
   ('w, created outcome) state" where
  "m_Create env nodeClass nodeClaim its =
     (case launch_place env nodeClass nodeClaim its of
        Err e \<Rightarrow> State_Monad.return (create_failed e)
      | Panic \<Rightarrow> State_Monad.return Panic
      | Ok (it, x, zone, subnetID) \<Rightarrow>
          (case machine_labels (mp_scheduling env) nodeClass nodeClaim it (Some x) of
             Err e \<Rightarrow> State_Monad.return (create_failed e)
           | Panic \<Rightarrow> State_Monad.return Panic
           | Ok labels \<Rightarrow> do {
               rand \<leftarrow> mp_RandString env;
               case new_machine env nodeClass nodeClaim it labels (of_Price x) rand zone subnetID of
                 Err e \<Rightarrow> State_Monad.return (create_failed e)
               | Panic \<Rightarrow> State_Monad.return Panic
               | Ok (machine, ps) \<Rightarrow> do {
                   res \<leftarrow> mp_Create env machine;
                   State_Monad.return (Ok (Some (fst res), Some ps, snd res)) } }))"

section \<open>Get, List and Delete\<close>

fun machine_with_id :: "string \<Rightarrow> Machine list \<Rightarrow> Machine option" where
  "machine_with_id providerID [] = None"
| "machine_with_id providerID (m # ms) =
     (if ms_ProviderID (m_Spec m) = Some providerID then Some m else machine_with_id providerID ms)"

definition m_Get :: "('w, 'q, 'r) machine_env \<Rightarrow> string \<Rightarrow> ('w, Machine outcome) state" where
  "m_Get env providerID = do {
     resp \<leftarrow> mp_ListMachines env;
     State_Monad.return (case resp of
       Panic \<Rightarrow> Panic
     | Err e \<Rightarrow> Err (Wrapf ''unable to list machines during Machine Provider Get request'' e)
     | Ok ms \<Rightarrow>
         (case machine_with_id providerID ms of
            Some m \<Rightarrow> Ok m
          | None \<Rightarrow> Err (NodeClaimNotFoundErr (Errorf ''machine with providerID not found'')))) }"

fun owned_loop :: "Machine \<Rightarrow> OwnerReference list \<Rightarrow> Machine list" where
  "owned_loop m [] = []"
| "owned_loop m (r # rs) = (if or_Kind r = ''NodeClaim'' then m # owned_loop m rs else owned_loop m rs)"

fun list_loop :: "Machine list \<Rightarrow> Machine list" where
  "list_loop [] = []"
| "list_loop (m # ms) = owned_loop m (owners (m_ObjectMeta m)) @ list_loop ms"

definition m_List :: "('w, 'q, 'r) machine_env \<Rightarrow> ('w, Machine list outcome) state" where
  "m_List env = do {
     resp \<leftarrow> mp_ListMachines env;
     State_Monad.return (omap list_loop resp) }"

definition owned_by :: "string \<Rightarrow> Machine \<Rightarrow> bool" where
  "owned_by name m = list_ex (\<lambda>r. or_Kind r = ''NodeClaim'' \<and> or_Name r = name) (owners (m_ObjectMeta m))"

definition m_Delete :: "('w, 'q, 'r) machine_env \<Rightarrow> 'q NodeClaim \<Rightarrow> ('w, unit outcome) state" where
  "m_Delete env nodeClaim =
     (if length (k_ProviderID nodeClaim) \<noteq> 0
      then sbind (m_Get env (k_ProviderID nodeClaim)) (\<lambda>machine. mp_Delete env machine)
      else sbind (mp_ListMachines env) (\<lambda>ms.
             if length ms = 0
             then State_Monad.return (Err (NodeClaimNotFoundErr (Errorf ''machine for nodeclaim not found'')))
             else case find (owned_by (k_Name nodeClaim)) ms of
                    Some m \<Rightarrow> mp_Delete env m
                  | None \<Rightarrow> State_Monad.return (Ok ())))"

section \<open>Reading annotations, field by field\<close>

text \<open>The keys with a meaning of their own are not host aliases.\<close>

lemma host_prefix_no_key:
  "go_split AnnotationHostsPrefix k \<noteq> [a, b]"
  if "k \<in> {AnnotationNameserversKey, AnnotationHostnameKey, AnnotationRuntimeRootKey,
        AnnotationGPUDriverKey, AnnotationGPUCUDAKey, AnnotationGPUCUDNNKey, AnnotationGPUMIGEnableKey,
        AnnotationFabricKey}"
proof -
  have "list_all (\<lambda>k. length (go_split AnnotationHostsPrefix k) \<noteq> 2)
     [AnnotationNameserversKey, AnnotationHostnameKey, AnnotationRuntimeRootKey, AnnotationGPUDriverKey,
      AnnotationGPUCUDAKey, AnnotationGPUCUDNNKey, AnnotationGPUMIGEnableKey, AnnotationFabricKey]"
    by code_simp
  then show ?thesis using that by (auto simp: list_all_iff)
qed

definition host_alias :: "(string \<Rightarrow> bool) \<Rightarrow> string \<times> string \<Rightarrow> HostAlias option" where
  "host_alias parseIP kv = (case kv of (k, v) \<Rightarrow>
     (case go_split AnnotationHostsPrefix k of
        [_, ip] \<Rightarrow> if parseIP ip then Some \<lparr>ha_IP = ip, ha_Hostnames = split_values v\<rparr> else None
      | _ \<Rightarrow> None))"

definition arg_of :: "string \<Rightarrow> string \<times> string \<Rightarrow> string option" where
  "arg_of argPrefix kv = (case kv of (k, v) \<Rightarrow>
     (case go_split argPrefix k of [_, name] \<Rightarrow> Some (name @ ''='' @ v) | _ \<Rightarrow> None))"

lemma add_arg_eq: "add_arg p k v args = args @ (case arg_of p (k, v) of Some a \<Rightarrow> [a] | None \<Rightarrow> [])"
  by (simp add: add_arg_def arg_of_def split: list.splits)

lemma single_keys_frame:
  "fst (single_keys gpu k v (ps, ms)) = ps\<lparr>
     ps_Management := ps_Management (fst (single_keys gpu k v (ps, ms))),
     ps_HostName := ps_HostName (fst (single_keys gpu k v (ps, ms)))\<rparr>"
  "snd (single_keys gpu k v (ps, ms)) = ms\<lparr>
     ms_RuntimeRootDir := (if k = AnnotationRuntimeRootKey \<and> v \<noteq> [] then v else ms_RuntimeRootDir ms),
     ms_GPUConfig := (if gpu then gpu_annotation k v (ms_GPUConfig ms) else ms_GPUConfig ms)\<rparr>"
  by (simp_all add: single_keys_def Let_def)

lemma single_keys_fields:
  "mc_KubeletArgs (ps_Management (fst (single_keys gpu k v (ps, ms)))) = mc_KubeletArgs (ps_Management ps)"
  "mc_KernelArgs (ps_Management (fst (single_keys gpu k v (ps, ms)))) = mc_KernelArgs (ps_Management ps)"
  "mc_Hosts (ps_Management (fst (single_keys gpu k v (ps, ms)))) = mc_Hosts (ps_Management ps)"
  "mc_Nameservers (ps_Management (fst (single_keys gpu k v (ps, ms)))) =
     (if k = AnnotationNameserversKey then uniq (mc_Nameservers (ps_Management ps) @ split_values v)
      else mc_Nameservers (ps_Management ps))"
  "ps_HostName (fst (single_keys gpu k v (ps, ms))) =
     (if k = AnnotationHostnameKey \<and> v \<noteq> [] then v else ps_HostName ps)"
  by (simp_all add: single_keys_def Let_def split_values_def)

lemma single_keys_other:
  assumes "go_split AnnotationHostsPrefix k = [a, b]"
  shows "fst (single_keys gpu k v (ps, ms)) = ps" "snd (single_keys gpu k v (ps, ms)) = ms"
proof -
  have "k \<notin> {AnnotationNameserversKey, AnnotationHostnameKey, AnnotationRuntimeRootKey,
        AnnotationGPUDriverKey, AnnotationGPUCUDAKey, AnnotationGPUCUDNNKey, AnnotationGPUMIGEnableKey,
        AnnotationFabricKey}"
    using assms host_prefix_no_key by metis
  then show "fst (single_keys gpu k v (ps, ms)) = ps" "snd (single_keys gpu k v (ps, ms)) = ms"
    by (simp_all add: single_keys_def gpu_annotation_def)
qed

text \<open>
  An iteration is the single keys applied after the arguments and the host alias: an alias that ends
  the iteration early has none of the single keys.
\<close>

definition list_keys_of ::
  "(string \<Rightarrow> bool) \<Rightarrow> string \<times> string \<Rightarrow> ManagementConfig \<Rightarrow> ManagementConfig" where
  "list_keys_of parseIP kv m =
     m\<lparr>mc_KubeletArgs := mc_KubeletArgs m @ (case arg_of AnnotationKubeletArgPrefix kv of Some a \<Rightarrow> [a] | None \<Rightarrow> []),
       mc_KernelArgs := mc_KernelArgs m @ (case arg_of AnnotationKernelArgPrefix kv of Some a \<Rightarrow> [a] | None \<Rightarrow> []),
       mc_Hosts := mc_Hosts m @ (case host_alias parseIP kv of Some h \<Rightarrow> [h] | None \<Rightarrow> [])\<rparr>"

lemma claim_annotation_eq:
  "claim_annotation parseIP gpu (k, v) (ps, ms) =
     single_keys gpu k v (ps\<lparr>ps_Management := list_keys_of parseIP (k, v) (ps_Management ps)\<rparr>, ms)"
proof (cases "\<exists>a b. go_split AnnotationHostsPrefix k = [a, b]")
  case True
  then obtain a b where ab: "go_split AnnotationHostsPrefix k = [a, b]" by blast
  then show ?thesis
    using single_keys_other [OF ab]
    by (simp add: claim_annotation_def list_keys_of_def host_alias_def add_arg_eq prod_eq_iff Let_def)
next
  case False
  then show ?thesis
    by (simp add: claim_annotation_def list_keys_of_def host_alias_def add_arg_eq Let_def split: list.splits)
qed

lemma claim_annotation_fields:
  "mc_KubeletArgs (ps_Management (fst (claim_annotation parseIP gpu kv st))) =
     mc_KubeletArgs (ps_Management (fst st)) @
       (case arg_of AnnotationKubeletArgPrefix kv of Some a \<Rightarrow> [a] | None \<Rightarrow> [])"
  "mc_KernelArgs (ps_Management (fst (claim_annotation parseIP gpu kv st))) =
     mc_KernelArgs (ps_Management (fst st)) @
       (case arg_of AnnotationKernelArgPrefix kv of Some a \<Rightarrow> [a] | None \<Rightarrow> [])"
  "mc_Hosts (ps_Management (fst (claim_annotation parseIP gpu kv st))) =
     mc_Hosts (ps_Management (fst st)) @ (case host_alias parseIP kv of Some h \<Rightarrow> [h] | None \<Rightarrow> [])"
  "mc_Nameservers (ps_Management (fst (claim_annotation parseIP gpu kv st))) =
     (if fst kv = AnnotationNameserversKey
      then uniq (mc_Nameservers (ps_Management (fst st)) @ split_values (snd kv))
      else mc_Nameservers (ps_Management (fst st)))"
  "ps_HostName (fst (claim_annotation parseIP gpu kv st)) =
     (if fst kv = AnnotationHostnameKey \<and> snd kv \<noteq> [] then snd kv else ps_HostName (fst st))"
  "fst (claim_annotation parseIP gpu kv st) = (fst st)\<lparr>
     ps_Management := ps_Management (fst (claim_annotation parseIP gpu kv st)),
     ps_HostName := ps_HostName (fst (claim_annotation parseIP gpu kv st))\<rparr>"
  "snd (claim_annotation parseIP gpu kv st) = (snd st)\<lparr>
     ms_RuntimeRootDir := (if fst kv = AnnotationRuntimeRootKey \<and> snd kv \<noteq> [] then snd kv
                           else ms_RuntimeRootDir (snd st)),
     ms_GPUConfig := (if gpu then gpu_annotation (fst kv) (snd kv) (ms_GPUConfig (snd st))
                      else ms_GPUConfig (snd st))\<rparr>"
proof -
  obtain k v ps ms where kv: "kv = (k, v)" and st: "st = (ps, ms)" by (cases kv, cases st)
  note eq = claim_annotation_eq [of parseIP gpu k v ps ms]
  show "mc_KubeletArgs (ps_Management (fst (claim_annotation parseIP gpu kv st))) =
     mc_KubeletArgs (ps_Management (fst st)) @
       (case arg_of AnnotationKubeletArgPrefix kv of Some a \<Rightarrow> [a] | None \<Rightarrow> [])"
    by (simp add: kv st eq single_keys_fields list_keys_of_def)
  show "mc_KernelArgs (ps_Management (fst (claim_annotation parseIP gpu kv st))) =
     mc_KernelArgs (ps_Management (fst st)) @
       (case arg_of AnnotationKernelArgPrefix kv of Some a \<Rightarrow> [a] | None \<Rightarrow> [])"
    by (simp add: kv st eq single_keys_fields list_keys_of_def)
  show "mc_Hosts (ps_Management (fst (claim_annotation parseIP gpu kv st))) =
     mc_Hosts (ps_Management (fst st)) @ (case host_alias parseIP kv of Some h \<Rightarrow> [h] | None \<Rightarrow> [])"
    by (simp add: kv st eq single_keys_fields list_keys_of_def)
  show "mc_Nameservers (ps_Management (fst (claim_annotation parseIP gpu kv st))) =
     (if fst kv = AnnotationNameserversKey
      then uniq (mc_Nameservers (ps_Management (fst st)) @ split_values (snd kv))
      else mc_Nameservers (ps_Management (fst st)))"
    by (simp add: kv st eq single_keys_fields list_keys_of_def)
  show "ps_HostName (fst (claim_annotation parseIP gpu kv st)) =
     (if fst kv = AnnotationHostnameKey \<and> snd kv \<noteq> [] then snd kv else ps_HostName (fst st))"
    by (simp add: kv st eq single_keys_fields)
  show "fst (claim_annotation parseIP gpu kv st) = (fst st)\<lparr>
     ps_Management := ps_Management (fst (claim_annotation parseIP gpu kv st)),
     ps_HostName := ps_HostName (fst (claim_annotation parseIP gpu kv st))\<rparr>"
    unfolding kv st eq fst_conv by (subst single_keys_frame(1)) simp
  show "snd (claim_annotation parseIP gpu kv st) = (snd st)\<lparr>
     ms_RuntimeRootDir := (if fst kv = AnnotationRuntimeRootKey \<and> snd kv \<noteq> [] then snd kv
                           else ms_RuntimeRootDir (snd st)),
     ms_GPUConfig := (if gpu then gpu_annotation (fst kv) (snd kv) (ms_GPUConfig (snd st))
                      else ms_GPUConfig (snd st))\<rparr>"
    unfolding kv st eq by (simp add: single_keys_frame(2))
qed

text \<open>The value a key ends up with: only its own entry changes it.\<close>

definition at_key :: "string \<Rightarrow> (string \<Rightarrow> 'x \<Rightarrow> 'x) \<Rightarrow> (string, string) entries \<Rightarrow> 'x \<Rightarrow> 'x" where
  "at_key key f es x = (case map_of es key of None \<Rightarrow> x | Some v \<Rightarrow> f v x)"

lemma at_key_Nil [simp]: "at_key key f [] x = x"
  by (simp add: at_key_def)

lemma at_key_Cons:
  "distinct_keys (kv # es) \<Longrightarrow>
     at_key key f (kv # es) x = at_key key f es (if fst kv = key then f (snd kv) x else x)"
proof -
  assume "distinct_keys (kv # es)"
  then have "map_of es (fst kv) = None"
    by (simp add: distinct_keys_def map_of_eq_None_iff)
  then show "at_key key f (kv # es) x = at_key key f es (if fst kv = key then f (snd kv) x else x)"
    by (cases kv) (auto simp: at_key_def)
qed

lemma distinct_keys_Cons: "distinct_keys (kv # es) \<Longrightarrow> distinct_keys es"
  by (simp add: distinct_keys_def)

lemma at_key_perm: "distinct_keys es \<Longrightarrow> mset es = mset fs \<Longrightarrow> at_key key f es = at_key key f fs"
  by (simp add: at_key_def map_of_perm fun_eq_iff)

definition set_text :: "string \<Rightarrow> string \<Rightarrow> string" where
  "set_text v old = (if v \<noteq> [] then v else old)"

definition set_flag :: "string \<Rightarrow> bool \<Rightarrow> bool" where
  "set_flag v old \<longleftrightarrow> v = ''true'' \<or> old"

lemma gpu_annotation_fields:
  "gpu_Driver (gpu_annotation k v g) = (if k = AnnotationGPUDriverKey then set_text v (gpu_Driver g) else gpu_Driver g)"
  "gpu_CUDA (gpu_annotation k v g) = (if k = AnnotationGPUCUDAKey then set_text v (gpu_CUDA g) else gpu_CUDA g)"
  "gpu_CUDNN (gpu_annotation k v g) = (if k = AnnotationGPUCUDNNKey then set_text v (gpu_CUDNN g) else gpu_CUDNN g)"
  "gpu_MIGEnable (gpu_annotation k v g) =
     (if k = AnnotationGPUMIGEnableKey then set_flag v (gpu_MIGEnable g) else gpu_MIGEnable g)"
  "gpu_Fabric (gpu_annotation k v g) =
     (if k = AnnotationFabricKey then set_flag v (gpu_Fabric g) else gpu_Fabric g)"
  by (simp_all add: gpu_annotation_def set_text_def set_flag_def Let_def)

text \<open>The loop, field by field.\<close>

lemma claim_annotations_frame:
  "fst (claim_annotations parseIP gpu es st) = (fst st)\<lparr>
     ps_Management := ps_Management (fst (claim_annotations parseIP gpu es st)),
     ps_HostName := ps_HostName (fst (claim_annotations parseIP gpu es st))\<rparr>"
  "snd (claim_annotations parseIP gpu es st) = (snd st)\<lparr>
     ms_RuntimeRootDir := ms_RuntimeRootDir (snd (claim_annotations parseIP gpu es st)),
     ms_GPUConfig := ms_GPUConfig (snd (claim_annotations parseIP gpu es st))\<rparr>"
proof (induction es arbitrary: st)
  case Nil
  { case 1 show ?case by simp }
  { case 2 show ?case by simp }
next
  case (Cons kv es)
  let ?st = "claim_annotation parseIP gpu kv st"
  { case 1
    show ?case
      unfolding claim_annotations.simps
      by (subst Cons.IH(1), subst claim_annotation_fields(6)) simp }
  { case 2
    show ?case
      unfolding claim_annotations.simps
      by (subst Cons.IH(2), subst claim_annotation_fields(7)) simp }
qed

lemma claim_annotations_lists:
  "mc_KubeletArgs (ps_Management (fst (claim_annotations parseIP gpu es st))) =
     mc_KubeletArgs (ps_Management (fst st)) @ List.map_filter (arg_of AnnotationKubeletArgPrefix) es"
  "mc_KernelArgs (ps_Management (fst (claim_annotations parseIP gpu es st))) =
     mc_KernelArgs (ps_Management (fst st)) @ List.map_filter (arg_of AnnotationKernelArgPrefix) es"
  "mc_Hosts (ps_Management (fst (claim_annotations parseIP gpu es st))) =
     mc_Hosts (ps_Management (fst st)) @ List.map_filter (host_alias parseIP) es"
  by (induction es arbitrary: st) (simp_all add: claim_annotation_fields(1-3) map_filter_simps split: option.split)

lemma claim_annotations_keys:
  assumes "distinct_keys es"
  shows "mc_Nameservers (ps_Management (fst (claim_annotations parseIP gpu es st))) =
      at_key AnnotationNameserversKey (\<lambda>v ns. uniq (ns @ split_values v)) es
        (mc_Nameservers (ps_Management (fst st)))"
    and "ps_HostName (fst (claim_annotations parseIP gpu es st)) =
      at_key AnnotationHostnameKey set_text es (ps_HostName (fst st))"
    and "ms_RuntimeRootDir (snd (claim_annotations parseIP gpu es st)) =
      at_key AnnotationRuntimeRootKey set_text es (ms_RuntimeRootDir (snd st))"
  using assms
  by (induction es arbitrary: st)
    (simp_all add: claim_annotation_fields(4,5,7) at_key_Cons distinct_keys_Cons set_text_def)

lemma claim_annotations_gpu:
  assumes "distinct_keys es"
  shows "gpu_Driver (ms_GPUConfig (snd (claim_annotations parseIP True es st))) =
      at_key AnnotationGPUDriverKey set_text es (gpu_Driver (ms_GPUConfig (snd st)))"
    and "gpu_CUDA (ms_GPUConfig (snd (claim_annotations parseIP True es st))) =
      at_key AnnotationGPUCUDAKey set_text es (gpu_CUDA (ms_GPUConfig (snd st)))"
    and "gpu_CUDNN (ms_GPUConfig (snd (claim_annotations parseIP True es st))) =
      at_key AnnotationGPUCUDNNKey set_text es (gpu_CUDNN (ms_GPUConfig (snd st)))"
    and "gpu_MIGEnable (ms_GPUConfig (snd (claim_annotations parseIP True es st))) =
      at_key AnnotationGPUMIGEnableKey set_flag es (gpu_MIGEnable (ms_GPUConfig (snd st)))"
    and "gpu_Fabric (ms_GPUConfig (snd (claim_annotations parseIP True es st))) =
      at_key AnnotationFabricKey set_flag es (gpu_Fabric (ms_GPUConfig (snd st)))"
  using assms
  by (induction es arbitrary: st)
    (simp_all add: claim_annotation_fields(7) gpu_annotation_fields at_key_Cons distinct_keys_Cons)

lemma claim_annotations_no_gpu:
  "ms_GPUConfig (snd (claim_annotations parseIP False es st)) = ms_GPUConfig (snd st)"
  by (induction es arbitrary: st) (simp_all add: claim_annotation_fields(7))

lemma mset_map_filter: "mset es = mset fs \<Longrightarrow> mset (List.map_filter f es) = mset (List.map_filter f fs)"
  unfolding List.map_filter_def mset_map mset_filter by simp

section \<open>The calls of the provider\<close>

datatype machine_call =
    Created Machine "Machine \<times> goerr option"
  | Deleted Machine "unit outcome"

definition logged_machines :: "('w, 'q, 'r) machine_env \<Rightarrow> ('w \<times> machine_call list, 'q, 'r) machine_env" where
  "logged_machines env =
     \<lparr>mp_ListMachines = lifted (mp_ListMachines env),
      mp_Create = \<lambda>m. logged (Created m) (mp_Create env m),
      mp_Delete = \<lambda>m. logged (Deleted m) (mp_Delete env m),
      mp_RandString = lifted (mp_RandString env),
      mp_quantities = mp_quantities env, mp_scheduling = mp_scheduling env,
      mp_ZoneFromID = mp_ZoneFromID env, mp_clusterID = mp_clusterID env,
      mp_FormatPrice = mp_FormatPrice env, mp_ParseIP = mp_ParseIP env,
      mp_MarshalText = mp_MarshalText env\<rparr>"

lemma logged_machines_fields [simp]:
  "mp_scheduling (logged_machines env) = mp_scheduling env"
  "mp_ZoneFromID (logged_machines env) = mp_ZoneFromID env"
  by (simp_all add: logged_machines_def)

lemma launch_place_logged [simp]: "launch_place (logged_machines env) = launch_place env"
  unfolding launch_place_def logged_machines_fields ..

lemma new_machine_logged [simp]: "new_machine (logged_machines env) = new_machine env"
  by (simp add: new_machine_def final_spec_def machine_annotations_def resource_annotations_def
      base_annotations_def logged_machines_def fun_eq_iff)

lemma subnet_in_set: "subnet_in zone zs \<noteq> [] \<Longrightarrow> \<exists>z \<in> set zs. sn_Zone z = zone \<and> sn_ID z = subnet_in zone zs"
  by (induction zs) auto

text \<open>The head of a list sorted by a strict weak order.\<close>

lemma sorted_insert_weak:
  assumes trans: "\<And>x y z. \<not> lt y x \<Longrightarrow> \<not> lt z y \<Longrightarrow> \<not> lt z x" and asym: "\<And>x y. lt x y \<Longrightarrow> \<not> lt y x"
    and "sorted_wrt (\<lambda>a b. \<not> lt b a) xs"
  shows "sorted_wrt (\<lambda>a b. \<not> lt b a) (insert_by lt x xs)"
  using assms(3)
proof (induction xs)
  case Nil
  then show ?case by simp
next
  case (Cons y ys)
  show ?case
  proof (cases "lt y x")
    case True
    then show ?thesis using Cons asym [OF True] by simp
  next
    case False
    then have "\<not> lt z x" if "z \<in> set ys" for z
      using that Cons.prems trans [of y x z] by simp
    then show ?thesis using False Cons.prems by simp
  qed
qed

lemma hd_sort_by:
  assumes "it \<in> set (sort_by lt xs)" "\<And>x y z. \<not> lt y x \<Longrightarrow> \<not> lt z y \<Longrightarrow> \<not> lt z x"
    and asym: "\<And>x y. lt x y \<Longrightarrow> \<not> lt y x"
  shows "\<not> lt it (hd (sort_by lt xs))"
proof -
  have "sorted_wrt (\<lambda>a b. \<not> lt b a) (sort_by lt xs)"
    by (induction xs) (simp_all add: sorted_insert_weak [OF assms(2,3)])
  then show ?thesis using assms(1) asym by (cases "sort_by lt xs") auto
qed

lemma launch_order_Ok:
  assumes laws: "offering_laws sc" and run: "launch_order sc nc its = Ok ys"
  shows "ys \<noteq> []" "set ys \<subseteq> set its"
    "\<And>it. it \<in> set ys \<Longrightarrow> \<not> price_before sc (sc_FromClaim sc (k_Requirements nc)) it (hd ys)"
proof -
  let ?reqs = "sc_FromClaim sc (k_Requirements nc)"
  obtain xs where xs: "si_Truncate sc (if \<not> sc_HasMinValues sc ?reqs then filterInstanceTypes sc nc its else its)
      ?reqs maxInstanceTypes = Ok xs" "xs \<noteq> []" "ys = orderInstanceTypesByPrice sc ?reqs xs"
    using run by (auto simp: launch_order_def Let_def split: if_splits)
  have "set xs \<subseteq> set (if \<not> sc_HasMinValues sc ?reqs then filterInstanceTypes sc nc its else its)"
    by (rule offering_lawsD(6) [OF laws xs(1)])
  also have "\<dots> \<subseteq> set its"
    by (auto simp: filterInstanceTypes_def filterUnwantedSpot_def Let_def)
  finally have sub: "set xs \<subseteq> set its" .
  have set: "set ys = set xs" by (simp add: xs(3) orderInstanceTypesByPrice_def)
  show "ys \<noteq> []" "set ys \<subseteq> set its" using set xs(2) sub by auto
  show "\<not> price_before sc ?reqs it (hd ys)" if "it \<in> set ys" for it
    using that unfolding xs(3) orderInstanceTypesByPrice_def
    by (rule hd_sort_by) (auto simp: price_before_def Let_def split: if_splits)
qed

lemma final_spec_fields:
  assumes "final_spec env nodeClass nodeClaim it spot zone subnetID = (ps, ms)"
  shows "ps_InstanceType ps = it_Name it" "ps_SecurityGroupIDs ps = security_groups nodeClass"
    "ps_InstanceChargeType ps = (if spot then SpotpaidChargeType else PostpaidByHourChargeType)"
    "last (mc_KubeletArgs (ps_Management ps)) = ''register-with-taints='' @ UnregisteredNoExecuteTaint"
    "ms_Zone ms = zone" "ms_SubnetID ms = subnetID" "ms_DisplayName ms = k_Name nodeClaim"
    "pv_Type (ms_ProviderSpec ms) = (if spot then MachineTypeNativeCVM else MachineTypeNative)"
proof -
  let ?st = "(initial_spec nodeClass it spot, initial_machine_spec nodeClaim spot zone subnetID)"
  obtain ps0 ms0 where run: "claim_annotations (mp_ParseIP env) (map_of (it_Capacity it) ResourceNVIDIAGPU \<noteq> None)
      (gm_entries (om_Annotations (k_ObjectMeta nodeClaim))) ?st = (ps0, ms0)" by fastforce
  note frame = claim_annotations_frame [of "mp_ParseIP env" "map_of (it_Capacity it) ResourceNVIDIAGPU \<noteq> None"
      "gm_entries (om_Annotations (k_ObjectMeta nodeClaim))" ?st, unfolded run fst_conv snd_conv]
  have ps0: "ps_InstanceType ps0 = it_Name it" "ps_SecurityGroupIDs ps0 = security_groups nodeClass"
    "ps_InstanceChargeType ps0 = (if spot then SpotpaidChargeType else PostpaidByHourChargeType)"
    by (subst frame(1), simp add: initial_spec_def)+
  have ms0: "ms_Zone ms0 = zone" "ms_SubnetID ms0 = subnetID" "ms_DisplayName ms0 = k_Name nodeClaim"
    "pv_Type (ms_ProviderSpec ms0) = (if spot then MachineTypeNativeCVM else MachineTypeNative)"
    by (subst frame(2), simp add: initial_machine_spec_def)+
  have fin: "ps = ps0\<lparr>ps_Management := (ps_Management ps0)\<lparr>mc_KubeletArgs := mc_KubeletArgs (ps_Management ps0) @
                [''register-with-taints='' @ UnregisteredNoExecuteTaint]\<rparr>,
              ps_Lifecycle := lifecycle_config (ncs_LifecycleScript (nc_Spec nodeClass))\<rparr>" "ms = ms0"
    using assms run by (simp_all add: final_spec_def Let_def)
  show "ps_InstanceType ps = it_Name it" "ps_SecurityGroupIDs ps = security_groups nodeClass"
    "ps_InstanceChargeType ps = (if spot then SpotpaidChargeType else PostpaidByHourChargeType)"
    "last (mc_KubeletArgs (ps_Management ps)) = ''register-with-taints='' @ UnregisteredNoExecuteTaint"
    unfolding fin(1) using ps0 by simp_all
  show "ms_Zone ms = zone" "ms_SubnetID ms = subnetID" "ms_DisplayName ms = k_Name nodeClaim"
    "pv_Type (ms_ProviderSpec ms) = (if spot then MachineTypeNativeCVM else MachineTypeNative)"
    unfolding fin(2) using ms0 by simp_all
qed

text \<open>What a launched machine looks like.\<close>

definition machine_coherent ::
  "TKEMachineNodeClass \<Rightarrow> 'q NodeClaim \<Rightarrow> ('q, 'r) InstanceType \<Rightarrow> CXMMachineProviderSpec \<Rightarrow> Machine \<Rightarrow> bool" where
  "machine_coherent nodeClass nodeClaim it ps machine \<longleftrightarrow>
     (let ms = m_Spec machine; spot = (m_Label machine CapacityTypeLabelKey = CapacityTypeSpot) in
      (\<exists>s \<in> set (nct_Subnets (nc_Status nodeClass)).
         sn_Zone s = ms_Zone ms \<and> sn_ID s = ms_SubnetID ms \<and> ms_SubnetID ms \<noteq> []) \<and>
      pv_Type (ms_ProviderSpec ms) = (if spot then MachineTypeNativeCVM else MachineTypeNative) \<and>
      ps_InstanceChargeType ps = (if spot then SpotpaidChargeType else PostpaidByHourChargeType) \<and>
      ps_InstanceType ps = it_Name it \<and>
      ps_SecurityGroupIDs ps = take 5 (map sg_ID (nct_SecurityGroups (nc_Status nodeClass))) \<and>
      last (mc_KubeletArgs (ps_Management ps)) = ''register-with-taints='' @ UnregisteredNoExecuteTaint \<and>
      pv_Value (ms_ProviderSpec ms) = Some (Some (enc_ProviderSpec ps)) \<and>
      om_OwnerReferences (m_ObjectMeta machine) = Some [owner_of nodeClaim])"

lemma new_machine_Ok:
  assumes "new_machine env nodeClass nodeClaim it labels price rand zone subnetID = Ok (machine, ps)"
    and "s \<in> set (nct_Subnets (nc_Status nodeClass))" "sn_Zone s = zone" "sn_ID s = subnetID" "subnetID \<noteq> []"
  shows "machine_coherent nodeClass nodeClaim it ps machine" "ms_Zone (m_Spec machine) = zone"
    "om_Labels (m_ObjectMeta machine) = Some labels"
proof -
  obtain ms where fin: "final_spec env nodeClass nodeClaim it (is_spot labels) zone subnetID = (ps, ms)"
    and m: "om_Labels (m_ObjectMeta machine) = Some labels" "ms_Zone (m_Spec machine) = ms_Zone ms"
      "ms_SubnetID (m_Spec machine) = ms_SubnetID ms"
      "pv_Type (ms_ProviderSpec (m_Spec machine)) = pv_Type (ms_ProviderSpec ms)"
      "pv_Value (ms_ProviderSpec (m_Spec machine)) = Some (Some (enc_ProviderSpec ps))"
      "om_OwnerReferences (m_ObjectMeta machine) = Some [owner_of nodeClaim]"
    using assms(1) by (auto simp: new_machine_def RawExtensionFromProviderSpec_def split: prod.splits)
  note f = final_spec_fields [OF fin]
  have spot: "is_spot labels \<longleftrightarrow> m_Label machine CapacityTypeLabelKey = CapacityTypeSpot"
    by (simp add: is_spot_def m_Label_def m(1))
  show "machine_coherent nodeClass nodeClaim it ps machine"
    unfolding machine_coherent_def Let_def spot [symmetric]
    using m f assms(2-5) by (auto simp: security_groups_def Let_def)
  show "ms_Zone (m_Spec machine) = zone" "om_Labels (m_ObjectMeta machine) = Some labels"
    using m f by simp_all
qed

text \<open>A launch step by step: what has succeeded when a machine is created.\<close>

lemma launch_place_Ok:
  assumes laws: "offering_laws (mp_scheduling env)"
    and place: "launch_place env nodeClass nodeClaim its = Ok (it, x, zone, subnetID)"
  obtains ys where "launch_order (mp_scheduling env) nodeClaim its = Ok ys" "it = hd ys" "it \<in> set ys" "it \<in> set its"
    "x \<in> set (it_Offerings it)" "of_Available x"
    "of_Price x = compatible_price (mp_scheduling env) (sc_FromClaim (mp_scheduling env) (k_Requirements nodeClaim)) it"
    "\<And>it'. it' \<in> set ys \<Longrightarrow>
       of_Price x \<le> compatible_price (mp_scheduling env) (sc_FromClaim (mp_scheduling env) (k_Requirements nodeClaim)) it'"
    "mp_ZoneFromID env (sc_Any (mp_scheduling env) (of_Requirements x) LabelTopologyZone) = Ok zone"
    "subnetID \<noteq> []" "\<exists>s \<in> set (nct_Subnets (nc_Status nodeClass)). sn_Zone s = zone \<and> sn_ID s = subnetID"
proof -
  let ?sc = "mp_scheduling env" and ?reqs = "sc_FromClaim (mp_scheduling env) (k_Requirements nodeClaim)"
  obtain ys where ys: "launch_order ?sc nodeClaim its = Ok ys" "it = hd ys"
    and x: "so_Cheapest ?sc (compatible_offerings ?sc ?reqs it) = Some x"
    and zone: "mp_ZoneFromID env (sc_Any ?sc (of_Requirements x) LabelTopologyZone) = Ok zone"
    and subnet: "subnetID = subnet_in zone (nct_Subnets (nc_Status nodeClass))" "subnetID \<noteq> []"
    using place by (auto simp: launch_place_def Let_def split: option.splits if_splits)
  note order = launch_order_Ok [OF laws ys(1)]
  have it: "it \<in> set its" "it \<in> set ys" using order(1,2) ys(2) by (auto simp: hd_in_set)
  have xin: "x \<in> set (compatible_offerings ?sc ?reqs it)" by (rule offering_lawsD(4) [OF laws x])
  then have avail: "x \<in> set (it_Offerings it)" "of_Available x"
    unfolding compatible_offerings_def
    using offering_lawsD(1) [OF laws] offering_lawsD(2) [OF laws] by fastforce+
  have price: "of_Price x = compatible_price ?sc ?reqs it"
    using x xin by (auto simp: compatible_price_def)
  have least: "of_Price x \<le> compatible_price ?sc ?reqs it'" if "it' \<in> set ys" for it'
    using order(3) [OF that] unfolding price ys(2) [symmetric]
    by (auto simp: price_before_def Let_def split: if_splits)
  show ?thesis
    by (rule that [OF ys it(2,1) avail price least zone subnet(2)]) (use subnet subnet_in_set in metis)+
qed

lemma run_m_Create:
  assumes run: "run_state (m_Create (logged_machines env) nodeClass nodeClaim its) (w, []) = (out, (w', tr))"
  obtains (nothing) "tr = []" "out = Panic \<or> (\<exists>e. out = Ok (None, None, Some e))"
  | (created) machine res ps it x zone subnetID labels rand where
    "tr = [Created machine res]" "out = Ok (Some (fst res), Some ps, snd res)"
    "launch_place env nodeClass nodeClaim its = Ok (it, x, zone, subnetID)"
    "machine_labels (mp_scheduling env) nodeClass nodeClaim it (Some x) = Ok labels"
    "new_machine env nodeClass nodeClaim it labels (of_Price x) rand zone subnetID = Ok (machine, ps)"
proof (cases "launch_place env nodeClass nodeClaim its")
  case (Ok place)
  obtain it x zone subnetID where place: "place = (it, x, zone, subnetID)" by (cases place)
  show ?thesis
  proof (cases "machine_labels (mp_scheduling env) nodeClass nodeClaim it (Some x)")
    case labels: (Ok labels)
    obtain rand w1 where rand: "run_state (mp_RandString env) w = (rand, w1)" by fastforce
    then have rand': "run_state (mp_RandString (logged_machines env)) (w, []) = (rand, (w1, []))"
      by (simp add: logged_machines_def run_simps)
    show ?thesis
    proof (cases "new_machine env nodeClass nodeClaim it labels (of_Price x) rand zone subnetID")
      case new: (Ok mp)
      obtain machine ps where mp: "mp = (machine, ps)" by (cases mp)
      obtain res w2 where res: "run_state (mp_Create env machine) w1 = (res, w2)" by fastforce
      then have "run_state (mp_Create (logged_machines env) machine) (w1, []) = (res, (w2, [Created machine res]))"
        by (simp add: logged_machines_def run_simps)
      then have "tr = [Created machine res]" "out = Ok (Some (fst res), Some ps, snd res)"
        using run Ok rand' by (auto simp: place m_Create_def labels new mp)
      then show ?thesis by (rule created [OF _ _ Ok [unfolded place] labels new [unfolded mp]])
    qed ((insert run Ok rand', rule nothing); auto simp: place m_Create_def labels create_failed_def)+
  qed ((insert run Ok, rule nothing); auto simp: place m_Create_def create_failed_def)+
qed ((insert run, rule nothing); auto simp: m_Create_def create_failed_def)+

section \<open>Properties\<close>

text \<open>
  C2. A launch.  At most one machine is created; a launch that fails before that calls nothing.  The machine
  is of the first type of the launch order, at the price of its cheapest available compatible
  offering, which no other candidate undercuts; it is in the zone of that offering and in a subnet
  of the node class in that zone; the machine type, the charge type and the capacity label agree;
  it has the first five security groups, registers with the taint, is owned by the node claim, and
  carries the spec that is returned.
\<close>

theorem Create_coherent:
  assumes run: "run_state (m_Create (logged_machines env) nodeClass nodeClaim its) (w, []) = (out, (w', tr))"
    and laws: "offering_laws (mp_scheduling env)"
  shows "tr = [] \<and> (out = Panic \<or> (\<exists>e. out = Ok (None, None, Some e))) \<or>
    (\<exists>machine res ps it ys x. let sc = mp_scheduling env; reqs = sc_FromClaim sc (k_Requirements nodeClaim) in
       tr = [Created machine res] \<and> out = Ok (Some (fst res), Some ps, snd res) \<and>
       machine_coherent nodeClass nodeClaim it ps machine \<and>
       launch_order sc nodeClaim its = Ok ys \<and> it = hd ys \<and> it \<in> set its \<and>
       x \<in> set (it_Offerings it) \<and> of_Available x \<and> of_Price x = compatible_price sc reqs it \<and>
       (\<forall>it' \<in> set ys. of_Price x \<le> compatible_price sc reqs it') \<and>
       mp_ZoneFromID env (sc_Any sc (of_Requirements x) LabelTopologyZone) = Ok (ms_Zone (m_Spec machine)))"
  using run
proof (cases rule: run_m_Create)
  case nothing
  then show ?thesis by blast
next
  case (created machine res ps it x zone subnetID labels rand)
  show ?thesis
  proof (rule launch_place_Ok [OF laws created(3)], goal_cases)
    case (1 ys)
    obtain s where "s \<in> set (nct_Subnets (nc_Status nodeClass))" "sn_Zone s = zone" "sn_ID s = subnetID"
      using 1(11) by blast
    note new_machine_Ok [OF created(5) this 1(10)]
    then show ?thesis using created(1,2) 1 unfolding Let_def by blast
  qed
qed

text \<open>A node class with a subnet in the third zone of Guangzhou, and a launch there.\<close>

definition sample_machine_class :: TKEMachineNodeClass where
  "sample_machine_class = zero_NodeClass\<lparr>nc_Status := \<lparr>nct_Subnets =
     [\<lparr>sn_ID = ''subnet-1'', sn_Zone = ''ap-guangzhou-3'', sn_ZoneID = ''100003''\<rparr>],
     nct_SecurityGroups = [\<lparr>sg_ID = ''sg-1''\<rparr>], nct_SSHKeys = [], nct_Conditions = []\<rparr>\<rparr>"

definition sample_machine_env :: "(unit, string, Requirement list) machine_env" where
  "sample_machine_env =
     \<lparr>mp_ListMachines = State_Monad.return (Ok []), mp_Create = \<lambda>m. State_Monad.return (m, None),
      mp_Delete = \<lambda>_. State_Monad.return (Ok ()), mp_RandString = State_Monad.return ''abcdefgh'',
      mp_quantities = sample_quantities, mp_scheduling = sample_scheduling,
      mp_ZoneFromID = (\<lambda>_. Ok ''ap-guangzhou-3''), mp_clusterID = ''cls-1'',
      mp_FormatPrice = (\<lambda>_. ''2.0000000000''), mp_ParseIP = (\<lambda>_. True), mp_MarshalText = (\<lambda>_. ''[]'')\<rparr>"

lemma sample_launch:
  "launch_place sample_machine_env sample_machine_class sample_nodeclaim [sample_type ''S5.MEDIUM4'' ''spot'' 2] =
     Ok (sample_type ''S5.MEDIUM4'' ''spot'' 2, sample_offering ''spot'' 2, ''ap-guangzhou-3'', ''subnet-1'')"
  by code_simp

lemma sample_labels:
  "is_ok (machine_labels sample_scheduling sample_machine_class sample_nodeclaim
     (sample_type ''S5.MEDIUM4'' ''spot'' 2) (Some (sample_offering ''spot'' 2)))"
  by code_simp

theorem Create_coherent_witness:
  "\<exists>machine res ps w'. run_state (m_Create (logged_machines sample_machine_env) sample_machine_class sample_nodeclaim
       [sample_type ''S5.MEDIUM4'' ''spot'' 2]) ((), []) = (Ok (Some (fst res), Some ps, snd res), (w', [Created machine res])) \<and>
     ms_Zone (m_Spec machine) = ''ap-guangzhou-3''"
proof -
  let ?it = "sample_type ''S5.MEDIUM4'' ''spot'' 2" and ?x = "sample_offering ''spot'' 2"
  let ?run = "run_state (m_Create (logged_machines sample_machine_env) sample_machine_class sample_nodeclaim [?it]) ((), [])"
  obtain labels where labels: "machine_labels sample_scheduling sample_machine_class sample_nodeclaim ?it (Some ?x) = Ok labels"
    using sample_labels by (metis is_ok.elims(2))
  have env: "mp_scheduling sample_machine_env = sample_scheduling" "mp_ZoneFromID sample_machine_env z = Ok ''ap-guangzhou-3''"
    "run_state (mp_RandString (logged_machines sample_machine_env)) s = (''abcdefgh'', s)"
    "run_state (mp_Create (logged_machines sample_machine_env) m) (w, tr) = ((m, None), (w, tr @ [Created m (m, None)]))"
    for z s m w tr
    by (simp_all add: sample_machine_env_def logged_machines_def logged_def lifted_def split: prod.split)
  obtain ps ms where fin: "final_spec sample_machine_env sample_machine_class sample_nodeclaim ?it (is_spot labels)
      ''ap-guangzhou-3'' ''subnet-1'' = (ps, ms)" by fastforce
  then obtain machine where "new_machine sample_machine_env sample_machine_class sample_nodeclaim ?it labels
      (of_Price ?x) ''abcdefgh'' ''ap-guangzhou-3'' ''subnet-1'' = Ok (machine, ps)"
    by (simp add: new_machine_def RawExtensionFromProviderSpec_def)
  then have run: "?run = (Ok (Some machine, Some ps, None), ((), [Created machine (machine, None)]))"
    by (simp add: m_Create_def sample_launch env labels run_simps)
  have "offering_laws (mp_scheduling sample_machine_env)" using env sample_offering_laws by simp
  then have "ms_Zone (m_Spec machine) = ''ap-guangzhou-3''"
    using Create_coherent [OF run] env by (auto simp: Let_def)
  then show ?thesis using run by fastforce
qed

text \<open>
  C31. The annotations of a node claim are a map, visited in any order.  The order matters only for the
  order of the kubelet and kernel arguments and of the host aliases: every other part of the
  provider spec and the whole machine spec are the same.
\<close>

theorem annotations_order:
  assumes "distinct_keys es" "mset es = mset fs"
  shows "let (ps1, ms1) = claim_annotations parseIP gpu es st; (ps2, ms2) = claim_annotations parseIP gpu fs st;
             m1 = ps_Management ps1; m2 = ps_Management ps2
         in ms1 = ms2 \<and> ps1 = ps2\<lparr>ps_Management := m1\<rparr> \<and> mc_Nameservers m1 = mc_Nameservers m2 \<and>
            mset (mc_KubeletArgs m1) = mset (mc_KubeletArgs m2) \<and>
            mset (mc_KernelArgs m1) = mset (mc_KernelArgs m2) \<and> mset (mc_Hosts m1) = mset (mc_Hosts m2)"
proof -
  let ?a = "claim_annotations parseIP gpu es st" and ?b = "claim_annotations parseIP gpu fs st"
  have fs: "distinct_keys fs"
    using assms by (metis distinct_keys_def mset_map mset_eq_imp_distinct_iff)
  note ka = claim_annotations_keys [OF assms(1), of parseIP gpu st]
    and kb = claim_annotations_keys [OF fs, of parseIP gpu st]
  note eq = at_key_perm [OF assms]
  have gpu: "ms_GPUConfig (snd ?a) = ms_GPUConfig (snd ?b)"
  proof (cases gpu)
    case True
    then have on: "gpu = True" by simp
    show ?thesis
      unfolding on
      by (rule GPUParams.equality)
        (simp_all add: claim_annotations_gpu [OF assms(1)] claim_annotations_gpu [OF fs] eq)
  next
    case False
    then show ?thesis by (simp add: claim_annotations_no_gpu)
  qed
  have "snd ?a = snd ?b"
    by (subst (1 2) claim_annotations_frame(2)) (simp add: gpu ka(3) kb(3) eq)
  moreover have "fst ?a = (fst ?b)\<lparr>ps_Management := ps_Management (fst ?a)\<rparr>"
    by (subst claim_annotations_frame(1), subst (3) claim_annotations_frame(1)) (simp add: ka(2) kb(2) eq)
  moreover have "mc_Nameservers (ps_Management (fst ?a)) = mc_Nameservers (ps_Management (fst ?b))"
    by (simp add: ka(1) kb(1) eq)
  ultimately show ?thesis
    by (simp add: case_prod_unfold Let_def claim_annotations_lists mset_map_filter [OF assms(2)])
qed

theorem annotations_order_witness:
  "mset (mc_KubeletArgs (ps_Management (fst (claim_annotations (\<lambda>_. True) False
       [(AnnotationKubeletArgPrefix @ ''a'', ''1''), (AnnotationKubeletArgPrefix @ ''b'', ''2'')]
       (zero_ProviderSpec, zero_MachineSpec))))) =
   mset (mc_KubeletArgs (ps_Management (fst (claim_annotations (\<lambda>_. True) False
       [(AnnotationKubeletArgPrefix @ ''b'', ''2''), (AnnotationKubeletArgPrefix @ ''a'', ''1'')]
       (zero_ProviderSpec, zero_MachineSpec)))))"
proof -
  let ?es = "[(AnnotationKubeletArgPrefix @ ''a'', ''1''), (AnnotationKubeletArgPrefix @ ''b'', ''2'')]"
  let ?fs = "[(AnnotationKubeletArgPrefix @ ''b'', ''2''), (AnnotationKubeletArgPrefix @ ''a'', ''1'')]"
  have "distinct_keys ?es" by (simp add: distinct_keys_def)
  moreover have "mset ?es = mset ?fs" by simp
  ultimately show ?thesis
    using annotations_order [of ?es ?fs "\<lambda>_. True" False "(zero_ProviderSpec, zero_MachineSpec)"]
    by (simp add: case_prod_unfold Let_def)
qed

text \<open>
  C23. A deletion deletes at most one machine.  A node claim with a provider ID has the first machine with
  that ID deleted, or gets a NodeClaimNotFound error; one without has the first machine that names
  it as its owning NodeClaim deleted.  Without such a machine it gets the error only when there is no
  machine at all; otherwise the deletion is reported as done with nothing deleted.
\<close>

theorem Delete_correct:
  assumes run: "run_state (m_Delete (logged_machines env) nc) (w, []) = (out, (w', tr))"
    and list: "run_state (mp_ListMachines env) w = (Ok ms, w1)"
  shows "case (if k_ProviderID nc \<noteq> [] then find (\<lambda>m. ms_ProviderID (m_Spec m) = Some (k_ProviderID nc)) ms
             else find (owned_by (k_Name nc)) ms) of
      Some m \<Rightarrow> tr = [Deleted m out]
    | None \<Rightarrow> tr = [] \<and> w' = w1 \<and>
        (if k_ProviderID nc \<noteq> [] \<or> ms = [] then \<exists>e. out = Err (NodeClaimNotFoundErr e) else out = Ok ())"
proof -
  have with_id: "machine_with_id providerID ms = find (\<lambda>m. ms_ProviderID (m_Spec m) = Some providerID) ms"
    for providerID by (induction ms) auto
  have list': "run_state (mp_ListMachines (logged_machines env)) (w, []) = (Ok ms, (w1, []))"
    using list by (simp add: logged_machines_def run_simps)
  have del: "run_state (mp_Delete (logged_machines env) m) (w1, []) =
      (case run_state (mp_Delete env m) w1 of (res, w2) \<Rightarrow> (res, (w2, [Deleted m res])))" for m
    by (simp add: logged_machines_def run_simps split: prod.split)
  show ?thesis
    using run list'
    by (auto simp: m_Delete_def m_Get_def run_simps with_id del split: option.splits prod.splits if_splits)
qed

theorem Delete_correct_witness:
  "snd (snd (run_state (m_Delete (logged_machines (sample_machine_env\<lparr>mp_ListMachines :=
      State_Monad.return (Ok [zero_Machine\<lparr>m_Spec := zero_MachineSpec\<lparr>ms_ProviderID := Some ''ins-1''\<rparr>\<rparr>])\<rparr>))
      (sample_nodeclaim\<lparr>k_ProviderID := ''ins-1''\<rparr>)) ((), []))) =
   [Deleted (zero_Machine\<lparr>m_Spec := zero_MachineSpec\<lparr>ms_ProviderID := Some ''ins-1''\<rparr>\<rparr>) (Ok ())]"
proof -
  let ?m = "zero_Machine\<lparr>m_Spec := zero_MachineSpec\<lparr>ms_ProviderID := Some ''ins-1''\<rparr>\<rparr>"
  let ?env = "sample_machine_env\<lparr>mp_ListMachines := State_Monad.return (Ok [?m])\<rparr>"
  let ?nc = "sample_nodeclaim\<lparr>k_ProviderID := ''ins-1''\<rparr>"
  obtain out w' tr where run: "run_state (m_Delete (logged_machines ?env) ?nc) ((), []) = (out, (w', tr))"
    by (metis prod.exhaust)
  have list: "run_state (mp_ListMachines ?env) () = (Ok [?m], ())" by (simp add: run_simps)
  have "out = Ok ()"
    using run by (auto simp: m_Delete_def m_Get_def run_simps logged_machines_def sample_machine_env_def)
  then show ?thesis using Delete_correct [OF run list] run by simp
qed

lemma set_list_loop: "set (list_loop ms) = {m \<in> set ms. owned_by_claim m}"
proof -
  have "set (owned_loop m rs) = (if \<exists>r \<in> set rs. or_Kind r = ''NodeClaim'' then {m} else {})" for m rs
    by (induction rs) auto
  then show ?thesis by (induction ms) (auto simp: owned_by_claim_def)
qed

text \<open>
  C37. A listing holds exactly the machines owned by some NodeClaim, each of them once for every NodeClaim
  among its owners.
\<close>

theorem List_owned:
  "set (list_loop ms) = {m \<in> set ms. owned_by_claim m} \<and>
   count_list (list_loop ms) m =
     count_list ms m * length (filter (\<lambda>r. or_Kind r = ''NodeClaim'') (owners (m_ObjectMeta m)))"
proof -
  have count: "count_list (owned_loop m' rs) m =
      (if m' = m then length (filter (\<lambda>r. or_Kind r = ''NodeClaim'') rs) else 0)" for m' rs
    by (induction rs) auto
  have "count_list (list_loop ms) m =
     count_list ms m * length (filter (\<lambda>r. or_Kind r = ''NodeClaim'') (owners (m_ObjectMeta m)))"
    by (induction ms) (auto simp: count)
  then show ?thesis using set_list_loop by blast
qed

end
