(* ===== verification/CloudProvider.thy ===== *)
theory CloudProvider
  imports InstanceTypeList MachineProvider
begin

text \<open>
  The cloud provider karpenter calls (\<open>pkg/cloudprovider/cloudprovider.go\<close>): it resolves the node class and
  the instance types of a node claim, has the machine provider launch a machine, and translates
  machines back to node claims.  It runs on the models of the two providers: the state is the outside
  world next to the state of the instance type provider.
\<close>

section \<open>Parameters\<close>

text \<open>\<open>time.Now\<close> is a call, \<open>strconv.ParseFloat\<close> a function.\<close>

record ('w, 'q, 'r, 'v) cloud_env =
  cp_GetNodeClass :: "string \<times> string \<Rightarrow> ('w, TKEMachineNodeClass outcome) state"
  cp_Now :: "('w, int) state"
  cp_list :: "('w, 'q, 'r, 'v) list_env"
  cp_machines :: "('w, 'q, 'r) machine_env"
  cp_IDFromZone :: "string \<Rightarrow> string outcome"

record NodePool =
  np_Namespace :: string
  np_NodeClassRef :: "string option"

record RepairPolicy =
  rp_ConditionType :: string
  rp_ConditionStatus :: string
  rp_TolerationDuration :: int

abbreviation cp_sc :: "('w, 'q, 'r, 'v) cloud_env \<Rightarrow> ('q, 'r) scheduling_ops" where
  "cp_sc env \<equiv> ty_sc (le_types (cp_list env))"

abbreviation cp_q :: "('w, 'q, 'r, 'v) cloud_env \<Rightarrow> 'q quantity_ops" where
  "cp_q env \<equiv> ty_q (le_types (cp_list env))"

section \<open>Resources from annotations\<close>

text \<open>A malformed quantity is a panic of \<open>MustParse\<close>.\<close>

definition put_annotation ::
  "'q quantity_ops \<Rightarrow> gomap \<Rightarrow> string \<Rightarrow> string \<Rightarrow> 'q resource_list \<Rightarrow> 'q resource_list outcome" where
  "put_annotation q annotations key name r =
     (case gm_get annotations key of
        None \<Rightarrow> Ok r
      | Some v \<Rightarrow> omap (\<lambda>x. put name x r) (q_MustParse q v))"

definition resourceListFromAnnotations ::
  "'q quantity_ops \<Rightarrow> string \<Rightarrow> gomap \<Rightarrow> 'q resource_list outcome" where
  "resourceListFromAnnotations q grp annotations =
     (if annotations = None then Ok []
      else let entry = put_annotation q annotations in
        obind (entry (grp @ AnnotationCPU) ResourceCPU []) (\<lambda>r.
        obind (entry (grp @ AnnotationMemory) ResourceMemory r) (\<lambda>r.
        obind (entry (grp @ AnnotationPods) ResourcePods r) (\<lambda>r.
        obind (entry (grp @ AnnotationEphemeralStorage) ResourceEphemeralStorage r) (\<lambda>r.
        obind (entry (grp @ AnnotationENIIP) TKELabelENIIP r) (\<lambda>r.
        obind (entry (grp @ AnnotationDirectENI) TKELabelDirectENI r) (\<lambda>r.
        obind (entry (grp @ AnnotationENI) TKELabelENI r) (\<lambda>r.
        obind (entry (grp @ AnnotationSubENI) TKELabelSubENI r) (\<lambda>r.
        obind (entry (grp @ AnnotationEIP) TKELabelEIP r) (\<lambda>r.
        entry (grp @ AnnotationGPUCount) ResourceNVIDIAGPU r))))))))))"

section \<open>From machines to node claims\<close>

definition machine_item ::
  "(string \<Rightarrow> rat option) \<Rightarrow> Machine \<Rightarrow> CXMMachineProviderSpec \<Rightarrow> InstanceTypeQuotaItem outcome" where
  "machine_item parseFloat machine ps =
     (case atoi (m_Label machine LabelInstanceCPU) of
        None \<Rightarrow> Err (Errorf ''unable to convert machine cpu'')
      | Some cpu \<Rightarrow>
          (case atoi (m_Label machine LabelInstanceMemoryGB) of
             None \<Rightarrow> Err (Errorf ''unable to convert machine memory'')
           | Some mem \<Rightarrow>
               (case parseFloat (str_ptr (m_Annotation machine AnnotationUnitPrice)) of
                  None \<Rightarrow> Err (Errorf ''unable to convert machine price'')
                | Some price \<Rightarrow>
                    Ok (zero_QuotaItem\<lparr>
                      qi_Zone := ms_Zone (m_Spec machine), qi_Arch := m_Label machine LabelArchStable,
                      qi_InstanceType := ps_InstanceType ps,
                      qi_InstanceFamily := m_Label machine LabelInstanceFamily,
                      qi_CPU := cpu, qi_Memory := mem,
                      qi_Price := (qi_Price zero_QuotaItem)\<lparr>ip_UnitPrice := price\<rparr>\<rparr>))))"

definition machine_offering ::
  "('q, 'r) scheduling_ops \<Rightarrow> (string \<Rightarrow> string outcome) \<Rightarrow> Machine \<Rightarrow> InstanceTypeQuotaItem \<Rightarrow> 'r Offering" where
  "machine_offering sc idFromZone machine i =
     \<lparr>of_Requirements = sc_NewRequirements sc
        [in_req CapacityTypeLabelKey [m_Label machine CapacityTypeLabelKey],
         in_req LabelTopologyZone [case idFromZone (qi_Zone i) of Ok zid \<Rightarrow> zid | _ \<Rightarrow> []],
         in_req LabelCBSToplogy [qi_Zone i]],
      of_Price = ip_UnitPrice (qi_Price i), of_Available = True\<rparr>"

text \<open>The error of the kubelet version is overwritten: a version that does not parse counts as zero.\<close>

definition resolveMachineToInstanceType ::
  "('w, 'q, 'r, 'v) cloud_env \<Rightarrow> Machine \<Rightarrow> ('q, 'r) InstanceType outcome" where
  "resolveMachineToInstanceType env machine =
     (let types = le_types (cp_list env); q = ty_q types; annots = om_Annotations (m_ObjectMeta machine) in
      obind (owrap (Wrapf ''unable to get ProviderSpec from Machine'')
               (ProviderSpecFromRawExtension (pv_Value (ms_ProviderSpec (m_Spec machine))))) (\<lambda>spec.
      obind (resourceListFromAnnotations q CapacityGroup annots) (\<lambda>capacity.
      obind (resourceListFromAnnotations q KubeReservedGroup annots) (\<lambda>kube.
      obind (resourceListFromAnnotations q SystemReservedGroup annots) (\<lambda>sys.
      obind (resourceListFromAnnotations q EvictionThresholdGroup annots) (\<lambda>ev.
      let version = (case sv_Make (ty_sv types) (str_ptr (ms_KubeletVersion (m_Spec machine))) of
                       Some v \<Rightarrow> v | None \<Rightarrow> sv_Zero (ty_sv types)) in
      case spec of
        None \<Rightarrow> Panic
      | Some ps \<Rightarrow>
          obind (machine_item (ty_ParseFloat types) machine ps) (\<lambda>item.
          obind (NewInstanceType types 50 item version None None None None None
                   [machine_offering (ty_sc types) (cp_IDFromZone env) machine item] [] None) (\<lambda>it.
          if map_of capacity ResourceCPU = None
          then Err (Errorf ''unable to convert Machine to a NodeClaim, no cpu capacity found'')
          else if map_of capacity ResourceMemory = None
          then Err (Errorf ''unable to convert Machine to a NodeClaim, no memory capacity found'')
          else Ok (it\<lparr>it_Name := ps_InstanceType ps, it_Capacity := capacity,
                      it_Overhead := \<lparr>ov_KubeReserved = kube, ov_SystemReserved = sys,
                                      ov_EvictionThreshold = ev\<rparr>\<rparr>)))))))))"

text \<open>The labels of the requirements that have one value, in the order the map is visited.\<close>

fun requirement_labels ::
  "('q, 'r) scheduling_ops \<Rightarrow> 'r \<Rightarrow> string list \<Rightarrow> (string, string) entries \<Rightarrow> (string, string) entries outcome" where
  "requirement_labels sc r [] labels = Ok labels"
| "requirement_labels sc r (key # ks) labels =
     (if sc_Len sc r key = 1
      then obind (first_value (sc_Values sc r key)) (\<lambda>v. requirement_labels sc r ks (put key v labels))
      else requirement_labels sc r ks labels)"

definition non_zero_entries :: "'q quantity_ops \<Rightarrow> 'q resource_list \<Rightarrow> 'q resource_list" where
  "non_zero_entries q rl = filter (\<lambda>(n, v). \<not> q_IsZero q v) rl"

definition claim_of ::
  "('w, 'q, 'r, 'v) cloud_env \<Rightarrow> Machine \<Rightarrow> ('q, 'r) InstanceType \<Rightarrow> (string, string) entries \<Rightarrow> int option \<Rightarrow>
   'q NodeClaim" where
  "claim_of env machine it labels deleted =
     (let meta = m_ObjectMeta machine in
      zero_NodeClaim\<lparr>
        k_Capacity := non_zero_entries (cp_q env) (it_Capacity it),
        k_Allocatable := non_zero_entries (cp_q env) (si_Allocatable (cp_sc env) it),
        k_ProviderID := m_ProviderID machine,
        k_ObjectMeta := zero_ObjectMeta\<lparr>
          om_Labels := Some (put_some NodePoolLabelKey (gm_get (om_Labels meta) NodePoolLabelKey) labels),
          om_Annotations := Some (put AnnotationOwnedMachine (om_Name meta)
            (put_some AnnotationManagedBy (gm_get (om_Annotations meta) AnnotationManagedBy) [])),
          om_CreationTimestamp := om_CreationTimestamp meta,
          om_DeletionTimestamp := deleted\<rparr>\<rparr>)"

definition machineToNodeClaim ::
  "('w, 'q, 'r, 'v) cloud_env \<Rightarrow> Machine \<Rightarrow> ('w, 'q NodeClaim outcome) state" where
  "machineToNodeClaim env machine =
     (case owrap (Describef ''resolving machine to instancetype failed'')
             (resolveMachineToInstanceType env machine) of
        Err e \<Rightarrow> State_Monad.return (Err e)
      | Panic \<Rightarrow> State_Monad.return Panic
      | Ok it \<Rightarrow>
          (case requirement_labels (cp_sc env) (it_Requirements it) (sc_Keys (cp_sc env) (it_Requirements it)) [] of
             Err e \<Rightarrow> State_Monad.return (Err e)
           | Panic \<Rightarrow> State_Monad.return Panic
           | Ok labels \<Rightarrow>
               if str_ptr (mst_Phase (m_Status machine)) = PhaseDeleting
               then do {
                 now \<leftarrow> cp_Now env;
                 State_Monad.return (Ok (claim_of env machine it labels (Some now))) }
               else State_Monad.return (Ok (claim_of env machine it labels None))))"

section \<open>Resolving\<close>

definition newTerminatingNodeClassError :: "string \<Rightarrow> goerr" where
  "newTerminatingNodeClassError name = APIError ReasonNotFound ''is terminating, treating as not found''"

definition resolveNodeClassFromNodePool ::
  "('w, 'q, 'r, 'v) cloud_env \<Rightarrow> NodePool \<Rightarrow> ('w, TKEMachineNodeClass outcome) state" where
  "resolveNodeClassFromNodePool env nodePool =
     (case np_NodeClassRef nodePool of
        None \<Rightarrow> State_Monad.return (Err (Errorf ''node class reference is nil, no way to proceed''))
      | Some name \<Rightarrow>
          if name = [] then State_Monad.return (Err (Errorf ''node class reference name is empty, no way to proceed''))
          else cp_GetNodeClass env (np_Namespace nodePool, name))"

definition resolveNodeClassFromNodeClaim ::
  "('w, 'q, 'r, 'v) cloud_env \<Rightarrow> 'q NodeClaim \<Rightarrow> ('w, TKEMachineNodeClass outcome) state" where
  "resolveNodeClassFromNodeClaim env nodeClaim =
     (case k_NodeClassRef nodeClaim of
        None \<Rightarrow> State_Monad.return Panic
      | Some name \<Rightarrow> sbind (cp_GetNodeClass env ([], name)) (\<lambda>nodeClass.
          State_Monad.return
            (if om_DeletionTimestamp (nc_ObjectMeta nodeClass) \<noteq> None
             then Err (newTerminatingNodeClassError (nc_Name nodeClass))
             else Ok nodeClass)))"

definition launchable ::
  "('q, 'r) scheduling_ops \<Rightarrow> 'q NodeClaim \<Rightarrow> ('q, 'r) InstanceType \<Rightarrow> bool" where
  "launchable sc nodeClaim it =
     (let reqs = sc_FromClaim sc (k_Requirements nodeClaim) in
      sc_Compatible sc reqs (it_Requirements it) \<and>
      length (so_Available sc (so_Compatible sc (it_Offerings it) reqs)) > 0 \<and>
      sr_Fits sc (k_Requests nodeClaim) (si_Allocatable sc it))"

definition resolveInstanceTypes ::
  "('w, 'q, 'r, 'v) cloud_env \<Rightarrow> 'q NodeClaim \<Rightarrow> TKEMachineNodeClass \<Rightarrow>
   ('w \<times> 'c InstanceTypeProvider, ('q, 'r) InstanceType list outcome) state" where
  "resolveInstanceTypes env nodeClaim nodeClass =
     sbind (swrap (Wrapf ''getting instance types'') (it_List (cp_list env) nodeClass False)) (\<lambda>its.
     State_Monad.return (Ok (filter (launchable (cp_sc env) nodeClaim) its)))"

section \<open>The operations\<close>

text \<open>What is done with a machine the machine provider has tried to create.\<close>

definition created_machine ::
  "('w, 'q, 'r, 'v) cloud_env \<Rightarrow> created \<Rightarrow> ('w \<times> 'c InstanceTypeProvider, 'q NodeClaim outcome) state" where
  "created_machine env res =
     (case res of
        (mc, ps, Some e) \<Rightarrow> do {
          _ \<leftarrow> (case (ps, mc) of
                 (Some ps, Some m) \<Rightarrow> modify_own (BlockInstanceType
                   (ps_InstanceType ps, m_Label m CapacityTypeLabelKey, ms_Zone (m_Spec m)))
               | _ \<Rightarrow> State_Monad.return ());
          State_Monad.return (Err e) }
      | (Some m, _, None) \<Rightarrow> on_world (machineToNodeClaim env m)
      | (None, _, None) \<Rightarrow> State_Monad.return Panic)"

definition cp_Create ::
  "('w, 'q, 'r, 'v) cloud_env \<Rightarrow> 'q NodeClaim \<Rightarrow> ('w \<times> 'c InstanceTypeProvider, 'q NodeClaim outcome) state" where
  "cp_Create env nodeClaim =
     sbind (swrap (\<lambda>e. InsufficientCapacityErr (Wrapf ''resolving node class'' e))
              (on_world (resolveNodeClassFromNodeClaim env nodeClaim))) (\<lambda>nodeClass.
     if \<not> condition_true ''Ready'' (GetConditions nodeClass)
     then State_Monad.return (Err (Errorf ''resolving tkemachinenodeclass''))
     else sbind (swrap (Wrapf ''resolving instance types'') (resolveInstanceTypes env nodeClaim nodeClass)) (\<lambda>its.
       if length its = 0
       then State_Monad.return (Err (InsufficientCapacityErr
              (Errorf ''all requested instance types were unavailable during launch'')))
       else sbind (on_world (m_Create (cp_machines env) nodeClass nodeClaim its)) (created_machine env)))"

definition cp_Delete :: "('w, 'q, 'r, 'v) cloud_env \<Rightarrow> 'q NodeClaim \<Rightarrow> ('w, unit outcome) state" where
  "cp_Delete env nodeClaim = m_Delete (cp_machines env) nodeClaim"

definition cp_Get :: "('w, 'q, 'r, 'v) cloud_env \<Rightarrow> string \<Rightarrow> ('w, 'q NodeClaim outcome) state" where
  "cp_Get env providerID =
     (if length providerID = 0
      then State_Monad.return (Err (Errorf ''no providerID supplied to Get, cannot continue''))
      else sbind (swrap (Wrapf ''unable to get Machine from machine provider'')
                    (m_Get (cp_machines env) providerID)) (\<lambda>machine.
           swrap (Wrapf ''unable to convert Machine to NodeClaim in CloudProvider.Get'')
             (machineToNodeClaim env machine)))"

definition cp_GetInstanceTypes ::
  "('w, 'q, 'r, 'v) cloud_env \<Rightarrow> NodePool option \<Rightarrow>
   ('w \<times> 'c InstanceTypeProvider, ('q, 'r) InstanceType list outcome) state" where
  "cp_GetInstanceTypes env nodePool =
     (case nodePool of
        None \<Rightarrow> State_Monad.return (Err (Errorf ''node pool reference is nil, no way to proceed''))
      | Some np \<Rightarrow> sbind (on_world (resolveNodeClassFromNodePool env np)) (\<lambda>nodeClass.
          it_List (cp_list env) nodeClass False))"

definition cp_List :: "('w, 'q, 'r, 'v) cloud_env \<Rightarrow> ('w, 'q NodeClaim list outcome) state" where
  "cp_List env =
     sbind (swrap (Wrapf ''listing machines'') (m_List (cp_machines env))) (straverse (machineToNodeClaim env))"

definition RepairPolicies :: "RepairPolicy list" where
  "RepairPolicies =
     [\<lparr>rp_ConditionType = ''Ready'', rp_ConditionStatus = ''False'', rp_TolerationDuration = minutes 30\<rparr>,
      \<lparr>rp_ConditionType = ''Ready'', rp_ConditionStatus = ''Unknown'', rp_TolerationDuration = minutes 30\<rparr>]"

definition IsDrifted :: "'q NodeClaim \<Rightarrow> string outcome" where
  "IsDrifted nodeClaim = Ok []"

definition cp_Name :: string where "cp_Name = ''tke''"

definition KnownEphemeralTaints :: "Taint list" where
  "KnownEphemeralTaints =
     [\<lparr>ta_Key = ''tke.cloud.tencent.com/eni-ip-unavailable'', ta_Value = ''true'', ta_Effect = ''NoSchedule'', ta_TimeAdded = None\<rparr>,
      \<lparr>ta_Key = ''tke.cloud.tencent.com/direct-eni-ip-unavailable'', ta_Value = ''true'', ta_Effect = ''NoSchedule'', ta_TimeAdded = None\<rparr>,
      \<lparr>ta_Key = ''tke.cloud.tencent.com/uninitialized'', ta_Value = ''true'', ta_Effect = ''NoSchedule'', ta_TimeAdded = None\<rparr>,
      \<lparr>ta_Key = ''node.kubernetes.io/network-unavailable'', ta_Value = [], ta_Effect = ''NoSchedule'', ta_TimeAdded = None\<rparr>]"

section \<open>Lemmas\<close>

lemma map_of_put_some [simp]:
  "map_of (put_some k v es) k' = (if k' = k \<and> v \<noteq> None then v else map_of es k')"
  by (simp add: put_some_def split: option.split)

text \<open>
  The resource annotations one by one; the keys of the table are \<open>group @ suffix\<close>, which
  \<open>annotation_key_eq\<close> tells apart.
\<close>

lemma group_mem:
  "CapacityGroup \<in> set annotation_groups" "KubeReservedGroup \<in> set annotation_groups"
  "SystemReservedGroup \<in> set annotation_groups" "EvictionThresholdGroup \<in> set annotation_groups"
  by (simp_all add: annotation_groups_def)

lemma suffix_mem:
  "AnnotationCPU \<in> set annotation_suffixes" "AnnotationMemory \<in> set annotation_suffixes"
  "AnnotationPods \<in> set annotation_suffixes" "AnnotationEphemeralStorage \<in> set annotation_suffixes"
  "AnnotationENIIP \<in> set annotation_suffixes" "AnnotationDirectENI \<in> set annotation_suffixes"
  "AnnotationENI \<in> set annotation_suffixes" "AnnotationSubENI \<in> set annotation_suffixes"
  "AnnotationEIP \<in> set annotation_suffixes" "AnnotationGPUCount \<in> set annotation_suffixes"
  by (simp_all add: annotation_suffixes_def)

lemma groups_distinct:
  "distinct annotation_groups" "distinct annotation_suffixes"
  "distinct (rev annotation_groups)" "distinct (rev annotation_suffixes)"
  by (simp_all add: annotation_groups_def annotation_suffixes_def label_defs)

text \<open>The list and its reverse give the disequalities in both directions.\<close>

lemmas groups_neq = groups_distinct [unfolded annotation_groups_def annotation_suffixes_def, simplified]

text \<open>A map from suffixes to the values to be printed, for each group.\<close>

definition recorded ::
  "'q quantity_ops \<Rightarrow> ('q, 'r) InstanceType \<Rightarrow> string \<Rightarrow> string \<Rightarrow> 'q option" where
  "recorded q it grp sfx =
     (let cap = it_Capacity it; ov = it_Overhead it;
          nz = (\<lambda>rl name. if q_IsZero q (rl_get q rl name) then None else Some (rl_get q rl name)) in
      if grp = CapacityGroup then
        (if sfx = AnnotationCPU then Some (rl_get q cap ResourceCPU)
         else if sfx = AnnotationMemory then Some (rl_get q cap ResourceMemory)
         else if sfx = AnnotationPods then Some (rl_get q cap ResourcePods)
         else if sfx = AnnotationEphemeralStorage then Some (rl_get q cap ResourceEphemeralStorage)
         else if sfx = AnnotationENIIP then map_of cap TKELabelENIIP
         else if sfx = AnnotationDirectENI then map_of cap TKELabelDirectENI
         else if sfx = AnnotationENI then map_of cap TKELabelENI
         else if sfx = AnnotationSubENI then map_of cap TKELabelSubENI
         else if sfx = AnnotationEIP then map_of cap TKELabelEIP
         else if sfx = AnnotationGPUCount then map_of cap ResourceNVIDIAGPU
         else None)
      else if grp = KubeReservedGroup then
        (if sfx = AnnotationCPU then Some (rl_get q (ov_KubeReserved ov) ResourceCPU)
         else if sfx = AnnotationMemory then
           Some (if q_IsZero q (rl_get q (ov_KubeReserved ov) ResourceEphemeralStorage)
                 then rl_get q (ov_KubeReserved ov) ResourceMemory
                 else rl_get q (ov_KubeReserved ov) ResourceEphemeralStorage)
         else None)
      else if grp = SystemReservedGroup then
        (if sfx = AnnotationCPU then nz (ov_SystemReserved ov) ResourceCPU
         else if sfx = AnnotationMemory then nz (ov_SystemReserved ov) ResourceMemory
         else if sfx = AnnotationEphemeralStorage then nz (ov_SystemReserved ov) ResourceEphemeralStorage
         else None)
      else
        (if sfx = AnnotationMemory then Some (rl_get q (ov_EvictionThreshold ov) ResourceMemory)
         else if sfx = AnnotationEphemeralStorage
         then Some (rl_get q (ov_EvictionThreshold ov) ResourceEphemeralStorage)
         else None))"

lemma plain_keys:
  assumes "g \<in> set annotation_groups" "s \<in> set annotation_suffixes"
  shows "g @ s \<noteq> AnnotationManagedBy" "g @ s \<noteq> AnnotationUnitPrice" "g @ s \<noteq> AnnotationMachineCloudTag"
  using assms(1) by (auto simp: annotation_groups_def label_defs AnnotationMachineCloudTag_def)

lemma map_of_resource_annotations:
  assumes "g \<in> set annotation_groups" "s \<in> set annotation_suffixes"
  shows "map_of (resource_annotations env it price) (g @ s) =
    map_option (q_String (mp_quantities env)) (recorded (mp_quantities env) it g s)"
proof -
  note neq = groups_neq
  have "g = CapacityGroup \<or> g = KubeReservedGroup \<or> g = SystemReservedGroup \<or> g = EvictionThresholdGroup"
    using assms(1) by (simp add: annotation_groups_def)
  then show ?thesis
    using plain_keys [OF assms] assms(2)
    unfolding resource_annotations_def base_annotations_def Let_def
    by (elim disjE; simp add: group_mem suffix_mem annotation_key_eq neq non_zero_def present_def;
        simp add: recorded_def Let_def neq)
qed

lemma map_of_machine_annotations:
  assumes "g \<in> set annotation_groups" "s \<in> set annotation_suffixes"
    and "gm_get (getTargetAnnotations AnnotationMachineMetaAnnotationsKey (om_Annotations (k_ObjectMeta nodeClaim)))
           (g @ s) = None"
  shows "map_of (machine_annotations env nodeClass nodeClaim it price) (g @ s) =
    map_option (q_String (mp_quantities env)) (recorded (mp_quantities env) it g s)"
proof -
  let ?meta = "gm_entries (getTargetAnnotations AnnotationMachineMetaAnnotationsKey
    (om_Annotations (k_ObjectMeta nodeClaim)))"
  have "map_of (rev ?meta) (g @ s) = None"
    using assms(3) by (simp add: gm_get_def map_of_eq_None_iff)
  moreover have "map_of (tag_annotation marshal tags es) (g @ s) = map_of es (g @ s)" for marshal tags es
    using plain_keys(3) [OF assms(1,2)] by (simp add: tag_annotation_def)
  ultimately show ?thesis
    unfolding machine_annotations_def map_of_puts
    by (simp add: map_add_def map_of_resource_annotations [OF assms(1,2)])
qed

text \<open>Reading back a printed quantity.\<close>

lemma put_annotation_printed:
  assumes "quantity_laws q" "gm_get annotations key = map_option (q_String q) v"
  shows "put_annotation q annotations key name r = Ok (case v of None \<Rightarrow> r | Some x \<Rightarrow> put name x r)"
  using assms by (simp add: put_annotation_def quantity_laws_def split: option.split)

definition resource_suffixes :: "(string \<times> string) list" where
  "resource_suffixes =
     [(ResourceCPU, AnnotationCPU), (ResourceMemory, AnnotationMemory), (ResourcePods, AnnotationPods),
      (ResourceEphemeralStorage, AnnotationEphemeralStorage), (TKELabelENIIP, AnnotationENIIP),
      (TKELabelDirectENI, AnnotationDirectENI), (TKELabelENI, AnnotationENI),
      (TKELabelSubENI, AnnotationSubENI), (TKELabelEIP, AnnotationEIP), (ResourceNVIDIAGPU, AnnotationGPUCount)]"

lemma resourceListFromAnnotations_printed:
  assumes "quantity_laws q" "\<And>s. s \<in> set annotation_suffixes \<Longrightarrow> map_of es (g @ s) = map_option (q_String q) (f s)"
  shows "\<exists>rl. resourceListFromAnnotations q g (Some es) = Ok rl \<and>
    map_of rl = (\<lambda>n. case map_of resource_suffixes n of Some s \<Rightarrow> f s | None \<Rightarrow> None)"
proof -
  have put: "put_annotation q (Some es) (g @ s) name r = Ok (case f s of None \<Rightarrow> r | Some x \<Rightarrow> put name x r)"
    if "s \<in> set annotation_suffixes" for s name r
    by (rule put_annotation_printed [OF assms(1)]) (simp add: assms(2) [OF that])
  have put_case: "map_of (case v of None \<Rightarrow> r | Some x \<Rightarrow> put name x r) =
      (\<lambda>n. if n = name \<and> v \<noteq> None then v else map_of r n)" for v :: "'a option" and r name
    by (auto simp: fun_eq_iff split: option.split)
  show ?thesis
    unfolding resourceListFromAnnotations_def Let_def
    by (simp add: put suffix_mem put_case resource_suffixes_def fun_eq_iff)
qed

text \<open>The provider with its calls to the machine API logged.\<close>

definition lifted_list :: "('w, 'q, 'r, 'v) list_env \<Rightarrow> ('w \<times> 'l list, 'q, 'r, 'v) list_env" where
  "lifted_list env =
     \<lparr>le_types = le_types env, le_ServerVersion = lifted (le_ServerVersion env),
      le_ListNodeClaims = lifted (le_ListNodeClaims env), le_Send = \<lambda>fs. lifted (le_Send env fs),
      le_UnmarshalItems = le_UnmarshalItems env,
      le_DescribeVpcCniPodLimits = \<lambda>z. lifted (le_DescribeVpcCniPodLimits env z),
      le_DescribeClusters = \<lambda>ids. lifted (le_DescribeClusters env ids),
      le_zonesHash = le_zonesHash env, le_ClusterID = le_ClusterID env\<rparr>"

definition logged_cloud :: "('w, 'q, 'r, 'v) cloud_env \<Rightarrow> ('w \<times> machine_call list, 'q, 'r, 'v) cloud_env" where
  "logged_cloud env =
     \<lparr>cp_GetNodeClass = \<lambda>k. lifted (cp_GetNodeClass env k), cp_Now = lifted (cp_Now env),
      cp_list = lifted_list (cp_list env), cp_machines = logged_machines (cp_machines env),
      cp_IDFromZone = cp_IDFromZone env\<rparr>"

lemma logged_cloud_fields [simp]:
  "cp_machines (logged_cloud env) = logged_machines (cp_machines env)"
  "cp_list (logged_cloud env) = lifted_list (cp_list env)"
  "cp_GetNodeClass (logged_cloud env) k = lifted (cp_GetNodeClass env k)"
  "le_types (lifted_list le) = le_types le" "le_zonesHash (lifted_list le) = le_zonesHash le"
  by (simp_all add: logged_cloud_def lifted_list_def)

lemma log_order: "reflp (\<lambda>s s'. snd s' = snd s)" "transp (\<lambda>s s'. snd s' = snd s)"
  by (auto intro: reflpI transpI)

lemma List_logged:
  assumes "run_state (it_List (lifted_list env) nodeClass refresh) ((w, tr), p) = (r, ((w', tr'), p'))"
  shows "tr' = tr" "same_memory p p'"
proof -
  have "listing_calls (\<lambda>s s'. snd s' = snd s) (lifted_list env)"
    by (simp add: listing_calls_def lifted_list_def preserves_lifted)
  then have "beside (\<lambda>s s'. snd s' = snd s) same_memory ((w, tr), p) ((w', tr'), p')"
    by (intro preservesD [OF preserves_List assms] log_order listing_steps_memory)
  then show "tr' = tr" "same_memory p p'" by (simp_all add: beside_def)
qed

lemma machineToNodeClaim_logged:
  assumes "run_state (machineToNodeClaim (logged_cloud env) m) (w, tr) = (r, (w', tr'))"
  shows "tr' = tr"
proof -
  have "preserves (\<lambda>s s'. snd s' = snd s) (cp_Now (logged_cloud env))"
    by (simp add: logged_cloud_def preserves_lifted)
  then have "preserves (\<lambda>s s'. snd s' = snd s) (machineToNodeClaim (logged_cloud env) m)"
    unfolding machineToNodeClaim_def
    by (auto intro!: preserves_bind log_order preserves_return split: outcome.split)
  from preservesD [OF this assms] show ?thesis by simp
qed

text \<open>A creation step by step.\<close>

lemma run_resolve:
  assumes "run_state (resolveNodeClassFromNodeClaim (logged_cloud env) nodeClaim) (w, tr) = (r, (w', tr'))"
  shows "tr' = tr" "r = Ok nodeClass \<Longrightarrow> \<exists>name. k_NodeClassRef nodeClaim = Some name \<and>
    fst (run_state (cp_GetNodeClass env ([], name)) w) = Ok nodeClass \<and>
    om_DeletionTimestamp (nc_ObjectMeta nodeClass) = None"
  using assms
  by (auto simp: resolveNodeClassFromNodeClaim_def run_simps
      split: option.splits outcome.splits prod.splits if_splits)

lemma run_created_machine:
  assumes "run_state (created_machine (logged_cloud env) (Some m, Some ps, err)) ((w, tr), p) = (out, ((w', tr'), p'))"
  shows "tr' = tr" "case err of None \<Rightarrow> p' = p
    | Some e \<Rightarrow> out = Err e \<and>
        p' = BlockInstanceType (ps_InstanceType ps, m_Label m CapacityTypeLabelKey, ms_Zone (m_Spec m)) p"
  using assms machineToNodeClaim_logged [of env m w tr]
  by (auto simp: created_machine_def run_simps split: option.splits prod.splits)

lemma run_cp_Create:
  assumes run: "run_state (cp_Create (logged_cloud env) nodeClaim) ((w, []), p) = (out, ((w', tr), p'))"
  obtains (nothing) "tr = []" "same_memory p p'"
  | (created) name nodeClass w1 w2 its p1 w3 machine res ps where
    "k_NodeClassRef nodeClaim = Some name" "fst (run_state (cp_GetNodeClass env ([], name)) w) = Ok nodeClass"
    "om_DeletionTimestamp (nc_ObjectMeta nodeClass) = None" "condition_true ''Ready'' (GetConditions nodeClass)"
    "run_state (it_List (lifted_list (cp_list env)) nodeClass False) ((w1, [] :: machine_call list), p) = (Ok its, ((w2, []), p1))"
    "same_memory p p1"
    "run_state (m_Create (logged_machines (cp_machines env)) nodeClass nodeClaim
       (filter (launchable (cp_sc env) nodeClaim) its)) (w2, []) =
       (Ok (Some (fst res), Some ps, snd res), (w3, [Created machine res]))"
    "tr = [Created machine res]"
    "run_state (created_machine (logged_cloud env) (Some (fst res), Some ps, snd res))
       ((w3, [Created machine res]), p1) = (out, ((w', tr), p'))"
proof -
  let ?res = "swrap (\<lambda>e. InsufficientCapacityErr (Wrapf ''resolving node class'' e))
      (on_world (resolveNodeClassFromNodeClaim (logged_cloud env) nodeClaim))"
  obtain r1 w1 tr1 where r1: "run_state (resolveNodeClassFromNodeClaim (logged_cloud env) nodeClaim) (w, []) = (r1, (w1, tr1))"
    by (metis prod.exhaust)
  note res1 = run_resolve [OF r1]
  show ?thesis
  proof (cases r1)
    case 1: (Ok nodeClass)
    obtain name where name: "k_NodeClassRef nodeClaim = Some name"
      "fst (run_state (cp_GetNodeClass env ([], name)) w) = Ok nodeClass"
      "om_DeletionTimestamp (nc_ObjectMeta nodeClass) = None"
      using res1(2) [OF 1] by blast
    obtain r2 w2 tr2 p1 where r2: "run_state (it_List (lifted_list (cp_list env)) nodeClass False) ((w1, [] :: machine_call list), p) = (r2, ((w2, tr2), p1))"
      by (metis prod.exhaust)
    note list = List_logged [OF r2]
    note start = run r1 1 res1(1)
    show ?thesis
    proof (cases "condition_true ''Ready'' (GetConditions nodeClass)")
      case ready: True
      show ?thesis
      proof (cases r2)
        case 2: (Ok its)
        let ?its = "filter (launchable (cp_sc env) nodeClaim) its"
        obtain r3 w3 tr3 where r3: "run_state (m_Create (logged_machines (cp_machines env)) nodeClass nodeClaim ?its) (w2, []) =
            (r3, (w3, tr3))"
          by (metis prod.exhaust)
        show ?thesis
          using r3
        proof (cases rule: run_m_Create)
          case no: nothing
          then show ?thesis
            using start ready r2 2 list r3 that(1)
            by (auto simp: cp_Create_def resolveInstanceTypes_def run_simps created_machine_def split: if_splits)
        next
          case yes: (created machine res ps it x zone subnetID labels rand)
          have "?its \<noteq> [] \<and> run_state (created_machine (logged_cloud env) (Some (fst res), Some ps, snd res))
              ((w3, [Created machine res]), p1) = (out, ((w', tr), p')) \<or> tr = [] \<and> same_memory p p'"
            using start ready r2 2 list r3 yes
            by (auto simp: cp_Create_def resolveInstanceTypes_def run_simps split: if_splits)
          then show ?thesis
          proof (elim disjE conjE, goal_cases)
            case 1
            note tr = run_created_machine(1) [OF 1(2)]
            have m: "run_state (m_Create (logged_machines (cp_machines env)) nodeClass nodeClaim ?its) (w2, []) =
                (Ok (Some (fst res), Some ps, snd res), (w3, [Created machine res]))"
              using r3 list yes by simp
            show ?thesis
              by (rule that(2) [OF name ready _ list(2) m tr 1(2)]) (use r2 2 list in simp)
          qed (rule that(1))
        qed
      qed (use start ready r2 list that(1) in \<open>auto simp: cp_Create_def resolveInstanceTypes_def run_simps\<close>)
    qed (use start that(1) in \<open>auto simp: cp_Create_def run_simps\<close>)
  qed (use run r1 res1(1) that(1) in \<open>auto simp: cp_Create_def run_simps\<close>)
qed


text \<open>From an offering back to the item it was made of.\<close>

lemma create_offering_labels:
  assumes "requirement_laws sc"
  shows "sc_Any sc (of_Requirements (create_offering sc zp cap i)) CapacityTypeLabelKey = cap"
    "sc_Len sc (of_Requirements (create_offering sc zp cap i)) CapacityTypeLabelKey = 1"
    "sc_Any sc (of_Requirements (create_offering sc zp cap i)) LabelTopologyZone =
       (case zp (qi_Zone i) of Ok zid \<Rightarrow> zid | _ \<Rightarrow> [])"
proof -
  let ?zid = "case zp (qi_Zone i) of Ok zid \<Rightarrow> zid | _ \<Rightarrow> []"
  let ?rs = "[in_req CapacityTypeLabelKey [cap], in_req LabelTopologyZone [?zid], in_req LabelCBSToplogy [qi_Zone i]]"
  have "distinct (map rq_Key ?rs)"
    by (simp add: in_req_def k8s_label_defs label_defs)
  then show "sc_Any sc (of_Requirements (create_offering sc zp cap i)) CapacityTypeLabelKey = cap"
    "sc_Len sc (of_Requirements (create_offering sc zp cap i)) CapacityTypeLabelKey = 1"
    "sc_Any sc (of_Requirements (create_offering sc zp cap i)) LabelTopologyZone = ?zid"
    using requirement_lawsD [OF assms, of CapacityTypeLabelKey cap ?rs]
      requirement_lawsD [OF assms, of LabelTopologyZone ?zid ?rs]
    by (simp_all add: create_offering_def)
qed

lemma offering_item:
  assumes build: "build_instance_types types p nodeClass v od spot limits cls = Ok its"
    and "it \<in> set its" "x \<in> set (it_Offerings it)"
  obtains i cap h items where "x = create_offering (ty_sc types) (ip_zoneProvider p) cap i"
    "(cap, h, items) \<in> {(CapacityTypeOnDemand, od_key, od), (CapacityTypeSpot, spot_key, spot)}"
    "i \<in> set items" "qi_InstanceType i = it_Name it" "\<not> isBlocked p (qi_InstanceType i, cap, qi_Zone i)"
proof -
  consider (od) i where "x = create_offering (ty_sc types) (ip_zoneProvider p) CapacityTypeOnDemand i"
      "i \<in> set (unblocked p CapacityTypeOnDemand (it_Name it) od)"
    | (spot) i where "x = create_offering (ty_sc types) (ip_zoneProvider p) CapacityTypeSpot i"
      "i \<in> set (unblocked p CapacityTypeSpot (it_Name it) spot)"
    using assms(3) build_instance_types_types(2) [OF build assms(2)] by auto
  then show ?thesis
  proof cases
    case (od i)
    then show ?thesis
      by (intro that [of CapacityTypeOnDemand i od_key od]) (auto simp: unblocked_def item_blocked_def)
  next
    case (spot i)
    then show ?thesis
      by (intro that [of CapacityTypeSpot i spot_key spot]) (auto simp: unblocked_def item_blocked_def)
  qed
qed

lemma machine_labels_capacity:
  assumes "machine_labels sc nodeClass nodeClaim it (Some x) = Ok labels"
    and "0 < sc_Len sc (of_Requirements x) CapacityTypeLabelKey"
  shows "map_of labels CapacityTypeLabelKey = Some (sc_Any sc (of_Requirements x) CapacityTypeLabelKey)"
  using assms by (auto simp: machine_labels_def Let_def)

text \<open>A machine and the item of the cloud it was chosen for.\<close>

lemma launched_item:
  assumes build: "build_instance_types (le_types (cp_list env)) p nodeClass v od spot limits cls = Ok its"
    and place: "launch_place (cp_machines env) nodeClass nodeClaim (filter (launchable (cp_sc env) nodeClaim) its) =
        Ok (it, x, zone, subnetID)"
    and labels: "machine_labels (mp_scheduling (cp_machines env)) nodeClass nodeClaim it (Some x) = Ok labels"
    and machine: "new_machine (cp_machines env) nodeClass nodeClaim it labels (of_Price x) rand zone subnetID = Ok (machine, ps)"
    and sc: "mp_scheduling (cp_machines env) = cp_sc env"
    and laws: "offering_laws (cp_sc env)" "requirement_laws (cp_sc env)"
    and zones: "ip_zoneProvider p = id_from_zone new_zone_provider"
      "mp_ZoneFromID (cp_machines env) = zone_from_id new_zone_provider"
  obtains i cap h items where
    "pv_Value (ms_ProviderSpec (m_Spec machine)) = Some (Some (enc_ProviderSpec ps))"
    "ps_InstanceType ps = qi_InstanceType i" "m_Label machine CapacityTypeLabelKey = cap"
    "(cap, h, items) \<in> {(CapacityTypeOnDemand, od_key, od), (CapacityTypeSpot, spot_key, spot)}" "i \<in> set items"
    "qi_Status i = ''SELL''" "0 < qi_Inventory i" "\<not> isBlocked p (qi_InstanceType i, cap, qi_Zone i)"
    "known_zone new_zone_provider (qi_Zone i) \<Longrightarrow> ms_Zone (m_Spec machine) = qi_Zone i"
proof -
  have laws': "offering_laws (mp_scheduling (cp_machines env))" using sc laws by simp
  show ?thesis
  proof (rule launch_place_Ok [OF laws' place], goal_cases)
    case (1 ys)
    then have it: "it \<in> set its" by simp
    obtain i cap h items where i: "x = create_offering (cp_sc env) (ip_zoneProvider p) cap i"
      "(cap, h, items) \<in> {(CapacityTypeOnDemand, od_key, od), (CapacityTypeSpot, spot_key, spot)}"
      "i \<in> set items" "qi_InstanceType i = it_Name it" "\<not> isBlocked p (qi_InstanceType i, cap, qi_Zone i)"
      by (rule offering_item [OF build it 1(5)])
    note req = create_offering_labels [OF laws(2)]
    obtain s where s: "s \<in> set (nct_Subnets (nc_Status nodeClass))" "sn_Zone s = zone" "sn_ID s = subnetID"
      using 1(11) by blast
    note new = new_machine_Ok [OF machine s 1(10)]
    have cap: "m_Label machine CapacityTypeLabelKey = cap"
      using machine_labels_capacity [OF labels] req(1,2) [of "ip_zoneProvider p" cap i]
      by (simp add: m_Label_def new(3) gm_idx_def sc i(1))
    have zone: "ms_Zone (m_Spec machine) = qi_Zone i" if known: "known_zone new_zone_provider (qi_Zone i)"
    proof -
      obtain zid where "id_from_zone new_zone_provider (qi_Zone i) = Ok zid"
        "zone_from_id new_zone_provider zid = Ok (qi_Zone i)"
        using tke_zones.known_roundtrip [OF known] by blast
      then show ?thesis using 1(9) req(3) [of "ip_zoneProvider p" cap i] new(2) by (simp add: sc zones i(1))
    qed
    have "pv_Value (ms_ProviderSpec (m_Spec machine)) = Some (Some (enc_ProviderSpec ps))"
      "ps_InstanceType ps = qi_InstanceType i"
      using new(1) i(4) by (simp_all add: machine_coherent_def Let_def)
    moreover have "qi_Status i = ''SELL''" "0 < qi_Inventory i"
      using 1(6) by (simp_all add: i(1) create_offering_def)
    ultimately show ?thesis using that cap i(2,3,5) zone by blast
  qed
qed

lemma created_from_item:
  assumes run: "run_state (cp_Create (logged_cloud env) nodeClaim) ((w, []), p) = (out, ((w', [Created machine res]), p'))"
    and sc: "mp_scheduling (cp_machines env) = cp_sc env"
    and laws: "offering_laws (cp_sc env)" "requirement_laws (cp_sc env)" "cache_laws (ip_cache p)"
    and zones: "ip_zoneProvider p = id_from_zone new_zone_provider"
      "mp_ZoneFromID (cp_machines env) = zone_from_id new_zone_provider"
  obtains ps i cap h zh items where
    "pv_Value (ms_ProviderSpec (m_Spec machine)) = Some (Some (enc_ProviderSpec ps))"
    "ps_InstanceType ps = qi_InstanceType i" "m_Label machine CapacityTypeLabelKey = cap"
    "(cap, h) \<in> {(CapacityTypeOnDemand, od_key), (CapacityTypeSpot, spot_key)}"
    "ca_Get (ip_cache p) (h zh) (ip_providerCache p') = Some (CTypes items)" "i \<in> set items"
    "qi_Status i = ''SELL''" "0 < qi_Inventory i" "\<not> isBlocked p (qi_InstanceType i, cap, qi_Zone i)"
    "known_zone new_zone_provider (qi_Zone i) \<Longrightarrow> ms_Zone (m_Spec machine) = qi_Zone i"
  using run
proof (cases rule: run_cp_Create)
  case nothing
  then show ?thesis by simp
next
  case (created name nodeClass w1 w2 its p1 w3 machine' res' ps)
  show ?thesis
    using created(7)
  proof (cases rule: run_m_Create)
    case nothing
    then show ?thesis by simp
  next
    case launched: (created m r ps' it x zone subnetID labels rand)
    then have m: "m = machine" using created(8) by simp
    let ?h = "le_zonesHash (cp_list env) (set (subnet_zones nodeClass))"
    obtain v od spot limits c cls where
      cache: "ca_Get (ip_cache p) (od_key ?h) (ip_providerCache p1) = Some (CTypes od)"
        "ca_Get (ip_cache p) (spot_key ?h) (ip_providerCache p1) = Some (CTypes spot)" and
      build: "build_instance_types (le_types (cp_list env)) p nodeClass v od spot limits cls = Ok its"
      by (rule run_it_List [OF created(5) laws(3) refl refl]) auto
    have cached: "ip_providerCache p' = ip_providerCache p1"
      using run_created_machine(2) [OF created(9)]
      by (auto simp: BlockInstanceType_def split: option.splits)
    show ?thesis
    proof (rule launched_item [OF build launched(3-5) [unfolded m] sc laws(1,2) zones], goal_cases)
      case (1 i cap h items)
      have kind: "(cap, h) \<in> {(CapacityTypeOnDemand, od_key), (CapacityTypeSpot, spot_key)}"
        and listed: "ca_Get (ip_cache p) (h ?h) (ip_providerCache p') = Some (CTypes items)"
        using 1(4) cache cached by auto
      show ?thesis by (rule that [OF 1(1-3) kind listed 1(5-9)])
    qed
  qed
qed

section \<open>Properties\<close>

text \<open>
  C19. The resources of a launched machine survive in its annotations.  What the machine provider prints
  into the annotations of a machine is read back by the cloud provider without a panic: the
  capacity with every resource it had among the ten known ones (the four basic ones as zero when
  they were missing), the non-zero system reservations, the eviction thresholds; and of the kubelet
  reservation the CPU and, as memory, the ephemeral storage when that is not zero and the
  memory otherwise.  This needs annotations of the node claim that do not themselves use these keys.
\<close>

theorem resources_roundtrip:
  assumes laws: "quantity_laws (mp_quantities env)"
    and meta: "\<And>g s. g \<in> set annotation_groups \<Longrightarrow> s \<in> set annotation_suffixes \<Longrightarrow>
      gm_get (getTargetAnnotations AnnotationMachineMetaAnnotationsKey (om_Annotations (k_ObjectMeta nodeClaim)))
        (g @ s) = None"
  shows "let q = mp_quantities env; ov = it_Overhead it;
             es = Some (machine_annotations env nodeClass nodeClaim it price);
             nz = (\<lambda>rl n. if q_IsZero q (rl_get q rl n) then None else Some (rl_get q rl n)) in
    \<exists>capacity kube sys ev.
      resourceListFromAnnotations q CapacityGroup es = Ok capacity \<and>
      resourceListFromAnnotations q KubeReservedGroup es = Ok kube \<and>
      resourceListFromAnnotations q SystemReservedGroup es = Ok sys \<and>
      resourceListFromAnnotations q EvictionThresholdGroup es = Ok ev \<and>
      (\<forall>n \<in> {ResourceCPU, ResourceMemory, ResourcePods, ResourceEphemeralStorage}.
         map_of capacity n = Some (rl_get q (it_Capacity it) n)) \<and>
      (\<forall>n \<in> {TKELabelENIIP, TKELabelDirectENI, TKELabelENI, TKELabelSubENI, TKELabelEIP, ResourceNVIDIAGPU}.
         map_of capacity n = map_of (it_Capacity it) n) \<and>
      map_of kube = [ResourceCPU \<mapsto> rl_get q (ov_KubeReserved ov) ResourceCPU,
        ResourceMemory \<mapsto> (case nz (ov_KubeReserved ov) ResourceEphemeralStorage of
           Some storage \<Rightarrow> storage | None \<Rightarrow> rl_get q (ov_KubeReserved ov) ResourceMemory)] \<and>
      (\<forall>n. map_of sys n = (if n \<in> {ResourceCPU, ResourceMemory, ResourceEphemeralStorage}
         then nz (ov_SystemReserved ov) n else None)) \<and>
      map_of ev = [ResourceMemory \<mapsto> rl_get q (ov_EvictionThreshold ov) ResourceMemory,
        ResourceEphemeralStorage \<mapsto> rl_get q (ov_EvictionThreshold ov) ResourceEphemeralStorage]"
proof -
  let ?q = "mp_quantities env" and ?es = "machine_annotations env nodeClass nodeClaim it price"
  have read: "\<exists>rl. resourceListFromAnnotations ?q g (Some ?es) = Ok rl \<and>
      map_of rl = (\<lambda>n. case map_of resource_suffixes n of Some s \<Rightarrow> recorded ?q it g s | None \<Rightarrow> None)"
    if "g \<in> set annotation_groups" for g
    by (rule resourceListFromAnnotations_printed [OF laws])
      (rule map_of_machine_annotations [OF that _ meta [OF that]], assumption+)
  obtain capacity kube sys ev where
    r: "resourceListFromAnnotations ?q CapacityGroup (Some ?es) = Ok capacity"
      "resourceListFromAnnotations ?q KubeReservedGroup (Some ?es) = Ok kube"
      "resourceListFromAnnotations ?q SystemReservedGroup (Some ?es) = Ok sys"
      "resourceListFromAnnotations ?q EvictionThresholdGroup (Some ?es) = Ok ev"
    and m: "map_of capacity = (\<lambda>n. case map_of resource_suffixes n of Some s \<Rightarrow> recorded ?q it CapacityGroup s | None \<Rightarrow> None)"
      "map_of kube = (\<lambda>n. case map_of resource_suffixes n of Some s \<Rightarrow> recorded ?q it KubeReservedGroup s | None \<Rightarrow> None)"
      "map_of sys = (\<lambda>n. case map_of resource_suffixes n of Some s \<Rightarrow> recorded ?q it SystemReservedGroup s | None \<Rightarrow> None)"
      "map_of ev = (\<lambda>n. case map_of resource_suffixes n of Some s \<Rightarrow> recorded ?q it EvictionThresholdGroup s | None \<Rightarrow> None)"
    using read [OF group_mem(1)] read [OF group_mem(2)] read [OF group_mem(3)] read [OF group_mem(4)] by blast
  show ?thesis
    unfolding Let_def r
    by (simp add: m resource_suffixes_def recorded_def groups_neq Let_def fun_eq_iff)
qed

text \<open>The reserved memory of this type comes back as its reserved storage.\<close>

definition sample_reserved_type :: "(string, Requirement list) InstanceType" where
  "sample_reserved_type = (sample_type ''S5.MEDIUM4'' ''spot'' 2)\<lparr>it_Overhead :=
     \<lparr>ov_KubeReserved = [(ResourceMemory, ''100''), (ResourceEphemeralStorage, ''7'')],
      ov_SystemReserved = [], ov_EvictionThreshold = []\<rparr>\<rparr>"

theorem resources_roundtrip_witness:
  "\<exists>kube. resourceListFromAnnotations sample_quantities KubeReservedGroup
       (Some (machine_annotations sample_machine_env sample_machine_class sample_nodeclaim sample_reserved_type 2)) =
       Ok kube \<and> map_of kube ResourceMemory = Some ''7''"
proof -
  have meta: "gm_get (getTargetAnnotations AnnotationMachineMetaAnnotationsKey
      (om_Annotations (k_ObjectMeta (sample_nodeclaim :: string NodeClaim)))) k = None" for k
    by (simp add: sample_nodeclaim_def zero_NodeClaim_def zero_ObjectMeta_def getTargetAnnotations_def)
  have q: "mp_quantities sample_machine_env = sample_quantities" by (simp add: sample_machine_env_def)
  have v: "rl_get sample_quantities (ov_KubeReserved (it_Overhead sample_reserved_type)) ResourceEphemeralStorage = ''7''"
    "\<not> q_IsZero sample_quantities ''7''"
    by code_simp+
  show ?thesis
    using resources_roundtrip [of sample_machine_env sample_nodeclaim sample_reserved_type sample_machine_class 2]
      sample_quantities_laws meta
    unfolding q Let_def by (auto simp: v)
qed

text \<open>
  C3. A creation.  It makes at most one machine, and only when the node class of the claim was found, is not
  being deleted and is ready.  When the machine API refuses the machine, the error is returned and
  exactly the offering of the refused machine (its instance type, capacity label and zone) is blocked;
  in every other case the memory of blocked offerings is left as it was.
\<close>

theorem cp_Create_correct:
  assumes run: "run_state (cp_Create (logged_cloud env) nodeClaim) ((w, []), p) = (out, ((w', tr), p'))"
  shows "tr = [] \<and> same_memory p p' \<or>
    (\<exists>machine created err name nodeClass ps. tr = [Created machine (created, err)] \<and>
       k_NodeClassRef nodeClaim = Some name \<and>
       fst (run_state (cp_GetNodeClass env ([], name)) w) = Ok nodeClass \<and>
       om_DeletionTimestamp (nc_ObjectMeta nodeClass) = None \<and>
       condition_true ''Ready'' (GetConditions nodeClass) \<and>
       pv_Value (ms_ProviderSpec (m_Spec machine)) = Some (Some (enc_ProviderSpec ps)) \<and>
       (case err of
          None \<Rightarrow> same_memory p p'
        | Some e \<Rightarrow> out = Err e \<and> same_memory (BlockInstanceType
            (ps_InstanceType ps, m_Label created CapacityTypeLabelKey, ms_Zone (m_Spec created)) p) p'))"
  using run
proof (cases rule: run_cp_Create)
  case nothing
  then show ?thesis by simp
next
  case (created name nodeClass w1 w2 its p1 w3 machine res ps)
  have ps: "pv_Value (ms_ProviderSpec (m_Spec machine)) = Some (Some (enc_ProviderSpec ps))"
    using created(7)
    by (rule run_m_Create) (auto simp: new_machine_def RawExtensionFromProviderSpec_def split: prod.splits)
  obtain m err where res: "res = (m, err)" by (cases res)
  have end_memory: "case err of None \<Rightarrow> same_memory p p'
    | Some e \<Rightarrow> out = Err e \<and> same_memory (BlockInstanceType
        (ps_InstanceType ps, m_Label m CapacityTypeLabelKey, ms_Zone (m_Spec m)) p) p'"
    using run_created_machine(2) [OF created(9) [unfolded res fst_conv snd_conv]] created(6)
    by (auto simp: same_memory_def BlockInstanceType_def split: option.splits)
  then show ?thesis
    using created(1-4) created(8) [unfolded res] ps end_memory by blast
qed

text \<open>
  C1. What is launched was for sale and not blocked.  With the zone provider of the program and the same
  scheduling operations in both providers, every machine that is created is of the instance type of
  an item in the cached listing of its charge type, carries that capacity type as its label, and
  the item was in stock and not blocked, by name or by wildcard, when the creation began; a machine
  for an item in a zone the program knows is placed in the zone of the item.
\<close>

theorem launch_not_blocked:
  assumes run: "run_state (cp_Create (logged_cloud env) nodeClaim) ((w, []), p) = (out, ((w', [Created machine res]), p'))"
    and sc: "mp_scheduling (cp_machines env) = cp_sc env"
    and laws: "offering_laws (cp_sc env)" "requirement_laws (cp_sc env)" "cache_laws (ip_cache p)"
    and zones: "ip_zoneProvider p = id_from_zone new_zone_provider"
      "mp_ZoneFromID (cp_machines env) = zone_from_id new_zone_provider"
  shows "\<exists>ps i capacityType h items.
    pv_Value (ms_ProviderSpec (m_Spec machine)) = Some (Some (enc_ProviderSpec ps)) \<and>
    ps_InstanceType ps = qi_InstanceType i \<and>
    m_Label machine CapacityTypeLabelKey = capacityType \<and>
    (capacityType, h) \<in> {(CapacityTypeOnDemand, od_key), (CapacityTypeSpot, spot_key)} \<and>
    (\<exists>zh. ca_Get (ip_cache p) (h zh) (ip_providerCache p') = Some (CTypes items)) \<and> i \<in> set items \<and>
    qi_Status i = ''SELL'' \<and> 0 < qi_Inventory i \<and>
    \<not> isBlocked p (qi_InstanceType i, capacityType, qi_Zone i) \<and>
    (known_zone new_zone_provider (qi_Zone i) \<longrightarrow> ms_Zone (m_Spec machine) = qi_Zone i)"
proof -
  obtain ps i cap h zh items where
    "pv_Value (ms_ProviderSpec (m_Spec machine)) = Some (Some (enc_ProviderSpec ps))"
    "ps_InstanceType ps = qi_InstanceType i" "m_Label machine CapacityTypeLabelKey = cap"
    "(cap, h) \<in> {(CapacityTypeOnDemand, od_key), (CapacityTypeSpot, spot_key)}"
    "ca_Get (ip_cache p) (h zh) (ip_providerCache p') = Some (CTypes items)" "i \<in> set items"
    "qi_Status i = ''SELL''" "0 < qi_Inventory i" "\<not> isBlocked p (qi_InstanceType i, cap, qi_Zone i)"
    "known_zone new_zone_provider (qi_Zone i) \<longrightarrow> ms_Zone (m_Spec machine) = qi_Zone i"
    by (rule created_from_item [OF assms]) blast
  then show ?thesis by blast
qed

text \<open>A creation that the machine API refuses: two items in stock, one node class that is ready.\<close>

definition sample_refusal :: goerr where
  "sample_refusal = APIError ReasonOther ''quota exceeded''"

definition sample_stores :: "(Machine \<Rightarrow> Machine \<times> goerr option) \<Rightarrow> (unit, string, Requirement list, string) cloud_env" where
  "sample_stores store =
     \<lparr>cp_GetNodeClass = \<lambda>_. State_Monad.return (Ok sample_zone_class), cp_Now = State_Monad.return 0,
      cp_list = sample_list_env,
      cp_machines = sample_machine_env\<lparr>mp_ZoneFromID := zone_from_id new_zone_provider,
        mp_Create := \<lambda>m. State_Monad.return (store m)\<rparr>,
      cp_IDFromZone = id_from_zone new_zone_provider\<rparr>"

abbreviation sample_cloud :: "(unit, string, Requirement list, string) cloud_env" where
  "sample_cloud \<equiv> sample_stores (\<lambda>m. (m, Some sample_refusal))"

definition sample_tke_provider :: "(string, cache_item) entries InstanceTypeProvider" where
  "sample_tke_provider = NewDefaultProvider_it (id_from_zone new_zone_provider) sample_cache [] []"

text \<open>
  The creation is run on any provider with an empty cache of listings; what it launches depends on the
  offerings that are blocked.
\<close>

definition sample_memory :: "(string, cache_item) entries InstanceTypeProvider \<Rightarrow> bool" where
  "sample_memory p \<longleftrightarrow> ip_cache p = sample_cache \<and> ip_providerCache p = [] \<and>
     ip_zoneProvider p = id_from_zone new_zone_provider"

definition sample_free :: "(string, cache_item) entries InstanceTypeProvider \<Rightarrow> string \<Rightarrow> bool" where
  "sample_free p cap \<longleftrightarrow> \<not> isBlocked p (''S5.MEDIUM4'', cap, ''ap-guangzhou-3'')"

lemma sample_tke_memory: "sample_memory sample_tke_provider" "sample_free sample_tke_provider cap"
  by (simp_all add: sample_memory_def sample_free_def isBlocked_iff is_blocked_key_def sample_tke_provider_def NewDefaultProvider_it_def)

definition sample_cloud_claim :: "string NodeClaim" where
  "sample_cloud_claim = zero_NodeClaim\<lparr>k_NodeClassRef := Some ''default''\<rparr>"

lemma sample_lifted: "lifted (State_Monad.return x) = State_Monad.return x"
  by (rule state.expand) (simp add: lifted_def fun_eq_iff)

abbreviation sample_sc :: "(string, Requirement list) scheduling_ops" where
  "sample_sc \<equiv> sample_scheduling"

abbreviation sample_offers :: "string \<Rightarrow> Requirement list Offering list" where
  "sample_offers cap \<equiv> map (create_offering sample_sc (id_from_zone new_zone_provider) cap) sample_items"

definition sample_offerings :: "(string, cache_item) entries InstanceTypeProvider \<Rightarrow> Requirement list Offering list" where
  "sample_offerings p =
     (if sample_free p CapacityTypeOnDemand then sample_offers CapacityTypeOnDemand else []) @
     (if sample_free p CapacityTypeSpot then sample_offers CapacityTypeSpot else [])"

lemma sample_cloud_fields [simp]:
  "cp_list (sample_stores store) = sample_list_env" "lifted_list sample_list_env = sample_list_env"
  "cp_GetNodeClass (sample_stores store) k = State_Monad.return (Ok sample_zone_class)"
  "le_types sample_list_env = sample_env" "ty_sc sample_env = sample_sc"
  "mp_scheduling (cp_machines (sample_stores store)) = sample_sc"
  "mp_ZoneFromID (cp_machines (sample_stores store)) = zone_from_id new_zone_provider"
  by (simp_all add: lifted_list_def sample_stores_def sample_list_env_def sample_lifted sample_env_def sample_machine_env_def)

lemma sample_label_value: "is_ok (label_value sample_sc r key labels)"
  by (simp add: label_value_def sample_scheduling_def first_value_def split: list.split)

lemma sample_machine_labels: "is_ok (machine_labels sample_sc nodeClass nodeClaim it (Some x))"
proof -
  have ok: "\<exists>labels'. label_value sample_sc r key labels = Ok labels'" for r key labels
    using sample_label_value [of r key labels] by (cases "label_value sample_sc r key labels") auto
  obtain l1 l2 l3 where
    "label_value sample_sc (it_Requirements it) LabelInstanceFamily
        [(NodePoolLabelKey, k_Label nodeClaim NodePoolLabelKey),
         (LabelNodeClaim, k_Name nodeClaim), (LabelNodeClass, nc_Name nodeClass)] = Ok l1"
    "label_value sample_sc (it_Requirements it) LabelInstanceCPU l1 = Ok l2"
    "label_value sample_sc (it_Requirements it) LabelInstanceMemoryGB l2 = Ok l3"
    using ok by metis
  then show ?thesis by (simp add: machine_labels_def Let_def)
qed

lemma sample_unblocked:
  assumes "name = ''S5.MEDIUM4''"
  shows "unblocked p cap name sample_items = (if sample_free p cap then sample_items else [])"
  by (simp add: unblocked_def item_blocked_def sample_free_def assms sample_stock_item_def sample_item_def)

lemma sample_cloud_types:
  assumes p: "sample_memory p"
    and build: "build_instance_types sample_env p sample_zone_class v sample_items sample_items limits zero_Cluster = Ok its"
  obtains it where "its = [it]" "it_Name it = ''S5.MEDIUM4''" "it_Offerings it = sample_offerings p"
proof -
  have fields: "ty_sc sample_env = sample_sc" "ip_zoneProvider p = id_from_zone new_zone_provider"
    using p by (simp_all add: sample_env_def sample_memory_def)
  have im: "spot_type_map p sample_items (od_type_map sample_items []) = [(''S5.MEDIUM4'', sample_stock_item\<lparr>qi_Arch := ''arm64''\<rparr>)]"
    by (simp add: sample_stock_item_def sample_item_def)
  note types = build_instance_types_types [OF build, unfolded im fields]
  obtain it where it: "its = [it]" "it_Name it = ''S5.MEDIUM4''"
    using types(1) by (cases its) auto
  have "it \<in> set its" by (simp add: it)
  from types(2) [OF this] show ?thesis
    by (intro that [OF it]) (simp add: sample_unblocked [OF it(2)] sample_offerings_def)
qed

lemma sample_cheapest:
  assumes "xs = sample_offers cap" "ys \<in> {[], sample_offers cap'}"
  shows "so_Cheapest sample_sc (filter of_Available (xs @ ys)) = Some (hd xs)"
  using assms by (auto simp: sample_scheduling_def create_offering_def sample_stock_item_def sample_item_def)

text \<open>The capacity type that is launched: on demand, if that is not blocked.\<close>

definition sample_choice :: "(string, cache_item) entries InstanceTypeProvider \<Rightarrow> string" where
  "sample_choice p = (if sample_free p CapacityTypeOnDemand then CapacityTypeOnDemand else CapacityTypeSpot)"

lemma sample_cloud_place:
  assumes "its = [it]" and offerings: "it_Offerings it = sample_offerings p" and free: "sample_free p (sample_choice p)"
  shows "filter (launchable sample_sc sample_cloud_claim) its = [it]"
    "launch_place (cp_machines (sample_stores store)) sample_zone_class sample_cloud_claim
       (filter (launchable sample_sc sample_cloud_claim) its) =
     Ok (it, hd (sample_offers (sample_choice p)), ''ap-guangzhou-3'', ''subnet-1'')"
proof -
  let ?x = "hd (sample_offers (sample_choice p))"
  have zid: "id_from_zone new_zone_provider ''ap-guangzhou-3'' = Ok ''100003''"
    "zone_from_id new_zone_provider ''100003'' = Ok ''ap-guangzhou-3''"
    by code_simp+
  have mixed: "\<not> isMixedCapacityLaunch sample_sc sample_cloud_claim its" for its
    by (simp add: isMixedCapacityLaunch_def sample_scheduling_def sample_cloud_claim_def zero_NodeClaim_def req_values_def)
  let ?ys = "if sample_free p CapacityTypeOnDemand \<and> sample_free p CapacityTypeSpot then sample_offers CapacityTypeSpot else []"
  have os: "sample_offerings p = sample_offers (sample_choice p) @ ?ys"
    using free by (cases "sample_free p CapacityTypeOnDemand") (simp_all add: sample_offerings_def sample_choice_def)
  have first: "so_Cheapest sample_sc (filter of_Available (it_Offerings it)) = Some ?x"
    unfolding offerings os by (rule sample_cheapest [OF refl, of _ CapacityTypeSpot]) simp
  then have avail: "filter of_Available (it_Offerings it) \<noteq> []"
    by (cases "filter of_Available (it_Offerings it)") (simp_all add: sample_scheduling_def)
  have launch: "launchable sample_sc sample_cloud_claim it"
    using avail by (simp add: launchable_def sample_scheduling_def)
  have trunc: "si_Truncate sample_sc [it] r maxInstanceTypes = Ok [it]" for r
    by (simp add: sample_scheduling_def maxInstanceTypes_def)
  have order: "launch_order sample_sc sample_cloud_claim [it] = Ok [it]"
    using mixed [of "[it]"] trunc
    by (simp add: launch_order_def Let_def filterInstanceTypes_def orderInstanceTypesByPrice_def)
  have cheapest: "so_Cheapest sample_sc (compatible_offerings sample_sc r it) = Some ?x" for r
    using first by (simp add: compatible_offerings_def) (simp add: sample_scheduling_def)
  have any: "sc_Any sample_sc (of_Requirements ?x) LabelTopologyZone = ''100003''"
    using create_offering_labels(3) [OF sample_requirement_laws, of "id_from_zone new_zone_provider" "sample_choice p"
        "sample_stock_item\<lparr>qi_Arch := ''amd64''\<rparr>"]
    by (simp add: sample_stock_item_def sample_item_def zid)
  show "filter (launchable sample_sc sample_cloud_claim) its = [it]"
    using launch by (simp add: assms(1))
  show "launch_place (cp_machines (sample_stores store)) sample_zone_class sample_cloud_claim
       (filter (launchable sample_sc sample_cloud_claim) its) =
     Ok (it, ?x, ''ap-guangzhou-3'', ''subnet-1'')"
    unfolding launch_place_def Let_def sample_cloud_fields
    using launch any by (simp add: assms(1) order cheapest zid) (simp add: sample_zone_class_def)
qed

lemma sample_m_Create:
  assumes place: "launch_place (cp_machines (sample_stores store)) sample_zone_class sample_cloud_claim its =
      Ok (it, x, ''ap-guangzhou-3'', ''subnet-1'')"
    and name: "it_Name it = ''S5.MEDIUM4''"
    and x: "of_Requirements x = of_Requirements (create_offering sample_sc (id_from_zone new_zone_provider) cap i)"
  obtains machine ps where
    "run_state (m_Create (logged_machines (cp_machines (sample_stores store))) sample_zone_class sample_cloud_claim its) ((), []) =
      (Ok (Some (fst (store machine)), Some ps, snd (store machine)), ((), [Created machine (store machine)]))"
    "pv_Value (ms_ProviderSpec (m_Spec machine)) = Some (Some (enc_ProviderSpec ps))"
    "(ps_InstanceType ps, m_Label machine CapacityTypeLabelKey, ms_Zone (m_Spec machine)) =
       (''S5.MEDIUM4'', cap, ''ap-guangzhou-3'')"
proof -
  let ?env = "cp_machines (sample_stores store)"
  obtain labels where labels: "machine_labels sample_sc sample_zone_class sample_cloud_claim it (Some x) = Ok labels"
    using sample_machine_labels by (metis is_ok.elims(2))
  have fields: "mp_scheduling ?env = sample_sc"
    "run_state (mp_RandString (logged_machines ?env)) s = (''abcdefgh'', s)"
    "run_state (mp_Create (logged_machines ?env) m) (w, tr) = (store m, (w, tr @ [Created m (store m)]))" for s m w tr
    by (simp_all add: sample_stores_def sample_machine_env_def logged_machines_def logged_def lifted_def split: prod.split)
  obtain ps ms where "final_spec ?env sample_zone_class sample_cloud_claim it (is_spot labels)
      ''ap-guangzhou-3'' ''subnet-1'' = (ps, ms)" by fastforce
  then obtain machine where new: "new_machine ?env sample_zone_class sample_cloud_claim it labels
      (of_Price x) ''abcdefgh'' ''ap-guangzhou-3'' ''subnet-1'' = Ok (machine, ps)"
    by (simp add: new_machine_def RawExtensionFromProviderSpec_def)
  have run: "run_state (m_Create (logged_machines ?env) sample_zone_class sample_cloud_claim its) ((), []) =
      (Ok (Some (fst (store machine)), Some ps, snd (store machine)), ((), [Created machine (store machine)]))"
    by (simp add: m_Create_def place fields labels new run_simps)
  have cap: "map_of labels CapacityTypeLabelKey = Some cap"
    using machine_labels_capacity [OF labels] by (simp add: x create_offering_labels [OF sample_requirement_laws])
  have "\<exists>s \<in> set (nct_Subnets (nc_Status sample_zone_class)). sn_Zone s = ''ap-guangzhou-3'' \<and> sn_ID s = ''subnet-1''"
    by code_simp
  then obtain s where s: "s \<in> set (nct_Subnets (nc_Status sample_zone_class))" "sn_Zone s = ''ap-guangzhou-3''" "sn_ID s = ''subnet-1''"
    by blast
  note made = new_machine_Ok [OF new s]
  have "m_Label machine CapacityTypeLabelKey = cap"
    using made(3) cap by (simp add: m_Label_def gm_idx_def)
  then show ?thesis
    using made(1,2) name by (intro that [OF run]) (simp_all add: machine_coherent_def Let_def)
qed

lemma sample_stored:
  assumes mem: "sample_memory p" and free: "sample_free p (sample_choice p)"
  obtains machine p1 ps where "run_state (cp_Create (logged_cloud (sample_stores store)) sample_cloud_claim) (((), []), p) =
    run_state (created_machine (logged_cloud (sample_stores store)) (Some (fst (store machine)), Some ps, snd (store machine)))
      (((), [Created machine (store machine)]), p1)" "same_memory p p1"
    "\<And>k items. ca_Get sample_cache k (ip_providerCache p1) = Some (CTypes items) \<Longrightarrow> items = sample_items"
    "pv_Value (ms_ProviderSpec (m_Spec machine)) = Some (Some (enc_ProviderSpec ps))"
    "(ps_InstanceType ps, m_Label machine CapacityTypeLabelKey, ms_Zone (m_Spec machine)) =
       (''S5.MEDIUM4'', sample_choice p, ''ap-guangzhou-3'')"
proof -
  have p: "ip_cache p = sample_cache" "ip_providerCache p = []"
    using mem by (simp_all add: sample_memory_def)
  obtain its p1 v limits where
    list: "run_state (it_List sample_list_env sample_zone_class False) (((), [] :: machine_call list), p) = (Ok its, (((), []), p1))"
    and build: "build_instance_types sample_env p sample_zone_class v sample_items sample_items limits zero_Cluster = Ok its"
    and same: "same_memory p p1"
    and cached: "\<And>k items. ca_Get sample_cache k (ip_providerCache p1) = Some (CTypes items) \<Longrightarrow> items = sample_items"
    by (rule sample_List [OF p]) blast
  obtain it where it: "its = [it]" "it_Name it = ''S5.MEDIUM4''"
    "it_Offerings it = sample_offerings p"
    by (rule sample_cloud_types [OF mem build])
  let ?its = "filter (launchable sample_sc sample_cloud_claim) its"
  define x where "x = hd (sample_offers (sample_choice p))"
  have place: "launch_place (cp_machines (sample_stores store)) sample_zone_class sample_cloud_claim ?its =
      Ok (it, x, ''ap-guangzhou-3'', ''subnet-1'')"
    unfolding x_def by (rule sample_cloud_place(2) [OF it(1,3) free])
  have ne: "?its \<noteq> []" using sample_cloud_place(1) [OF it(1,3) free] by simp
  have resolved: "om_DeletionTimestamp (nc_ObjectMeta sample_zone_class) = None"
    "condition_true ''Ready'' (GetConditions sample_zone_class)"
    "k_NodeClassRef sample_cloud_claim = Some ''default''"
    by code_simp+
  have klass: "run_state (resolveNodeClassFromNodeClaim (logged_cloud (sample_stores store)) sample_cloud_claim) ((), []) =
      (Ok sample_zone_class, ((), []))"
    by (simp add: resolveNodeClassFromNodeClaim_def run_simps resolved sample_cloud_fields)
  have types: "run_state (resolveInstanceTypes (logged_cloud (sample_stores store)) sample_cloud_claim sample_zone_class)
      (((), []), p) = (Ok ?its, (((), []), p1))"
    by (simp add: resolveInstanceTypes_def run_simps list sample_cloud_fields)
  have "of_Requirements x = of_Requirements (create_offering sample_sc (id_from_zone new_zone_provider) (sample_choice p)
      (sample_stock_item\<lparr>qi_Arch := ''amd64''\<rparr>))" by (simp add: x_def)
  note made = sample_m_Create [OF place it(2) this]
  show ?thesis
  proof (rule made, goal_cases)
    case (1 machine ps)
    show ?case
      by (rule that [OF _ same cached 1(2,3)])
        (use ne in \<open>simp_all add: cp_Create_def run_simps klass resolved types 1(1)\<close>)
  qed
qed

text \<open>A creation that is refused blocks what it wanted to launch.\<close>

lemma sample_creation:
  assumes mem: "sample_memory p" and free: "sample_free p (sample_choice p)"
  obtains machine p1 p' ps where "run_state (cp_Create (logged_cloud sample_cloud) sample_cloud_claim) (((), []), p) =
    (Err sample_refusal, (((), [Created machine (machine, Some sample_refusal)]), p'))"
    "p' = BlockInstanceType (''S5.MEDIUM4'', sample_choice p, ''ap-guangzhou-3'') p1" "same_memory p p1"
    "\<And>k items. ca_Get sample_cache k (ip_providerCache p1) = Some (CTypes items) \<Longrightarrow> items = sample_items"
    "pv_Value (ms_ProviderSpec (m_Spec machine)) = Some (Some (enc_ProviderSpec ps))"
    "(ps_InstanceType ps, m_Label machine CapacityTypeLabelKey, ms_Zone (m_Spec machine)) =
       (''S5.MEDIUM4'', sample_choice p, ''ap-guangzhou-3'')"
proof (rule sample_stored [OF assms, of "\<lambda>m. (m, Some sample_refusal)"])
  fix machine p1 ps
  assume "run_state (cp_Create (logged_cloud sample_cloud) sample_cloud_claim) (((), []), p) =
      run_state (created_machine (logged_cloud sample_cloud) (Some (fst (machine, Some sample_refusal)), Some ps, snd (machine, Some sample_refusal)))
        (((), [Created machine (machine, Some sample_refusal)]), p1)"
    and offering: "(ps_InstanceType ps, m_Label machine CapacityTypeLabelKey, ms_Zone (m_Spec machine)) =
       (''S5.MEDIUM4'', sample_choice p, ''ap-guangzhou-3'')"
  then have run: "run_state (cp_Create (logged_cloud sample_cloud) sample_cloud_claim) (((), []), p) =
      (Err sample_refusal, (((), [Created machine (machine, Some sample_refusal)]),
         BlockInstanceType (''S5.MEDIUM4'', sample_choice p, ''ap-guangzhou-3'') p1))"
    by (simp add: created_machine_def run_simps)
  assume same: "same_memory p p1" and "value": "pv_Value (ms_ProviderSpec (m_Spec machine)) = Some (Some (enc_ProviderSpec ps))"
    and cached: "\<And>k items. ca_Get sample_cache k (ip_providerCache p1) = Some (CTypes items) \<Longrightarrow> items = sample_items"
  show ?thesis by (rule that [OF run refl same cached "value" offering])
qed

theorem cp_Create_correct_witness:
  "\<exists>machine p' n. run_state (cp_Create (logged_cloud sample_cloud) sample_cloud_claim) (((), []), sample_tke_provider) =
     (Err sample_refusal, (((), [Created machine (machine, Some sample_refusal)]), p')) \<and>
     same_memory (BlockInstanceType n sample_tke_provider) p'"
proof -
  obtain machine p' where run: "run_state (cp_Create (logged_cloud sample_cloud) sample_cloud_claim) (((), []), sample_tke_provider) =
    (Err sample_refusal, (((), [Created machine (machine, Some sample_refusal)]), p'))"
    by (rule sample_creation [OF sample_tke_memory]) blast
  then show ?thesis using cp_Create_correct [OF run] by auto
qed

theorem launch_not_blocked_witness:
  "\<exists>machine res p' (i :: InstanceTypeQuotaItem). run_state (cp_Create (logged_cloud sample_cloud) sample_cloud_claim) (((), []), sample_tke_provider) =
     (Err sample_refusal, (((), [Created machine res]), p')) \<and>
     qi_Status i = ''SELL'' \<and> \<not> isBlocked sample_tke_provider (qi_InstanceType i, m_Label machine CapacityTypeLabelKey, qi_Zone i)"
proof -
  obtain machine p' where run: "run_state (cp_Create (logged_cloud sample_cloud) sample_cloud_claim) (((), []), sample_tke_provider) =
    (Err sample_refusal, (((), [Created machine (machine, Some sample_refusal)]), p'))"
    by (rule sample_creation [OF sample_tke_memory]) blast
  have sc: "mp_scheduling (cp_machines sample_cloud) = cp_sc sample_cloud"
    "mp_ZoneFromID (cp_machines sample_cloud) = zone_from_id new_zone_provider"
    by simp_all
  have laws: "offering_laws (cp_sc sample_cloud)" "requirement_laws (cp_sc sample_cloud)"
    by (simp_all add: sample_offering_laws sample_requirement_laws)
  have p: "cache_laws (ip_cache sample_tke_provider)" "ip_zoneProvider sample_tke_provider = id_from_zone new_zone_provider"
    by (simp_all add: sample_tke_provider_def NewDefaultProvider_it_def sample_cache_laws)
  show ?thesis using launch_not_blocked [OF run sc(1) laws p sc(2)] run by auto
qed

text \<open>What a node claim says of the machine it was made from.\<close>

definition claim_matches :: "('w, 'q, 'r, 'v) cloud_env \<Rightarrow> Machine \<Rightarrow> 'q NodeClaim \<Rightarrow> bool" where
  "claim_matches env m nc \<longleftrightarrow>
     (\<exists>capacity. resourceListFromAnnotations (cp_q env) CapacityGroup (om_Annotations (m_ObjectMeta m)) = Ok capacity \<and>
        map_of capacity ResourceCPU \<noteq> None \<and> map_of capacity ResourceMemory \<noteq> None \<and>
        k_Capacity nc = filter (\<lambda>e. \<not> q_IsZero (cp_q env) (snd e)) capacity) \<and>
     k_ProviderID nc = m_ProviderID m \<and> k_Annotation nc AnnotationOwnedMachine = om_Name (m_ObjectMeta m) \<and>
     (case gm_get (om_Labels (m_ObjectMeta m)) NodePoolLabelKey of
        Some pool \<Rightarrow> k_Label nc NodePoolLabelKey = pool | None \<Rightarrow> True) \<and>
     (om_DeletionTimestamp (k_ObjectMeta nc) \<noteq> None \<longleftrightarrow> str_ptr (mst_Phase (m_Status m)) = PhaseDeleting)"

definition converts :: "('w, 'q, 'r, 'v) cloud_env \<Rightarrow> Machine \<Rightarrow> bool" where
  "converts env m \<longleftrightarrow> (case resolveMachineToInstanceType env m of
     Ok it \<Rightarrow> is_ok (requirement_labels (cp_sc env) (it_Requirements it) (sc_Keys (cp_sc env) (it_Requirements it)) [])
   | _ \<Rightarrow> False)"

lemma run_machineToNodeClaim:
  assumes "run_state (machineToNodeClaim env m) w = (r, w')"
  shows "is_ok r \<longleftrightarrow> converts env m" "r = Ok nc \<Longrightarrow> claim_matches env m nc"
proof -
  show "is_ok r \<longleftrightarrow> converts env m"
    using assms
    by (auto simp: machineToNodeClaim_def converts_def run_simps split: outcome.splits prod.splits if_splits)
  assume "r = Ok nc"
  then obtain it labels deleted where it: "resolveMachineToInstanceType env m = Ok it"
    and nc: "nc = claim_of env m it labels deleted"
    and deleted: "deleted \<noteq> None \<longleftrightarrow> str_ptr (mst_Phase (m_Status m)) = PhaseDeleting"
    using assms
    by (auto simp: machineToNodeClaim_def run_simps split: outcome.splits prod.splits if_splits)
  obtain capacity where "resourceListFromAnnotations (cp_q env) CapacityGroup (om_Annotations (m_ObjectMeta m)) = Ok capacity"
    "map_of capacity ResourceCPU \<noteq> None" "map_of capacity ResourceMemory \<noteq> None" "it_Capacity it = capacity"
    using it by (auto simp: resolveMachineToInstanceType_def Let_def split: option.splits if_splits)
  then show "claim_matches env m nc"
    using deleted
    by (auto simp: claim_matches_def nc claim_of_def Let_def non_zero_entries_def k_Annotation_def k_Label_def
        gm_idx_def case_prod_unfold split: option.split)
qed

text \<open>The node claim a creation answers with describes the machine that the API has stored.\<close>

lemma created_claim:
  assumes "run_state (cp_Create (logged_cloud env) nodeClaim) ((w, []), p) = (Ok nc, ((w', [Created machine (m, err)]), p'))"
  shows "claim_matches (logged_cloud env) m nc"
  using assms
proof (cases rule: run_cp_Create)
  case nothing
  then show ?thesis by simp
next
  case (created name nodeClass w1 w2 its p1 w3 machine' res ps)
  then have res: "res = (m, err)" by simp
  have "run_state (created_machine (logged_cloud env) (Some m, Some ps, err)) ((w3, [Created machine' res]), p1) =
      (Ok nc, ((w', [Created machine (m, err)]), p'))"
    using created(9) by (simp add: res)
  then show ?thesis
    by (cases err) (auto simp: created_machine_def run_simps split: prod.splits dest: run_machineToNodeClaim(2))
qed

text \<open>
  C24. The listing of node claims is all or nothing.  It succeeds exactly when every machine owned by a
  NodeClaim can be converted, and then holds the claims of these machines in their order, each with the
  machine's provider ID, name and node pool, its non-zero annotated capacity, and a deletion time
  exactly when the machine is in the phase Deleting; one machine whose annotations, labels or provider
  spec cannot be read makes the listing fail for all of them.
\<close>

theorem cp_List_correct:
  assumes run: "run_state (cp_List env) w = (out, w')"
    and list: "run_state (mp_ListMachines (cp_machines env)) w = (Ok ms, w1)"
  shows "(is_ok out \<longleftrightarrow> (\<forall>m \<in> set ms. owned_by_claim m \<longrightarrow> converts env m)) \<and>
    (\<forall>claims. out = Ok claims \<longrightarrow> list_all2 (claim_matches env) (list_loop ms) claims)"
proof -
  have owned: "set (list_loop ms) = {m \<in> set ms. owned_by_claim m}" by (rule set_list_loop)
  have each: "(is_ok out \<longleftrightarrow> (\<forall>m \<in> set os. converts env m)) \<and>
      (\<forall>claims. out = Ok claims \<longrightarrow> list_all2 (claim_matches env) os claims)"
    if "run_state (straverse (machineToNodeClaim env) os) w = (out, w')" for os out w w'
    using that
  proof (induction os arbitrary: out w w')
    case Nil
    then show ?case by (auto simp: run_simps)
  next
    case (Cons m os)
    obtain r w1 where r: "run_state (machineToNodeClaim env m) w = (r, w1)" by fastforce
    obtain rs w2 where rs: "run_state (straverse (machineToNodeClaim env) os) w1 = (rs, w2)" by fastforce
    note head = run_machineToNodeClaim [OF r] and tail = Cons.IH [OF rs]
    show ?case
      using Cons.prems head tail by (cases r; cases rs) (auto simp: run_simps r rs)
  qed
  have "run_state (straverse (machineToNodeClaim env) (list_loop ms)) w1 = (out, w')"
    using run list by (simp add: cp_List_def m_List_def run_simps)
  from each [OF this] show ?thesis using owned by auto
qed

text \<open>A machine without labels among the owned ones.\<close>

definition sample_bare_machine :: Machine where
  "sample_bare_machine = zero_Machine\<lparr>m_ObjectMeta := zero_ObjectMeta\<lparr>om_OwnerReferences :=
     Some [owner_of sample_nodeclaim]\<rparr>\<rparr>"

theorem cp_List_correct_witness:
  "\<not> is_ok (fst (run_state (cp_List (sample_cloud\<lparr>cp_machines := (cp_machines sample_cloud)\<lparr>mp_ListMachines :=
     State_Monad.return (Ok [sample_bare_machine])\<rparr>\<rparr>)) ()))"
proof -
  let ?env = "sample_cloud\<lparr>cp_machines := (cp_machines sample_cloud)\<lparr>mp_ListMachines :=
     State_Monad.return (Ok [sample_bare_machine])\<rparr>\<rparr>"
  have "owned_by_claim sample_bare_machine" by code_simp
  moreover have "\<not> converts ?env sample_bare_machine"
  proof -
    have "atoi (m_Label sample_bare_machine LabelInstanceCPU) = None" by code_simp
    then show ?thesis
      by (auto simp: converts_def resolveMachineToInstanceType_def machine_item_def Let_def
          split: outcome.splits option.splits)
  qed
  moreover obtain out w' where run: "run_state (cp_List ?env) () = (out, w')" by (metis prod.exhaust)
  moreover have "run_state (mp_ListMachines (cp_machines ?env)) () = (Ok [sample_bare_machine], ())"
    by (simp add: run_simps)
  ultimately show ?thesis using cp_List_correct [OF run] by auto
qed

end
