(* ===== verification/ProviderIDs.thy ===== *)
theory ProviderIDs
  imports MachineProvider
begin

text \<open>
  The controllers that carry provider IDs from machines to node claims
  (\<open>pkg/controllers/nodeclaim/providerid/\<close>): one is triggered by node claims, one by machines, and a
  third, older one is not registered any more.  The first sections model their reconciliations and
  event filters over a parametric API; then a small API server is written down, with the steps of
  the controllers and of their environment, to say what the controllers achieve together.
\<close>

section \<open>The reconciliations\<close>

text \<open>
  Machines are listed by the value of their label \<open>LabelNodeClaim\<close>.  A patch is computed from the
  object and its stored copy and sent when the two differ.
\<close>

record ('w, 'q) id_env =
  id_ListMachines :: "string \<Rightarrow> ('w, Machine list outcome) state"
  id_GetNodeClaim :: "string \<Rightarrow> ('w, 'q NodeClaim outcome) state"
  id_PatchNodeClaimStatus :: "'q NodeClaim \<Rightarrow> ('w, unit outcome) state"
  id_PatchMachineStatus :: "Machine \<Rightarrow> ('w, unit outcome) state"

text \<open>The result of a reconciliation that ends with a call whose NotFound error is ignored.\<close>

fun ignored :: "'a outcome \<Rightarrow> reconcile_result outcome" where
  "ignored (Ok _) = Ok no_result"
| "ignored Panic = Panic"
| "ignored (Err e) = (case ignore_not_found e of None \<Rightarrow> Ok no_result | Some e \<Rightarrow> Err e)"

definition placeholder :: "Machine \<Rightarrow> string" where
  "placeholder m = ''placeholder-'' @ m_Name m"

definition patch_claim ::
  "('w, 'q) id_env \<Rightarrow> 'q NodeClaim \<Rightarrow> 'q NodeClaim \<Rightarrow> ('w, reconcile_result outcome) state" where
  "patch_claim env stored nodeClaim =
     (if nodeClaim \<noteq> stored
      then do { res \<leftarrow> id_PatchNodeClaimStatus env nodeClaim; State_Monad.return (ignored res) }
      else State_Monad.return (Ok no_result))"

definition nodeclaim_Reconcile ::
  "('w, 'q) id_env \<Rightarrow> 'q NodeClaim \<Rightarrow> ('w, reconcile_result outcome) state" where
  "nodeclaim_Reconcile env nodeClaim =
     (if length (k_ProviderID nodeClaim) \<noteq> 0 then State_Monad.return (Ok no_result)
      else sbind (swrap (Describef ''listing machines failed'') (id_ListMachines env (k_Name nodeClaim))) (\<lambda>ms.
      case ms of
        [] \<Rightarrow> State_Monad.return (Ok (requeue_after (seconds 5)))
      | m # _ \<Rightarrow>
          if length (m_ProviderID m) = 0
          then patch_claim env nodeClaim (nodeClaim\<lparr>k_ProviderID := placeholder m\<rparr>)
          else patch_claim env nodeClaim (nodeClaim\<lparr>k_ProviderID := m_ProviderID m\<rparr>)))"

definition nodeclaim_event :: "'q NodeClaim \<Rightarrow> bool" where
  "nodeclaim_event nodeClaim \<longleftrightarrow> length (k_ProviderID nodeClaim) = 0"

text \<open>The controller that is not registered waits for the ID instead of writing a placeholder.\<close>

definition waiting_Reconcile ::
  "('w, 'q) id_env \<Rightarrow> 'q NodeClaim \<Rightarrow> ('w, reconcile_result outcome) state" where
  "waiting_Reconcile env nodeClaim =
     (if length (k_ProviderID nodeClaim) \<noteq> 0 then State_Monad.return (Ok no_result)
      else sbind (swrap (Describef ''listing machines failed'') (id_ListMachines env (k_Name nodeClaim))) (\<lambda>ms.
      case ms of
        [] \<Rightarrow> State_Monad.return (Ok (requeue_after (seconds 30)))
      | m # _ \<Rightarrow>
          if length (m_ProviderID m) = 0 then State_Monad.return (Ok (requeue_after (seconds 30)))
          else patch_claim env nodeClaim (nodeClaim\<lparr>k_ProviderID := m_ProviderID m\<rparr>)))"

fun claim_owner :: "OwnerReference list \<Rightarrow> string" where
  "claim_owner [] = []"
| "claim_owner (ref # refs) = (if or_Kind ref = ''NodeClaim'' then or_Name ref else claim_owner refs)"

definition owner_claim :: "Machine \<Rightarrow> string" where
  "owner_claim m = claim_owner (owners (m_ObjectMeta m))"

definition set_label :: "string \<Rightarrow> string \<Rightarrow> Machine \<Rightarrow> Machine outcome" where
  "set_label k v m = omap (\<lambda>ls. m\<lparr>m_ObjectMeta := (m_ObjectMeta m)\<lparr>om_Labels := ls\<rparr>\<rparr>)
     (gm_set (om_Labels (m_ObjectMeta m)) k v)"

definition machine_Reconcile ::
  "('w, 'q) id_env \<Rightarrow> Machine \<Rightarrow> ('w, reconcile_result outcome) state" where
  "machine_Reconcile env machine =
     (if owner_claim machine = [] then State_Monad.return (Ok no_result)
      else do {
        resp \<leftarrow> id_GetNodeClaim env (owner_claim machine);
        case resp of
          Err e \<Rightarrow> State_Monad.return (ignored (Err e :: unit outcome))
        | Panic \<Rightarrow> State_Monad.return Panic
        | Ok stored \<Rightarrow>
            sbind (State_Monad.return (set_label LabelProviderIDInitialized ''true'' machine)) (\<lambda>machine'.
            let nodeClaim = stored\<lparr>k_ProviderID := m_ProviderID machine\<rparr> in do {
              res \<leftarrow> (if nodeClaim \<noteq> stored then id_PatchNodeClaimStatus env nodeClaim
                     else State_Monad.return (Ok ()));
              case res of
                Ok _ \<Rightarrow>
                  if machine' \<noteq> machine
                  then do { res \<leftarrow> id_PatchMachineStatus env machine'; State_Monad.return (ignored res) }
                  else State_Monad.return (Ok no_result)
              | _ \<Rightarrow> State_Monad.return (ignored res) }) })"

definition machine_event :: "Machine \<Rightarrow> bool" where
  "machine_event m \<longleftrightarrow> length (m_ProviderID m) \<noteq> 0 \<and> om_OwnerReferences (m_ObjectMeta m) \<noteq> None \<and>
     om_Labels (m_ObjectMeta m) \<noteq> None \<and> m_Label m LabelProviderIDInitialized = [] \<and>
     m_Label m LabelNodeClaim \<noteq> []"

section \<open>An API server\<close>

text \<open>
  The node claims and machines that exist, and what has happened: the names of node claims used so
  far, the machines created for them, and the provider IDs given to these machines.
\<close>

record 'q cluster =
  cl_claims :: "'q NodeClaim list"
  cl_machines :: "Machine list"
  cl_used :: "string list"
  cl_created :: "(string \<times> string) list"
  cl_issued :: "(string \<times> string) list"

definition new_cluster :: "'q cluster" where
  "new_cluster = \<lparr>cl_claims = [], cl_machines = [], cl_used = [], cl_created = [], cl_issued = []\<rparr>"

definition set_claim_id :: "string \<Rightarrow> string \<Rightarrow> 'q NodeClaim list \<Rightarrow> 'q NodeClaim list" where
  "set_claim_id name pid = map (\<lambda>nc. if k_Name nc = name then nc\<lparr>k_ProviderID := pid\<rparr> else nc)"

definition label_machine :: "string \<Rightarrow> string \<Rightarrow> Machine list \<Rightarrow> Machine list" where
  "label_machine name v =
     map (\<lambda>m. if m_Name m = name
          then m\<lparr>m_ObjectMeta := (m_ObjectMeta m)\<lparr>om_Labels :=
                 Some (put LabelProviderIDInitialized v (gm_entries (om_Labels (m_ObjectMeta m))))\<rparr>\<rparr>
          else m)"

text \<open>
  A merge patch carries the changed fields only, and no resource version, so it is applied to
  whatever is stored.  \<open>keeps\<close> says whether the server takes a label from a patch of the status.
\<close>

definition cluster_api :: "bool \<Rightarrow> ('q cluster, 'q) id_env" where
  "cluster_api keeps =
     \<lparr>id_ListMachines = \<lambda>name. State (\<lambda>s.
        (Ok (filter (\<lambda>m. gm_get (om_Labels (m_ObjectMeta m)) LabelNodeClaim = Some name) (cl_machines s)), s)),
      id_GetNodeClaim = \<lambda>name. State (\<lambda>s.
        (case find (\<lambda>nc. k_Name nc = name) (cl_claims s) of
           Some nc \<Rightarrow> Ok nc | None \<Rightarrow> Err (APIError ReasonNotFound ''nodeclaim not found''), s)),
      id_PatchNodeClaimStatus = \<lambda>nc. State (\<lambda>s.
        if k_Name nc \<in> k_Name ` set (cl_claims s)
        then (Ok (), s\<lparr>cl_claims := set_claim_id (k_Name nc) (k_ProviderID nc) (cl_claims s)\<rparr>)
        else (Err (APIError ReasonNotFound ''nodeclaim not found''), s)),
      id_PatchMachineStatus = \<lambda>m. State (\<lambda>s.
        if m_Name m \<in> m_Name ` set (cl_machines s)
        then (Ok (), if keeps
                     then s\<lparr>cl_machines := label_machine (m_Name m) (m_Label m LabelProviderIDInitialized) (cl_machines s)\<rparr>
                     else s)
        else (Err (APIError ReasonNotFound ''machine not found''), s))\<rparr>"

section \<open>Steps\<close>

text \<open>
  A machine as \<open>Create\<close> makes it for the node claim \<open>c\<close>, and what the environment does to it later:
  it gets its provider ID once.
\<close>

definition launched_for :: "string \<Rightarrow> Machine \<Rightarrow> bool" where
  "launched_for c m \<longleftrightarrow> c \<noteq> [] \<and> owner_claim m = c \<and> om_OwnerReferences (m_ObjectMeta m) \<noteq> None \<and>
     gm_get (om_Labels (m_ObjectMeta m)) LabelNodeClaim = Some c \<and>
     gm_get (om_Labels (m_ObjectMeta m)) LabelProviderIDInitialized = None \<and> m_ProviderID m = []"

definition identify :: "string \<Rightarrow> string \<Rightarrow> Machine list \<Rightarrow> Machine list" where
  "identify name pid =
     map (\<lambda>m. if m_Name m = name then m\<lparr>m_Spec := (m_Spec m)\<lparr>ms_ProviderID := Some pid\<rparr>\<rparr> else m)"

text \<open>
  Between two calls of a reconciliation anything may happen: before a listing or read \<open>f 0\<close> changes the
  cluster, before a patch of a node claim \<open>f 1\<close>, and before a patch of a machine \<open>f 2\<close>.
\<close>

definition after :: "('w \<Rightarrow> 'w) \<Rightarrow> ('w, 'a) state \<Rightarrow> ('w, 'a) state" where
  "after f m = State (\<lambda>s. run_state m (f s))"

definition interrupted :: "(nat \<Rightarrow> 'w \<Rightarrow> 'w) \<Rightarrow> ('w, 'q) id_env \<Rightarrow> ('w, 'q) id_env" where
  "interrupted f api =
     \<lparr>id_ListMachines = \<lambda>name. after (f 0) (id_ListMachines api name),
      id_GetNodeClaim = \<lambda>name. after (f 0) (id_GetNodeClaim api name),
      id_PatchNodeClaimStatus = \<lambda>nc. after (f 1) (id_PatchNodeClaimStatus api nc),
      id_PatchMachineStatus = \<lambda>m. after (f 2) (id_PatchMachineStatus api m)\<rparr>"

abbreviation calmly :: "nat \<Rightarrow> 'w \<Rightarrow> 'w" where
  "calmly \<equiv> \<lambda>_. id"

text \<open>
  A step of the environment or of one of the two registered controllers.  In a calm run a reconciliation
  sees the current object and is not interrupted; otherwise it may work on a copy that is out of date.
\<close>

inductive id_step :: "bool \<Rightarrow> bool \<Rightarrow> 'q cluster \<Rightarrow> 'q cluster \<Rightarrow> bool" for keeps calm :: bool where
  claim_created: "k_Name nc \<notin> set (cl_used s) \<Longrightarrow> k_ProviderID nc = [] \<Longrightarrow>
    id_step keeps calm s (s\<lparr>cl_claims := nc # cl_claims s, cl_used := k_Name nc # cl_used s\<rparr>)"
| claim_gone: "id_step keeps calm s (s\<lparr>cl_claims := filter (\<lambda>nc. k_Name nc \<noteq> c) (cl_claims s)\<rparr>)"
| machine_created: "launched_for c m \<Longrightarrow> c \<notin> fst ` set (cl_created s) \<Longrightarrow> m_Name m \<notin> snd ` set (cl_created s) \<Longrightarrow>
    id_step keeps calm s (s\<lparr>cl_machines := m # cl_machines s, cl_created := (c, m_Name m) # cl_created s\<rparr>)"
| machine_identified: "m \<in> set (cl_machines s) \<Longrightarrow> m_ProviderID m = [] \<Longrightarrow> pid \<noteq> [] \<Longrightarrow>
    id_step keeps calm s (s\<lparr>cl_machines := identify (m_Name m) pid (cl_machines s),
      cl_issued := (owner_claim m, pid) # cl_issued s\<rparr>)"
| machine_gone: "id_step keeps calm s (s\<lparr>cl_machines := filter (\<lambda>m. m_Name m \<noteq> n) (cl_machines s)\<rparr>)"
| claim_reconciled: "nodeclaim_event nc \<Longrightarrow> calm \<longrightarrow> nc \<in> set (cl_claims s) \<and> f = calmly \<Longrightarrow>
    \<forall>i t. (id_step keeps calm)\<^sup>*\<^sup>* t (f i t) \<Longrightarrow>
    run_state (nodeclaim_Reconcile (interrupted f (cluster_api keeps)) nc) s = (r, s') \<Longrightarrow> id_step keeps calm s s'"
| machine_reconciled: "machine_event m \<Longrightarrow> m \<in> set (cl_machines s) \<Longrightarrow> calm \<longrightarrow> f = calmly \<Longrightarrow>
    \<forall>i t. (id_step keeps calm)\<^sup>*\<^sup>* t (f i t) \<Longrightarrow>
    run_state (machine_Reconcile (interrupted f (cluster_api keeps)) m) s = (r, s') \<Longrightarrow> id_step keeps calm s s'"

section \<open>Where provider IDs come from\<close>

text \<open>
  The IDs a node claim may have: none, the placeholder of a machine made for it, or the ID of such a
  machine.  This is kept together with what is known of the machines.
\<close>

definition pid_ok :: "'q cluster \<Rightarrow> string \<Rightarrow> string \<Rightarrow> bool" where
  "pid_ok s c pid \<longleftrightarrow> pid = [] \<or> (\<exists>n. (c, n) \<in> set (cl_created s) \<and> pid = ''placeholder-'' @ n) \<or>
     (c, pid) \<in> set (cl_issued s)"

definition machine_ok :: "'q cluster \<Rightarrow> Machine \<Rightarrow> bool" where
  "machine_ok s m \<longleftrightarrow> owner_claim m \<noteq> [] \<and> om_OwnerReferences (m_ObjectMeta m) \<noteq> None \<and>
     gm_get (om_Labels (m_ObjectMeta m)) LabelNodeClaim = Some (owner_claim m) \<and>
     (owner_claim m, m_Name m) \<in> set (cl_created s) \<and>
     (m_ProviderID m \<noteq> [] \<longrightarrow> (owner_claim m, m_ProviderID m) \<in> set (cl_issued s))"

definition ids_ok :: "'q cluster \<Rightarrow> bool" where
  "ids_ok s \<longleftrightarrow> (\<forall>nc \<in> set (cl_claims s). k_Name nc \<in> set (cl_used s) \<and> pid_ok s (k_Name nc) (k_ProviderID nc)) \<and>
     (\<forall>m \<in> set (cl_machines s). machine_ok s m) \<and> distinct (map snd (cl_created s))"

lemma one_owner:
  assumes "ids_ok s" "m \<in> set (cl_machines s)" "m' \<in> set (cl_machines s)" "m_Name m = m_Name m'"
  shows "owner_claim m = owner_claim m'"
proof -
  have "machine_ok s m" "machine_ok s m'" "inj_on snd (set (cl_created s))"
    using assms(1-3) by (simp_all add: ids_ok_def distinct_map)
  then show ?thesis
    using assms(4) inj_onD [of snd "set (cl_created s)" "(owner_claim m, m_Name m)" "(owner_claim m', m_Name m)"]
    by (simp add: machine_ok_def)
qed

text \<open>What every step keeps: the past grows, and the IDs stay justified.\<close>

definition sound_step :: "'q cluster \<Rightarrow> 'q cluster \<Rightarrow> bool" where
  "sound_step s s' \<longleftrightarrow> set (cl_created s) \<subseteq> set (cl_created s') \<and> set (cl_issued s) \<subseteq> set (cl_issued s') \<and>
     set (cl_used s) \<subseteq> set (cl_used s') \<and> (ids_ok s \<longrightarrow> ids_ok s')"

lemma sound_step_refl [simp]: "sound_step s s"
  by (simp add: sound_step_def)

lemma sound_step_trans: "sound_step s t \<Longrightarrow> sound_step t u \<Longrightarrow> sound_step s u"
  unfolding sound_step_def by blast

lemma pid_ok_mono: "pid_ok s c pid \<Longrightarrow> sound_step s s' \<Longrightarrow> pid_ok s' c pid"
  unfolding pid_ok_def sound_step_def by blast

lemma machine_ok_mono: "machine_ok s m \<Longrightarrow> sound_step s s' \<Longrightarrow> machine_ok s' m"
  unfolding machine_ok_def sound_step_def by blast

lemma ids_okD:
  "ids_ok s \<Longrightarrow> nc \<in> set (cl_claims s) \<Longrightarrow> pid_ok s (k_Name nc) (k_ProviderID nc)"
  "ids_ok s \<Longrightarrow> m \<in> set (cl_machines s) \<Longrightarrow> machine_ok s m"
  by (simp_all add: ids_ok_def)

lemma k_Name_set_id [simp]: "k_Name (nc\<lparr>k_ProviderID := pid\<rparr>) = k_Name nc"
  by (simp add: k_Name_def)

lemma new_id_differs: "k_ProviderID nc \<noteq> pid \<Longrightarrow> nc\<lparr>k_ProviderID := pid\<rparr> \<noteq> nc"
  by (metis NodeClaim.select_convs(7) NodeClaim.surjective NodeClaim.update_convs(7))

lemma run_cluster_api:
  "run_state (id_ListMachines (interrupted f (cluster_api keeps)) name) s =
     (Ok (filter (\<lambda>m. gm_get (om_Labels (m_ObjectMeta m)) LabelNodeClaim = Some name) (cl_machines (f 0 s))), f 0 s)"
  "run_state (id_GetNodeClaim (interrupted f (cluster_api keeps)) name) s =
     (case find (\<lambda>nc. k_Name nc = name) (cl_claims (f 0 s)) of
        Some nc \<Rightarrow> Ok nc | None \<Rightarrow> Err (APIError ReasonNotFound ''nodeclaim not found''), f 0 s)"
  "run_state (id_PatchNodeClaimStatus (interrupted f (cluster_api keeps)) nc) s =
     (if k_Name nc \<in> k_Name ` set (cl_claims (f 1 s))
      then (Ok (), (f 1 s)\<lparr>cl_claims := set_claim_id (k_Name nc) (k_ProviderID nc) (cl_claims (f 1 s))\<rparr>)
      else (Err (APIError ReasonNotFound ''nodeclaim not found''), f 1 s))"
  "run_state (id_PatchMachineStatus (interrupted f (cluster_api keeps)) m) s =
     (if m_Name m \<in> m_Name ` set (cl_machines (f 2 s))
      then (Ok (), if keeps
                   then (f 2 s)\<lparr>cl_machines := label_machine (m_Name m) (m_Label m LabelProviderIDInitialized) (cl_machines (f 2 s))\<rparr>
                   else f 2 s)
      else (Err (APIError ReasonNotFound ''machine not found''), f 2 s))"
  by (simp_all add: interrupted_def cluster_api_def after_def)

lemma sound_patch_claim:
  assumes "ids_ok s \<Longrightarrow> pid_ok s name pid"
  shows "sound_step s (s\<lparr>cl_claims := set_claim_id name pid (cl_claims s)\<rparr>)"
  using assms by (auto simp: sound_step_def ids_ok_def set_claim_id_def pid_ok_def machine_ok_def)

text \<open>The label that is set leaves the label with the node claim alone.\<close>

lemma init_label [simp]: "LabelNodeClaim \<noteq> LabelProviderIDInitialized" "LabelProviderIDInitialized \<noteq> LabelNodeClaim"
  by (simp_all add: label_defs)

lemma m_Name_labels [simp]:
  "m_Name (m\<lparr>m_ObjectMeta := (m_ObjectMeta m)\<lparr>om_Labels := ls\<rparr>\<rparr>) = m_Name m"
  "owner_claim (m\<lparr>m_ObjectMeta := (m_ObjectMeta m)\<lparr>om_Labels := ls\<rparr>\<rparr>) = owner_claim m"
  "m_ProviderID (m\<lparr>m_ObjectMeta := (m_ObjectMeta m)\<lparr>om_Labels := ls\<rparr>\<rparr>) = m_ProviderID m"
  by (simp_all add: m_Name_def owner_claim_def owners_def m_ProviderID_def)

lemma m_spec_identified [simp]:
  "m_Name (m\<lparr>m_Spec := sp\<rparr>) = m_Name m" "owner_claim (m\<lparr>m_Spec := sp\<rparr>) = owner_claim m"
  "m_ProviderID (m\<lparr>m_Spec := (m_Spec m)\<lparr>ms_ProviderID := Some pid\<rparr>\<rparr>) = pid"
  by (simp_all add: m_Name_def owner_claim_def owners_def m_ProviderID_def)

lemma gm_get_put [simp]: "gm_get (Some (put k v (gm_entries ls))) k' = (if k' = k then Some v else gm_get ls k')"
  by (simp add: gm_get_def)

lemma sound_label_machine:
  "sound_step s (s\<lparr>cl_machines := label_machine name v (cl_machines s)\<rparr>)"
proof -
  have "machine_ok s' (m\<lparr>m_ObjectMeta := (m_ObjectMeta m)\<lparr>om_Labels :=
      Some (put LabelProviderIDInitialized v (gm_entries (om_Labels (m_ObjectMeta m))))\<rparr>\<rparr>)" if "machine_ok s' m" for s' m
    using that by (simp add: machine_ok_def gm_get_def)
  then show ?thesis
    by (auto simp: sound_step_def ids_ok_def label_machine_def pid_ok_def machine_ok_def gm_get_def)
qed

lemma sound_nodeclaim_Reconcile:
  assumes f: "\<And>i t. sound_step t (f i t)"
    and run: "run_state (nodeclaim_Reconcile (interrupted f (cluster_api keeps)) nc) s = (r, s')"
  shows "sound_step s s'"
proof -
  let ?ms = "filter (\<lambda>m. gm_get (om_Labels (m_ObjectMeta m)) LabelNodeClaim = Some (k_Name nc)) (cl_machines (f 0 s))"
  show ?thesis
  proof (cases "k_ProviderID nc = [] \<and> ?ms \<noteq> []")
    case False
    then show ?thesis
      using run f by (auto simp: nodeclaim_Reconcile_def run_simps run_cluster_api split: if_splits)
  next
    case True
    then obtain m ms where ms: "?ms = m # ms" by (cases ?ms) auto
    then have m: "m \<in> set (cl_machines (f 0 s))" "gm_get (om_Labels (m_ObjectMeta m)) LabelNodeClaim = Some (k_Name nc)"
      using list.set_intros(1) [of m ms] unfolding ms [symmetric] by simp_all
    define pid where "pid = (if length (m_ProviderID m) = 0 then placeholder m else m_ProviderID m)"
    have pid: "pid_ok (f 0 s) (k_Name nc) pid" if "ids_ok (f 0 s)"
      using ids_okD(2) [OF that m(1)] m(2) by (auto simp: machine_ok_def pid_ok_def pid_def placeholder_def)
    let ?t = "f 1 (f 0 s)"
    have "run_state (nodeclaim_Reconcile (interrupted f (cluster_api keeps)) nc) s =
        run_state (patch_claim (interrupted f (cluster_api keeps)) nc (nc\<lparr>k_ProviderID := pid\<rparr>)) (f 0 s)"
      by (simp add: nodeclaim_Reconcile_def True run_simps run_cluster_api ms pid_def)
    then have "s' = f 0 s \<or> s' = ?t \<or> s' = ?t\<lparr>cl_claims := set_claim_id (k_Name nc) pid (cl_claims ?t)\<rparr>"
      using run by (auto simp: patch_claim_def run_simps run_cluster_api split: if_splits)
    moreover have "sound_step ?t (?t\<lparr>cl_claims := set_claim_id (k_Name nc) pid (cl_claims ?t)\<rparr>)" if "ids_ok (f 0 s)"
      using sound_patch_claim [of ?t "k_Name nc" pid] pid_ok_mono [OF pid [OF that] f] by blast
    moreover have "sound_step s (f 0 s)" "sound_step (f 0 s) ?t" using f by blast+
    ultimately show ?thesis
      unfolding sound_step_def by auto
  qed
qed

lemma set_label_Ok:
  assumes "set_label k v m = Ok m'"
  shows "om_Labels (m_ObjectMeta m') = Some (put k v (gm_entries (om_Labels (m_ObjectMeta m))))" "m_Name m' = m_Name m"
proof -
  obtain ls where "om_Labels (m_ObjectMeta m) = Some ls"
    using assms by (cases "om_Labels (m_ObjectMeta m)") (simp_all add: set_label_def)
  then show "om_Labels (m_ObjectMeta m') = Some (put k v (gm_entries (om_Labels (m_ObjectMeta m))))" "m_Name m' = m_Name m"
    using assms by (auto simp: set_label_def)
qed

lemma k_Name_find: "find (\<lambda>nc. k_Name nc = name) ncs = Some nc \<Longrightarrow> k_Name nc = name \<and> nc \<in> set ncs"
  using find_SomeD [of "\<lambda>nc. k_Name nc = name"] by blast

text \<open>A reconciliation of a machine, call by call: the node claim is found, patched, and the machine labelled.\<close>

lemma run_machine_Reconcile:
  assumes run: "run_state (machine_Reconcile (interrupted f (cluster_api keeps)) m) s = (r, s')"
  obtains (nothing) "s' \<in> {s, f 0 s}"
  | (patched) t u where "t \<in> {f 0 s, (f 1 (f 0 s))\<lparr>cl_claims := set_claim_id (owner_claim m) (m_ProviderID m) (cl_claims (f 1 (f 0 s)))\<rparr>, f 1 (f 0 s)}"
    "u \<in> {t, f 2 t}" "s' = u \<or> s' = u\<lparr>cl_machines := label_machine (m_Name m) ''true'' (cl_machines u)\<rparr>"
proof (cases "owner_claim m = []")
  case True
  then show ?thesis using run that(1) by (simp add: machine_Reconcile_def run_simps)
next
  case owner: False
  show ?thesis
  proof (cases "find (\<lambda>nc. k_Name nc = owner_claim m) (cl_claims (f 0 s))")
    case None
    then show ?thesis using run owner that(1) by (simp add: machine_Reconcile_def run_simps run_cluster_api)
  next
    case (Some stored)
    have name: "k_Name stored = owner_claim m" using k_Name_find [OF Some] by simp
    show ?thesis
    proof (cases "set_label LabelProviderIDInitialized ''true'' m")
      case (Ok m')
      have v: "m_Label m' LabelProviderIDInitialized = ''true''" "m_Name m' = m_Name m"
        using set_label_Ok [OF Ok] by (simp_all add: m_Label_def gm_idx_def)
      let ?nc = "stored\<lparr>k_ProviderID := m_ProviderID m\<rparr>"
      let ?t = "(f 1 (f 0 s))\<lparr>cl_claims := set_claim_id (owner_claim m) (m_ProviderID m) (cl_claims (f 1 (f 0 s)))\<rparr>"
      have "(s' \<in> {f 0 s, f 1 (f 0 s)}) \<or> (\<exists>t \<in> {f 0 s, ?t}. s' = t \<or> s' = f 2 t \<or>
          s' = (f 2 t)\<lparr>cl_machines := label_machine (m_Name m) ''true'' (cl_machines (f 2 t))\<rparr>)"
        using run owner Some Ok v name
        by (auto simp: machine_Reconcile_def Let_def run_simps run_cluster_api split: if_splits)
      then show ?thesis
        using that(1) that(2) [of "f 1 (f 0 s)" "f 1 (f 0 s)"] that(2) by blast
    qed (use run owner Some that(1) in \<open>simp_all add: machine_Reconcile_def run_simps run_cluster_api\<close>)
  qed
qed

lemma sound_machine_Reconcile:
  assumes f: "\<And>i t. sound_step t (f i t)"
    and m: "m \<in> set (cl_machines s)" "m_ProviderID m \<noteq> []"
    and run: "run_state (machine_Reconcile (interrupted f (cluster_api keeps)) m) s = (r, s')"
  shows "sound_step s s'"
  using run
proof (cases rule: run_machine_Reconcile)
  case nothing
  then show ?thesis using f by auto
next
  case (patched t u)
  let ?u = "f 1 (f 0 s)"
  have fs: "sound_step s (f 0 s)" "sound_step (f 0 s) ?u" "sound_step s ?u"
    using f sound_step_trans by blast+
  have "sound_step s (?u\<lparr>cl_claims := set_claim_id (owner_claim m) (m_ProviderID m) (cl_claims ?u)\<rparr>)"
  proof (cases "ids_ok s")
    case True
    then have "pid_ok s (owner_claim m) (m_ProviderID m)"
      using ids_okD(2) [OF True m(1)] m(2) by (simp add: machine_ok_def pid_ok_def)
    then have "pid_ok ?u (owner_claim m) (m_ProviderID m)" using pid_ok_mono fs(3) by blast
    then show ?thesis using sound_patch_claim sound_step_trans [OF fs(3)] by blast
  next
    case False
    then show ?thesis using fs(3) by (simp add: sound_step_def)
  qed
  then have "sound_step s t" using patched(1) fs by auto
  then have "sound_step s u" using patched(2) f sound_step_trans by blast
  then show ?thesis using patched(3) sound_label_machine sound_step_trans by blast
qed

lemma sound_steps:
  assumes "(\<lambda>a b. P a b \<and> sound_step a b)\<^sup>*\<^sup>* s t"
  shows "sound_step s t"
  using assms by induction (auto intro: sound_step_trans)

lemma sound_id_step: "id_step keeps calm s s' \<Longrightarrow> sound_step s s'"
proof (induction rule: id_step.induct)
  case (claim_created nc s)
  then show ?case by (auto simp: sound_step_def ids_ok_def pid_ok_def machine_ok_def)
next
  case (claim_gone s c)
  then show ?case by (auto simp: sound_step_def ids_ok_def pid_ok_def machine_ok_def)
next
  case (machine_created c m s)
  then show ?case by (auto simp: sound_step_def ids_ok_def pid_ok_def machine_ok_def launched_for_def)
next
  case (machine_identified m s pid)
  let ?s = "s\<lparr>cl_machines := identify (m_Name m) pid (cl_machines s), cl_issued := (owner_claim m, pid) # cl_issued s\<rparr>"
  have "ids_ok ?s" if ok: "ids_ok s"
  proof -
    have "machine_ok ?s (if m_Name x = m_Name m then x\<lparr>m_Spec := (m_Spec x)\<lparr>ms_ProviderID := Some pid\<rparr>\<rparr> else x)"
      if x: "x \<in> set (cl_machines s)" for x
      using ids_okD(2) [OF ok x] one_owner [OF ok x machine_identified(1)] by (auto simp: machine_ok_def)
    then have "\<forall>x \<in> set (identify (m_Name m) pid (cl_machines s)). machine_ok ?s x"
      unfolding identify_def by force
    moreover have "pid_ok ?s c p" if "pid_ok s c p" for c p
      using that by (auto simp: pid_ok_def)
    ultimately show ?thesis using ok by (simp add: ids_ok_def)
  qed
  then show ?case by (auto simp: sound_step_def)
next
  case (machine_gone s n)
  then show ?case by (auto simp: sound_step_def ids_ok_def pid_ok_def machine_ok_def)
next
  case (claim_reconciled nc s f r s')
  have "sound_step t (f i t)" for i t
    by (rule sound_steps [where P = "id_step keeps calm"]) (use claim_reconciled in simp)
  from sound_nodeclaim_Reconcile [OF this claim_reconciled(3)] show ?case .
next
  case (machine_reconciled m s f r s')
  have "sound_step t (f i t)" for i t
    by (rule sound_steps [where P = "id_step keeps calm"]) (use machine_reconciled in simp)
  moreover have "m_ProviderID m \<noteq> []" using machine_reconciled(1) by (simp add: machine_event_def)
  ultimately show ?case using sound_machine_Reconcile machine_reconciled(2,4) by blast
qed

lemma ids_ok_reachable:
  assumes "(id_step keeps calm)\<^sup>*\<^sup>* new_cluster s"
  shows "ids_ok s"
  using assms
proof induction
  case base
  then show ?case by (simp add: ids_ok_def new_cluster_def)
next
  case (step s t)
  then show ?case using sound_id_step unfolding sound_step_def by blast
qed

section \<open>Calm runs\<close>

lemma interrupted_id [simp]: "interrupted calmly env = env"
  by (simp add: interrupted_def after_def)

lemmas run_api = run_cluster_api [of calmly, unfolded interrupted_id id_apply]

lemma names_set_id [simp]: "map k_Name (set_claim_id name pid ncs) = map k_Name ncs"
  by (simp add: set_claim_id_def comp_def if_distrib cong: if_cong)

text \<open>Names are not used twice, there is one machine per node claim, one ID per machine.\<close>

definition history_ok :: "'q cluster \<Rightarrow> bool" where
  "history_ok s \<longleftrightarrow> ids_ok s \<and> distinct (map k_Name (cl_claims s)) \<and> distinct (map fst (cl_created s)) \<and> distinct (map fst (cl_issued s)) \<and>
     fst ` set (cl_issued s) \<subseteq> fst ` set (cl_created s) \<and>
     (\<forall>m \<in> set (cl_machines s). m_ProviderID m = [] \<longrightarrow> (\<forall>pid. (owner_claim m, pid) \<notin> set (cl_issued s)))"

lemma run_claim_calm:
  assumes "run_state (nodeclaim_Reconcile (cluster_api keeps) nc) s = (r, s')"
  shows "s' = s \<or> (\<exists>pid. s' = s\<lparr>cl_claims := set_claim_id (k_Name nc) pid (cl_claims s)\<rparr>)"
  using assms
  by (auto simp: nodeclaim_Reconcile_def patch_claim_def run_simps run_api split: if_splits list.splits)

lemma run_machine_calm:
  assumes "run_state (machine_Reconcile (cluster_api keeps) m) s = (r, s')"
  obtains t where "t = s \<or> t = s\<lparr>cl_claims := set_claim_id (owner_claim m) (m_ProviderID m) (cl_claims s)\<rparr>"
    "s' = t \<or> s' = t\<lparr>cl_machines := label_machine (m_Name m) ''true'' (cl_machines t)\<rparr>"
proof -
  have "run_state (machine_Reconcile (interrupted calmly (cluster_api keeps)) m) s = (r, s')"
    using assms by simp
  then show ?thesis
    by (cases rule: run_machine_Reconcile) (auto intro: that)
qed

lemma label_machine_ball:
  "(\<forall>m \<in> set (label_machine n v ms). m_ProviderID m = [] \<longrightarrow> (\<forall>pid. (owner_claim m, pid) \<notin> A)) \<longleftrightarrow>
     (\<forall>m \<in> set ms. m_ProviderID m = [] \<longrightarrow> (\<forall>pid. (owner_claim m, pid) \<notin> A))"
  by (induction ms) (simp_all add: label_machine_def)

lemma history_identified:
  assumes hist: "history_ok s" and m: "m \<in> set (cl_machines s)" "m_ProviderID m = []"
    and ids: "ids_ok (s\<lparr>cl_machines := identify (m_Name m) pid (cl_machines s), cl_issued := (owner_claim m, pid) # cl_issued s\<rparr>)"
    and "pid \<noteq> []"
  shows "history_ok (s\<lparr>cl_machines := identify (m_Name m) pid (cl_machines s), cl_issued := (owner_claim m, pid) # cl_issued s\<rparr>)"
proof -
  have ok: "ids_ok s" using hist by (simp add: history_ok_def)
  have "\<forall>pid. (owner_claim m, pid) \<notin> set (cl_issued s)" using hist m by (simp add: history_ok_def)
  moreover have "owner_claim m \<in> fst ` set (cl_created s)"
    using ids_okD(2) [OF ok m(1)] by (force simp: machine_ok_def)
  moreover have "m_Name x = m_Name m" if "x \<in> set (cl_machines s)" "owner_claim x = owner_claim m" for x
  proof -
    have "(owner_claim m, m_Name x) \<in> set (cl_created s)" "(owner_claim m, m_Name m) \<in> set (cl_created s)"
      using ids_okD(2) [OF ok that(1)] ids_okD(2) [OF ok m(1)] that(2) by (auto simp: machine_ok_def)
    moreover have "distinct (map fst (cl_created s))" using hist by (simp add: history_ok_def)
    ultimately show ?thesis by (metis eq_key_imp_eq_value)
  qed
  ultimately show ?thesis
    using hist ids assms(5) by (auto simp: history_ok_def identify_def)
qed

lemma calm_history:
  assumes step: "id_step keeps True s s'" and hist: "history_ok s"
  shows "history_ok s'"
proof -
  have ids: "ids_ok s'"
    using sound_id_step [OF step] hist by (simp add: sound_step_def history_ok_def)
  show ?thesis
    using step
  proof (cases rule: id_step.cases)
    case (claim_created nc)
    then have "k_Name nc \<notin> k_Name ` set (cl_claims s)" using hist by (auto simp: history_ok_def ids_ok_def)
    then show ?thesis using claim_created hist ids by (simp add: history_ok_def)
  next
    case (claim_gone c)
    then show ?thesis using hist ids by (simp add: history_ok_def distinct_map_filter)
  next
    case (machine_identified m pid)
    then show ?thesis using history_identified [OF hist] ids by simp
  next
    case (machine_created c m)
    have noc: "\<forall>pid. (owner_claim m, pid) \<notin> set (cl_issued s)"
      using machine_created(2,3) hist by (force simp: history_ok_def launched_for_def)
    show ?thesis
      using ids hist noc machine_created(3) unfolding machine_created(1) history_ok_def
      by (simp add: subset_insertI2)
  next
    case (claim_reconciled nc f r)
    then have "run_state (nodeclaim_Reconcile (cluster_api keeps) nc) s = (r, s')" by auto
    from run_claim_calm [OF this] show ?thesis
      using hist ids by (elim disjE exE) (simp_all add: history_ok_def)
  next
    case (machine_reconciled m f r)
    then have "run_state (machine_Reconcile (cluster_api keeps) m) s = (r, s')" by auto
    then show ?thesis
    proof (rule run_machine_calm)
      fix t
      assume t: "t = s \<or> t = s\<lparr>cl_claims := set_claim_id (owner_claim m) (m_ProviderID m) (cl_claims s)\<rparr>"
        and s': "s' = t \<or> s' = t\<lparr>cl_machines := label_machine (m_Name m) ''true'' (cl_machines t)\<rparr>"
      from s' show ?thesis
      proof
        assume "s' = t"
        then show ?thesis using t hist ids by (elim disjE) (simp_all add: history_ok_def)
      next
        assume *: "s' = t\<lparr>cl_machines := label_machine (m_Name m) ''true'' (cl_machines t)\<rparr>"
        then show ?thesis using t hist ids by (elim disjE) (simp_all add: history_ok_def label_machine_ball)
      qed
    qed
  qed (use hist ids in \<open>auto simp: history_ok_def\<close>)
qed

lemma history_reachable:
  assumes "(id_step keeps True)\<^sup>*\<^sup>* new_cluster s"
  shows "history_ok s"
  using assms
proof induction
  case base
  then show ?case by (simp add: history_ok_def ids_ok_def new_cluster_def)
next
  case (step s t)
  then show ?case using calm_history by blast
qed

text \<open>A node claim that has its ID keeps it.\<close>

definition delivered :: "string \<Rightarrow> string \<Rightarrow> 'q cluster \<Rightarrow> bool" where
  "delivered c pid s \<longleftrightarrow> history_ok s \<and> pid \<noteq> [] \<and> c \<in> set (cl_used s) \<and> (c, pid) \<in> set (cl_issued s) \<and>
     (\<forall>nc \<in> set (cl_claims s). k_Name nc = c \<longrightarrow> k_ProviderID nc = pid)"

lemma delivered_step:
  assumes step: "id_step keeps True s s'" and d: "delivered c pid s"
  shows "delivered c pid s'"
proof -
  have hist: "history_ok s'" using calm_history [OF step] d by (simp add: delivered_def)
  have sub: "c \<in> set (cl_used s')" "(c, pid) \<in> set (cl_issued s')"
    using sound_id_step [OF step] d by (auto simp: sound_step_def delivered_def)
  have "k_ProviderID nc = pid" if "nc \<in> set (cl_claims s')" "k_Name nc = c" for nc
    using step
  proof (cases rule: id_step.cases)
    case (claim_reconciled nc' f r)
    then have "run_state (nodeclaim_Reconcile (cluster_api keeps) nc') s = (r, s')" by auto
    moreover have "k_Name nc' \<noteq> c"
      using claim_reconciled d by (auto simp: delivered_def nodeclaim_event_def)
    ultimately show ?thesis
      using run_claim_calm that d by (fastforce simp: delivered_def set_claim_id_def)
  next
    case (machine_reconciled m f r)
    then have "run_state (machine_Reconcile (cluster_api keeps) m) s = (r, s')" by auto
    then show ?thesis
    proof (rule run_machine_calm)
      fix t
      assume t: "t = s \<or> t = s\<lparr>cl_claims := set_claim_id (owner_claim m) (m_ProviderID m) (cl_claims s)\<rparr>"
        and s': "s' = t \<or> s' = t\<lparr>cl_machines := label_machine (m_Name m) ''true'' (cl_machines t)\<rparr>"
      have pid: "m_ProviderID m = pid" if "owner_claim m = c"
      proof -
        have "(c, m_ProviderID m) \<in> set (cl_issued s)"
          using machine_reconciled d that
          by (auto simp: delivered_def history_ok_def machine_event_def machine_ok_def dest: ids_okD(2))
        moreover have "(c, pid) \<in> set (cl_issued s)" "distinct (map fst (cl_issued s))"
          using d by (simp_all add: delivered_def history_ok_def)
        ultimately show ?thesis by (metis eq_key_imp_eq_value)
      qed
      have "nc \<in> set (cl_claims t)" using s' that by auto
      then show ?thesis using t d pid that(2) by (auto simp: delivered_def set_claim_id_def split: if_splits)
    qed
  qed (use that d in \<open>auto simp: delivered_def\<close>)
  then show ?thesis using hist sub d by (simp add: delivered_def)
qed

lemma delivered_steps: "(id_step keeps True)\<^sup>*\<^sup>* s s' \<Longrightarrow> delivered c pid s \<Longrightarrow> delivered c pid s'"
  by (induction rule: rtranclp_induct) (auto intro: delivered_step)

text \<open>The reconciliation of a machine whose node claim exists.\<close>

lemma machine_Reconcile_delivers:
  assumes hist: "history_ok s" and m: "m \<in> set (cl_machines s)" "m_Label m LabelProviderIDInitialized = []"
    and claim: "owner_claim m \<in> k_Name ` set (cl_claims s)"
  obtains t s' where "run_state (machine_Reconcile (cluster_api keeps) m) s = (Ok no_result, s')"
    "cl_claims t = set_claim_id (owner_claim m) (m_ProviderID m) (cl_claims s)"
    "cl_machines t = cl_machines s" "cl_used t = cl_used s" "cl_issued t = cl_issued s"
    "s' = (if keeps then t\<lparr>cl_machines := label_machine (m_Name m) ''true'' (cl_machines t)\<rparr> else t)"
proof -
  have ok: "machine_ok s m" using hist m(1) by (simp add: history_ok_def ids_okD(2))
  then obtain ls where ls: "om_Labels (m_ObjectMeta m) = Some ls"
    by (cases "om_Labels (m_ObjectMeta m)") (auto simp: machine_ok_def)
  then obtain m' where m': "set_label LabelProviderIDInitialized ''true'' m = Ok m'"
    by (simp add: set_label_def)
  have v: "m_Label m' LabelProviderIDInitialized = ''true''" "m_Name m' = m_Name m"
    using set_label_Ok [OF m'] by (simp_all add: m_Label_def gm_idx_def)
  then have ne: "m' \<noteq> m" using m(2) by auto
  obtain stored where stored: "find (\<lambda>nc. k_Name nc = owner_claim m) (cl_claims s) = Some stored"
    using claim by (cases "find (\<lambda>nc. k_Name nc = owner_claim m) (cl_claims s)") (auto simp: find_None_iff)
  have name: "k_Name stored = owner_claim m" "stored \<in> set (cl_claims s)" using k_Name_find [OF stored] by auto
  let ?t = "s\<lparr>cl_claims := set_claim_id (owner_claim m) (m_ProviderID m) (cl_claims s)\<rparr>"
  have same: "?t = s" if eq: "stored\<lparr>k_ProviderID := m_ProviderID m\<rparr> = stored"
  proof -
    have uniq: "nc = stored" if "nc \<in> set (cl_claims s)" "k_Name nc = owner_claim m" for nc
    proof -
      have "inj_on k_Name (set (cl_claims s))" using hist by (simp add: history_ok_def distinct_map)
      then show ?thesis using that name by (metis inj_onD)
    qed
    then have "set_claim_id (owner_claim m) (m_ProviderID m) (cl_claims s) = cl_claims s"
      unfolding set_claim_id_def by (intro map_idI) (metis eq uniq)
    then show ?thesis by simp
  qed
  have run: "run_state (machine_Reconcile (cluster_api keeps) m) s = (Ok no_result,
      if keeps then ?t\<lparr>cl_machines := label_machine (m_Name m) ''true'' (cl_machines ?t)\<rparr> else ?t)"
    using ok ne claim name m(1) same
    by (auto simp: machine_Reconcile_def machine_ok_def run_simps run_api stored m' v Let_def)
  show ?thesis by (rule that [OF run, of ?t]) simp_all
qed

section \<open>Properties\<close>

text \<open>
  C10. No node claim ever gets a provider ID out of nothing.  In every state the cluster can reach, with
  reconciliations that work on outdated copies and are interrupted between any two calls, by any
  steps, the provider ID of a node claim is empty, the placeholder of a machine that was made for this
  claim, or an ID that was given to a machine made for this claim.
\<close>

theorem provider_ids_justified:
  assumes "(id_step keeps calm)\<^sup>*\<^sup>* new_cluster s" and "nc \<in> set (cl_claims s)"
  shows "k_ProviderID nc = [] \<or>
    (\<exists>n. (k_Name nc, n) \<in> set (cl_created s) \<and> k_ProviderID nc = ''placeholder-'' @ n) \<or>
    (k_Name nc, k_ProviderID nc) \<in> set (cl_issued s)"
  using ids_okD(1) [OF ids_ok_reachable [OF assms(1)] assms(2)] unfolding pid_ok_def .

text \<open>A claim, its machine, and the placeholder it gets before the machine has an ID.\<close>

definition sample_id_machine :: Machine where
  "sample_id_machine = zero_Machine\<lparr>m_ObjectMeta := zero_ObjectMeta\<lparr>
     om_Name := ''np-1'', om_Labels := Some [(LabelNodeClaim, ''claim-1'')],
     om_OwnerReferences := Some [owner_of sample_nodeclaim]\<rparr>\<rparr>"

definition sample_waiting :: "string cluster" where
  "sample_waiting = \<lparr>cl_claims = [sample_nodeclaim], cl_machines = [sample_id_machine], cl_used = [''claim-1''],
     cl_created = [(''claim-1'', ''np-1'')], cl_issued = []\<rparr>"

lemma sample_waiting_reachable: "(id_step keeps calm)\<^sup>*\<^sup>* new_cluster sample_waiting"
proof -
  let ?i = "new_cluster :: string cluster"
  let ?s = "?i\<lparr>cl_claims := [sample_nodeclaim], cl_used := [''claim-1'']\<rparr>"
  have "id_step keeps calm ?i (?i\<lparr>cl_claims := sample_nodeclaim # cl_claims ?i,
      cl_used := k_Name sample_nodeclaim # cl_used ?i\<rparr>)"
    by (rule claim_created) (simp_all add: new_cluster_def sample_nodeclaim_def zero_NodeClaim_def)
  then have 1: "id_step keeps calm ?i ?s"
    by (simp add: new_cluster_def sample_nodeclaim_def k_Name_def)
  have "launched_for ''claim-1'' sample_id_machine"
    by code_simp
  then have "id_step keeps calm ?s (?s\<lparr>cl_machines := sample_id_machine # cl_machines ?s,
      cl_created := (''claim-1'', m_Name sample_id_machine) # cl_created ?s\<rparr>)"
    by (rule machine_created) (simp_all add: new_cluster_def)
  then have 2: "id_step keeps calm ?s sample_waiting"
    by (simp add: new_cluster_def sample_waiting_def sample_id_machine_def m_Name_def)
  from 1 2 show ?thesis by (meson r_into_rtranclp rtranclp.rtrancl_into_rtrancl)
qed

theorem provider_ids_justified_witness:
  "\<exists>nc. (id_step True True)\<^sup>*\<^sup>* new_cluster (sample_waiting\<lparr>cl_claims := [nc]\<rparr>) \<and> k_ProviderID nc = ''placeholder-np-1''"
proof -
  let ?nc = "sample_nodeclaim\<lparr>k_ProviderID := ''placeholder-np-1''\<rparr>"
  have "nodeclaim_event sample_nodeclaim" by code_simp
  then have "id_step True True sample_waiting (sample_waiting\<lparr>cl_claims := [?nc]\<rparr>)"
  proof (rule claim_reconciled [where f = calmly])
    show "True \<longrightarrow> sample_nodeclaim \<in> set (cl_claims sample_waiting) \<and> calmly = calmly" by (simp add: sample_waiting_def)
    have find: "gm_get (om_Labels (m_ObjectMeta sample_id_machine)) LabelNodeClaim = Some (k_Name (sample_nodeclaim :: string NodeClaim))"
      "m_ProviderID sample_id_machine = []" "placeholder sample_id_machine = ''placeholder-np-1''"
      "k_ProviderID (sample_nodeclaim :: string NodeClaim) = []" "k_Name (sample_nodeclaim :: string NodeClaim) = ''claim-1''"
      by code_simp+
    have ne: "sample_nodeclaim\<lparr>k_ProviderID := ''placeholder-np-1''\<rparr> \<noteq> sample_nodeclaim"
      using find(4) by (simp add: new_id_differs)
    show "run_state (nodeclaim_Reconcile (interrupted calmly (cluster_api True)) sample_nodeclaim) sample_waiting =
        (Ok no_result, sample_waiting\<lparr>cl_claims := [?nc]\<rparr>)"
      using ne by (simp add: nodeclaim_Reconcile_def patch_claim_def run_simps run_api find sample_waiting_def set_claim_id_def)
  qed simp
  then have reach: "(id_step True True)\<^sup>*\<^sup>* new_cluster (sample_waiting\<lparr>cl_claims := [?nc]\<rparr>)"
    using sample_waiting_reachable by (metis rtranclp.rtrancl_into_rtrancl)
  show ?thesis
    using provider_ids_justified [OF reach, of ?nc] reach by auto
qed

text \<open>
  C11. In a calm run every machine hands its ID to its node claim, for good.  Take any reachable state with a
  machine that has an ID and is not marked yet, and whose node claim exists: the event filter of the
  machine controller lets the machine through, its reconciliation succeeds in one step, and from then
  on, whatever else happens, the node claim has the provider ID of the machine as long as it exists;
  where the API keeps the label of a status patch, the machine is not reconciled again.
\<close>

theorem provider_id_delivered:
  assumes reach: "(id_step keeps True)\<^sup>*\<^sup>* new_cluster s"
    and m: "m \<in> set (cl_machines s)" "m_ProviderID m \<noteq> []" "m_Label m LabelProviderIDInitialized = []"
    and claim: "owner_claim m \<in> k_Name ` set (cl_claims s)"
  shows "machine_event m \<and>
    (\<exists>s'. run_state (machine_Reconcile (cluster_api keeps) m) s = (Ok no_result, s') \<and> id_step keeps True s s' \<and>
       (\<forall>s''. (id_step keeps True)\<^sup>*\<^sup>* s' s'' \<longrightarrow>
          (\<forall>nc \<in> set (cl_claims s''). k_Name nc = owner_claim m \<longrightarrow> k_ProviderID nc = m_ProviderID m)) \<and>
       (keeps \<longrightarrow> (\<forall>x \<in> set (cl_machines s'). m_Name x = m_Name m \<longrightarrow> \<not> machine_event x)))"
proof -
  note hist = history_reachable [OF reach]
  have ok: "machine_ok s m" "c \<in> k_Name ` set (cl_claims s) \<Longrightarrow> c \<in> set (cl_used s)" for c
    using hist m(1) by (auto simp: history_ok_def ids_ok_def)
  have event: "machine_event m"
    using ok(1) m(2,3)
    by (cases "om_Labels (m_ObjectMeta m)") (auto simp: machine_event_def machine_ok_def m_Label_def gm_idx_def)
  obtain t s' where run: "run_state (machine_Reconcile (cluster_api keeps) m) s = (Ok no_result, s')"
    and t: "cl_claims t = set_claim_id (owner_claim m) (m_ProviderID m) (cl_claims s)"
      "cl_machines t = cl_machines s" "cl_used t = cl_used s" "cl_issued t = cl_issued s"
    and s': "s' = (if keeps then t\<lparr>cl_machines := label_machine (m_Name m) ''true'' (cl_machines t)\<rparr> else t)"
    by (rule machine_Reconcile_delivers [OF hist m(1,3) claim])
  have step: "id_step keeps True s s'"
    by (rule machine_reconciled [OF event m(1), of True calmly]) (simp_all add: run)
  have d: "delivered (owner_claim m) (m_ProviderID m) s'"
    using calm_history [OF step hist] ok(1) ok(2) [OF claim] m(2) t s'
    by (auto simp: delivered_def machine_ok_def set_claim_id_def)
  have "\<forall>nc \<in> set (cl_claims s''). k_Name nc = owner_claim m \<longrightarrow> k_ProviderID nc = m_ProviderID m"
    if "(id_step keeps True)\<^sup>*\<^sup>* s' s''" for s''
    using delivered_steps [OF that d] by (simp add: delivered_def)
  moreover have "\<not> machine_event x" if keeps "x \<in> set (cl_machines s')" "m_Name x = m_Name m" for x
    using that s' by (auto simp: label_machine_def machine_event_def m_Label_def gm_idx_def)
  ultimately show ?thesis using event run step by blast
qed

text \<open>The same machine with its ID, and the steps that lead there.\<close>

definition sample_identified_machine :: Machine where
  "sample_identified_machine =
     sample_id_machine\<lparr>m_Spec := (m_Spec sample_id_machine)\<lparr>ms_ProviderID := Some ''ins-1''\<rparr>\<rparr>"

definition sample_identified :: "string cluster" where
  "sample_identified = sample_waiting\<lparr>cl_machines := [sample_identified_machine], cl_issued := [(''claim-1'', ''ins-1'')]\<rparr>"

lemma sample_id_machine_simps [simp]:
  "m_Name sample_id_machine = ''np-1''" "owner_claim sample_id_machine = ''claim-1''"
  "m_ProviderID sample_id_machine = []"
  "gm_get (om_Labels (m_ObjectMeta sample_id_machine)) LabelNodeClaim = Some ''claim-1''"
  "m_Name sample_identified_machine = ''np-1''" "owner_claim sample_identified_machine = ''claim-1''"
  "m_ProviderID sample_identified_machine = ''ins-1''"
  "m_Label sample_identified_machine LabelProviderIDInitialized = []"
  "k_Name (sample_nodeclaim :: string NodeClaim) = ''claim-1''"
  "k_ProviderID (sample_nodeclaim :: string NodeClaim) = []"
  by code_simp+

lemma sample_identified_step: "id_step keeps calm sample_waiting sample_identified"
proof -
  have "id_step keeps calm sample_waiting
      (sample_waiting\<lparr>cl_machines := identify (m_Name sample_id_machine) ''ins-1'' (cl_machines sample_waiting),
         cl_issued := (owner_claim sample_id_machine, ''ins-1'') # cl_issued sample_waiting\<rparr>)"
    by (rule machine_identified) (simp_all add: sample_waiting_def)
  then show ?thesis
    by (simp add: sample_identified_def sample_identified_machine_def sample_waiting_def identify_def)
qed

lemma sample_identified_reachable: "(id_step keeps calm)\<^sup>*\<^sup>* new_cluster sample_identified"
  using sample_waiting_reachable sample_identified_step by (metis rtranclp.rtrancl_into_rtrancl)

theorem provider_id_delivered_witness:
  "(id_step True True)\<^sup>*\<^sup>* new_cluster sample_identified \<and> machine_event sample_identified_machine \<and>
   (\<exists>s'. run_state (machine_Reconcile (cluster_api True) sample_identified_machine) sample_identified = (Ok no_result, s') \<and>
      (\<forall>nc \<in> set (cl_claims s'). k_Name nc = ''claim-1'' \<longrightarrow> k_ProviderID nc = ''ins-1''))"
proof -
  have "machine_event sample_identified_machine \<and>
    (\<exists>s'. run_state (machine_Reconcile (cluster_api True) sample_identified_machine) sample_identified = (Ok no_result, s') \<and>
       id_step True True sample_identified s' \<and>
       (\<forall>s''. (id_step True True)\<^sup>*\<^sup>* s' s'' \<longrightarrow> (\<forall>nc \<in> set (cl_claims s''). k_Name nc = owner_claim sample_identified_machine \<longrightarrow>
          k_ProviderID nc = m_ProviderID sample_identified_machine)) \<and>
       (True \<longrightarrow> (\<forall>x \<in> set (cl_machines s'). m_Name x = m_Name sample_identified_machine \<longrightarrow> \<not> machine_event x)))"
    by (rule provider_id_delivered [OF sample_identified_reachable])
       (simp_all add: sample_identified_def sample_waiting_def)
  then show ?thesis using sample_identified_reachable by (auto intro: rtranclp.rtrancl_refl)
qed

text \<open>
  Without the restriction to calm runs the ID can get lost: when the machine gets its ID and is reconciled
  while the reconciliation of its node claim is about to write the placeholder, the placeholder
  overwrites the ID, and after that the event filters keep both objects away from the controllers.
\<close>

lemma placeholder_sticks:
  "\<exists>s nc m. (id_step True False)\<^sup>*\<^sup>* new_cluster (s :: string cluster) \<and> cl_claims s = [nc] \<and> cl_machines s = [m] \<and>
     owner_claim m = k_Name nc \<and> m_ProviderID m = ''ins-1'' \<and> k_ProviderID nc = ''placeholder-np-1'' \<and>
     \<not> nodeclaim_event nc \<and> \<not> machine_event m"
proof -
  have hist: "history_ok sample_identified" by (rule history_reachable [OF sample_identified_reachable])
  obtain t s' where run: "run_state (machine_Reconcile (cluster_api True) sample_identified_machine) sample_identified = (Ok no_result, s')"
    and t: "cl_claims t = set_claim_id ''claim-1'' ''ins-1'' (cl_claims sample_identified)"
      "cl_machines t = cl_machines sample_identified"
    and s': "s' = t\<lparr>cl_machines := label_machine ''np-1'' ''true'' (cl_machines t)\<rparr>"
    by (rule machine_Reconcile_delivers [OF hist, of sample_identified_machine True])
       (auto simp: sample_identified_def sample_waiting_def)
  have "id_step True False sample_identified s'"
    by (rule machine_reconciled [OF _ _ _ _ , of sample_identified_machine _ False calmly])
       (simp_all add: run, code_simp, simp add: sample_identified_def)
  then have between: "(id_step True False)\<^sup>*\<^sup>* sample_waiting s'"
    using sample_identified_step by (metis r_into_rtranclp rtranclp.rtrancl_into_rtrancl)
  define f :: "nat \<Rightarrow> string cluster \<Rightarrow> string cluster"
    where "f i x = (if i = 1 \<and> x = sample_waiting then s' else x)" for i x
  let ?stuck = "s'\<lparr>cl_claims := set_claim_id ''claim-1'' ''placeholder-np-1'' (cl_claims s')\<rparr>"
  have "id_step True False sample_waiting ?stuck"
  proof (rule claim_reconciled)
    show "nodeclaim_event (sample_nodeclaim :: string NodeClaim)" by code_simp
    show "\<forall>i t. (id_step True False)\<^sup>*\<^sup>* t (f i t)" using between by (simp add: f_def)
    show "run_state (nodeclaim_Reconcile (interrupted f (cluster_api True)) sample_nodeclaim) sample_waiting = (Ok no_result, ?stuck)"
      using s' t
      by (simp add: nodeclaim_Reconcile_def patch_claim_def run_simps run_cluster_api f_def new_id_differs
          sample_waiting_def sample_identified_def placeholder_def set_claim_id_def)
  qed simp
  then have "(id_step True False)\<^sup>*\<^sup>* new_cluster ?stuck"
    by (rule rtranclp.rtrancl_into_rtrancl [OF sample_waiting_reachable])
  moreover obtain nc where "cl_claims ?stuck = [nc]" "k_Name nc = ''claim-1''" "k_ProviderID nc = ''placeholder-np-1''"
    using s' t by (simp add: set_claim_id_def sample_identified_def sample_waiting_def)
  moreover obtain m where "cl_machines ?stuck = [m]" "owner_claim m = ''claim-1''" "m_ProviderID m = ''ins-1''"
    "m_Label m LabelProviderIDInitialized = ''true''"
    using s' t by (simp add: label_machine_def sample_identified_def m_Label_def gm_idx_def)
  moreover have "\<not> nodeclaim_event nc" "\<not> machine_event m"
    using calculation by (simp_all add: nodeclaim_event_def machine_event_def)
  ultimately show ?thesis by (intro exI [of _ ?stuck] exI [of _ nc] exI [of _ m]) simp
qed

end
