(* ===== verification/Workers.thy ===== *)
theory Workers
  imports Prelude "HOL-Library.Word"
begin

text \<open>
  What the controllers that look after all machines at once share: filters whose condition makes
  calls, and \<open>workqueue.ParallelizeUntil\<close>, which runs one function per item on several workers.  The
  work queue is a parameter of the controllers; this theory says what they rely on, and proves once how an
  invariant is carried through every interleaving.
\<close>

text \<open>Both controllers run every ten seconds at first, every minute after twenty successes.\<close>

definition requeue_interval :: "64 word \<Rightarrow> reconcile_result" where
  "requeue_interval successfulCount = requeue_after (if successfulCount \<le> 20 then seconds 10 else minutes 1)"

text \<open>Both report the error of a deletion unless the object is gone already (\<open>client.IgnoreNotFound\<close>).\<close>

fun deleted_result :: "unit outcome \<Rightarrow> unit outcome" where
  "deleted_result (Err e) = (case ignore_not_found e of None \<Rightarrow> Ok () | Some e \<Rightarrow> Err e)"
| "deleted_result r = r"

section \<open>Filters\<close>

fun sfilter :: "('a \<Rightarrow> ('s, bool outcome) state) \<Rightarrow> 'a list \<Rightarrow> ('s, 'a list outcome) state" where
  "sfilter f [] = State_Monad.return (Ok [])"
| "sfilter f (x # xs) =
     sbind (f x) (\<lambda>b. sbind (sfilter f xs) (\<lambda>ys. State_Monad.return (Ok (if b then x # ys else ys))))"

lemma preserves_sfilter:
  assumes "reflp R" "transp R" "\<And>x. preserves R (f x)"
  shows "preserves R (sfilter f xs)"
  by (induction xs) (auto intro!: preserves_sbind assms preserves_return)

lemma sfilter_length: "run_state (sfilter f xs) s = (Ok ys, s') \<Longrightarrow> length ys \<le> length xs"
proof (induction xs arbitrary: s ys)
  case Nil
  then show ?case by (simp add: run_simps)
next
  case (Cons x xs)
  from Cons.prems show ?case
    unfolding sfilter.simps by (elim sbind_OkE) (auto simp: run_simps le_SucI dest!: Cons.IH)
qed

text \<open>Every element was judged in some state between the first and the last one.\<close>

lemma sfilter_judged:
  assumes R: "reflp R" "transp R" "\<And>x. preserves R (f x)"
    and run: "run_state (sfilter f xs) s = (Ok ys, s')"
  shows "set ys \<subseteq> set xs"
    and "y \<in> set ys \<Longrightarrow> \<exists>t t'. R s t \<and> run_state (f y) t = (Ok True, t') \<and> R t' s'"
    and "x \<in> set xs \<Longrightarrow> x \<notin> set ys \<Longrightarrow> \<exists>t t'. R s t \<and> run_state (f x) t = (Ok False, t') \<and> R t' s'"
proof -
  have "set ys \<subseteq> set xs \<and> (\<forall>y \<in> set ys. \<exists>t t'. R s t \<and> run_state (f y) t = (Ok True, t') \<and> R t' s') \<and>
      (\<forall>x \<in> set xs - set ys. \<exists>t t'. R s t \<and> run_state (f x) t = (Ok False, t') \<and> R t' s')"
    using run
  proof (induction xs arbitrary: s ys)
    case Nil
    then show ?case by (simp add: run_simps)
  next
    case (Cons a xs)
    obtain b s1 zs where head: "run_state (f a) s = (Ok b, s1)"
      and tail: "run_state (sfilter f xs) s1 = (Ok zs, s')" and ys: "ys = (if b then a # zs else zs)"
      using Cons.prems unfolding sfilter.simps by (elim sbind_OkE) (auto simp: run_simps)
    have first: "R s s1" using preservesD [OF R(3) head] .
    have last: "R s1 s'" using preservesD [OF preserves_sfilter [OF R] tail] .
    have start: "R s s" using R(1) by (simp add: reflpD)
    have a: "\<exists>t t'. R s t \<and> run_state (f a) t = (Ok b, t') \<and> R t' s'" using start head last by blast
    have later: "\<exists>t t'. R s t \<and> run_state (f x) t = (r, t') \<and> R t' s'"
      if "\<exists>t t'. R s1 t \<and> run_state (f x) t = (r, t') \<and> R t' s'" for x r
      using that transpD [OF R(2) first] by blast
    from Cons.IH [OF tail] show ?case using a later ys by (cases b) auto
  qed
  then show "set ys \<subseteq> set xs"
    and "y \<in> set ys \<Longrightarrow> \<exists>t t'. R s t \<and> run_state (f y) t = (Ok True, t') \<and> R t' s'"
    and "x \<in> set xs \<Longrightarrow> x \<notin> set ys \<Longrightarrow> \<exists>t t'. R s t \<and> run_state (f x) t = (Ok False, t') \<and> R t' s'"
    by blast+
qed

section \<open>Jobs\<close>

text \<open>
  A piece of work is a sequence of calls, each of which decides what comes next.  Other workers may make
  their calls in between.
\<close>

datatype 'w job = Finish "unit outcome" | Call "('w, 'w job) state"

primrec finish :: "'w job \<Rightarrow> ('w, unit outcome) state" where
  "finish (Finish r) = State_Monad.return r"
| "finish (Call m) = State_Monad.bind (map_state finish m) id"

lemma run_finish [run_simps]:
  "run_state (finish (Finish r)) w = (r, w)"
  "run_state (finish (Call m)) w = (case run_state m w of (j, w') \<Rightarrow> run_state (finish j) w')"
  by (simp_all add: run_simps, cases m, simp split: prod.split)

declare finish.simps [simp del]

fun job_step :: "'w job \<Rightarrow> ('w, 'w job) state" where
  "job_step (Finish r) = State_Monad.return (Finish r)"
| "job_step (Call m) = m"

text \<open>The workers make calls for the given pieces, one after the other, and then finish every piece.\<close>

fun work :: "nat list \<Rightarrow> 'w job list \<Rightarrow> ('w, 'w job list) state" where
  "work [] js = State_Monad.return js"
| "work (i # is) js =
     (if i < length js then do { j \<leftarrow> job_step (js ! i); work is (js[i := j]) } else work is js)"

fun finish_all :: "'w job list \<Rightarrow> ('w, unit outcome list) state" where
  "finish_all [] = State_Monad.return []"
| "finish_all (j # js) = do { r \<leftarrow> finish j; rs \<leftarrow> finish_all js; State_Monad.return (r # rs) }"

definition interleaved :: "nat list \<Rightarrow> 'w job list \<Rightarrow> ('w, unit outcome list) state" where
  "interleaved order js = do { js' \<leftarrow> work order js; finish_all js' }"

text \<open>
  What is relied on: every piece is run once, in some interleaving of the calls, and the results are there
  when the call returns.
\<close>

definition work_queue :: "('w job list \<Rightarrow> ('w, unit outcome list) state) \<Rightarrow> bool" where
  "work_queue parallelize \<longleftrightarrow> (\<forall>js w. \<exists>order. run_state (parallelize js) w = run_state (interleaved order js) w)"

lemma work_queue_sequential: "work_queue finish_all"
proof -
  have "run_state (finish_all js) w = run_state (interleaved [] js) w" for js :: "'w job list" and w
    by (simp add: interleaved_def run_simps)
  then show ?thesis unfolding work_queue_def by (intro allI exI [of _ "[]"])
qed

text \<open>\<open>multierr.Combine\<close> of the results; a panic in a worker ends the program.\<close>

fun job_error :: "unit outcome \<Rightarrow> goerr option" where
  "job_error (Err e) = Some e"
| "job_error _ = None"

definition combined :: "unit outcome list \<Rightarrow> unit outcome" where
  "combined rs = (if Panic \<in> set rs then Panic
     else case multierr_combine (map job_error rs) of None \<Rightarrow> Ok () | Some e \<Rightarrow> Err e)"

lemma combined_Ok: "combined rs = Ok () \<longleftrightarrow> set rs \<subseteq> {Ok ()}"
proof -
  have "job_error r = None \<longleftrightarrow> r \<in> {Ok (), Panic}" for r by (cases r) auto
  then have "multierr_combine (map job_error rs) = None \<longleftrightarrow> set rs \<subseteq> {Ok (), Panic}"
    by (auto simp: image_subset_iff subset_iff)
  then show ?thesis
    by (cases "multierr_combine (map job_error rs)") (auto simp: combined_def simp del: multierr_combine_None)
qed

section \<open>Logs\<close>

text \<open>Every call in a log is justified by the calls before it.\<close>

definition all_before :: "('c list \<Rightarrow> 'c \<Rightarrow> bool) \<Rightarrow> 'c list \<Rightarrow> bool" where
  "all_before J tr \<longleftrightarrow> (\<forall>i < length tr. J (take i tr) (tr ! i))"

lemma all_before_Nil [simp]: "all_before J []"
  by (simp add: all_before_def)

lemma all_before_snoc [simp]: "all_before J (tr @ [c]) \<longleftrightarrow> all_before J tr \<and> J tr c"
  by (auto simp: all_before_def nth_append less_Suc_eq)

lemma all_before_all: "(\<And>before c. c \<in> set cs \<Longrightarrow> J before c) \<Longrightarrow> all_before J cs"
  by (simp add: all_before_def)

section \<open>Invariants of interleavings\<close>

text \<open>
  \<open>inv\<close> holds between any two calls; \<open>at w x j\<close> says that \<open>j\<close> is what is left, in the state \<open>w\<close>, of the work for
  \<open>x\<close>.  A call keeps the invariant, leads its own piece on, and does not disturb the others.
\<close>

locale workers =
  fixes inv :: "'w \<Rightarrow> bool" and at_job :: "'w \<Rightarrow> 'x \<Rightarrow> 'w job \<Rightarrow> bool"
  assumes inv_call: "inv w \<Longrightarrow> at_job w x (Call m) \<Longrightarrow> run_state m w = (j, w') \<Longrightarrow> inv w'"
    and own_call: "inv w \<Longrightarrow> at_job w x (Call m) \<Longrightarrow> run_state m w = (j, w') \<Longrightarrow> at_job w' x j"
    and other_call: "inv w \<Longrightarrow> at_job w x (Call m) \<Longrightarrow> run_state m w = (j, w') \<Longrightarrow>
      at_job w y k \<Longrightarrow> at_job w' y k"
begin

lemma call_jobs:
  assumes "inv w" "list_all2 (at_job w) xs js" "i < length js" "js ! i = Call m" "run_state m w = (j, w')"
  shows "inv w' \<and> list_all2 (at_job w') xs (js[i := j])"
proof -
  have i: "at_job w (xs ! i) (Call m)" "i < length xs"
    using assms(2-4) by (auto simp: list_all2_conv_all_nth)
  have "list_all2 (at_job w') xs js"
    using assms(2) other_call [OF assms(1) i(1) assms(5)] by (auto simp: elim: list_all2_mono)
  then have "list_all2 (at_job w') xs (js[i := j])"
    using own_call [OF assms(1) i(1) assms(5)] i(2)
    by (auto simp: list_all2_conv_all_nth nth_list_update)
  then show ?thesis using inv_call [OF assms(1) i(1) assms(5)] by blast
qed

lemma finish_keeps:
  assumes "inv w" "at_job w x j" "run_state (finish j) w = (r, w')"
  shows "inv w' \<and> at_job w' x (Finish r) \<and> (\<forall>y k. at_job w y k \<longrightarrow> at_job w' y k)"
  using assms
proof (induction j arbitrary: w)
  case (Finish r')
  then show ?case by (simp add: run_simps)
next
  case (Call m)
  obtain j w1 where m: "run_state m w = (j, w1)" by fastforce
  then have "j \<in> set_state m" by (cases m) (auto simp: fsts.simps intro!: exI [of _ w])
  moreover have "inv w1" "at_job w1 x j" "\<forall>y k. at_job w y k \<longrightarrow> at_job w1 y k"
    using inv_call own_call other_call Call.prems(1,2) m by blast+
  ultimately show ?case using Call m by (auto simp: run_simps)
qed

lemma finish_all_keeps:
  assumes "inv w" "list_all2 (at_job w) xs js" "run_state (finish_all js) w = (rs, w')"
  shows "inv w' \<and> list_all2 (\<lambda>x r. at_job w' x (Finish r)) xs rs \<and> (\<forall>y k. at_job w y k \<longrightarrow> at_job w' y k)"
  using assms
proof (induction js arbitrary: w xs rs)
  case Nil
  then show ?case by (simp add: run_simps)
next
  case (Cons j js)
  from Cons.prems(2) obtain x xs' where xs: "xs = x # xs'" "at_job w x j" "list_all2 (at_job w) xs' js"
    by (auto simp: list_all2_Cons2)
  obtain r w1 where r: "run_state (finish j) w = (r, w1)" by fastforce
  obtain rs' where rs: "run_state (finish_all js) w1 = (rs', w')" "rs = r # rs'"
    using Cons.prems(3) r by (auto simp: run_simps split: prod.splits)
  note head = finish_keeps [OF Cons.prems(1) xs(2) r]
  then have "inv w1" "list_all2 (at_job w1) xs' js" using xs(3) by (auto simp: elim: list_all2_mono)
  from Cons.IH [OF this rs(1)] show ?case using head rs(2) xs(1) by auto
qed

lemma work_keeps:
  assumes "inv w" "list_all2 (at_job w) xs js" "run_state (work order js) w = (js', w')"
  shows "inv w' \<and> list_all2 (at_job w') xs js'"
  using assms
proof (induction order arbitrary: w js)
  case Nil
  then show ?case by (simp add: run_simps)
next
  case (Cons i order)
  show ?case
  proof (cases "i < length js")
    case True
    obtain j w1 where j: "run_state (job_step (js ! i)) w = (j, w1)" by fastforce
    have "inv w1 \<and> list_all2 (at_job w1) xs (js[i := j])"
    proof (cases "js ! i")
      case (Finish r)
      then show ?thesis using Cons.prems(1,2) j by (auto simp: run_simps list_update_same_conv [OF True])
    next
      case (Call m)
      then show ?thesis using call_jobs [OF Cons.prems(1,2) True Call] j by simp
    qed
    then show ?thesis using Cons.IH [of w1 "js[i := j]"] Cons.prems(3) True j by (simp add: run_simps)
  next
    case False
    then show ?thesis using Cons by simp
  qed
qed

lemma parallel:
  assumes "work_queue parallelize" "inv w" "list_all2 (at_job w) xs js" "run_state (parallelize js) w = (rs, w')"
  shows "inv w'" and "list_all2 (\<lambda>x r. at_job w' x (Finish r)) xs rs"
proof -
  obtain order where "run_state (interleaved order js) w = (rs, w')"
    using assms(1,4) by (metis work_queue_def)
  then obtain js' w1 where work: "run_state (work order js) w = (js', w1)"
    and fin: "run_state (finish_all js') w1 = (rs, w')"
    by (auto simp: interleaved_def run_simps split: prod.splits)
  from work_keeps [OF assms(2,3) work] have "inv w1" "list_all2 (at_job w1) xs js'" by simp_all
  from finish_all_keeps [OF this fin] show "inv w'" "list_all2 (\<lambda>x r. at_job w' x (Finish r)) xs rs" by simp_all
qed

end

end
