(* ===== verification/FailureController.thy ===== *)
theory FailureController
  imports CloudProvider Workers
begin

text \<open>
  The controller that clears away machines that could not be launched
  (\<open>pkg/controllers/nodeclaim/failure/controller.go\<close>).  A lack of capacity is counted and makes the
  instance types be listed afresh; any other failure, and a lack of capacity that has been seen too often,
  blocks the offering.  Then the node claims of these machines and the machines themselves are deleted by
  parallel workers.  The Kubernetes API, the clock and the work queue are parameters; the memory of the
  instance type provider is threaded next to the outside world.
\<close>

section \<open>The reconciliation\<close>

record ('w, 'q, 'r, 'v) failure_env =
  fe_ListMachines :: "('w, Machine list outcome) state"
  fe_GetNodeClass :: "string \<times> string \<Rightarrow> ('w, TKEMachineNodeClass outcome) state"
  fe_DeleteNodeClaim :: "string \<Rightarrow> ('w, unit outcome) state"
  fe_DeleteMachine :: "Machine \<Rightarrow> ('w, unit outcome) state"
  fe_Now :: "('w, int) state"
  fe_list :: "('w, 'q, 'r, 'v) list_env"
  fe_ParallelizeUntil :: "'w job list \<Rightarrow> ('w, unit outcome list) state"

definition failure_message :: "Machine \<Rightarrow> string" where
  "failure_message m = str_ptr (mst_FailureMessage (m_Status m))"

definition insufficient_message :: "string \<Rightarrow> bool" where
  "insufficient_message msg \<longleftrightarrow> contains msg ''Insufficient resources of'' \<or>
     contains msg ''InvalidParameterValue.InsufficientOffering'' \<or>
     contains msg ''ResourceInsufficient.SpecifiedInstanceType'' \<or> contains msg ''LimitExceeded.SpotQuota''"

text \<open>
  The provider spec of a machine: a spec that cannot be decoded is skipped by every reader, one that
  decodes to nil is dereferenced.
\<close>

definition failed_spec :: "Machine \<Rightarrow> CXMMachineProviderSpec option outcome" where
  "failed_spec m = (case ProviderSpecFromRawExtension (pv_Value (ms_ProviderSpec (m_Spec m))) of
     Err _ \<Rightarrow> Ok None
   | Ok (Some spec) \<Rightarrow> Ok (Some spec)
   | _ \<Rightarrow> Panic)"

definition capacity_type :: "Machine \<Rightarrow> string" where
  "capacity_type m = m_Label m CapacityTypeLabelKey"

definition failed_offering :: "string \<Rightarrow> Machine \<Rightarrow> offering_name" where
  "failed_offering insType m = (insType, capacity_type m, ms_Zone (m_Spec m))"

definition isFailureWithInsufficientResources :: "Machine \<Rightarrow> 'c InstanceTypeProvider \<Rightarrow> bool outcome" where
  "isFailureWithInsufficientResources m p =
     (if \<not> (str_ptr (mst_FailureReason (m_Status m)) = InvalidConfigurationMachineError \<and>
             insufficient_message (failure_message m))
      then Ok False
      else obind (failed_spec m) (\<lambda>spec. case spec of
        None \<Rightarrow> Ok False
      | Some spec \<Rightarrow>
          obind (if capacity_type m = CapacityTypeSpot
                 then omap (\<lambda>cnt. cnt > 50) (GetInsufficientFailureCount (failed_offering ''*'' m) p)
                 else Ok False) (\<lambda>exhausted.
          if exhausted then Ok False
          else omap (\<lambda>cnt. \<not> cnt > 3) (GetInsufficientFailureCount (failed_offering (ps_InstanceType spec) m) p))))"

text \<open>The conditions of the two filters start alike; they are evaluated from left to right.\<close>

definition launched_long_ago ::
  "('w, 'q, 'r, 'v) failure_env \<Rightarrow> ('w \<times> 'c InstanceTypeProvider, bool outcome) state \<Rightarrow> Machine \<Rightarrow>
   ('w \<times> 'c InstanceTypeProvider, bool outcome) state" where
  "launched_long_ago env rest m =
     (if m_ProviderID m = [] \<and> owned_by_claim m
      then do {
        now \<leftarrow> on_world (fe_Now env);
        if now - om_CreationTimestamp (m_ObjectMeta m) > seconds 30 then rest else State_Monad.return (Ok False) }
      else State_Monad.return (Ok False))"

definition is_insufficient ::
  "('w, 'q, 'r, 'v) failure_env \<Rightarrow> Machine \<Rightarrow> ('w \<times> 'c InstanceTypeProvider, bool outcome) state" where
  "is_insufficient env m = launched_long_ago env (do {
     p \<leftarrow> get_own;
     State_Monad.return (isFailureWithInsufficientResources m p) }) m"

definition is_unknown ::
  "('w, 'q, 'r, 'v) failure_env \<Rightarrow> Machine \<Rightarrow> ('w \<times> 'c InstanceTypeProvider, bool outcome) state" where
  "is_unknown env m = launched_long_ago env (do {
     p \<leftarrow> get_own;
     State_Monad.return (if failure_message m \<noteq> [] then omap Not (isFailureWithInsufficientResources m p) else Ok False) }) m"

definition add_failure :: "offering_name \<Rightarrow> ('w \<times> 'c InstanceTypeProvider, unit outcome) state" where
  "add_failure n = do {
     p \<leftarrow> get_own;
     case AddInsufficientFailure n p of
       Ok p' \<Rightarrow> do { _ \<leftarrow> modify_own (\<lambda>_. p'); State_Monad.return (Ok ()) }
     | Err e \<Rightarrow> State_Monad.return (Err e)
     | Panic \<Rightarrow> State_Monad.return Panic }"

fun refresh_loop ::
  "('w, 'q, 'r, 'v) failure_env \<Rightarrow> bool \<Rightarrow> Machine list \<Rightarrow> ('w \<times> 'c InstanceTypeProvider, unit outcome) state" where
  "refresh_loop env isRefreshed [] = State_Monad.return (Ok ())"
| "refresh_loop env isRefreshed (m # ms) =
     (if length (m_Label m LabelNodeClass) = 0 then refresh_loop env isRefreshed ms
      else do {
        resp \<leftarrow> on_world (fe_GetNodeClass env (om_Namespace (m_ObjectMeta m), m_Label m LabelNodeClass));
        case resp of
          Panic \<Rightarrow> State_Monad.return Panic
        | Err _ \<Rightarrow> refresh_loop env isRefreshed ms
        | Ok nodeClass \<Rightarrow>
            (case failed_spec m of
               Panic \<Rightarrow> State_Monad.return Panic
             | Err e \<Rightarrow> State_Monad.return (Err e)
             | Ok None \<Rightarrow> refresh_loop env isRefreshed ms
             | Ok (Some spec) \<Rightarrow>
                 sbind (add_failure (failed_offering (ps_InstanceType spec) m)) (\<lambda>_.
                 sbind (if capacity_type m = CapacityTypeSpot then add_failure (failed_offering ''*'' m)
                        else State_Monad.return (Ok ())) (\<lambda>_.
                 if isRefreshed then refresh_loop env isRefreshed ms
                 else do {
                   its \<leftarrow> it_List (fe_list env) nodeClass True;
                   case its of
                     Panic \<Rightarrow> State_Monad.return Panic
                   | Err _ \<Rightarrow> refresh_loop env isRefreshed ms
                   | Ok _ \<Rightarrow> refresh_loop env True ms }))) })"

definition refreshInstanceTypes ::
  "('w, 'q, 'r, 'v) failure_env \<Rightarrow> Machine list \<Rightarrow> ('w \<times> 'c InstanceTypeProvider, unit outcome) state" where
  "refreshInstanceTypes env ms = refresh_loop env False ms"

definition blocked_offering :: "CXMMachineProviderSpec \<Rightarrow> Machine \<Rightarrow> offering_name" where
  "blocked_offering spec m =
     failed_offering (if contains (failure_message m) ''LimitExceeded.UserSpotQuota'' then ''*'' else ps_InstanceType spec) m"

fun blockInstanceTypes :: "Machine list \<Rightarrow> 'c InstanceTypeProvider \<Rightarrow> 'c InstanceTypeProvider outcome" where
  "blockInstanceTypes [] p = Ok p"
| "blockInstanceTypes (m # ms) p = obind (failed_spec m) (\<lambda>spec. case spec of
     None \<Rightarrow> blockInstanceTypes ms p
   | Some spec \<Rightarrow> blockInstanceTypes ms (BlockInstanceType (blocked_offering spec m) p))"

text \<open>
  The loop over the owners of a machine breaks after the first one.  Both calls are seen by the other
  workers as soon as they are made.
\<close>

definition deleteFailureMachine :: "('w, 'q, 'r, 'v) failure_env \<Rightarrow> Machine \<Rightarrow> 'w job" where
  "deleteFailureMachine env m =
     (case owners (m_ObjectMeta m) of
        [] \<Rightarrow> Finish (Ok ())
      | owner # _ \<Rightarrow>
          if or_Kind owner = ''NodeClaim''
          then Call (do {
            res \<leftarrow> fe_DeleteNodeClaim env (or_Name owner);
            State_Monad.return (case res of
              Ok _ \<Rightarrow> Call (do { res \<leftarrow> fe_DeleteMachine env m; State_Monad.return (Finish (deleted_result res)) })
            | _ \<Rightarrow> Finish (deleted_result res)) })
          else Finish (Ok ()))"

text \<open>The part before the deletions.\<close>

definition failure_machines ::
  "('w, 'q, 'r, 'v) failure_env \<Rightarrow> ('w \<times> 'c InstanceTypeProvider, Machine list outcome) state" where
  "failure_machines env =
     sbind (on_world (fe_ListMachines env)) (\<lambda>items.
     sbind (sfilter (is_insufficient env) items) (\<lambda>insufficientMachines.
     sbind (refreshInstanceTypes env insufficientMachines) (\<lambda>_.
     sbind (sfilter (is_unknown env) items) (\<lambda>unknowFailureMachines. do {
       p \<leftarrow> get_own;
       case blockInstanceTypes unknowFailureMachines p of
         Ok p' \<Rightarrow> do { _ \<leftarrow> modify_own (\<lambda>_. p');
                     State_Monad.return (Ok (insufficientMachines @ unknowFailureMachines)) }
       | Err e \<Rightarrow> State_Monad.return (Err e)
       | Panic \<Rightarrow> State_Monad.return Panic }))))"

definition failure_Reconcile ::
  "('w, 'q, 'r, 'v) failure_env \<Rightarrow> 64 word \<Rightarrow>
   ('w \<times> 'c InstanceTypeProvider, reconcile_result outcome \<times> 64 word) state" where
  "failure_Reconcile env successfulCount = do {
     resp \<leftarrow> failure_machines env;
     case resp of
       Err e \<Rightarrow> State_Monad.return (Err e, successfulCount)
     | Panic \<Rightarrow> State_Monad.return (Panic, successfulCount)
     | Ok failureMachines \<Rightarrow> do {
         errs \<leftarrow> on_world (fe_ParallelizeUntil env (map (deleteFailureMachine env) failureMachines));
         State_Monad.return (case combined errs of
           Ok _ \<Rightarrow> (Ok (requeue_interval (successfulCount + 1)), successfulCount + 1)
         | Err e \<Rightarrow> (Err e, successfulCount)
         | Panic \<Rightarrow> (Panic, successfulCount)) } }"

section \<open>Its calls\<close>

text \<open>The readings of the clock and the deletions, in the order in which they are made.\<close>

datatype failure_call = Clock int | ClaimDeleted string "unit outcome" | MachineDeleted Machine "unit outcome"

definition logged_failures ::
  "(('w \<times> failure_call list) job list \<Rightarrow> ('w \<times> failure_call list, unit outcome list) state) \<Rightarrow>
   ('w, 'q, 'r, 'v) failure_env \<Rightarrow> ('w \<times> failure_call list, 'q, 'r, 'v) failure_env" where
  "logged_failures par env =
     \<lparr>fe_ListMachines = lifted (fe_ListMachines env), fe_GetNodeClass = \<lambda>k. lifted (fe_GetNodeClass env k),
      fe_DeleteNodeClaim = \<lambda>n. logged (ClaimDeleted n) (fe_DeleteNodeClaim env n),
      fe_DeleteMachine = \<lambda>m. logged (MachineDeleted m) (fe_DeleteMachine env m),
      fe_Now = logged Clock (fe_Now env), fe_list = lifted_list (fe_list env), fe_ParallelizeUntil = par\<rparr>"

lemma logged_failures_fields [simp]:
  "fe_ListMachines (logged_failures par env) = lifted (fe_ListMachines env)"
  "fe_GetNodeClass (logged_failures par env) k = lifted (fe_GetNodeClass env k)"
  "fe_DeleteNodeClaim (logged_failures par env) n = logged (ClaimDeleted n) (fe_DeleteNodeClaim env n)"
  "fe_DeleteMachine (logged_failures par env) m = logged (MachineDeleted m) (fe_DeleteMachine env m)"
  "fe_Now (logged_failures par env) = logged Clock (fe_Now env)"
  "fe_list (logged_failures par env) = lifted_list (fe_list env)"
  "fe_ParallelizeUntil (logged_failures par env) = par"
  by (simp_all add: logged_failures_def)

text \<open>Before the deletions only the clock is read.\<close>

definition clocks :: "'w \<times> failure_call list \<Rightarrow> 'w \<times> failure_call list \<Rightarrow> bool" where
  "clocks s s' \<longleftrightarrow> (\<exists>ts. snd s' = snd s @ map Clock ts)"

lemma clocks_order: "reflp clocks" "transp clocks"
proof -
  show "reflp clocks" by (rule reflpI) (auto simp: clocks_def intro: exI [of _ "[]"])
  show "transp clocks"
    by (rule transpI) (metis (mono_tags) clocks_def append.assoc map_append)
qed

lemma preserves_clocks: "preserves clocks (lifted m)" "preserves clocks (logged Clock now)"
  by (auto simp: preserves_def clocks_def lifted_def logged_def split: prod.split intro: exI [of _ "[]"] exI [of _ "[x]" for x])

text \<open>The provider under any relation that a listing keeps to, too.\<close>

lemma preserves_launched:
  assumes "reflp M" "transp M" "preserves (beside clocks M) rest"
  shows "preserves (beside clocks M) (launched_long_ago (logged_failures par env) rest m)"
  unfolding launched_long_ago_def
  using assms beside_order(1) [OF clocks_order(1) assms(1)] beside_order(2) [OF clocks_order(2) assms(2)]
  by (auto intro!: preserves_bind preserves_return beside_own(3) preserves_clocks)

lemma preserves_judging:
  assumes "reflp M" "transp M"
  shows "preserves (beside clocks M) (is_insufficient (logged_failures par env) m)"
    and "preserves (beside clocks M) (is_unknown (logged_failures par env) m)"
  unfolding is_insufficient_def is_unknown_def
  using beside_order(1) [OF clocks_order(1) assms(1)] beside_order(2) [OF clocks_order(2) assms(2)]
  by (auto intro!: preserves_launched assms preserves_bind preserves_return beside_own(1) clocks_order)

lemma preserves_refresh:
  fixes M :: "'c InstanceTypeProvider \<Rightarrow> 'c InstanceTypeProvider \<Rightarrow> bool"
  assumes M: "listing_steps M" and add: "\<And>n p p'. AddInsufficientFailure n p = Ok p' \<Longrightarrow> M p p'"
  shows "preserves (beside clocks M) (refresh_loop (logged_failures par env) done' ms)"
proof -
  have R: "reflp M" "transp M" using M by (simp_all add: listing_steps_def)
  note B = beside_order(1) [OF clocks_order(1) R(1)] beside_order(2) [OF clocks_order(2) R(2)]
  have "listing_calls clocks (lifted_list (fe_list env))"
    by (simp add: listing_calls_def lifted_list_def preserves_clocks)
  note listing = preserves_List [OF clocks_order this M]
  have failure: "preserves (beside clocks M) (add_failure n)" for n
    using R(1) add reflpD [OF clocks_order(1)]
    by (auto simp: preserves_def add_failure_def run_simps beside_def reflpD split: outcome.split)
  show ?thesis
  proof (induction ms arbitrary: done')
    case Nil
    then show ?case by (simp add: preserves_return B)
  next
    case (Cons m ms)
    show ?case
      by (auto intro!: preserves_bind preserves_sbind preserves_return B beside_own(3) R preserves_clocks failure listing
          Cons.IH split: outcome.split option.split)
  qed
qed

section \<open>Its deletions\<close>

definition failed_machine :: "Machine \<Rightarrow> bool" where
  "failed_machine m \<longleftrightarrow> m_ProviderID m = [] \<and> owned_by_claim m \<and> failure_message m \<noteq> []"

definition claim_to_delete :: "Machine \<Rightarrow> string option" where
  "claim_to_delete m = (case owners (m_ObjectMeta m) of
     [] \<Rightarrow> None | owner # _ \<Rightarrow> if or_Kind owner = ''NodeClaim'' then Some (or_Name owner) else None)"

definition old_at :: "int \<Rightarrow> Machine \<Rightarrow> bool" where
  "old_at now m \<longleftrightarrow> now - om_CreationTimestamp (m_ObjectMeta m) > seconds 30"

text \<open>
  What must have happened before a call: a machine of the listing that has failed and was seen to be old
  enough stands behind every deletion of a node claim, and a successful deletion of its node claim before
  every deletion of a machine.
\<close>

definition doomed :: "Machine list \<Rightarrow> failure_call list \<Rightarrow> Machine \<Rightarrow> bool" where
  "doomed ms tr m \<longleftrightarrow> m \<in> set ms \<and> failed_machine m \<and> (\<exists>now. Clock now \<in> set tr \<and> old_at now m)"

fun justified :: "Machine list \<Rightarrow> failure_call list \<Rightarrow> failure_call \<Rightarrow> bool" where
  "justified ms before (Clock now) = True"
| "justified ms before (ClaimDeleted name r) = (\<exists>m. doomed ms before m \<and> claim_to_delete m = Some name)"
| "justified ms before (MachineDeleted m r) =
     (doomed ms before m \<and> (\<exists>name. claim_to_delete m = Some name \<and> ClaimDeleted name (Ok ()) \<in> set before))"

definition all_justified :: "Machine list \<Rightarrow> failure_call list \<Rightarrow> bool" where
  "all_justified ms = all_before (justified ms)"

lemma all_justified_snoc: "all_justified ms (tr @ [c]) \<longleftrightarrow> all_justified ms tr \<and> justified ms tr c"
  by (simp add: all_justified_def)

lemma all_justified_clocks: "all_justified ms (map Clock ts)"
  unfolding all_justified_def by (rule all_before_all) auto

lemma doomed_mono: "doomed ms tr m \<Longrightarrow> doomed ms (tr @ tr') m"
  by (auto simp: doomed_def)

definition machine_job :: "('w, 'q, 'r, 'v) failure_env \<Rightarrow> Machine \<Rightarrow> 'w job" where
  "machine_job env m = Call (do { res \<leftarrow> fe_DeleteMachine env m; State_Monad.return (Finish (deleted_result res)) })"

lemma deleteFailureMachine_eq:
  "deleteFailureMachine env m = (case claim_to_delete m of
     None \<Rightarrow> Finish (Ok ())
   | Some name \<Rightarrow> Call (do {
       res \<leftarrow> fe_DeleteNodeClaim env name;
       State_Monad.return (case res of Ok _ \<Rightarrow> machine_job env m | _ \<Rightarrow> Finish (deleted_result res)) }))"
  unfolding machine_job_def by (simp add: deleteFailureMachine_def claim_to_delete_def split: list.split)

text \<open>What is left to do for a machine, and what has been done.\<close>

definition handled :: "failure_call list \<Rightarrow> Machine \<Rightarrow> bool" where
  "handled tr m \<longleftrightarrow> (\<forall>name. claim_to_delete m = Some name \<longrightarrow>
     (\<exists>r. ClaimDeleted name r \<in> set tr \<and> (r = Ok () \<longrightarrow> (\<exists>r'. MachineDeleted m r' \<in> set tr))))"

definition deletion_at ::
  "('w \<times> failure_call list, 'q, 'r, 'v) failure_env \<Rightarrow> Machine list \<Rightarrow> 'w \<times> failure_call list \<Rightarrow> Machine \<Rightarrow>
   ('w \<times> failure_call list) job \<Rightarrow> bool" where
  "deletion_at env ms s m j \<longleftrightarrow> doomed ms (snd s) m \<and>
     (j = deleteFailureMachine env m \<or>
      (\<exists>name. claim_to_delete m = Some name \<and> ClaimDeleted name (Ok ()) \<in> set (snd s)) \<and> j = machine_job env m \<or>
      handled (snd s) m \<and> (\<exists>r. j = Finish r))"

lemma handled_none: "claim_to_delete m = None \<Longrightarrow> handled tr m"
  by (simp add: handled_def)

lemma deletion_at_grows:
  assumes "deletion_at env ms (w, tr) m j"
  shows "deletion_at env ms (w', tr @ tr') m j"
proof -
  have "handled tr m \<Longrightarrow> handled (tr @ tr') m" unfolding handled_def by fastforce
  then show ?thesis using assms doomed_mono [of ms tr m tr'] by (fastforce simp: deletion_at_def)
qed

text \<open>One call of a piece of work.\<close>

lemma deletion_call:
  assumes at_m: "deletion_at (logged_failures par env) ms (w, tr) m (Call c)" and run: "run_state c (w, tr) = (j, (w', tr'))"
  shows "\<exists>x. tr' = tr @ [x] \<and> justified ms tr x \<and> deletion_at (logged_failures par env) ms (w', tr') m j"
proof -
  have doomed: "doomed ms tr m" using at_m by (simp add: deletion_at_def)
  from at_m consider (claim) name where "claim_to_delete m = Some name"
      "Call c = deleteFailureMachine (logged_failures par env) m"
    | (machine) name where "claim_to_delete m = Some name" "ClaimDeleted name (Ok ()) \<in> set tr"
      "Call c = machine_job (logged_failures par env) m"
    by (auto simp: deletion_at_def deleteFailureMachine_eq split: option.splits)
  then show ?thesis
  proof cases
    case claim
    obtain r w1 where r: "run_state (fe_DeleteNodeClaim env name) w = (r, w1)" by fastforce
    have "tr' = tr @ [ClaimDeleted name r]"
      and j: "j = (case r of Ok _ \<Rightarrow> machine_job (logged_failures par env) m | _ \<Rightarrow> Finish (deleted_result r))"
      using run claim r by (auto simp: deleteFailureMachine_eq run_simps)
    moreover have "justified ms tr (ClaimDeleted name r)" using doomed claim(1) by auto
    moreover have "deletion_at (logged_failures par env) ms (w', tr @ [ClaimDeleted name r]) m j"
      using doomed_mono [OF doomed] claim(1) unfolding j
      by (cases r) (auto simp: deletion_at_def handled_def)
    ultimately show ?thesis by blast
  next
    case machine
    obtain r w1 where r: "run_state (fe_DeleteMachine env m) w = (r, w1)" by fastforce
    have "tr' = tr @ [MachineDeleted m r]" "j = Finish (deleted_result r)"
      using run machine r by (auto simp: machine_job_def run_simps)
    moreover have "justified ms tr (MachineDeleted m r)" using doomed machine(1,2) by auto
    moreover have "deletion_at (logged_failures par env) ms (w', tr @ [MachineDeleted m r]) m (Finish (deleted_result r))"
      using doomed_mono [OF doomed] machine(1,2) by (auto simp: deletion_at_def handled_def)
    ultimately show ?thesis by blast
  qed
qed

interpretation deletions: workers "\<lambda>s. all_justified ms (snd s) \<and> prefix before (snd s)"
    "deletion_at (logged_failures par env) ms"
  for ms before par env
proof (unfold_locales, goal_cases)
  case (1 w x m j w')
  then show ?case
    using deletion_call [of par env ms "fst w" "snd w" x m j "fst w'" "snd w'"] by (auto simp: all_justified_snoc)
next
  case (2 w x m j w')
  then show ?case using deletion_call [of par env ms "fst w" "snd w" x m j "fst w'" "snd w'"] by auto
next
  case (3 w x m j w' y k)
  then show ?case
    using deletion_call [of par env ms "fst w" "snd w" x m j "fst w'" "snd w'"]
      deletion_at_grows [of "logged_failures par env" ms "fst w" "snd w" y k "fst w'"] by (cases w') auto
qed

text \<open>All deletions together, when every machine given to the workers is doomed.\<close>

lemma run_deletions:
  assumes "work_queue par" and fs: "\<And>m. m \<in> set fs \<Longrightarrow> doomed ms tr m" and "all_justified ms tr"
    and run: "run_state (par (map (deleteFailureMachine (logged_failures par env)) fs)) (w, tr) = (rs, (w', tr'))"
  shows "all_justified ms tr'" "prefix tr tr'" "m \<in> set fs \<Longrightarrow> handled tr' m"
proof -
  have start: "list_all2 (deletion_at (logged_failures par env) ms (w, tr)) fs
      (map (deleteFailureMachine (logged_failures par env)) fs)"
    using fs by (auto simp: list_all2_conv_all_nth deletion_at_def)
  note par = deletions.parallel [OF assms(1) _ start run, of tr]
  then show "all_justified ms tr'" "prefix tr tr'" using assms(3) by simp_all
  have "list_all2 (\<lambda>x r. deletion_at (logged_failures par env) ms (w', tr') x (Finish r)) fs rs"
    using par(2) assms(3) by simp
  moreover assume "m \<in> set fs"
  ultimately obtain r where "deletion_at (logged_failures par env) ms (w', tr') m (Finish r)"
    by (auto simp: list_all2_conv_all_nth in_set_conv_nth)
  then show "handled tr' m"
    by (auto simp: deletion_at_def deleteFailureMachine_eq machine_job_def handled_none split: option.splits)
qed

section \<open>The two filters\<close>

lemma run_failure_machines:
  assumes "run_state (failure_machines env) (w, p) = (Ok fs, s')"
  obtains ms w1 ins s2 s3 unk w4 p4 p5 where
    "run_state (fe_ListMachines env) w = (Ok ms, w1)"
    "run_state (sfilter (is_insufficient env) ms) (w1, p) = (Ok ins, s2)"
    "run_state (refresh_loop env False ins) s2 = (Ok (), s3)"
    "run_state (sfilter (is_unknown env) ms) s3 = (Ok unk, (w4, p4))"
    "blockInstanceTypes unk p4 = Ok p5" "s' = (w4, p5)" "fs = ins @ unk"
  using assms unfolding failure_machines_def refreshInstanceTypes_def
  by (elim sbind_OkE) (auto simp: run_simps split: outcome.splits prod.splits)

text \<open>A machine that passes a filter, and one that does not although it is old enough whenever the clock is read.\<close>

lemma run_launched:
  assumes "run_state (launched_long_ago (logged_failures par env) rest m) ((w, tr), p) = (Ok b, s')"
  shows "b \<Longrightarrow> m_ProviderID m = [] \<and> owned_by_claim m \<and>
      (\<exists>now w1. old_at now m \<and> run_state rest ((w1, tr @ [Clock now]), p) = (Ok True, s'))"
    and "\<not> b \<Longrightarrow> m_ProviderID m = [] \<Longrightarrow> owned_by_claim m \<Longrightarrow>
      \<exists>now w1. (\<not> old_at now m \<and> snd (fst s') = tr @ [Clock now]) \<or> run_state rest ((w1, tr @ [Clock now]), p) = (Ok False, s')"
  using assms by (auto simp: launched_long_ago_def run_simps old_at_def split: prod.splits if_splits)

lemma run_insufficient:
  assumes "run_state (is_insufficient (logged_failures par env) m) ((w, tr), p) = (Ok b, s')"
  shows "b \<Longrightarrow> m_ProviderID m = [] \<and> owned_by_claim m \<and> isFailureWithInsufficientResources m p = Ok True \<and>
      (\<exists>now. old_at now m \<and> snd (fst s') = tr @ [Clock now])"
    and "\<not> b \<Longrightarrow> m_ProviderID m = [] \<Longrightarrow> owned_by_claim m \<Longrightarrow>
      (\<exists>now. \<not> old_at now m \<and> snd (fst s') = tr @ [Clock now]) \<or> isFailureWithInsufficientResources m p = Ok False"
  using run_launched [OF assms [unfolded is_insufficient_def]] by (auto simp: run_simps)

lemma run_unknown:
  assumes "run_state (is_unknown (logged_failures par env) m) ((w, tr), p) = (Ok b, s')"
  shows "b \<Longrightarrow> m_ProviderID m = [] \<and> owned_by_claim m \<and> failure_message m \<noteq> [] \<and>
      isFailureWithInsufficientResources m p = Ok False \<and> (\<exists>now. old_at now m \<and> snd (fst s') = tr @ [Clock now])"
    and "\<not> b \<Longrightarrow> m_ProviderID m = [] \<Longrightarrow> owned_by_claim m \<Longrightarrow> failure_message m \<noteq> [] \<Longrightarrow>
      (\<exists>now. \<not> old_at now m \<and> snd (fst s') = tr @ [Clock now]) \<or> isFailureWithInsufficientResources m p = Ok True"
  using run_launched [OF assms [unfolded is_unknown_def]] by (auto simp: run_simps split: if_splits)

lemma insufficient_has_message:
  assumes "isFailureWithInsufficientResources m p = Ok True"
  shows "failure_message m \<noteq> []"
proof
  assume "failure_message m = []"
  then have "\<not> insufficient_message (failure_message m)" by (simp add: insufficient_message_def contains_iff)
  then show False using assms by (simp add: isFailureWithInsufficientResources_def)
qed

text \<open>A filter reads the clock and leaves the provider alone.\<close>

abbreviation judging :: "('w \<times> failure_call list) \<times> 'c InstanceTypeProvider \<Rightarrow>
    ('w \<times> failure_call list) \<times> 'c InstanceTypeProvider \<Rightarrow> bool" where
  "judging \<equiv> beside clocks (\<lambda>p p'. p' = p)"

lemma judging_order: "reflp judging" "transp judging"
  by (auto intro!: beside_order clocks_order intro: reflpI transpI)

lemma preserves_judging':
  "preserves judging (is_insufficient (logged_failures par env) m)"
  "preserves judging (is_unknown (logged_failures par env) m)"
  by (intro preserves_judging, auto intro: reflpI transpI)+

lemma filter_clocked:
  assumes f: "\<And>m. preserves judging (f m)"
    and run: "run_state (sfilter f ms) ((w, tr), p) = (Ok ys, ((w', tr'), p'))"
  shows "p' = p" "set ys \<subseteq> set ms" "set tr \<subseteq> set tr'"
    and "m \<in> set ms \<Longrightarrow> b = (m \<in> set ys) \<Longrightarrow>
      \<exists>w1 tr1 t. run_state (f m) ((w1, tr1), p) = (Ok b, t) \<and> set (snd (fst t)) \<subseteq> set tr'"
proof -
  have same: "snd t' = snd t \<and> set (snd (fst t)) \<subseteq> set (snd (fst t'))" if "judging t t'" for t t' :: "('b \<times> failure_call list) \<times> 'd InstanceTypeProvider"
    using that by (auto simp: beside_def clocks_def)
  have all: "judging ((w, tr), p) ((w', tr'), p')"
    by (rule preservesD [OF preserves_sfilter run]) (simp_all add: judging_order f)
  then show "p' = p" "set tr \<subseteq> set tr'" using same [OF all] by simp_all
  note judged = sfilter_judged [OF judging_order f run]
  then show "set ys \<subseteq> set ms" by blast
  assume m: "m \<in> set ms" "b = (m \<in> set ys)"
  obtain t t' where t: "judging ((w, tr), p) t" "run_state (f m) t = (Ok b, t')" "judging t' ((w', tr'), p')"
    using judged(2,3) [of m] m by (cases "m \<in> set ys") (simp_all, blast+)
  moreover obtain w1 tr1 where "t = ((w1, tr1), p)" using same [OF t(1)] by (cases t) auto
  ultimately show "\<exists>w1 tr1 t. run_state (f m) ((w1, tr1), p) = (Ok b, t) \<and> set (snd (fst t)) \<subseteq> set tr'"
    using same [OF t(3)] unfolding fst_conv snd_conv by blast
qed

text \<open>The two filters.\<close>

lemma insufficient_filter:
  assumes run: "run_state (sfilter (is_insufficient (logged_failures par env)) ms) ((w, tr), p) = (Ok ins, ((w', tr'), p'))"
    and m: "m \<in> set ms"
  shows "m \<in> set ins \<Longrightarrow> m_ProviderID m = [] \<and> owned_by_claim m \<and> isFailureWithInsufficientResources m p = Ok True \<and>
      (\<exists>now. Clock now \<in> set tr' \<and> old_at now m)"
    and "m \<notin> set ins \<Longrightarrow> m_ProviderID m = [] \<Longrightarrow> owned_by_claim m \<Longrightarrow>
      (\<exists>now. Clock now \<in> set tr' \<and> \<not> old_at now m) \<or> isFailureWithInsufficientResources m p = Ok False"
proof -
  obtain w1 tr1 t where t: "run_state (is_insufficient (logged_failures par env) m) ((w1, tr1), p) = (Ok (m \<in> set ins), t)"
      "set (snd (fst t)) \<subseteq> set tr'"
    using filter_clocked(4) [OF preserves_judging'(1) run m refl] by blast
  from run_insufficient [OF t(1)] t(2)
  show "m \<in> set ins \<Longrightarrow> m_ProviderID m = [] \<and> owned_by_claim m \<and> isFailureWithInsufficientResources m p = Ok True \<and>
      (\<exists>now. Clock now \<in> set tr' \<and> old_at now m)"
    and "m \<notin> set ins \<Longrightarrow> m_ProviderID m = [] \<Longrightarrow> owned_by_claim m \<Longrightarrow>
      (\<exists>now. Clock now \<in> set tr' \<and> \<not> old_at now m) \<or> isFailureWithInsufficientResources m p = Ok False"
    by auto
qed

lemma unknown_filter:
  assumes run: "run_state (sfilter (is_unknown (logged_failures par env)) ms) ((w, tr), p) = (Ok unk, ((w', tr'), p'))"
    and m: "m \<in> set ms"
  shows "m \<in> set unk \<Longrightarrow> m_ProviderID m = [] \<and> owned_by_claim m \<and> failure_message m \<noteq> [] \<and>
      isFailureWithInsufficientResources m p = Ok False \<and> (\<exists>now. Clock now \<in> set tr' \<and> old_at now m)"
    and "m \<notin> set unk \<Longrightarrow> m_ProviderID m = [] \<Longrightarrow> owned_by_claim m \<Longrightarrow> failure_message m \<noteq> [] \<Longrightarrow>
      (\<exists>now. Clock now \<in> set tr' \<and> \<not> old_at now m) \<or> isFailureWithInsufficientResources m p = Ok True"
proof -
  obtain w1 tr1 t where t: "run_state (is_unknown (logged_failures par env) m) ((w1, tr1), p) = (Ok (m \<in> set unk), t)"
      "set (snd (fst t)) \<subseteq> set tr'"
    using filter_clocked(4) [OF preserves_judging'(2) run m refl] by blast
  from run_unknown [OF t(1)] t(2)
  show "m \<in> set unk \<Longrightarrow> m_ProviderID m = [] \<and> owned_by_claim m \<and> failure_message m \<noteq> [] \<and>
      isFailureWithInsufficientResources m p = Ok False \<and> (\<exists>now. Clock now \<in> set tr' \<and> old_at now m)"
    and "m \<notin> set unk \<Longrightarrow> m_ProviderID m = [] \<Longrightarrow> owned_by_claim m \<Longrightarrow> failure_message m \<noteq> [] \<Longrightarrow>
      (\<exists>now. Clock now \<in> set tr' \<and> \<not> old_at now m) \<or> isFailureWithInsufficientResources m p = Ok True"
    by auto
qed

section \<open>Errors\<close>

text \<open>Before the deletions only the listing of machines can fail with an error.\<close>

definition no_error :: "('s, 'a outcome) state \<Rightarrow> bool" where
  "no_error m \<longleftrightarrow> (\<forall>s e. fst (run_state m s) \<noteq> Err e)"

lemma no_error_return [simp]: "no_error (State_Monad.return r) \<longleftrightarrow> (\<forall>e. r \<noteq> Err e)"
  by (simp add: no_error_def run_simps)

lemma no_error_bind: "(\<And>x. no_error (f x)) \<Longrightarrow> no_error (State_Monad.bind m f)"
  by (simp add: no_error_def run_simps split: prod.split)

lemma no_error_sbind: "no_error m \<Longrightarrow> (\<And>x. no_error (f x)) \<Longrightarrow> no_error (sbind m f)"
  unfolding no_error_def by (auto simp: run_sbind split: prod.split outcome.split) (metis fst_conv)

lemma sbind_error:
  assumes "run_state (sbind m f) s = (Err e, s')" "\<And>x. no_error (f x)"
  shows "\<exists>s1. run_state m s = (Err e, s1)"
  using assms unfolding no_error_def by (auto simp: run_sbind split: prod.splits outcome.splits) (metis fst_conv)

lemma no_error_sfilter: "(\<And>x. no_error (f x)) \<Longrightarrow> no_error (sfilter f xs)"
  by (induction xs) (auto intro!: no_error_sbind)

lemma failed_spec_no_error [simp]: "failed_spec m \<noteq> Err e"
  by (auto simp: failed_spec_def split: outcome.split option.split)

lemma count_no_error [simp]: "GetInsufficientFailureCount n p \<noteq> Err e" "AddInsufficientFailure n p \<noteq> Err e"
  by (auto simp: GetInsufficientFailureCount_def AddInsufficientFailure_def split: option.split cache_item.split)

lemma isFailure_no_error [simp]: "isFailureWithInsufficientResources m p \<noteq> Err e"
  by (auto simp: isFailureWithInsufficientResources_def obind_eq_Err split: option.split if_splits)

lemma add_no_error: "no_error (add_failure n)"
  by (auto simp: add_failure_def intro!: no_error_bind split: outcome.split)

lemma refresh_no_error: "no_error (refresh_loop env done' ms)"
proof (induction ms arbitrary: done')
  case Nil
  then show ?case by simp
next
  case (Cons m ms)
  show ?case
      by (auto intro!: no_error_bind no_error_sbind add_no_error Cons.IH split: outcome.split option.split)
qed

lemma block_no_error [simp]: "blockInstanceTypes ms p \<noteq> Err e"
  by (induction ms arbitrary: p) (auto simp: obind_eq_Err split: option.split)

lemma judge_no_error: "no_error (is_insufficient env m)" "no_error (is_unknown env m)"
  by (auto simp: is_insufficient_def is_unknown_def launched_long_ago_def intro!: no_error_bind)

lemma failure_machines_error:
  assumes "run_state (failure_machines env) (w, p) = (Err e, s')"
  shows "\<exists>w'. run_state (fe_ListMachines env) w = (Err e, w')"
proof -
  have "\<exists>s1. run_state (on_world (fe_ListMachines env)) (w, p) = (Err e, s1)"
    using assms unfolding failure_machines_def
    by (rule sbind_error) (auto simp: refreshInstanceTypes_def intro!: no_error_sbind no_error_bind no_error_sfilter
        judge_no_error refresh_no_error split: outcome.split)
  then show ?thesis by (auto simp: run_own split: prod.splits)
qed

section \<open>Its memory\<close>

text \<open>
  What counting failures does: no count falls, the counts of the given offerings rise, none by more than \<open>k\<close>,
  and nothing is blocked or unblocked.
\<close>

definition grows :: "nat \<Rightarrow> offering_name set \<Rightarrow> 'c InstanceTypeProvider \<Rightarrow> 'c InstanceTypeProvider \<Rightarrow> bool" where
  "grows k N p p' \<longleftrightarrow> (blocklist_ok p \<longrightarrow> blocklist_ok p' \<and> (\<forall>n. is_blocked_key p' n = is_blocked_key p n) \<and>
     (\<forall>n i. GetInsufficientFailureCount n p = Ok i \<longrightarrow> i + int k < 2 ^ 63 \<longrightarrow>
        (\<exists>j. GetInsufficientFailureCount n p' = Ok j \<and> i \<le> j \<and> (n \<in> N \<longrightarrow> i < j) \<and> j \<le> i + int k)))"

lemma growsD:
  assumes "grows k N p p'" "blocklist_ok p"
  shows "blocklist_ok p'" "is_blocked_key p' n = is_blocked_key p n"
    and "GetInsufficientFailureCount n p = Ok i \<Longrightarrow> i + int k < 2 ^ 63 \<Longrightarrow>
      \<exists>j. GetInsufficientFailureCount n p' = Ok j \<and> i \<le> j \<and> (n \<in> N \<longrightarrow> i < j) \<and> j \<le> i + int k"
  using assms unfolding grows_def by blast+

lemma grows_refl: "grows k {} p p"
  by (simp add: grows_def)

lemma grows_trans:
  assumes "grows k N p q" "grows l M q r"
  shows "grows (k + l) (N \<union> M) p r"
proof -
  have "\<exists>j. GetInsufficientFailureCount n r = Ok j \<and> i \<le> j \<and> (n \<in> N \<union> M \<longrightarrow> i < j) \<and> j \<le> i + int (k + l)"
    if ok: "blocklist_ok p" and n: "GetInsufficientFailureCount n p = Ok i" "i + int (k + l) < 2 ^ 63" for n i
  proof -
    from growsD(3) [OF assms(1) ok n(1)] n(2) obtain j where
      j: "GetInsufficientFailureCount n q = Ok j" "i \<le> j" "n \<in> N \<longrightarrow> i < j" "j \<le> i + int k" by fastforce
    from growsD(3) [OF assms(2) growsD(1) [OF assms(1) ok] j(1)] n(2) j(4) obtain h where
      h: "GetInsufficientFailureCount n r = Ok h" "j \<le> h" "n \<in> M \<longrightarrow> j < h" "h \<le> j + int l" by fastforce
    show ?thesis using j h by (intro exI [of _ h]) auto
  qed
  then show ?thesis
    using growsD(1,2) [OF assms(1)] growsD(1,2) [OF assms(2)] by (auto simp: grows_def)
qed

lemma grows_mono:
  assumes "grows k N p p'" "k \<le> l" "M \<subseteq> N"
  shows "grows l M p p'"
proof -
  have "\<exists>j. GetInsufficientFailureCount n p' = Ok j \<and> i \<le> j \<and> (n \<in> M \<longrightarrow> i < j) \<and> j \<le> i + int l"
    if "blocklist_ok p" "GetInsufficientFailureCount n p = Ok i" "i + int l < 2 ^ 63" for n i
    using growsD(3) [OF assms(1) that(1,2)] assms(2,3) that(3) by fastforce
  then show ?thesis using growsD(1,2) [OF assms(1)] by (auto simp: grows_def)
qed

lemma grows_listing: "same_memory p p' \<Longrightarrow> (blocklist_ok p \<Longrightarrow> blocklist_ok p') \<Longrightarrow> grows k {} p p'"
  by (simp add: grows_def same_memory_def is_blocked_key_def GetInsufficientFailureCount_def)

lemma grows_add:
  assumes "AddInsufficientFailure n p = Ok p'"
  shows "grows 1 {n} p p'"
proof -
  have "blocklist_ok p' \<and> (\<forall>m. is_blocked_key p' m = is_blocked_key p m) \<and>
      (\<forall>m i. GetInsufficientFailureCount m p = Ok i \<longrightarrow> i + int 1 < 2 ^ 63 \<longrightarrow>
        (\<exists>j. GetInsufficientFailureCount m p' = Ok j \<and> i \<le> j \<and> (m \<in> {n} \<longrightarrow> i < j) \<and> j \<le> i + int 1))"
    if ok: "blocklist_ok p"
  proof (rule Get_after_add [OF ok assms])
    fix c
    assume cache: "ip_cache p' = ip_cache p"
      and get: "\<And>k. ca_Get (ip_cache p') k (ip_blacklistCache p') =
         (if k = failure_key n then Some (CInt c) else ca_Get (ip_cache p) k (ip_blacklistCache p))"
      and c: "c = (case GetInsufficientFailureCount n p of Ok cnt \<Rightarrow> i64 (1 + cnt) | _ \<Rightarrow> 0)"
    have blocked: "is_blocked_key p' m = is_blocked_key p m" for m
      by (simp add: is_blocked_key_def get)
    have "\<exists>j. GetInsufficientFailureCount m p' = Ok j \<and> i \<le> j \<and> (m = n \<longrightarrow> i < j) \<and> j \<le> i + 1"
      if m: "GetInsufficientFailureCount m p = Ok i" "i + 1 < 2 ^ 63" for m i
    proof (cases "failure_key m = failure_key n")
      case True
      then have n: "GetInsufficientFailureCount n p = Ok i" using m(1) by (simp add: GetInsufficientFailureCount_def)
      have "in_i64 i"
        using m(1) blocklist_okD(2) [OF ok, of m] by (fastforce simp: GetInsufficientFailureCount_def split: option.splits)
      then have "i64 (1 + i) = i + 1" using m(2) by (subst i64_id) (simp_all add: in_i64_def)
      then show ?thesis using True c n by (simp add: GetInsufficientFailureCount_def get)
    next
      case False
      then have "GetInsufficientFailureCount m p' = Ok i" "m \<noteq> n"
        using m(1) by (auto simp: GetInsufficientFailureCount_def get)
      then show ?thesis by simp
    qed
    then show ?thesis using blocklist_ok_add [OF ok assms] blocked by simp
  qed
  then show ?thesis unfolding grows_def by blast
qed

text \<open>The offerings whose failures are counted for sure.\<close>

definition counted :: "('w, 'q, 'r, 'v) failure_env \<Rightarrow> Machine \<Rightarrow> offering_name set" where
  "counted env m =
     (if m_Label m LabelNodeClass \<noteq> [] \<and>
         (\<forall>w. is_ok (fst (run_state (fe_GetNodeClass env (om_Namespace (m_ObjectMeta m), m_Label m LabelNodeClass)) w)))
      then case failed_spec m of Ok (Some spec) \<Rightarrow> {failed_offering (ps_InstanceType spec) m} | _ \<Rightarrow> {} else {})"

lemma run_add_failure:
  assumes "run_state (add_failure n) (w, p) = (Ok (), s')"
  obtains p' where "AddInsufficientFailure n p = Ok p'" "s' = (w, p')"
  using assms by (auto simp: add_failure_def run_simps split: outcome.splits)

lemma listing_grows:
  assumes "run_state (it_List (lifted_list env) nodeClass refresh) ((w, tr), p) = (r, ((w', tr'), p'))"
  shows "grows k {} p p'"
proof (rule grows_listing)
  show "same_memory p p'" by (rule List_logged(2) [OF assms])
  have "listing_calls (\<lambda>s s'. snd s' = snd s) (lifted_list env)"
    by (simp add: listing_calls_def lifted_list_def preserves_lifted)
  from preservesD [OF preserves_List [OF log_order this listing_steps_ok] assms]
  show "blocklist_ok p \<Longrightarrow> blocklist_ok p'" by (simp add: beside_def)
qed

lemma counting_grows:
  assumes spec: "failed_spec m = Ok (Some sp)"
    and run: "run_state (sbind (add_failure (failed_offering (ps_InstanceType sp) m)) (\<lambda>_.
        sbind (if capacity_type m = CapacityTypeSpot then add_failure (failed_offering ''*'' m)
               else State_Monad.return (Ok ())) (\<lambda>_. rest))) (w, p) = (Ok (), s')"
  obtains p' where "grows 2 (counted env m) p p'" "run_state rest (w, p') = (Ok (), s')"
proof -
  obtain q s2 where q: "AddInsufficientFailure (failed_offering (ps_InstanceType sp) m) p = Ok q"
    and two: "run_state (if capacity_type m = CapacityTypeSpot then add_failure (failed_offering ''*'' m)
               else State_Monad.return (Ok ())) (w, q) = (Ok (), s2)"
    and rest: "run_state rest s2 = (Ok (), s')"
    using run by (elim sbind_OkE) (auto elim: run_add_failure)
  have one: "grows 1 (counted env m) p q"
    by (rule grows_mono [OF grows_add [OF q]]) (auto simp: counted_def spec)
  have add: "grows 1 {} q p'" if "AddInsufficientFailure (failed_offering ''*'' m) q = Ok p'" for p'
    by (rule grows_mono [OF grows_add [OF that]]) simp_all
  obtain p2 where p2: "s2 = (w, p2)" "grows 1 {} q p2"
  proof (cases "capacity_type m = CapacityTypeSpot")
    case True
    then show ?thesis using two that add by (auto elim: run_add_failure)
  next
    case False
    then show ?thesis using two that [of q] by (simp add: run_simps grows_refl)
  qed
  show ?thesis
    using that [of p2] grows_trans [OF one p2(2)] rest p2(1) by (simp add: numeral_2_eq_2)
qed

lemma relisting_grows:
  fixes p :: "'c InstanceTypeProvider"
  assumes "run_state (if d then refresh_loop (logged_failures par env) d ms
      else do {
        its \<leftarrow> it_List (fe_list (logged_failures par env)) nc True;
        case its of
          Panic \<Rightarrow> State_Monad.return Panic
        | Err _ \<Rightarrow> refresh_loop (logged_failures par env) d ms
        | Ok _ \<Rightarrow> refresh_loop (logged_failures par env) True ms }) ((w, tr), p) = (Ok (), s')"
  obtains d' w' tr' p' where
    "run_state (refresh_loop (logged_failures par env) d' ms) ((w', tr'), p') = (Ok (), s')" "grows 0 {} p p'"
proof (cases d)
  case True
  then show ?thesis using that [of True w tr p] assms by (simp add: grows_refl)
next
  case False
  obtain its w3 tr3 p3 where its: "run_state (it_List (lifted_list (fe_list env)) nc True) ((w, tr), p) = (its, ((w3, tr3), p3))"
    by (metis prod.exhaust)
  have "run_state (refresh_loop (logged_failures par env) (is_ok its) ms) ((w3, tr3), p3) = (Ok (), s')"
    using assms False its by (cases its) (auto simp: run_simps)
  then show ?thesis by (rule that) (rule listing_grows [OF its])
qed

lemma run_refresh_Cons:
  fixes p :: "'c InstanceTypeProvider"
  assumes run: "run_state (refresh_loop (logged_failures par env) d (m # ms)) ((w, tr), p) = (Ok (), s')"
  obtains d' w' tr' p' where "grows 2 (counted env m) p p'"
    "run_state (refresh_loop (logged_failures par env) d' ms) ((w', tr'), p') = (Ok (), s')"
proof -
  obtain r w1 where r: "run_state (fe_GetNodeClass env (om_Namespace (m_ObjectMeta m), m_Label m LabelNodeClass)) w = (r, w1)"
    by fastforce
  consider (skip) "m_Label m LabelNodeClass = [] \<or> \<not> is_ok r"
    | (read) nc where "r = Ok nc" "m_Label m LabelNodeClass \<noteq> []" by (cases r) auto
  then show ?thesis
  proof cases
    case skip
    have "\<not> (m_Label m LabelNodeClass \<noteq> [] \<and> (\<forall>w. is_ok (fst (run_state
        (fe_GetNodeClass env (om_Namespace (m_ObjectMeta m), m_Label m LabelNodeClass)) w))))"
      using skip r by (metis fst_conv)
    then have "counted env m = {}" unfolding counted_def by (rule if_not_P)
    then show ?thesis
      using that [of p d "if m_Label m LabelNodeClass = [] then w else w1" tr] skip run r
      by (cases r) (auto simp: run_simps grows_refl split: if_splits)
  next
    case read
    let ?rest = "if d then refresh_loop (logged_failures par env) d ms
      else do {
        its \<leftarrow> it_List (fe_list (logged_failures par env)) nc True;
        case its of
          Panic \<Rightarrow> State_Monad.return Panic
        | Err _ \<Rightarrow> refresh_loop (logged_failures par env) d ms
        | Ok _ \<Rightarrow> refresh_loop (logged_failures par env) True ms }"
    show ?thesis
    proof (cases "failed_spec m")
      case (Ok spec)
      show ?thesis
      proof (cases spec)
        case None
        then show ?thesis using that [of p d w1 tr] run r read Ok by (simp add: run_simps grows_refl counted_def)
      next
        case (Some sp)
        from Ok Some have "failed_spec m = Ok (Some sp)" by simp
        then show ?thesis
        proof (rule counting_grows)
          show "run_state (sbind (add_failure (failed_offering (ps_InstanceType sp) m)) (\<lambda>_.
              sbind (if capacity_type m = CapacityTypeSpot then add_failure (failed_offering ''*'' m)
                     else State_Monad.return (Ok ())) (\<lambda>_. ?rest))) ((w1, tr), p) = (Ok (), s')"
            using run r read Ok Some by (simp add: run_simps)
        next
          fix p'
          assume grows: "grows 2 (counted env m) p p'"
          assume "run_state ?rest ((w1, tr), p') = (Ok (), s')"
          then show ?thesis
          proof (rule relisting_grows)
            fix d' w' tr' q
            assume rest: "run_state (refresh_loop (logged_failures par env) d' ms) ((w', tr'), q) = (Ok (), s')"
              and "grows 0 {} p' q"
            from grows_trans [OF grows this(2)] have "grows 2 (counted env m) p q" by simp
            then show ?thesis using rest by (rule that)
          qed
        qed
      qed
    qed (use run r read in \<open>simp_all add: run_simps\<close>)
  qed
qed

lemma refresh_grows:
  assumes "run_state (refresh_loop (logged_failures par env) d ms) ((w, tr), p) = (Ok (), s')"
  shows "grows (2 * length ms) (\<Union>m \<in> set ms. counted env m) p (snd s')"
  using assms
proof (induction ms arbitrary: d w tr p)
  case Nil
  then show ?case by (auto simp: run_simps grows_refl)
next
  case (Cons m ms)
  from Cons.prems show ?case
  proof (rule run_refresh_Cons)
    fix d' w' tr' p'
    assume "grows 2 (counted env m) p p'"
      and "run_state (refresh_loop (logged_failures par env) d' ms) ((w', tr'), p') = (Ok (), s')"
    from grows_trans [OF this(1) Cons.IH [OF this(2)]] show ?thesis by simp
  qed
qed

text \<open>Blocking.\<close>

lemma block_machines:
  assumes "blockInstanceTypes ms p = Ok p'" "blocklist_ok p"
  shows "blocklist_ok p'"
    and "is_blocked_key p' n \<longleftrightarrow> is_blocked_key p n \<or>
      (\<exists>m \<in> set ms. \<exists>spec. failed_spec m = Ok (Some spec) \<and> blocked_key n = blocked_key (blocked_offering spec m))"
    and "GetInsufficientFailureCount n p' = GetInsufficientFailureCount n p"
proof -
  have "blocklist_ok p' \<and> (\<forall>n. is_blocked_key p' n \<longleftrightarrow> is_blocked_key p n \<or>
      (\<exists>m \<in> set ms. \<exists>spec. failed_spec m = Ok (Some spec) \<and> blocked_key n = blocked_key (blocked_offering spec m))) \<and>
      (\<forall>n. GetInsufficientFailureCount n p' = GetInsufficientFailureCount n p)"
    using assms
  proof (induction ms arbitrary: p)
    case Nil
    then show ?case by simp
  next
    case (Cons m ms)
    from Cons.prems(1) obtain spec where spec: "failed_spec m = Ok spec" by auto
    show ?case
    proof (cases spec)
      case None
      then show ?thesis using Cons spec by simp
    next
      case (Some sp)
      let ?q = "BlockInstanceType (blocked_offering sp m) p"
      have "blockInstanceTypes ms ?q = Ok p'" using Cons.prems(1) spec Some by simp
      from Cons.IH [OF this blocklist_ok_block [OF Cons.prems(2)]]
      show ?thesis
        using is_blocked_key_block [OF Cons.prems(2)] offerings.count_block [OF Cons.prems(2)] spec Some by auto
    qed
  qed
  note all = this
  show "blocklist_ok p'" by (rule all [THEN conjunct1])
  show "is_blocked_key p' n \<longleftrightarrow> is_blocked_key p n \<or>
      (\<exists>m \<in> set ms. \<exists>spec. failed_spec m = Ok (Some spec) \<and> blocked_key n = blocked_key (blocked_offering spec m))"
    by (rule all [THEN conjunct2, THEN conjunct1, THEN spec])
  show "GetInsufficientFailureCount n p' = GetInsufficientFailureCount n p"
    by (rule all [THEN conjunct2, THEN conjunct2, THEN spec])
qed

lemma isFailure_eq:
  assumes "failed_spec m = Ok (Some spec)" "GetInsufficientFailureCount (failed_offering ''*'' m) p = Ok a"
    and "GetInsufficientFailureCount (failed_offering (ps_InstanceType spec) m) p = Ok b"
  shows "isFailureWithInsufficientResources m p =
    Ok (str_ptr (mst_FailureReason (m_Status m)) = InvalidConfigurationMachineError \<and>
        insufficient_message (failure_message m) \<and> \<not> (capacity_type m = CapacityTypeSpot \<and> a > 50) \<and> \<not> b > 3)"
  unfolding isFailureWithInsufficientResources_def assms by (cases "capacity_type m = CapacityTypeSpot") (simp add: assms del: obind_eq_Ok omap_eq_Ok, blast)+

lemma still_unknown:
  assumes no: "isFailureWithInsufficientResources m p = Ok False" and "grows k N p p'" "blocklist_ok p"
    and bound: "\<And>n i. GetInsufficientFailureCount n p = Ok i \<Longrightarrow> i + int k < 2 ^ 63"
  shows "isFailureWithInsufficientResources m p' = Ok False"
proof (cases "\<exists>spec. failed_spec m = Ok (Some spec)")
  case True
  then obtain spec where spec: "failed_spec m = Ok (Some spec)" by blast
  have more: "\<exists>j. GetInsufficientFailureCount n p' = Ok j \<and> i \<le> j" if "GetInsufficientFailureCount n p = Ok i" for n i
    using growsD(3) [OF assms(2,3) that bound [OF that]] by blast
  obtain a b where count: "GetInsufficientFailureCount (failed_offering ''*'' m) p = Ok a"
      "GetInsufficientFailureCount (failed_offering (ps_InstanceType spec) m) p = Ok b"
    using offerings.good_count [OF assms(3)] by blast
  from more [OF count(1)] obtain a' where a': "GetInsufficientFailureCount (failed_offering ''*'' m) p' = Ok a'" "a \<le> a'"
    by blast
  from more [OF count(2)] obtain b' where
    b': "GetInsufficientFailureCount (failed_offering (ps_InstanceType spec) m) p' = Ok b'" "b \<le> b'" by blast
  show ?thesis
    using no a'(2) b'(2) unfolding isFailure_eq [OF spec count] isFailure_eq [OF spec a'(1) b'(1)] by auto
next
  case False
  then have "isFailureWithInsufficientResources m p' = isFailureWithInsufficientResources m p"
    by (cases "failed_spec m") (auto simp: isFailureWithInsufficientResources_def split: option.split)
  then show ?thesis using no by simp
qed

lemma covers_refl: "covers n n"
  by (cases n) simp

lemma covers_plain: "covers k n \<Longrightarrow> plain_name n \<Longrightarrow> plain_name k"
  by (cases k, cases n) (auto simp: plain_name_def wildcard_def)

section \<open>The whole reconciliation\<close>

lemma clocks_machines:
  fixes p :: "'c InstanceTypeProvider"
  assumes "run_state (failure_machines (logged_failures par env)) ((w, tr), p) = (r, ((w', tr'), p'))"
  shows "\<exists>ts. tr' = tr @ map Clock ts"
proof -
  let ?M = "\<lambda>p p' :: 'c InstanceTypeProvider. True"
  have M: "listing_steps ?M" "reflp ?M" "transp ?M" by (auto simp: listing_steps_def intro: reflpI transpI)
  note B = beside_order(1) [OF clocks_order(1) M(2)] beside_order(2) [OF clocks_order(2) M(3)]
  have "preserves (beside clocks ?M) (failure_machines (logged_failures par env))"
    unfolding failure_machines_def refreshInstanceTypes_def
    by (auto intro!: preserves_sbind preserves_bind preserves_return B preserves_sfilter preserves_judging
        preserves_refresh beside_own M preserves_clocks clocks_order split: outcome.split)
  from preservesD [OF this assms] show ?thesis by (simp add: beside_def clocks_def)
qed

text \<open>What each of the two filters found, in terms of the final log.\<close>

lemma failure_phases:
  assumes run: "run_state (failure_machines (logged_failures par env)) ((w, tr), p) = (Ok fs, ((w', tr'), p'))"
    and list: "run_state (fe_ListMachines env) w = (Ok ms, w1)"
  obtains ins unk q where "fs = ins @ unk" "set ins \<subseteq> set ms" "set unk \<subseteq> set ms"
    "grows (2 * length ms) (\<Union>m \<in> set ins. counted env m) p q" "blockInstanceTypes unk q = Ok p'"
    "\<And>m. m \<in> set ins \<Longrightarrow> m_ProviderID m = [] \<and> owned_by_claim m \<and> isFailureWithInsufficientResources m p = Ok True \<and>
       (\<exists>now. Clock now \<in> set tr' \<and> old_at now m)"
    "\<And>m. m \<in> set ms \<Longrightarrow> m \<notin> set ins \<Longrightarrow> m_ProviderID m = [] \<Longrightarrow> owned_by_claim m \<Longrightarrow>
       (\<exists>now. Clock now \<in> set tr' \<and> \<not> old_at now m) \<or> isFailureWithInsufficientResources m p = Ok False"
    "\<And>m. m \<in> set unk \<Longrightarrow> m_ProviderID m = [] \<and> owned_by_claim m \<and> failure_message m \<noteq> [] \<and>
       (\<exists>now. Clock now \<in> set tr' \<and> old_at now m)"
    "\<And>m. m \<in> set ms \<Longrightarrow> m \<notin> set unk \<Longrightarrow> m_ProviderID m = [] \<Longrightarrow> owned_by_claim m \<Longrightarrow> failure_message m \<noteq> [] \<Longrightarrow>
       (\<exists>now. Clock now \<in> set tr' \<and> \<not> old_at now m) \<or> isFailureWithInsufficientResources m q = Ok True"
proof -
  from run_failure_machines [OF run] obtain ms' s1 ins s2 s3 unk s4 q p5 where
    ms': "run_state (fe_ListMachines (logged_failures par env)) (w, tr) = (Ok ms', s1)"
    and ins: "run_state (sfilter (is_insufficient (logged_failures par env)) ms') (s1, p) = (Ok ins, s2)"
    and refresh: "run_state (refresh_loop (logged_failures par env) False ins) s2 = (Ok (), s3)"
    and unk: "run_state (sfilter (is_unknown (logged_failures par env)) ms') s3 = (Ok unk, (s4, q))"
    and block: "blockInstanceTypes unk q = Ok p5" and fin: "((w', tr'), p') = (s4, p5)" and fs: "fs = ins @ unk"
    by metis
  have ms: "ms' = ms" "s1 = (w1, tr)" using ms' list by (simp_all add: run_simps)
  obtain w2 tr2 p2 where s2: "s2 = ((w2, tr2), p2)" by (metis prod.exhaust)
  obtain w3 tr3 p3 where s3: "s3 = ((w3, tr3), p3)" by (metis prod.exhaust)
  have s4: "s4 = (w', tr')" "p5 = p'" using fin by simp_all
  note ins = ins [unfolded ms s2] and refresh = refresh [unfolded s2 s3] and unk = unk [unfolded ms s3 s4]
  have p2: "p2 = p" using filter_clocked(1) [OF preserves_judging'(1) ins] by simp
  have "beside clocks (\<lambda>_ _. True) ((w2, tr2), p2) ((w3, tr3), p3)"
    by (rule preservesD [OF preserves_refresh refresh]) (auto simp: listing_steps_def intro: reflpI transpI)
  then have sub: "set tr2 \<subseteq> set tr'"
    using filter_clocked(3) [OF preserves_judging'(2) unk] by (auto simp: beside_def clocks_def)
  have q: "q = p3" using filter_clocked(1) [OF preserves_judging'(2) unk] by simp
  have "grows (2 * length ins) (\<Union>m \<in> set ins. counted env m) p q"
    using refresh_grows [OF refresh [unfolded p2]] by (simp add: q)
  then have grows: "grows (2 * length ms) (\<Union>m \<in> set ins. counted env m) p q"
    by (rule grows_mono) (use sfilter_length [OF ins] in simp_all)
  show ?thesis
  proof (rule that [OF fs _ _ grows block [unfolded s4]])
    show subs: "set ins \<subseteq> set ms" "set unk \<subseteq> set ms"
      using filter_clocked(2) [OF preserves_judging'(1) ins] filter_clocked(2) [OF preserves_judging'(2) unk] by simp_all
    show "m_ProviderID m = [] \<and> owned_by_claim m \<and> isFailureWithInsufficientResources m p = Ok True \<and>
       (\<exists>now. Clock now \<in> set tr' \<and> old_at now m)" if "m \<in> set ins" for m
      using insufficient_filter(1) [OF ins _ that] that subs sub by blast
    show "m_ProviderID m = [] \<and> owned_by_claim m \<and> failure_message m \<noteq> [] \<and>
       (\<exists>now. Clock now \<in> set tr' \<and> old_at now m)" if "m \<in> set unk" for m
      using unknown_filter(1) [OF unk _ that] that subs by blast
    show "(\<exists>now. Clock now \<in> set tr' \<and> \<not> old_at now m) \<or> isFailureWithInsufficientResources m p = Ok False"
      if "m \<in> set ms" "m \<notin> set ins" "m_ProviderID m = []" "owned_by_claim m" for m
      using insufficient_filter(2) [OF ins that] sub by blast
    show "(\<exists>now. Clock now \<in> set tr' \<and> \<not> old_at now m) \<or> isFailureWithInsufficientResources m q = Ok True"
      if "m \<in> set ms" "m \<notin> set unk" "m_ProviderID m = []" "owned_by_claim m" "failure_message m \<noteq> []" for m
      using unknown_filter(2) [OF unk that] by (simp add: q)
  qed
qed

text \<open>How a reconciliation continues after its first part.\<close>

lemma run_failure_Reconcile:
  assumes run: "run_state (failure_Reconcile (logged_failures par env) cnt) ((w, tr), p) = ((out, cnt'), ((w', tr'), p'))"
  obtains (stopped) r where "run_state (failure_machines (logged_failures par env)) ((w, tr), p) = (r, ((w', tr'), p'))"
      "\<not> is_ok r" "out = (case r of Err e \<Rightarrow> Err e | _ \<Rightarrow> Panic)" "cnt' = cnt"
  | (deleting) fs w1 tr1 rs where
      "run_state (failure_machines (logged_failures par env)) ((w, tr), p) = (Ok fs, ((w1, tr1), p'))"
      "run_state (par (map (deleteFailureMachine (logged_failures par env)) fs)) (w1, tr1) = (rs, (w', tr'))"
      "cnt' = (if combined rs = Ok () then cnt + 1 else cnt)"
      "out = (case combined rs of Ok _ \<Rightarrow> Ok (requeue_interval cnt') | Err e \<Rightarrow> Err e | Panic \<Rightarrow> Panic)"
proof -
  obtain r w1 tr1 p1 where r: "run_state (failure_machines (logged_failures par env)) ((w, tr), p) = (r, ((w1, tr1), p1))"
    by (metis prod.exhaust)
  show ?thesis
  proof (cases r)
    case (Ok fs)
    obtain rs w2 tr2 where rs: "run_state (par (map (deleteFailureMachine (logged_failures par env)) fs)) (w1, tr1) = (rs, (w2, tr2))"
      by (metis prod.exhaust)
    show ?thesis
      by (rule deleting [of fs w1 tr1 rs])
        (use run r Ok rs in \<open>auto simp: failure_Reconcile_def run_simps split: outcome.splits\<close>)
  next
    case (Err e)
    then show ?thesis using run r stopped [of r] by (auto simp: failure_Reconcile_def run_simps)
  next
    case Panic
    then show ?thesis using run r stopped [of r] by (auto simp: failure_Reconcile_def run_simps)
  qed
qed

lemma doomed_machines:
  assumes "run_state (failure_machines (logged_failures par env)) ((w, []), p) = (Ok fs, ((w', tr), p'))"
    and "run_state (fe_ListMachines env) w = (Ok ms, w1)"
  shows "all_justified ms tr" "m \<in> set fs \<Longrightarrow> doomed ms tr m"
proof -
  show "all_justified ms tr"
    using clocks_machines [OF assms(1)] all_justified_clocks by auto
  show "doomed ms tr m" if m: "m \<in> set fs"
  proof (rule failure_phases [OF assms], goal_cases)
    case (1 ins unk q)
    from m 1(1) have "m \<in> set ins \<or> m \<in> set unk" by simp
    then show ?thesis
    proof
      assume "m \<in> set ins"
      then show ?thesis using 1(2) 1(6) [of m] insufficient_has_message [of m p] by (auto simp: doomed_def failed_machine_def)
    next
      assume "m \<in> set unk"
      then show ?thesis using 1(3) 1(8) [of m] by (auto simp: doomed_def failed_machine_def)
    qed
  qed
qed

text \<open>A machine dealt with by either filter, and what becomes blocked.\<close>

lemma still_counted:
  assumes ok: "blocklist_ok p" and grows: "grows k N p q" and few: "\<And>n i. GetInsufficientFailureCount n p = Ok i \<Longrightarrow> i + int k < 2 ^ 63"
    and spec: "failed_spec m = Ok (Some spec)" "isFailureWithInsufficientResources m p = Ok True"
    and n: "n \<in> counted env m" "n \<in> N"
  shows "\<exists>i j. GetInsufficientFailureCount n p = Ok i \<and> GetInsufficientFailureCount n q = Ok j \<and> i \<le> 3 \<and> i < j"
proof -
  have off: "n = failed_offering (ps_InstanceType spec) m"
    using n(1) by (simp add: counted_def spec(1) split: if_splits)
  obtain a i where count: "GetInsufficientFailureCount (failed_offering ''*'' m) p = Ok a"
      "GetInsufficientFailureCount n p = Ok i"
    using offerings.good_count [OF ok] by blast
  have "i \<le> 3" using spec(2) isFailure_eq [OF spec(1) count(1) count(2) [unfolded off]] by simp
  moreover obtain j where "GetInsufficientFailureCount n q = Ok j" "i < j"
    using growsD(3) [OF grows ok count(2) few [OF count(2)]] n(2) by blast
  ultimately show ?thesis using count(2) by blast
qed

lemma blocked_covered:
  assumes ok: "blocklist_ok q" and block: "blockInstanceTypes ms q = Ok p'"
    and plain: "plain_name n" "\<And>m spec. m \<in> set ms \<Longrightarrow> failed_spec m = Ok (Some spec) \<Longrightarrow> plain_name (blocked_offering spec m)"
    and blocked: "isBlocked p' n"
  shows "isBlocked q n \<or> (\<exists>m \<in> set ms. \<exists>spec. failed_spec m = Ok (Some spec) \<and> covers (blocked_offering spec m) n)"
proof -
  obtain k where k: "is_blocked_key p' k" "covers k n" using blocked by (auto simp: isBlocked_iff)
  show ?thesis
  proof (cases "is_blocked_key q k")
    case True
    then show ?thesis using k(2) unfolding isBlocked_iff by blast
  next
    case False
    then obtain m spec where m: "m \<in> set ms" "failed_spec m = Ok (Some spec)" "blocked_key k = blocked_key (blocked_offering spec m)"
      using block_machines(2) [OF block ok, of k] k(1) by blast
    have "k = blocked_offering spec m"
      using plain(2) [OF m(1,2)] m(3) covers_plain [OF k(2) plain(1)] blocked_key_inj by blast
    then show ?thesis using m(1,2) k(2) by blast
  qed
qed

text \<open>The two filters, the memory after them and the deletions, in terms of the final log.\<close>

lemma failure_run:
  assumes queue: "work_queue par" and list: "run_state (fe_ListMachines env) w = (Ok ms, w1)"
    and run: "run_state (failure_Reconcile (logged_failures par env) cnt) ((w, []), p) = ((out, cnt'), ((w', tr), p'))"
    and returns: "out \<noteq> Panic"
  obtains ins unk q where "set ins \<subseteq> set ms" "set unk \<subseteq> set ms"
    "grows (2 * length ms) (\<Union>m \<in> set ins. counted env m) p q" "blockInstanceTypes unk q = Ok p'"
    "\<And>m. m \<in> set ins \<Longrightarrow> isFailureWithInsufficientResources m p = Ok True"
    "\<And>m. m \<in> set ms \<Longrightarrow> m \<notin> set ins \<Longrightarrow> failed_machine m \<Longrightarrow>
      (\<exists>now. Clock now \<in> set tr \<and> \<not> old_at now m) \<or> isFailureWithInsufficientResources m p = Ok False"
    "\<And>m. m \<in> set unk \<Longrightarrow> failed_machine m"
    "\<And>m. m \<in> set ms \<Longrightarrow> m \<notin> set unk \<Longrightarrow> failed_machine m \<Longrightarrow>
      (\<exists>now. Clock now \<in> set tr \<and> \<not> old_at now m) \<or> isFailureWithInsufficientResources m q = Ok True"
    "\<And>m. m \<in> set ins \<or> m \<in> set unk \<Longrightarrow> handled tr m"
proof -
  obtain fs w2 tr2 rs where
    phase: "run_state (failure_machines (logged_failures par env)) ((w, []), p) = (Ok fs, ((w2, tr2), p'))"
    and del: "run_state (par (map (deleteFailureMachine (logged_failures par env)) fs)) (w2, tr2) = (rs, (w', tr))"
    using run
  proof (cases rule: run_failure_Reconcile)
    case (stopped r)
    then show ?thesis
      using returns failure_machines_error [of "logged_failures par env" "(w, [])" p] list by (cases r) (auto simp: run_simps)
  qed
  note dead = doomed_machines [OF phase list]
  have sub: "set tr2 \<subseteq> set tr" using run_deletions(2) [OF queue dead(2,1) del] by (auto dest: set_mono_prefix)
  show ?thesis
  proof (rule failure_phases [OF phase list], goal_cases)
    case (1 ins unk q)
    have "handled tr m" if "m \<in> set ins \<or> m \<in> set unk" for m
      using run_deletions(3) [OF queue dead(2,1) del, of m] that 1(1) by auto
    then show ?thesis
      by (intro that [OF 1(2-5), unfolded failed_machine_def]) (use 1(6-9) sub in blast)+
  qed
qed

text \<open>A failed machine that is not counted has its offering blocked.\<close>

lemma given_up_blocked:
  assumes queue: "work_queue par" and list: "run_state (fe_ListMachines env) w = (Ok ms, w1)"
    and run: "run_state (failure_Reconcile (logged_failures par env) cnt) ((w, []), p) = ((out, cnt'), ((w', tr), p'))"
    and returns: "out \<noteq> Panic"
    and mem: "blocklist_ok p" "\<forall>n i. GetInsufficientFailureCount n p = Ok i \<longrightarrow> i + 2 * int (length ms) < 2 ^ 63"
    and m: "m \<in> set ms" "failed_machine m" "\<forall>now. Clock now \<in> set tr \<longrightarrow> old_at now m"
    and given_up: "isFailureWithInsufficientResources m p \<noteq> Ok True"
  shows "handled tr m" and "failed_spec m = Ok (Some spec) \<Longrightarrow> is_blocked_key p' (blocked_offering spec m)"
proof -
  obtain ins unk q where grows: "grows (2 * length ms) (\<Union>m \<in> set ins. counted env m) p q"
    and block: "blockInstanceTypes unk q = Ok p'"
    and ins: "\<And>m. m \<in> set ins \<Longrightarrow> isFailureWithInsufficientResources m p = Ok True"
    and not_ins: "\<And>m. m \<in> set ms \<Longrightarrow> m \<notin> set ins \<Longrightarrow> failed_machine m \<Longrightarrow>
      (\<exists>now. Clock now \<in> set tr \<and> \<not> old_at now m) \<or> isFailureWithInsufficientResources m p = Ok False"
    and not_unk: "\<And>m. m \<in> set ms \<Longrightarrow> m \<notin> set unk \<Longrightarrow> failed_machine m \<Longrightarrow>
      (\<exists>now. Clock now \<in> set tr \<and> \<not> old_at now m) \<or> isFailureWithInsufficientResources m q = Ok True"
    and handled: "\<And>m. m \<in> set ins \<or> m \<in> set unk \<Longrightarrow> handled tr m"
    by (rule failure_run [OF queue list run returns]) blast
  have bound: "i + int (2 * length ms) < 2 ^ 63" if "GetInsufficientFailureCount n p = Ok i" for n i
    using mem(2) [rule_format, OF that] by simp
  have no: "isFailureWithInsufficientResources m p = Ok False" using not_ins [OF m(1) _ m(2)] m(3) ins given_up by blast
  have unknown: "m \<in> set unk"
    using not_unk [OF m(1) _ m(2)] m(3) still_unknown [OF no grows mem(1) bound] by fastforce
  then show "handled tr m" by (simp add: handled)
  show "is_blocked_key p' (blocked_offering spec m)" if "failed_spec m = Ok (Some spec)"
    using block_machines(2) [OF block growsD(1) [OF grows mem(1)], of "blocked_offering spec m"] unknown that by blast
qed

section \<open>Properties\<close>

text \<open>
  C4. Nothing is deleted without cause.  Whatever the interleaving of the workers: before every deletion of a
  node claim stands a machine of the listing that has this node claim as its first owner, has no
  provider ID, has failed, and was seen at a reading of the clock to be more than thirty seconds old; before
  every deletion of a machine stands the successful deletion of the node claim that is its first owner.
  The count of successful runs, which sets the pace, goes up exactly in a run without error.
\<close>

theorem failure_safe:
  assumes "work_queue par" and "run_state (fe_ListMachines env) w = (Ok ms, w1)"
    and run: "run_state (failure_Reconcile (logged_failures par env) cnt) ((w, []), p) = ((out, cnt'), ((w', tr), p'))"
  shows "all_justified ms tr \<and> cnt' = (if is_ok out then cnt + 1 else cnt) \<and>
    (\<forall>res. out = Ok res \<longrightarrow> res = requeue_interval cnt')"
  using run
proof (cases rule: run_failure_Reconcile)
  case (stopped r)
  have "all_justified ms tr"
    using clocks_machines [OF stopped(1)] all_justified_clocks by auto
  then show ?thesis using stopped by (cases r) simp_all
next
  case (deleting fs w1' tr1 rs)
  have "all_justified ms tr"
    by (rule run_deletions(1) [OF assms(1) _ _ deleting(2)]) (use doomed_machines [OF deleting(1) assms(2)] in blast)+
  then show ?thesis using deleting(3,4) by (cases "combined rs") auto
qed

text \<open>
  C5. Failures escalate.  After a reconciliation every failed machine that was old enough at every reading of
  the clock has been dealt with: its node claim was asked to be deleted and, when that succeeded, the
  machine too; and either its failure was a lack of capacity that had been seen at most three times for
  the offering (and at most fifty times for all spot instances of the zone), then it is counted when its
  node class can be read; or the offering is blocked afterwards.  And nothing else is blocked: whatever
  is blocked afterwards was blocked before or is covered by the offering of a failed machine.
\<close>

theorem failure_escalates:
  assumes queue: "work_queue par" and list: "run_state (fe_ListMachines env) w = (Ok ms, w1)"
    and run: "run_state (failure_Reconcile (logged_failures par env) cnt) ((w, []), p) = ((out, cnt'), ((w', tr), p'))"
    and returns: "out \<noteq> Panic"
    and mem: "blocklist_ok p" "\<forall>n i. GetInsufficientFailureCount n p = Ok i \<longrightarrow> i + 2 * int (length ms) < 2 ^ 63"
  shows "(\<forall>m \<in> set ms. failed_machine m \<longrightarrow> (\<forall>now. Clock now \<in> set tr \<longrightarrow> old_at now m) \<longrightarrow> handled tr m \<and>
      (\<forall>spec. failed_spec m = Ok (Some spec) \<longrightarrow>
        (if isFailureWithInsufficientResources m p = Ok True
         then \<forall>n \<in> counted env m. \<exists>i j. GetInsufficientFailureCount n p = Ok i \<and> GetInsufficientFailureCount n p' = Ok j \<and>
                i \<le> 3 \<and> i < j
         else isBlocked p' (blocked_offering spec m)))) \<and>
    (\<forall>n. plain_name n \<longrightarrow> (\<forall>m \<in> set ms. \<forall>spec. failed_spec m = Ok (Some spec) \<longrightarrow> plain_name (blocked_offering spec m)) \<longrightarrow>
       isBlocked p' n \<longrightarrow> isBlocked p n \<or>
       (\<exists>m \<in> set ms. \<exists>spec. failed_machine m \<and> failed_spec m = Ok (Some spec) \<and> covers (blocked_offering spec m) n))"
proof -
  obtain ins unk q where subs: "set unk \<subseteq> set ms"
    and grows: "grows (2 * length ms) (\<Union>m \<in> set ins. counted env m) p q" and block: "blockInstanceTypes unk q = Ok p'"
    and ins: "\<And>m. m \<in> set ins \<Longrightarrow> isFailureWithInsufficientResources m p = Ok True"
    and not_ins: "\<And>m. m \<in> set ms \<Longrightarrow> m \<notin> set ins \<Longrightarrow> failed_machine m \<Longrightarrow>
      (\<exists>now. Clock now \<in> set tr \<and> \<not> old_at now m) \<or> isFailureWithInsufficientResources m p = Ok False"
    and unk: "\<And>m. m \<in> set unk \<Longrightarrow> failed_machine m"
    and handled: "\<And>m. m \<in> set ins \<or> m \<in> set unk \<Longrightarrow> handled tr m"
    by (rule failure_run [OF queue list run returns]) blast
  have bound: "i + int (2 * length ms) < 2 ^ 63" if "GetInsufficientFailureCount n p = Ok i" for n i
    using mem(2) [rule_format, OF that] by simp
  note q_ok = growsD(1) [OF grows mem(1)]
  have "handled tr m \<and> (\<forall>spec. failed_spec m = Ok (Some spec) \<longrightarrow>
        (if isFailureWithInsufficientResources m p = Ok True
         then \<forall>n \<in> counted env m. \<exists>i j. GetInsufficientFailureCount n p = Ok i \<and> GetInsufficientFailureCount n p' = Ok j \<and>
                i \<le> 3 \<and> i < j
         else isBlocked p' (blocked_offering spec m)))"
    if m: "m \<in> set ms" "failed_machine m" "\<forall>now. Clock now \<in> set tr \<longrightarrow> old_at now m" for m
  proof (cases "isFailureWithInsufficientResources m p = Ok True")
    case True
    then have "m \<in> set ins" using not_ins [OF m(1) _ m(2)] m(3) by fastforce
    moreover have "\<exists>i j. GetInsufficientFailureCount n p = Ok i \<and> GetInsufficientFailureCount n p' = Ok j \<and> i \<le> 3 \<and> i < j"
      if "failed_spec m = Ok (Some spec)" "n \<in> counted env m" for spec n
      unfolding block_machines(3) [OF block q_ok]
      by (rule still_counted [OF mem(1) grows _ that(1) True that(2)]) (use bound that(2) calculation in blast)+
    ultimately show ?thesis using True handled by simp
  next
    case False
    note gone = given_up_blocked [OF queue list run returns mem m False]
    have "isBlocked p' (blocked_offering spec m)" if "failed_spec m = Ok (Some spec)" for spec
      using gone(2) [OF that] covers_refl unfolding isBlocked_iff by blast
    then show ?thesis using gone(1) False by simp
  qed
  moreover have "isBlocked p n \<or> (\<exists>m \<in> set ms. \<exists>spec. failed_machine m \<and> failed_spec m = Ok (Some spec) \<and> covers (blocked_offering spec m) n)"
    if plain: "plain_name n" "\<forall>m \<in> set ms. \<forall>spec. failed_spec m = Ok (Some spec) \<longrightarrow> plain_name (blocked_offering spec m)"
      and blocked: "isBlocked p' n" for n
  proof -
    have "isBlocked q n = isBlocked p n" using growsD(2) [OF grows mem(1)] by (simp add: isBlocked_iff)
    then show ?thesis using blocked_covered [OF q_ok block plain(1) _ blocked] plain(2) subs unk by blast
  qed
  ultimately show ?thesis by blast
qed

text \<open>A machine that failed for a reason nobody knows.\<close>

definition sample_failed_machine :: Machine where
  "sample_failed_machine = zero_Machine\<lparr>
     m_ObjectMeta := zero_ObjectMeta\<lparr>om_Name := ''np-1'', om_Labels := Some [(CapacityTypeLabelKey, ''spot'')],
       om_OwnerReferences := Some [owner_of sample_nodeclaim]\<rparr>,
     m_Spec := zero_MachineSpec\<lparr>ms_Zone := ''ap-guangzhou-3'',
       ms_ProviderSpec := \<lparr>pv_Type = MachineTypeNative,
         pv_Value = Some (Some (JObj [(''instanceType'', JStr ''S5.MEDIUM4'')]))\<rparr>\<rparr>,
     m_Status := (m_Status zero_Machine)\<lparr>mst_FailureMessage := Some ''InternalError''\<rparr>\<rparr>"

definition sample_failure_env :: "(unit, string, Requirement list, string) failure_env" where
  "sample_failure_env =
     \<lparr>fe_ListMachines = State_Monad.return (Ok [sample_failed_machine]),
      fe_GetNodeClass = \<lambda>_. State_Monad.return (Ok sample_zone_class),
      fe_DeleteNodeClaim = \<lambda>_. State_Monad.return (Ok ()), fe_DeleteMachine = \<lambda>_. State_Monad.return (Ok ()),
      fe_Now = State_Monad.return (minutes 5), fe_list = sample_list_env, fe_ParallelizeUntil = finish_all\<rparr>"

lemma sample_failure_run:
  "fst (run_state (failure_Reconcile (logged_failures finish_all sample_failure_env) 0) (((), []), sample_provider)) =
     (Ok (requeue_after (seconds 10)), 1)"
  by code_simp

definition sample_failure_log :: "failure_call list" where
  "sample_failure_log = [Clock (minutes 5), Clock (minutes 5), ClaimDeleted ''claim-1'' (Ok ()),
     MachineDeleted sample_failed_machine (Ok ())]"

lemma sample_failure_logged:
  "fst (snd (run_state (failure_Reconcile (logged_failures finish_all sample_failure_env) 0) (((), []), sample_provider))) =
     ((), sample_failure_log)"
  by code_simp

lemma sample_failure_runs:
  obtains p' where "run_state (failure_Reconcile (logged_failures finish_all sample_failure_env) 0) (((), []), sample_provider) =
    ((Ok (requeue_after (seconds 10)), 1), (((), sample_failure_log), p'))"
  by (metis sample_failure_run sample_failure_logged prod.collapse)

lemma sample_failure_list: "run_state (fe_ListMachines sample_failure_env) () = (Ok [sample_failed_machine], ())"
  by (simp add: sample_failure_env_def run_simps)

lemma sample_failed_spec:
  "failed_spec sample_failed_machine = Ok (Some (zero_ProviderSpec\<lparr>ps_InstanceType := ''S5.MEDIUM4''\<rparr>))"
  "blocked_offering (zero_ProviderSpec\<lparr>ps_InstanceType := ''S5.MEDIUM4''\<rparr>) sample_failed_machine =
     (''S5.MEDIUM4'', ''spot'', ''ap-guangzhou-3'')"
  by code_simp+

theorem failure_safe_witness:
  "all_justified [sample_failed_machine] sample_failure_log \<and>
   (\<exists>p'. run_state (failure_Reconcile (logged_failures finish_all sample_failure_env) 0) (((), []), sample_provider) =
     ((Ok (requeue_after (seconds 10)), 1), (((), sample_failure_log), p')))"
proof -
  obtain p' where run: "run_state (failure_Reconcile (logged_failures finish_all sample_failure_env) 0) (((), []), sample_provider) =
      ((Ok (requeue_after (seconds 10)), 1), (((), sample_failure_log), p'))"
    by (rule sample_failure_runs)
  then show ?thesis using failure_safe [OF work_queue_sequential sample_failure_list run] by blast
qed

theorem failure_escalates_witness:
  "\<exists>p'. run_state (failure_Reconcile (logged_failures finish_all sample_failure_env) 0) (((), []), sample_provider) =
     ((Ok (requeue_after (seconds 10)), 1), (((), sample_failure_log), p')) \<and>
     isBlocked p' (''S5.MEDIUM4'', ''spot'', ''ap-guangzhou-3'')"
proof -
  obtain p' where run: "run_state (failure_Reconcile (logged_failures finish_all sample_failure_env) 0) (((), []), sample_provider) =
      ((Ok (requeue_after (seconds 10)), 1), (((), sample_failure_log), p'))"
    by (rule sample_failure_runs)
  have "blocklist_ok sample_provider"
    by (rule blocklist_ok_fresh) (simp_all add: sample_cache_laws)
  moreover have "\<forall>n i. GetInsufficientFailureCount n sample_provider = Ok i \<longrightarrow>
      i + 2 * int (length [sample_failed_machine]) < 2 ^ 63"
    by (simp add: GetInsufficientFailureCount_def)
  moreover have "isFailureWithInsufficientResources sample_failed_machine sample_provider = Ok False"
    "failed_machine sample_failed_machine"
    "\<forall>x \<in> set sample_failure_log. case x of Clock now \<Rightarrow> old_at now sample_failed_machine | _ \<Rightarrow> True"
    by code_simp+
  moreover note sample_failed_spec
  ultimately show ?thesis
    using failure_escalates [OF work_queue_sequential sample_failure_list run] run by fastforce
qed

text \<open>
  The failure that crosses a threshold is handled twice: counted as a lack of capacity by the first filter and
  the refresh, it passes the second filter as well.
\<close>

definition sample_insufficient_machine :: Machine where
  "sample_insufficient_machine = sample_failed_machine\<lparr>
     m_ObjectMeta := (m_ObjectMeta sample_failed_machine)\<lparr>om_Labels :=
       Some [(CapacityTypeLabelKey, ''spot''), (LabelNodeClass, ''default'')]\<rparr>,
     m_Status := (m_Status zero_Machine)\<lparr>mst_FailureReason := Some InvalidConfigurationMachineError,
       mst_FailureMessage := Some ''LimitExceeded.SpotQuota''\<rparr>\<rparr>"

lemma fourth_failure_twice:
  "snd (fst (snd (run_state (failure_Reconcile (logged_failures finish_all
      (sample_failure_env\<lparr>fe_ListMachines := State_Monad.return (Ok [sample_insufficient_machine]),
         fe_GetNodeClass := \<lambda>_. State_Monad.return (Ok (sample_zone_class\<lparr>nc_Status :=
           (nc_Status sample_zone_class)\<lparr>nct_Subnets := []\<rparr>\<rparr>))\<rparr>)) 0)
      (((), []), sample_provider\<lparr>ip_blacklistCache :=
         [(failure_key (''S5.MEDIUM4'', ''spot'', ''ap-guangzhou-3''), CInt 3)]\<rparr>)))) =
   [Clock (minutes 5), Clock (minutes 5),
    ClaimDeleted ''claim-1'' (Ok ()), MachineDeleted sample_insufficient_machine (Ok ()),
    ClaimDeleted ''claim-1'' (Ok ()), MachineDeleted sample_insufficient_machine (Ok ())]"
  by code_simp

end
