(* ===== verification/GarbageCollection.thy ===== *)
theory GarbageCollection
  imports CloudProvider Workers
begin

text \<open>
  The controller that deletes machines no node claim knows of
  (\<open>pkg/controllers/nodeclaim/garbagecollection/controller.go\<close>).  It works through the cloud provider of
  this repository; the Kubernetes API, the clock and the work queue are parameters.
\<close>

section \<open>The reconciliation\<close>

record ('w, 'q, 'r, 'v) gc_env =
  gc_cloud :: "('w, 'q, 'r, 'v) cloud_env"
  gc_ListNodeClaims :: "('w, 'q NodeClaim list outcome) state"
  gc_ParallelizeUntil :: "'w job list \<Rightarrow> ('w, unit outcome list) state"

text \<open>Machines are listed, deleted and timed through the same APIs as in the cloud provider.\<close>

abbreviation gc_machines :: "('w, 'q, 'r, 'v) gc_env \<Rightarrow> ('w, 'q, 'r) machine_env" where
  "gc_machines env \<equiv> cp_machines (gc_cloud env)"

definition managed_claim :: "'q NodeClaim \<Rightarrow> bool" where
  "managed_claim nc \<longleftrightarrow> k_Annotation nc AnnotationManagedBy \<noteq> [] \<and> om_DeletionTimestamp (k_ObjectMeta nc) = None"

definition owned_machines :: "'q NodeClaim list \<Rightarrow> string list" where
  "owned_machines ncs = filter (\<lambda>name. name \<noteq> []) (map (\<lambda>nc. k_Annotation nc AnnotationOwnedMachine) ncs)"

fun collected_result :: "unit outcome \<Rightarrow> unit outcome" where
  "collected_result (Err e) = (case ignore_node_claim_not_found e of None \<Rightarrow> Ok () | Some e \<Rightarrow> Err e)"
| "collected_result r = r"

text \<open>
  The cloud provider is asked to delete the node claim, then a machine with the recorded name is deleted.
  A call of the cloud provider counts as one step between those of the other workers.
\<close>

definition remove_machine :: "('w, 'q, 'r, 'v) gc_env \<Rightarrow> Machine \<Rightarrow> 'w job" where
  "remove_machine env m = Call (do {
     res \<leftarrow> mp_Delete (gc_machines env) m;
     State_Monad.return (Finish (deleted_result res)) })"

definition garbageCollect :: "('w, 'q, 'r, 'v) gc_env \<Rightarrow> Machine list \<Rightarrow> 'q NodeClaim \<Rightarrow> 'w job" where
  "garbageCollect env machineList nodeClaim = Call (do {
     res \<leftarrow> cp_Delete (gc_cloud env) nodeClaim;
     State_Monad.return (case res of
       Ok _ \<Rightarrow> (case find (\<lambda>m. m_Name m = k_Annotation nodeClaim AnnotationOwnedMachine) machineList of
                  Some m \<Rightarrow> remove_machine env m
                | None \<Rightarrow> Finish (Ok ()))
     | _ \<Rightarrow> Finish (collected_result res)) })"

definition collect_job ::
  "('w, 'q, 'r, 'v) gc_env \<Rightarrow> string list \<Rightarrow> Machine list \<Rightarrow> 'q NodeClaim \<Rightarrow> 'w job" where
  "collect_job env resolvedOwnedMachines machineList nodeClaim =
     (if k_Annotation nodeClaim AnnotationOwnedMachine \<in> set resolvedOwnedMachines then Finish (Ok ())
      else Call (do {
        now \<leftarrow> cp_Now (gc_cloud env);
        State_Monad.return
          (if now - om_CreationTimestamp (k_ObjectMeta nodeClaim) > seconds 30
           then garbageCollect env machineList nodeClaim else Finish (Ok ())) }))"

definition gc_Reconcile ::
  "('w, 'q, 'r, 'v) gc_env \<Rightarrow> 64 word \<Rightarrow> ('w, reconcile_result outcome \<times> 64 word) state" where
  "gc_Reconcile env successfulCount = do {
     resp \<leftarrow> sbind (swrap (Wrapf ''listing cloudprovider machines'') (cp_List (gc_cloud env))) (\<lambda>retrieved.
             sbind (gc_ListNodeClaims env) (\<lambda>nodeClaimList.
             sbind (mp_ListMachines (gc_machines env)) (\<lambda>machineList.
             State_Monad.return (Ok (filter managed_claim retrieved, owned_machines nodeClaimList, machineList)))));
     case resp of
       Err e \<Rightarrow> State_Monad.return (Err e, successfulCount)
     | Panic \<Rightarrow> State_Monad.return (Panic, successfulCount)
     | Ok (managedRetrieved, resolvedOwnedMachines, machineList) \<Rightarrow> do {
         errs \<leftarrow> gc_ParallelizeUntil env (map (collect_job env resolvedOwnedMachines machineList) managedRetrieved);
         State_Monad.return (case combined errs of
           Ok _ \<Rightarrow> (Ok (requeue_interval (successfulCount + 1)), successfulCount + 1)
         | Err e \<Rightarrow> (Err e, successfulCount)
         | Panic \<Rightarrow> (Panic, successfulCount)) } }"

section \<open>Its calls\<close>

datatype gc_call = Timed int | Gone Machine "unit outcome"

definition logged_gc ::
  "(('w \<times> gc_call list) job list \<Rightarrow> ('w \<times> gc_call list, unit outcome list) state) \<Rightarrow>
   ('w, 'q, 'r, 'v) gc_env \<Rightarrow> ('w \<times> gc_call list, 'q, 'r, 'v) gc_env" where
  "logged_gc par env =
     (let cloud = gc_cloud env; machines = cp_machines cloud in
      \<lparr>gc_cloud =
        \<lparr>cp_GetNodeClass = \<lambda>k. lifted (cp_GetNodeClass cloud k), cp_Now = logged Timed (cp_Now cloud),
         cp_list = lifted_list (cp_list cloud),
         cp_machines =
          \<lparr>mp_ListMachines = lifted (mp_ListMachines machines), mp_Create = \<lambda>m. lifted (mp_Create machines m),
           mp_Delete = \<lambda>m. logged (Gone m) (mp_Delete machines m), mp_RandString = lifted (mp_RandString machines),
           mp_quantities = mp_quantities machines, mp_scheduling = mp_scheduling machines,
           mp_ZoneFromID = mp_ZoneFromID machines, mp_clusterID = mp_clusterID machines,
           mp_FormatPrice = mp_FormatPrice machines, mp_ParseIP = mp_ParseIP machines,
           mp_MarshalText = mp_MarshalText machines\<rparr>,
         cp_IDFromZone = cp_IDFromZone cloud\<rparr>,
       gc_ListNodeClaims = lifted (gc_ListNodeClaims env), gc_ParallelizeUntil = par\<rparr>)"

lemma logged_gc_fields [simp]:
  "gc_ListNodeClaims (logged_gc par env) = lifted (gc_ListNodeClaims env)"
  "gc_ParallelizeUntil (logged_gc par env) = par"
  "mp_ListMachines (gc_machines (logged_gc par env)) = lifted (mp_ListMachines (gc_machines env))"
  "mp_Delete (gc_machines (logged_gc par env)) m = logged (Gone m) (mp_Delete (gc_machines env) m)"
  "cp_Now (gc_cloud (logged_gc par env)) = logged Timed (cp_Now (gc_cloud env))"
  by (simp_all add: logged_gc_def Let_def)

section \<open>What it may delete\<close>

text \<open>
  The machine behind a listed node claim, and what makes it an orphan: it is managed, owned by a NodeClaim, not
  being deleted, and no node claim of the cluster names it.
\<close>

definition comes_from :: "Machine \<Rightarrow> 'q NodeClaim \<Rightarrow> bool" where
  "comes_from x nc \<longleftrightarrow> k_Annotation nc AnnotationOwnedMachine = m_Name x \<and> k_ProviderID nc = m_ProviderID x \<and>
     k_Annotation nc AnnotationManagedBy = gm_idx (om_Annotations (m_ObjectMeta x)) AnnotationManagedBy \<and>
     om_CreationTimestamp (k_ObjectMeta nc) = om_CreationTimestamp (m_ObjectMeta x) \<and> k_Name nc = [] \<and>
     (om_DeletionTimestamp (k_ObjectMeta nc) \<noteq> None \<longleftrightarrow> str_ptr (mst_Phase (m_Status x)) = PhaseDeleting)"

definition orphan :: "'q NodeClaim list \<Rightarrow> Machine \<Rightarrow> bool" where
  "orphan ncs x \<longleftrightarrow> owned_by_claim x \<and> gm_idx (om_Annotations (m_ObjectMeta x)) AnnotationManagedBy \<noteq> [] \<and>
     str_ptr (mst_Phase (m_Status x)) \<noteq> PhaseDeleting \<and>
     (\<forall>nc \<in> set ncs. k_Annotation nc AnnotationOwnedMachine = m_Name x \<longrightarrow> m_Name x = [])"

definition aged :: "int \<Rightarrow> Machine \<Rightarrow> bool" where
  "aged now x \<longleftrightarrow> now - om_CreationTimestamp (m_ObjectMeta x) > seconds 30"

definition same_instance :: "Machine \<Rightarrow> Machine \<Rightarrow> bool" where
  "same_instance x m \<longleftrightarrow> m_ProviderID x \<noteq> [] \<and> ms_ProviderID (m_Spec m) = Some (m_ProviderID x)"

definition listed :: "('w, 'q, 'r, 'v) gc_env \<Rightarrow> Machine \<Rightarrow> bool" where
  "listed env m \<longleftrightarrow> (\<exists>w ms w'. run_state (mp_ListMachines (gc_machines env)) w = (Ok ms, w') \<and> m \<in> set ms)"

fun removal_ok ::
  "('w, 'q, 'r, 'v) gc_env \<Rightarrow> 'q NodeClaim list \<Rightarrow> Machine list \<Rightarrow> Machine list \<Rightarrow> gc_call list \<Rightarrow> gc_call \<Rightarrow> bool" where
  "removal_ok env ncs ms ms' before (Timed now) = True"
| "removal_ok env ncs ms ms' before (Gone m r) =
     (listed env m \<and> (\<exists>x \<in> set ms. orphan ncs x \<and> (\<exists>now. Timed now \<in> set before \<and> aged now x) \<and>
        (same_instance x m \<or> m_ProviderID x = [] \<and> owned_by [] m \<or> m \<in> set ms' \<and> m_Name m = m_Name x)))"

text \<open>A listing that always gives the same machines, none of them owned by a claim without a name.\<close>

definition stable_listing :: "('w, 'q, 'r, 'v) gc_env \<Rightarrow> Machine list \<Rightarrow> bool" where
  "stable_listing env ms \<longleftrightarrow> (\<forall>w. \<exists>w'. run_state (mp_ListMachines (gc_machines env)) w = (Ok ms, w')) \<and>
     (\<forall>m \<in> set ms. \<not> owned_by [] m)"

definition collected :: "gc_call list \<Rightarrow> Machine \<Rightarrow> bool" where
  "collected tr x \<longleftrightarrow> (\<exists>m r. Gone m r \<in> set tr \<and> (same_instance x m \<or> m_Name m = m_Name x))"

definition settled ::
  "('w, 'q, 'r, 'v) gc_env \<Rightarrow> 'q NodeClaim list \<Rightarrow> Machine list \<Rightarrow> Machine list \<Rightarrow> gc_call list \<Rightarrow> Machine \<Rightarrow> bool" where
  "settled env ncs ms ms' tr x \<longleftrightarrow>
     (stable_listing env ms \<and> ms' = ms \<and> orphan ncs x \<and> (\<forall>now. Timed now \<in> set tr \<longrightarrow> aged now x) \<longrightarrow> collected tr x)"

definition collection_at ::
  "(('w \<times> gc_call list) job list \<Rightarrow> ('w \<times> gc_call list, unit outcome list) state) \<Rightarrow> ('w, 'q, 'r, 'v) gc_env \<Rightarrow>
   'q NodeClaim list \<Rightarrow> Machine list \<Rightarrow> Machine list \<Rightarrow> 'w \<times> gc_call list \<Rightarrow> 'q NodeClaim \<times> Machine \<Rightarrow>
   ('w \<times> gc_call list) job \<Rightarrow> bool" where
  "collection_at par env ncs ms ms' s y j \<longleftrightarrow> (case y of (nc, x) \<Rightarrow>
     x \<in> set ms \<and> owned_by_claim x \<and> comes_from x nc \<and> managed_claim nc \<and> (\<forall>m \<in> set ms'. listed env m) \<and>
     (j = collect_job (logged_gc par env) (owned_machines ncs) ms' nc \<or>
      orphan ncs x \<and> (\<exists>now. Timed now \<in> set (snd s) \<and> aged now x) \<and>
        (j = garbageCollect (logged_gc par env) ms' nc \<or>
         (\<exists>m \<in> set ms'. m_Name m = m_Name x \<and> j = remove_machine (logged_gc par env) m)) \<or>
      settled env ncs ms ms' (snd s) x \<and> (\<exists>r. j = Finish r)))"

lemma collected_grows: "collected tr x \<Longrightarrow> collected (tr @ tr') x"
  unfolding collected_def by fastforce

lemma settled_grows: "settled env ncs ms ms' tr x \<Longrightarrow> settled env ncs ms ms' (tr @ tr') x"
  using collected_grows unfolding settled_def by fastforce

lemma collection_at_grows:
  "collection_at par env ncs ms ms' (w, tr) y j \<Longrightarrow> collection_at par env ncs ms ms' (w', tr @ tr') y j"
  using settled_grows by (fastforce simp: collection_at_def split: prod.splits)

lemma owned_machines_iff:
  "name \<in> set (owned_machines ncs) \<longleftrightarrow> name \<noteq> [] \<and> (\<exists>nc \<in> set ncs. k_Annotation nc AnnotationOwnedMachine = name)"
  by (auto simp: owned_machines_def)

lemma orphan_unresolved:
  assumes "owned_by_claim x" "comes_from x nc" "managed_claim nc"
  shows "orphan ncs x \<longleftrightarrow> k_Annotation nc AnnotationOwnedMachine \<notin> set (owned_machines ncs)"
  using assms by (auto simp: orphan_def owned_machines_iff comes_from_def managed_claim_def)

text \<open>A deletion through the cloud provider.\<close>

lemma run_cloud_Delete:
  assumes run: "run_state (cp_Delete (gc_cloud (logged_gc par env)) nc) (w, tr) = (r, (w', tr'))"
  obtains (gone) m where "tr' = tr @ [Gone m r]"
      "if k_ProviderID nc \<noteq> [] then ms_ProviderID (m_Spec m) = Some (k_ProviderID nc) else owned_by (k_Name nc) m"
      "\<And>ms. stable_listing env ms \<Longrightarrow> m \<in> set ms" "listed env m"
  | (missed) "tr' = tr"
      "\<And>ms m. stable_listing env ms \<Longrightarrow> m \<in> set ms \<Longrightarrow> k_Name nc = [] \<Longrightarrow>
         (if k_ProviderID nc \<noteq> [] then ms_ProviderID (m_Spec m) \<noteq> Some (k_ProviderID nc) else r = Ok ())"
proof -
  obtain l w1 where l: "run_state (mp_ListMachines (gc_machines env)) w = (l, w1)" by fastforce
  have stable: "l = Ok ms" if "stable_listing env ms" for ms
    using that l unfolding stable_listing_def by (metis prod.inject)
  have with_id: "machine_with_id pid ms = find (\<lambda>m. ms_ProviderID (m_Spec m) = Some pid) ms" for pid ms
    by (induction ms) auto
  define target where "target ms = (if k_ProviderID nc \<noteq> [] then find (\<lambda>m. ms_ProviderID (m_Spec m) = Some (k_ProviderID nc)) ms
    else find (owned_by (k_Name nc)) ms)" for ms
  show ?thesis
  proof (cases "\<exists>ms m. l = Ok ms \<and> target ms = Some m")
    case True
    then obtain ms m where ms: "l = Ok ms" "target ms = Some m" by blast
    obtain res w2 where "run_state (mp_Delete (gc_machines env) m) w1 = (res, w2)" by fastforce
    then have "tr' = tr @ [Gone m r]"
      using run ms l
      by (auto simp: cp_Delete_def m_Delete_def m_Get_def run_simps with_id target_def split: if_splits)
    moreover have "if k_ProviderID nc \<noteq> [] then ms_ProviderID (m_Spec m) = Some (k_ProviderID nc) else owned_by (k_Name nc) m"
      using ms(2) find_SomeD by (fastforce simp: target_def split: if_splits)
    moreover have "m \<in> set ms0" if "stable_listing env ms0" for ms0
      using stable [OF that] ms find_SomeD by (fastforce simp: target_def split: if_splits)
    moreover have "listed env m"
      using ms l find_SomeD by (fastforce simp: listed_def target_def split: if_splits)
    ultimately show ?thesis by (rule gone)
  next
    case False
    have "tr' = tr"
      using run False l
      by (cases l) (auto simp: cp_Delete_def m_Delete_def m_Get_def run_simps with_id target_def split: if_splits option.splits)
    moreover have "if k_ProviderID nc \<noteq> [] then ms_ProviderID (m_Spec m) \<noteq> Some (k_ProviderID nc) else r = Ok ()"
      if st: "stable_listing env ms" "m \<in> set ms" "k_Name nc = []" for ms m
    proof -
      have none: "target ms = None" using False stable [OF st(1)] by (cases "target ms") auto
      show ?thesis
      proof (cases "k_ProviderID nc = []")
        case True
        then have "find (owned_by (k_Name nc)) ms = None" using none by (simp add: target_def)
        then show ?thesis
          using run True l stable [OF st(1)] st(2)
          by (cases ms) (simp_all add: cp_Delete_def m_Delete_def run_simps)
      next
        case False
        then show ?thesis using none st(2) by (auto simp: target_def find_None_iff)
      qed
    qed
    ultimately show ?thesis by (rule missed)
  qed
qed

text \<open>
  One call of a worker: the log grows by removals that are allowed, and the job goes on as described.
  There are three of them, by the stage the job is in.
\<close>

definition goes_on ::
  "(('w \<times> gc_call list) job list \<Rightarrow> ('w \<times> gc_call list, unit outcome list) state) \<Rightarrow> ('w, 'q, 'r, 'v) gc_env \<Rightarrow>
   'q NodeClaim list \<Rightarrow> Machine list \<Rightarrow> Machine list \<Rightarrow> gc_call list \<Rightarrow> 'w \<times> gc_call list \<Rightarrow> 'q NodeClaim \<times> Machine \<Rightarrow>
   ('w \<times> gc_call list) job \<Rightarrow> bool" where
  "goes_on par env ncs ms ms' tr s' y j \<longleftrightarrow>
     (\<exists>cs. snd s' = tr @ cs \<and> (all_before (removal_ok env ncs ms ms') tr \<longrightarrow> all_before (removal_ok env ncs ms ms') (tr @ cs)) \<and>
        collection_at par env ncs ms ms' s' y j)"

lemma goes_on_silent: "collection_at par env ncs ms ms' (w', tr) y j \<Longrightarrow> goes_on par env ncs ms ms' tr (w', tr) y j"
  by (simp add: goes_on_def)

lemma goes_on_call:
  assumes "removal_ok env ncs ms ms' tr c" "collection_at par env ncs ms ms' (w', tr @ [c]) y j"
  shows "goes_on par env ncs ms ms' tr (w', tr @ [c]) y j"
  unfolding goes_on_def by (rule exI [of _ "[c]"]) (use assms in simp)

lemma start_goes_on:
  assumes x: "x \<in> set ms" "owned_by_claim x" "comes_from x nc" "managed_claim nc" "\<forall>m \<in> set ms'. listed env m"
    and start: "Call c = collect_job (logged_gc par env) (owned_machines ncs) ms' nc"
    and run: "run_state c (w, tr) = (j, (w', tr'))"
  shows "goes_on par env ncs ms ms' tr (w', tr') (nc, x) j"
proof -
  have orphan: "orphan ncs x"
    using start orphan_unresolved [OF x(2) x(3) x(4)] by (auto simp: collect_job_def split: if_splits)
  obtain now w1 where now: "run_state (cp_Now (gc_cloud env)) w = (now, w1)" by fastforce
  have tr': "tr' = tr @ [Timed now]"
    and j: "j = (if aged now x then garbageCollect (logged_gc par env) ms' nc else Finish (Ok ()))"
    using run start now x(3) by (auto simp: collect_job_def comes_from_def run_simps aged_def split: if_splits)
  have "settled env ncs ms ms' (tr @ [Timed now]) x" if "\<not> aged now x"
    using that by (auto simp: settled_def)
  then have "collection_at par env ncs ms ms' (w', tr @ [Timed now]) (nc, x) j"
    using x orphan j by (auto simp: collection_at_def)
  then show ?thesis unfolding tr' by (rule goes_on_call [rotated]) simp
qed

text \<open>After the call of the cloud provider a job either ends or removes a machine of the second listing.\<close>

lemma after_cloud_Delete:
  assumes x: "x \<in> set ms" "owned_by_claim x" "comes_from x nc" "managed_claim nc" "\<forall>m \<in> set ms'. listed env m"
    and orphan: "orphan ncs x" and seen: "Timed now \<in> set tr" "aged now x"
    and j: "j = (case r of Ok _ \<Rightarrow> (case find (\<lambda>m. m_Name m = m_Name x) ms' of
          Some m \<Rightarrow> remove_machine (logged_gc par env) m | None \<Rightarrow> Finish (Ok ())) | _ \<Rightarrow> Finish (collected_result r))"
    and settled: "settled env ncs ms ms' tr x \<or> (\<exists>m. r = Ok () \<and> find (\<lambda>m. m_Name m = m_Name x) ms' = Some m)"
  shows "collection_at par env ncs ms ms' (w', tr) (nc, x) j"
proof (cases "\<exists>m. r = Ok () \<and> find (\<lambda>m. m_Name m = m_Name x) ms' = Some m")
  case True
  then obtain m where m: "r = Ok ()" "find (\<lambda>m. m_Name m = m_Name x) ms' = Some m" by blast
  then have "m \<in> set ms'" "m_Name m = m_Name x" using find_SomeD [OF m(2)] by simp_all
  then show ?thesis using x orphan seen m j by (auto simp: collection_at_def)
next
  case False
  then have "\<exists>r. j = Finish r" using j by (cases r) (auto split: option.splits)
  then show ?thesis using x settled False by (auto simp: collection_at_def)
qed

lemma collect_goes_on:
  assumes x: "x \<in> set ms" "owned_by_claim x" "comes_from x nc" "managed_claim nc" "\<forall>m \<in> set ms'. listed env m"
    and orphan: "orphan ncs x" and seen: "Timed now \<in> set tr" "aged now x"
    and collect: "Call c = garbageCollect (logged_gc par env) ms' nc"
    and run: "run_state c (w, tr) = (j, (w', tr'))"
  shows "goes_on par env ncs ms ms' tr (w', tr') (nc, x) j"
proof -
  note name = x(3) [unfolded comes_from_def]
  have nm: "k_Annotation nc AnnotationOwnedMachine = m_Name x" using name by simp
  obtain r w1 tr1 where r: "run_state (cp_Delete (gc_cloud (logged_gc par env)) nc) (w, tr) = (r, (w1, tr1))"
    by (metis prod.exhaust)
  have tr': "tr' = tr1"
    and j: "j = (case r of Ok _ \<Rightarrow> (case find (\<lambda>m. m_Name m = m_Name x) ms' of
        Some m \<Rightarrow> remove_machine (logged_gc par env) m | None \<Rightarrow> Finish (Ok ())) | _ \<Rightarrow> Finish (collected_result r))"
    using run collect r unfolding garbageCollect_def nm by (auto simp: run_simps)
  from r show ?thesis
  proof (cases rule: run_cloud_Delete)
    case (gone m)
    have ok: "removal_ok env ncs ms ms' tr (Gone m r)"
      using x(1) orphan seen gone(2,4) name by (auto simp: same_instance_def split: if_splits)
    have "settled env ncs ms ms' (tr @ [Gone m r]) x"
      using gone(2) gone(3) [of ms] name
      by (auto simp: settled_def collected_def same_instance_def stable_listing_def split: if_splits)
    then have "collection_at par env ncs ms ms' (w', tr @ [Gone m r]) (nc, x) j"
      using seen by (intro after_cloud_Delete [OF x orphan _ seen(2) j]) simp_all
    with ok show ?thesis unfolding tr' gone(1) by (rule goes_on_call)
  next
    case missed
    have "settled env ncs ms ms' tr x \<or> (\<exists>m. r = Ok () \<and> find (\<lambda>m. m_Name m = m_Name x) ms' = Some m)"
    proof (cases "stable_listing env ms \<and> ms' = ms")
      case True
      have "find (\<lambda>m. m_Name m = m_Name x) ms \<noteq> None" using x(1) by (auto simp: find_None_iff)
      moreover have "ms_ProviderID (m_Spec x) = Some (m_ProviderID x)" if "m_ProviderID x \<noteq> []"
        using that by (cases "ms_ProviderID (m_Spec x)") (simp_all add: m_ProviderID_def)
      ultimately show ?thesis using missed(2) [of ms x] True x(1) name by (auto split: if_splits)
    next
      case False
      then show ?thesis by (auto simp: settled_def)
    qed
    then show ?thesis unfolding tr' missed(1)
      by (intro goes_on_silent after_cloud_Delete [OF x orphan seen j])
  qed
qed

lemma remove_goes_on:
  assumes x: "x \<in> set ms" "owned_by_claim x" "comes_from x nc" "managed_claim nc" "\<forall>m \<in> set ms'. listed env m"
    and orphan: "orphan ncs x" and seen: "Timed now \<in> set tr" "aged now x"
    and m: "m \<in> set ms'" "m_Name m = m_Name x"
    and remove: "Call c = remove_machine (logged_gc par env) m"
    and run: "run_state c (w, tr) = (j, (w', tr'))"
  shows "goes_on par env ncs ms ms' tr (w', tr') (nc, x) j"
proof -
  obtain r w1 where r: "run_state (mp_Delete (gc_machines env) m) w = (r, w1)" by fastforce
  have tr': "tr' = tr @ [Gone m r]" and j: "j = Finish (deleted_result r)"
    using run remove r by (auto simp: remove_machine_def run_simps)
  have "collected tr' x" using m(2) tr' by (auto simp: collected_def)
  then have "collection_at par env ncs ms ms' (w', tr') (nc, x) j"
    using x j by (auto simp: collection_at_def settled_def)
  moreover have "removal_ok env ncs ms ms' tr (Gone m r)" using x(1,5) orphan seen m by auto
  ultimately show ?thesis unfolding tr' by (intro goes_on_call)
qed

lemma collection_call:
  assumes at_y: "collection_at par env ncs ms ms' (w, tr) y (Call c)" and run: "run_state c (w, tr) = (j, (w', tr'))"
  shows "\<exists>cs. tr' = tr @ cs \<and> (all_before (removal_ok env ncs ms ms') tr \<longrightarrow> all_before (removal_ok env ncs ms ms') (tr @ cs)) \<and>
    collection_at par env ncs ms ms' (w', tr') y j"
proof -
  obtain nc x where y: "y = (nc, x)" by fastforce
  have x: "x \<in> set ms" "owned_by_claim x" "comes_from x nc" "managed_claim nc" "\<forall>m \<in> set ms'. listed env m"
    using at_y by (simp_all add: collection_at_def y)
  from at_y consider
      "Call c = collect_job (logged_gc par env) (owned_machines ncs) ms' nc"
    | now where "orphan ncs x" "Timed now \<in> set tr" "aged now x" "Call c = garbageCollect (logged_gc par env) ms' nc"
    | now m where "orphan ncs x" "Timed now \<in> set tr" "aged now x" "m \<in> set ms'" "m_Name m = m_Name x"
        "Call c = remove_machine (logged_gc par env) m"
    by (auto simp: collection_at_def y)
  then have "goes_on par env ncs ms ms' tr (w', tr') y j"
    unfolding y
    by cases (rule start_goes_on [OF x _ run] collect_goes_on [OF x _ _ _ _ run] remove_goes_on [OF x _ _ _ _ _ _ run], assumption+)+
  then show ?thesis by (simp add: goes_on_def)
qed

interpretation collections: workers "\<lambda>s. all_before (removal_ok env ncs ms ms') (snd s) \<and> prefix before (snd s)"
    "collection_at par env ncs ms ms'"
  for ncs ms ms' before par env
proof (unfold_locales, goal_cases)
  case (1 w y c j w')
  then show ?case
    using collection_call [of par env ncs ms ms' "fst w" "snd w" y c j "fst w'" "snd w'"] by auto
next
  case (2 w y c j w')
  then show ?case
    using collection_call [of par env ncs ms ms' "fst w" "snd w" y c j "fst w'" "snd w'"] by auto
next
  case (3 w y c j w' y' k)
  then show ?case
    using collection_call [of par env ncs ms ms' "fst w" "snd w" y c j "fst w'" "snd w'"]
      collection_at_grows [of par env ncs ms ms' "fst w" "snd w" y' k "fst w'"] by (cases w') auto
qed

section \<open>The listing\<close>

lemma machineToNodeClaim_from:
  assumes "run_state (machineToNodeClaim env m) w = (Ok nc, w')"
  shows "comes_from m nc"
proof -
  from assms obtain it labels deleted where "nc = claim_of env m it labels deleted"
    "deleted \<noteq> None \<longleftrightarrow> str_ptr (mst_Phase (m_Status m)) = PhaseDeleting"
    by (auto simp: machineToNodeClaim_def run_simps split: outcome.splits prod.splits if_splits)
  moreover have "AnnotationManagedBy \<noteq> AnnotationOwnedMachine" by code_simp
  ultimately show ?thesis
    by (auto simp: comes_from_def claim_of_def Let_def k_Annotation_def gm_idx_def k_Name_def m_Name_def zero_ObjectMeta_def
        split: option.split)
qed

lemma straverse_from:
  "run_state (straverse (machineToNodeClaim env) ms) w = (Ok ncs, w') \<Longrightarrow> list_all2 comes_from ms ncs"
proof (induction ms arbitrary: w ncs)
  case Nil
  then show ?case by (simp add: run_simps)
next
  case (Cons m ms)
  from Cons.prems show ?case
    unfolding straverse.simps by (elim sbind_OkE) (auto simp: run_simps machineToNodeClaim_from Cons.IH)
qed

text \<open>Before the deletions only the clock is read.\<close>

definition times :: "'w \<times> gc_call list \<Rightarrow> 'w \<times> gc_call list \<Rightarrow> bool" where
  "times s s' \<longleftrightarrow> (\<exists>ts. snd s' = snd s @ map Timed ts)"

lemma times_order: "reflp times" "transp times"
proof -
  show "reflp times" by (rule reflpI) (auto simp: times_def intro: exI [of _ "[]"])
  show "transp times" by (rule transpI) (metis (mono_tags) times_def append.assoc map_append)
qed

lemma preserves_times: "preserves times (lifted m)" "preserves times (logged Timed now)"
  by (auto simp: preserves_def times_def lifted_def logged_def split: prod.split intro: exI [of _ "[]"] exI [of _ "[x]" for x])

lemma listing_times: "preserves times (cp_List (gc_cloud (logged_gc par env)))"
proof -
  have each: "preserves times (machineToNodeClaim (gc_cloud (logged_gc par env)) m)" for m
    unfolding machineToNodeClaim_def
    by (auto intro!: preserves_bind times_order preserves_return preserves_times split: outcome.split)
  have "preserves times (straverse (machineToNodeClaim (gc_cloud (logged_gc par env))) ms)" for ms
    by (induction ms) (auto intro!: preserves_sbind times_order preserves_return each)
  then show ?thesis
    unfolding cp_List_def m_List_def
    by (auto simp: preserves_swrap intro!: preserves_sbind preserves_bind times_order preserves_return preserves_times)
qed

lemma filter_zip: "length xs = length ys \<Longrightarrow> filter P xs = map fst (filter (\<lambda>y. P (fst y)) (zip xs ys))"
  by (induction xs ys rule: list_induct2) auto

lemma run_gc_Reconcile:
  assumes run: "run_state (gc_Reconcile (logged_gc par env) cnt) (w, []) = ((out, cnt'), (w', tr))"
    and list: "run_state (mp_ListMachines (gc_machines env)) w = (Ok ms, w1)"
  obtains (stopped) ts where "tr = map Timed ts" "\<not> is_ok out" "cnt' = cnt"
  | (collecting) retrieved w2 ncs w3 ms' w4 ts rs where
      "list_all2 comes_from (list_loop ms) retrieved" "run_state (gc_ListNodeClaims env) w2 = (Ok ncs, w3)"
      "run_state (mp_ListMachines (gc_machines env)) w3 = (Ok ms', w4)"
      "run_state (par (map (collect_job (logged_gc par env) (owned_machines ncs) ms') (filter managed_claim retrieved)))
         (w4, map Timed ts) = (rs, (w', tr))"
      "cnt' = (if is_ok out then cnt + 1 else cnt)" "\<forall>res. out = Ok res \<longrightarrow> res = requeue_interval cnt'"
proof -
  obtain l w2 tr2 where l: "run_state (cp_List (gc_cloud (logged_gc par env))) (w, []) = (l, (w2, tr2))" by (metis prod.exhaust)
  have "times (w, []) (w2, tr2)" by (rule preservesD [OF listing_times l])
  then obtain ts where ts: "tr2 = map Timed ts" by (auto simp: times_def)
  obtain n w3 where n: "run_state (gc_ListNodeClaims env) w2 = (n, w3)" by fastforce
  obtain k w4 where k: "run_state (mp_ListMachines (gc_machines env)) w3 = (k, w4)" by fastforce
  show ?thesis
  proof (cases "is_ok l \<and> is_ok n \<and> is_ok k")
    case False
    have "tr = tr2 \<and> \<not> is_ok out \<and> cnt' = cnt"
    proof (cases l)
      case (Ok retrieved)
      then show ?thesis
      proof (cases n)
        case ncs: (Ok ncs)
        then have "\<not> is_ok k" using False Ok by simp
        then show ?thesis using run l n k Ok ncs by (cases k) (auto simp: gc_Reconcile_def run_simps)
      qed (use run l n in \<open>auto simp: gc_Reconcile_def run_simps\<close>)
    qed (use run l in \<open>auto simp: gc_Reconcile_def run_simps\<close>)
    then show ?thesis using stopped ts by blast
  next
    case True
    then obtain retrieved ncs ms' where oks: "l = Ok retrieved" "n = Ok ncs" "k = Ok ms'"
      by (cases l; cases n; cases k) auto
    have "list_all2 comes_from (list_loop ms) retrieved"
      using l list oks(1)
      by (auto simp: cp_List_def m_List_def run_simps dest!: straverse_from)
    moreover obtain rs w5 tr5 where
      rs: "run_state (par (map (collect_job (logged_gc par env) (owned_machines ncs) ms') (filter managed_claim retrieved)))
         (w4, map Timed ts) = (rs, (w5, tr5))" by (metis prod.exhaust)
    moreover have "w5 = w'" "tr5 = tr" "cnt' = (if is_ok out then cnt + 1 else cnt)"
      "\<forall>res. out = Ok res \<longrightarrow> res = requeue_interval cnt'"
      using run l n k oks rs ts
      by (auto simp: gc_Reconcile_def run_simps split: outcome.splits)
    ultimately show ?thesis using collecting n k oks by blast
  qed
qed

text \<open>A reconciliation as a whole.\<close>

lemma gc_phases:
  assumes queue: "work_queue par" and list: "run_state (mp_ListMachines (gc_machines env)) w = (Ok ms, w1)"
    and run: "run_state (gc_Reconcile (logged_gc par env) cnt) (w, []) = ((out, cnt'), (w', tr))"
  obtains (quitting) "\<not> is_ok out" "cnt' = cnt" "\<And>m r. Gone m r \<notin> set tr"
  | (deleting) w2 ncs w3 ms' w4 where "run_state (gc_ListNodeClaims env) w2 = (Ok ncs, w3)"
      "run_state (mp_ListMachines (gc_machines env)) w3 = (Ok ms', w4)" "cnt' = (if is_ok out then cnt + 1 else cnt)"
      "all_before (removal_ok env ncs ms ms') tr"
      "\<And>x. stable_listing env ms \<Longrightarrow> x \<in> set ms \<Longrightarrow> orphan ncs x \<Longrightarrow> \<forall>now. Timed now \<in> set tr \<longrightarrow> aged now x \<Longrightarrow> collected tr x"
  using run list
proof (cases rule: run_gc_Reconcile)
  case (stopped ts)
  then show ?thesis using that(1) by auto
next
  case (collecting retrieved w2 ncs w3 ms' w4 ts rs)
  define ys where "ys = filter (\<lambda>y. managed_claim (fst y)) (zip retrieved (list_loop ms))"
  have len: "length retrieved = length (list_loop ms)" using collecting(1) by (simp add: list_all2_lengthD)
  have claims: "filter managed_claim retrieved = map fst ys"
    unfolding ys_def by (rule filter_zip [OF len])
  have ys: "comes_from x nc \<and> managed_claim nc \<and> x \<in> set ms \<and> owned_by_claim x" if y: "(nc, x) \<in> set ys" for nc x
  proof -
    have "(nc, x) \<in> set (zip retrieved (list_loop ms))" "managed_claim nc" using y by (auto simp: ys_def)
    moreover from this(1) have "x \<in> set (list_loop ms)" by (rule set_zip_rightD)
    moreover have "comes_from x nc"
      using collecting(1) calculation(1) by (auto simp: list_all2_iff in_set_zip)
    ultimately show ?thesis by (simp add: set_list_loop)
  qed
  let ?jobs = "map (collect_job (logged_gc par env) (owned_machines ncs) ms') (map fst ys)"
  have "\<forall>m \<in> set ms'. listed env m" using collecting(3) by (auto simp: listed_def)
  then have start: "list_all2 (collection_at par env ncs ms ms' (w4, map Timed ts)) ys ?jobs"
    using ys by (auto simp: list_all2_conv_all_nth collection_at_def split: prod.split) (metis nth_mem)+
  have timed: "all_before (removal_ok env ncs ms ms') (map Timed ts)"
    by (rule all_before_all) auto
  have run: "run_state (par ?jobs) (w4, map Timed ts) = (rs, (w', tr))"
    using collecting(4) by (simp only: claims)
  note par = collections.parallel [OF queue _ start run, of "map Timed ts"]
  have fin: "list_all2 (\<lambda>y r. collection_at par env ncs ms ms' (w', tr) y (Finish r)) ys rs"
    and all: "all_before (removal_ok env ncs ms ms') tr"
    using par timed by simp_all
  have "collected tr x"
    if stable: "stable_listing env ms" and x: "x \<in> set ms" "orphan ncs x" "\<forall>now. Timed now \<in> set tr \<longrightarrow> aged now x" for x
  proof -
    have same: "ms' = ms" using stable collecting(3) unfolding stable_listing_def by (metis outcome.inject(1) prod.inject)
    have "x \<in> set (list_loop ms)" using x(1,2) by (simp add: set_list_loop orphan_def)
    then obtain nc where nc: "(nc, x) \<in> set (zip retrieved (list_loop ms))"
      using len by (metis in_set_impl_in_set_zip2 length_map)
    then have from_x: "comes_from x nc" using collecting(1) by (auto simp: list_all2_iff in_set_zip)
    then have managed: "managed_claim nc" using x(2) by (auto simp: comes_from_def orphan_def managed_claim_def)
    then have "(nc, x) \<in> set ys" using nc by (simp add: ys_def)
    then obtain r where "collection_at par env ncs ms ms' (w', tr) (nc, x) (Finish r)"
      using fin by (auto simp: list_all2_conv_all_nth in_set_conv_nth)
    then have "settled env ncs ms ms' tr x"
      using orphan_unresolved [of x nc ncs] from_x managed x(2)
      by (auto simp: collection_at_def collect_job_def garbageCollect_def remove_machine_def orphan_def split: if_splits)
    then show ?thesis using stable same x by (auto simp: settled_def)
  qed
  then show ?thesis using that(2) [OF collecting(2,3,5) all] by blast
qed

text \<open>What lies behind a deletion.\<close>

lemma gc_removal_cause:
  assumes queue: "work_queue par" and list: "run_state (mp_ListMachines (gc_machines env)) w = (Ok ms, w1)"
    and run: "run_state (gc_Reconcile (logged_gc par env) cnt) (w, []) = ((out, cnt'), (w', tr))"
    and gone: "Gone m r \<in> set tr"
  obtains w2 ncs w3 x where "run_state (gc_ListNodeClaims env) w2 = (Ok ncs, w3)" "listed env m" "x \<in> set ms" "orphan ncs x"
    "same_instance x m \<or> m_ProviderID x = [] \<and> owned_by [] m \<or> m_Name m = m_Name x"
  using queue list run
proof (cases rule: gc_phases)
  case quitting
  then show ?thesis using gone by blast
next
  case (deleting w2 ncs w3 ms' w4)
  obtain j where "j < length tr" "tr ! j = Gone m r" using gone by (auto simp: in_set_conv_nth)
  then have "removal_ok env ncs ms ms' (take j tr) (Gone m r)" using deleting(4) unfolding all_before_def by metis
  then show ?thesis using that [OF deleting(1)] by auto
qed

section \<open>Properties\<close>

text \<open>
  C6. The garbage collector deletes orphans only, and all of them.  Whatever the interleaving of the workers,
  behind every deletion of a listed machine stands an orphan of the first listing that was seen to be more than thirty seconds
  old: managed, owned by a NodeClaim, not being deleted, and named by no node claim of the cluster; what is
  deleted has the provider ID of the orphan or its name (or, when the orphan has no provider ID, is
  owned by a node claim without a name).  When the listing does not change during the run, every
  orphan that is old enough at every reading of the clock is asked to be deleted.
\<close>

theorem garbage_collection_correct:
  assumes queue: "work_queue par" and list: "run_state (mp_ListMachines (gc_machines env)) w = (Ok ms, w1)"
    and run: "run_state (gc_Reconcile (logged_gc par env) cnt) (w, []) = ((out, cnt'), (w', tr))"
  shows "\<not> is_ok out \<and> cnt' = cnt \<and> (\<forall>m r. Gone m r \<notin> set tr) \<or>
    (\<exists>w2 ncs w3 ms' w4. run_state (gc_ListNodeClaims env) w2 = (Ok ncs, w3) \<and>
       run_state (mp_ListMachines (gc_machines env)) w3 = (Ok ms', w4) \<and>
       cnt' = (if is_ok out then cnt + 1 else cnt) \<and> all_before (removal_ok env ncs ms ms') tr \<and>
       (stable_listing env ms \<longrightarrow> (\<forall>x \<in> set ms. orphan ncs x \<longrightarrow>
          (\<forall>now. Timed now \<in> set tr \<longrightarrow> aged now x) \<longrightarrow> collected tr x)))"
  by (rule gc_phases [OF assms]) blast+

text \<open>An orphan: its node claim is gone.\<close>

definition sample_orphan :: Machine where
  "sample_orphan = zero_Machine\<lparr>
     m_ObjectMeta := zero_ObjectMeta\<lparr>om_Name := ''np-1'',
       om_Labels := Some [(LabelInstanceCPU, ''2''), (LabelInstanceMemoryGB, ''4'')],
       om_Annotations := Some [(AnnotationManagedBy, ''karpenter''), (AnnotationUnitPrice, ''1''),
         (CapacityGroup @ AnnotationCPU, ''2''), (CapacityGroup @ AnnotationMemory, ''4'')],
       om_OwnerReferences := Some [owner_of sample_nodeclaim]\<rparr>,
     m_Spec := zero_MachineSpec\<lparr>ms_Zone := ''ap-guangzhou-3'', ms_ProviderID := Some ''ins-1'', ms_KubeletVersion := Some ''1.30.0'',
       ms_ProviderSpec := \<lparr>pv_Type = MachineTypeNative,
         pv_Value = Some (Some (JObj [(''instanceType'', JStr ''S5.MEDIUM4'')]))\<rparr>\<rparr>\<rparr>"

definition sample_gc_env :: "(unit, string, Requirement list, string) gc_env" where
  "sample_gc_env =
     \<lparr>gc_cloud = sample_cloud\<lparr>cp_Now := State_Monad.return (minutes 5),
        cp_machines := (cp_machines sample_cloud)\<lparr>mp_ListMachines := State_Monad.return (Ok [sample_orphan])\<rparr>\<rparr>,
      gc_ListNodeClaims = State_Monad.return (Ok []), gc_ParallelizeUntil = finish_all\<rparr>"

abbreviation sample_gc :: "(unit \<times> gc_call list, string, Requirement list, string) gc_env" where
  "sample_gc \<equiv> logged_gc finish_all sample_gc_env"

lemma sample_gc_fields [simp]:
  "le_types (cp_list (gc_cloud sample_gc)) = sample_env"
  "mp_ListMachines (gc_machines sample_gc_env) = State_Monad.return (Ok [sample_orphan])"
  "mp_Delete (gc_machines sample_gc_env) m = State_Monad.return (Ok ())"
  "cp_Now (gc_cloud sample_gc_env) = State_Monad.return (minutes 5)"
  "gc_ListNodeClaims sample_gc_env = State_Monad.return (Ok [])"
  "ty_q sample_env = sample_quantities" "ty_sc sample_env = sample_scheduling"
  by (simp_all add: logged_gc_def Let_def sample_gc_env_def sample_stores_def sample_machine_env_def sample_list_env_def
      sample_env_def lifted_list_def)

lemma is_ok_iff: "is_ok r \<longleftrightarrow> (\<exists>a. r = Ok a)"
  by (cases r) auto

lemma sample_requirement_labels: "is_ok (requirement_labels sample_scheduling r ks labels)"
proof (induction ks arbitrary: labels)
  case Nil
  then show ?case by simp
next
  case (Cons k ks)
  have "\<exists>v. first_value (sc_Values sample_scheduling r k) = Ok v" if "sc_Len sample_scheduling r k = 1"
    using that by (cases "req_values r k") (auto simp: sample_scheduling_def first_value_def)
  then show ?case using Cons.IH by (fastforce simp: is_ok_iff)
qed

lemma sample_orphan_resolves:
  assumes env: "le_types (cp_list env) = sample_env"
  shows "is_ok (resolveMachineToInstanceType env sample_orphan)"
proof -
  obtain ps where ps: "ProviderSpecFromRawExtension (pv_Value (ms_ProviderSpec (m_Spec sample_orphan))) = Ok (Some ps)"
    "ps_InstanceType ps = ''S5.MEDIUM4''"
  proof -
    have "ProviderSpecFromRawExtension (pv_Value (ms_ProviderSpec (m_Spec sample_orphan))) =
      Ok (Some (zero_ProviderSpec\<lparr>ps_InstanceType := ''S5.MEDIUM4''\<rparr>))" by code_simp
    then show ?thesis using that by simp
  qed
  have capacity: "resourceListFromAnnotations sample_quantities CapacityGroup (om_Annotations (m_ObjectMeta sample_orphan)) =
      Ok [(ResourceCPU, ''2''), (ResourceMemory, ''4'')]"
    and kube: "resourceListFromAnnotations sample_quantities KubeReservedGroup (om_Annotations (m_ObjectMeta sample_orphan)) = Ok []"
    and sys: "resourceListFromAnnotations sample_quantities SystemReservedGroup (om_Annotations (m_ObjectMeta sample_orphan)) = Ok []"
    and ev: "resourceListFromAnnotations sample_quantities EvictionThresholdGroup (om_Annotations (m_ObjectMeta sample_orphan)) = Ok []"
    and texts: "atoi (m_Label sample_orphan LabelInstanceCPU) = Some 2" "atoi (m_Label sample_orphan LabelInstanceMemoryGB) = Some 4"
      "str_ptr (m_Annotation sample_orphan AnnotationUnitPrice) = ''1''" "atoi ''1'' = Some 1"
    by code_simp+
  then obtain item where item: "machine_item (ty_ParseFloat sample_env) sample_orphan ps = Ok item"
    by (simp add: machine_item_def sample_env_def)
  have "\<exists>it. NewInstanceType sample_env 50 item v None None None None None offs [] None = Ok it" for v offs
    by (rule sample_NewInstanceType_Ok [of _ _ _ "(None, None, None)"]) (simp add: cluster_overrides_def)
  then obtain f where "NewInstanceType sample_env 50 item v None None None None None offs [] None = Ok (f v offs)" for v offs
    by metis
  then show ?thesis
    by (simp add: resolveMachineToInstanceType_def Let_def env ps capacity kube sys ev item)
qed

lemma sample_orphan_claim:
  assumes env: "le_types (cp_list env) = sample_env"
  shows "\<exists>nc. (\<forall>s. run_state (machineToNodeClaim env sample_orphan) s = (Ok nc, s)) \<and> comes_from sample_orphan nc"
proof -
  obtain it where it: "resolveMachineToInstanceType env sample_orphan = Ok it"
    using sample_orphan_resolves [OF env] by (auto simp: is_ok_iff)
  obtain labels where labels: "requirement_labels sample_sc (it_Requirements it)
      (sc_Keys sample_sc (it_Requirements it)) [] = Ok labels"
    by (metis is_ok_iff sample_requirement_labels)
  have "str_ptr (mst_Phase (m_Status sample_orphan)) \<noteq> PhaseDeleting" by code_simp
  then have run: "run_state (machineToNodeClaim env sample_orphan) s = (Ok (claim_of env sample_orphan it labels None), s)" for s
    by (simp add: machineToNodeClaim_def env it labels run_simps)
  show ?thesis using run machineToNodeClaim_from [OF run] by blast
qed

theorem garbage_collection_correct_witness:
  "\<exists>out cnt' w' tr. run_state (gc_Reconcile sample_gc 0) ((), []) = ((out, cnt'), (w', tr)) \<and> is_ok out \<and>
     collected tr sample_orphan"
proof -
  obtain nc where nc: "\<And>s. run_state (machineToNodeClaim (gc_cloud sample_gc) sample_orphan) s = (Ok nc, s)"
    "comes_from sample_orphan nc"
    using sample_orphan_claim [of "gc_cloud sample_gc"] by auto
  obtain out cnt' tr where run: "run_state (gc_Reconcile sample_gc 0) ((), []) = ((out, cnt'), ((), tr))"
    by (metis prod.exhaust unit.exhaust)
  have list: "run_state (mp_ListMachines (gc_machines sample_gc_env)) () = (Ok [sample_orphan], ())" by (simp add: run_simps)
  have facts: "owned_loop sample_orphan (owners (m_ObjectMeta sample_orphan)) = [sample_orphan]" "m_Name sample_orphan = ''np-1''" "m_ProviderID sample_orphan = ''ins-1''"
    "ms_ProviderID (m_Spec sample_orphan) = Some ''ins-1''" "om_CreationTimestamp (m_ObjectMeta sample_orphan) = 0"
    "gm_idx (om_Annotations (m_ObjectMeta sample_orphan)) AnnotationManagedBy = ''karpenter''"
    "str_ptr (mst_Phase (m_Status sample_orphan)) \<noteq> PhaseDeleting" "owned_by_claim sample_orphan" "\<not> owned_by [] sample_orphan"
    by code_simp+
  note claim = nc(2) [unfolded comes_from_def facts]
  have managed: "managed_claim nc" using claim facts(7) by (auto simp: managed_claim_def)
  have listed: "run_state (cp_List (gc_cloud sample_gc)) ((), []) = (Ok [nc], ((), []))"
    by (simp add: cp_List_def m_List_def run_simps facts nc(1))
  have "is_ok out \<and> tr = [Timed (minutes 5), Gone sample_orphan (Ok ()), Gone sample_orphan (Ok ())]"
    using run managed claim
    by (auto simp: gc_Reconcile_def listed run_simps facts owned_machines_def collect_job_def
        garbageCollect_def remove_machine_def cp_Delete_def m_Delete_def m_Get_def combined_def multierr_combine_def map_filter_def)
  moreover have "stable_listing sample_gc_env [sample_orphan]"
    using facts(9) by (simp add: stable_listing_def run_simps)
  moreover have "orphan [] sample_orphan" using facts by (simp add: orphan_def)
  moreover have "aged (minutes 5) sample_orphan" by (simp add: aged_def facts)
  ultimately show ?thesis
    using garbage_collection_correct [OF work_queue_sequential list run] run
    by (auto simp: run_simps)
qed

end
