(* ===== verification/Startup.thy ===== *)
theory Startup
  imports InstanceTypeList NodeClassTermination Zone
begin

text \<open>
  The options of the controller and its start (\<open>pkg/operator/options/\<close>, \<open>pkg/operator/operator.go\<close>):
  flags with defaults from the environment, their validation, their way through the context, and the
  construction of the providers.  The flag library, the environment and the cloud API are parameters.
\<close>

section \<open>Options\<close>

record Options =
  op_Region :: string
  op_ClusterID :: string
  op_SecretID :: string
  op_SecretKey :: string
  op_VMMemoryOverheadPercent :: rat

text \<open>
  \<open>fe_WithDefaultString\<close> is karpenter's \<open>env.WithDefaultString\<close>.  The flag library turns the arguments into
  assignments to the registered flags, in their order, or reports that help was asked for or an error;
  it fails on a number that does not parse.
\<close>

datatype parsed_flags = HelpRequested | FlagError goerr | Assigned "(string \<times> string) list"

record flag_env =
  fl_WithDefaultString :: "string \<Rightarrow> string \<Rightarrow> string"
  fl_LookupEnv :: "string \<Rightarrow> string option"
  fl_ParseFloat :: "string \<Rightarrow> rat option"
  fl_Parse :: "string list \<Rightarrow> parsed_flags"

definition AddFlags :: "flag_env \<Rightarrow> Options" where
  "AddFlags env =
     \<lparr>op_Region = fl_WithDefaultString env ''REGION'' [],
      op_ClusterID = fl_WithDefaultString env ''CLUSTER_ID'' [],
      op_SecretID = fl_WithDefaultString env ''SECRET_ID'' [],
      op_SecretKey = fl_WithDefaultString env ''SECRET_KEY'' [],
      op_VMMemoryOverheadPercent = WithDefaultFloat64 (fl_LookupEnv env) (fl_ParseFloat env)
        ''VM_MEMORY_OVERHEAD_PERCENT'' (fl (75 / 1000))\<rparr>"

text \<open>The variables behind the flags; flags of other components leave the options alone.\<close>

fun set_flag :: "flag_env \<Rightarrow> string \<times> string \<Rightarrow> Options \<Rightarrow> Options outcome" where
  "set_flag env (name, v) o' =
     (if name = ''region'' then Ok (o'\<lparr>op_Region := v\<rparr>)
      else if name = ''cluster-id'' then Ok (o'\<lparr>op_ClusterID := v\<rparr>)
      else if name = ''secret-id'' then Ok (o'\<lparr>op_SecretID := v\<rparr>)
      else if name = ''secret-key'' then Ok (o'\<lparr>op_SecretKey := v\<rparr>)
      else if name = ''vm-memory-overhead-percent''
      then (case fl_ParseFloat env v of
              None \<Rightarrow> Err (Errorf ''invalid value for flag'')
            | Some f \<Rightarrow> Ok (o'\<lparr>op_VMMemoryOverheadPercent := f\<rparr>))
      else Ok o')"

fun set_flags :: "flag_env \<Rightarrow> (string \<times> string) list \<Rightarrow> Options \<Rightarrow> Options outcome" where
  "set_flags env [] o' = Ok o'"
| "set_flags env (a # as) o' = obind (set_flag env a o') (set_flags env as)"

definition validateRequiredFields :: "Options \<Rightarrow> goerr option" where
  "validateRequiredFields o' =
     (if op_Region o' = [] then Some (Errorf ''missing field, region'')
      else if op_ClusterID o' = [] then Some (Errorf ''missing field, cluster-id'')
      else if op_SecretID o' = [] then Some (Errorf ''missing field, secret-id'')
      else if op_SecretKey o' = [] then Some (Errorf ''missing field, secret-key'')
      else None)"

definition validateVMMemoryOverheadPercent :: "Options \<Rightarrow> goerr option" where
  "validateVMMemoryOverheadPercent o' =
     (if op_VMMemoryOverheadPercent o' < 0 then Some (Errorf ''vm-memory-overhead-percent cannot be negative'') else None)"

definition Validate :: "Options \<Rightarrow> goerr option" where
  "Validate o' = multierr_combine [validateVMMemoryOverheadPercent o', validateRequiredFields o']"

text \<open>Asking for help ends the process.\<close>

datatype 'a process = Exit int | Running 'a

definition Options_Parse :: "flag_env \<Rightarrow> string list \<Rightarrow> Options \<Rightarrow> Options outcome process" where
  "Options_Parse env args o' =
     (case (case fl_Parse env args of
              HelpRequested \<Rightarrow> None
            | FlagError e \<Rightarrow> Some (Err e)
            | Assigned as \<Rightarrow> Some (set_flags env as o')) of
        None \<Rightarrow> Exit 0
      | Some (Err e) \<Rightarrow> Running (Err (Wrapf ''parsing flags'' e))
      | Some Panic \<Rightarrow> Running Panic
      | Some (Ok o'') \<Rightarrow>
          (case Validate o'' of
             None \<Rightarrow> Running (Ok o'')
           | Some e \<Rightarrow> Running (Err (Wrapf ''validating options'' e))))"

section \<open>The context\<close>

text \<open>
  A context is a stack of values under keys; the key type of the options is private to their package.
  A value of another type under it would make the type assertion panic.
\<close>

datatype ctx_key = OptionsKey | OtherKey string
datatype ctx_value = OptionsPtr "Options option" | OtherValue string

type_synonym go_context = "(ctx_key \<times> ctx_value) list"

definition WithValue :: "go_context \<Rightarrow> ctx_key \<Rightarrow> ctx_value \<Rightarrow> go_context" where
  "WithValue ctx k v = (k, v) # ctx"

definition ToContext :: "go_context \<Rightarrow> Options option \<Rightarrow> go_context" where
  "ToContext ctx opts = WithValue ctx OptionsKey (OptionsPtr opts)"

definition FromContext :: "go_context \<Rightarrow> Options option outcome" where
  "FromContext ctx = (case map_of ctx OptionsKey of
     None \<Rightarrow> Ok None
   | Some (OptionsPtr o') \<Rightarrow> Ok o'
   | Some (OtherValue _) \<Rightarrow> Panic)"

section \<open>The operator\<close>

text \<open>What the start reads of a cluster: a pointer to its network settings, with a VPC.\<close>

type_synonym cluster_network = "string option"

record ('w, 'c) start_env =
  st_DescribeClusters :: "string list \<Rightarrow> ('w, cluster_network option option list outcome) state"
  st_cache :: "'c cache_ops"
  st_NewCache :: "int \<Rightarrow> 'c"

record 'c Operator =
  opr_credential :: "string \<times> string"
  opr_Region :: string
  opr_MachineClusterID :: string
  opr_InstanceTypeProvider :: "'c InstanceTypeProvider"
  opr_ZoneProvider :: zone_provider
  opr_VpcID :: string

definition without_newlines :: "string \<Rightarrow> string" where
  "without_newlines s = filter (\<lambda>c. c \<noteq> CHR 0x0A) s"

definition NewOperator :: "('w, 'c) start_env \<Rightarrow> go_context \<Rightarrow> ('w, 'c Operator outcome) state" where
  "NewOperator env ctx =
     (case FromContext ctx of
        Ok (Some opts) \<Rightarrow> do {
          resp \<leftarrow> st_DescribeClusters env [op_ClusterID opts];
          State_Monad.return (case resp of
            Ok (Some (Some vpcId) # _) \<Rightarrow>
              Ok \<lparr>opr_credential = (without_newlines (op_SecretID opts), without_newlines (op_SecretKey opts)),
                  opr_Region = op_Region opts, opr_MachineClusterID = op_ClusterID opts,
                  opr_InstanceTypeProvider = NewDefaultProvider_it (id_from_zone new_zone_provider) (st_cache env)
                    (st_NewCache env (minutes 10)) (st_NewCache env (minutes 30)),
                  opr_ZoneProvider = new_zone_provider, opr_VpcID = str_ptr vpcId\<rparr>
          | _ \<Rightarrow> Panic) }
      | _ \<Rightarrow> State_Monad.return Panic)"

section \<open>What parsing gives\<close>

text \<open>The last assignment to a flag counts, and without one its default.\<close>

definition last_flag :: "(string \<times> string) list \<Rightarrow> string \<Rightarrow> string \<Rightarrow> string" where
  "last_flag as name d = (case map_of (rev as) name of None \<Rightarrow> d | Some v \<Rightarrow> v)"

lemma last_flag_Nil: "last_flag [] name d = d"
  by (simp add: last_flag_def)

lemma last_flag_Cons: "last_flag ((n, v) # as) name d = last_flag as name (if n = name then v else d)"
  by (simp add: last_flag_def map_add_def split: option.split)

lemma set_flag_fields:
  assumes "set_flag env (n, v) o' = Ok p"
  shows "op_Region p = (if n = ''region'' then v else op_Region o')"
    "op_ClusterID p = (if n = ''cluster-id'' then v else op_ClusterID o')"
    "op_SecretID p = (if n = ''secret-id'' then v else op_SecretID o')"
    "op_SecretKey p = (if n = ''secret-key'' then v else op_SecretKey o')"
    "op_VMMemoryOverheadPercent p =
       (if n = ''vm-memory-overhead-percent'' then the (fl_ParseFloat env v) else op_VMMemoryOverheadPercent o')"
  using assms by (auto split: if_splits option.splits)

lemma set_flags_fields:
  assumes "set_flags env as o' = Ok p"
  shows "op_Region p = last_flag as ''region'' (op_Region o') \<and> op_ClusterID p = last_flag as ''cluster-id'' (op_ClusterID o') \<and>
    op_SecretID p = last_flag as ''secret-id'' (op_SecretID o') \<and> op_SecretKey p = last_flag as ''secret-key'' (op_SecretKey o') \<and>
    op_VMMemoryOverheadPercent p = (case map_of (rev as) ''vm-memory-overhead-percent'' of
      None \<Rightarrow> op_VMMemoryOverheadPercent o' | Some v \<Rightarrow> the (fl_ParseFloat env v))"
  using assms
proof (induction as arbitrary: o')
  case Nil
  then show ?case by (simp add: last_flag_Nil)
next
  case (Cons a as)
  obtain n v where a: "a = (n, v)" by fastforce
  then obtain q where "set_flag env (n, v) o' = Ok q" "set_flags env as q = Ok p" using Cons.prems by (auto simp del: set_flag.simps)
  from Cons.IH [OF this(2)] set_flag_fields [OF this(1)] show ?case
    by (simp add: a last_flag_Cons map_add_def split: option.split)
qed

lemma Validate_None:
  "Validate o' = None \<longleftrightarrow> 0 \<le> op_VMMemoryOverheadPercent o' \<and> op_Region o' \<noteq> [] \<and> op_ClusterID o' \<noteq> [] \<and>
     op_SecretID o' \<noteq> [] \<and> op_SecretKey o' \<noteq> []"
  by (auto simp: Validate_def validateVMMemoryOverheadPercent_def validateRequiredFields_def)

lemma Options_Parse_Ok:
  assumes "Options_Parse env args o' = Running (Ok p)"
  obtains as where "fl_Parse env args = Assigned as" "set_flags env as o' = Ok p" "Validate p = None"
  using assms
  by (auto simp: Options_Parse_def split: option.splits outcome.splits parsed_flags.splits)

lemma FromContext_ToContext [simp]: "FromContext (ToContext ctx o') = Ok o'"
  by (simp add: FromContext_def ToContext_def WithValue_def)

lemma FromContext_other: "k \<noteq> OptionsKey \<Longrightarrow> FromContext (WithValue ctx k v) = FromContext ctx"
  by (simp add: FromContext_def WithValue_def)

section \<open>Properties\<close>

text \<open>
  C27. A process that starts is well-formed.  Options that parse name a region, a cluster and both secrets, each
  from the last flag given or else from the environment, and have an overhead that is not negative.
  Values that other packages put into the context do not hide them.  The operator then starts exactly
  when the cluster is described with its network settings; otherwise it panics.  A started operator has
  an instance type provider in good state with nothing blocked and no failure counted, whose zone IDs
  are those the machine provider translates back.
\<close>

theorem operator_ready:
  assumes laws: "cache_laws (st_cache env)" "\<forall>d k. ca_Get (st_cache env) k (st_NewCache env d) = None"
    and parse: "Options_Parse fenv args (AddFlags fenv) = Running (Ok opts)"
    and others: "list_all (\<lambda>(k, v). k \<noteq> OptionsKey) added"
    and run: "run_state (NewOperator env (added @ ToContext ctx (Some opts))) w = (out, w')"
  shows "(\<exists>as. fl_Parse fenv args = Assigned as \<and>
       op_Region opts = last_flag as ''region'' (fl_WithDefaultString fenv ''REGION'' []) \<and>
       op_ClusterID opts = last_flag as ''cluster-id'' (fl_WithDefaultString fenv ''CLUSTER_ID'' []) \<and>
       op_SecretID opts = last_flag as ''secret-id'' (fl_WithDefaultString fenv ''SECRET_ID'' []) \<and>
       op_SecretKey opts = last_flag as ''secret-key'' (fl_WithDefaultString fenv ''SECRET_KEY'' []) \<and>
       op_VMMemoryOverheadPercent opts = (case map_of (rev as) ''vm-memory-overhead-percent'' of
         None \<Rightarrow> WithDefaultFloat64 (fl_LookupEnv fenv) (fl_ParseFloat fenv) ''VM_MEMORY_OVERHEAD_PERCENT'' (fl (75 / 1000))
       | Some v \<Rightarrow> the (fl_ParseFloat fenv v))) \<and>
    op_Region opts \<noteq> [] \<and> op_ClusterID opts \<noteq> [] \<and> op_SecretID opts \<noteq> [] \<and> op_SecretKey opts \<noteq> [] \<and>
    0 \<le> op_VMMemoryOverheadPercent opts \<and>
    (case fst (run_state (st_DescribeClusters env [op_ClusterID opts]) w) of
       Ok (Some (Some vpc) # _) \<Rightarrow>
         \<exists>op. out = Ok op \<and> opr_VpcID op = str_ptr vpc \<and> opr_MachineClusterID op = op_ClusterID opts \<and>
           blocklist_ok (opr_InstanceTypeProvider op) \<and>
           (\<forall>n. \<not> isBlocked (opr_InstanceTypeProvider op) n \<and>
              GetInsufficientFailureCount n (opr_InstanceTypeProvider op) = Ok 0) \<and>
           (\<forall>z zid. known_zone (opr_ZoneProvider op) z \<and> ip_zoneProvider (opr_InstanceTypeProvider op) z = Ok zid \<longrightarrow>
              zone_from_id (opr_ZoneProvider op) zid = Ok z)
     | _ \<Rightarrow> out = Panic)"
proof -
  obtain as where as: "fl_Parse fenv args = Assigned as" "set_flags fenv as (AddFlags fenv) = Ok opts" "Validate opts = None"
    by (rule Options_Parse_Ok [OF parse])
  have ctx: "FromContext (added @ ToContext ctx (Some opts)) = Ok (Some opts)"
    using others by (induction added) (auto simp: FromContext_def ToContext_def WithValue_def)
  obtain resp w1 where resp: "run_state (st_DescribeClusters env [op_ClusterID opts]) w = (resp, w1)" by fastforce
  let ?ip = "NewDefaultProvider_it (id_from_zone new_zone_provider) (st_cache env)
    (st_NewCache env (minutes 10)) (st_NewCache env (minutes 30))"
  have fresh: "blocklist_ok ?ip" "\<not> isBlocked ?ip n" "GetInsufficientFailureCount n ?ip = Ok 0" for n
    using laws blocklist_ok_fresh [of ?ip]
    by (simp_all add: NewDefaultProvider_it_def isBlocked_iff is_blocked_key_def GetInsufficientFailureCount_def)
  have zones: "ip_zoneProvider ?ip = id_from_zone new_zone_provider" by (simp add: NewDefaultProvider_it_def)
  have "case resp of Ok (Some (Some vpc) # _) \<Rightarrow>
         \<exists>op. out = Ok op \<and> opr_VpcID op = str_ptr vpc \<and> opr_MachineClusterID op = op_ClusterID opts \<and>
           opr_InstanceTypeProvider op = ?ip \<and> opr_ZoneProvider op = new_zone_provider
     | _ \<Rightarrow> out = Panic"
    using run by (auto simp: NewOperator_def ctx resp run_simps split: outcome.splits list.splits option.splits)
  then have started: "case fst (run_state (st_DescribeClusters env [op_ClusterID opts]) w) of Ok (Some (Some vpc) # _) \<Rightarrow>
         \<exists>op. out = Ok op \<and> opr_VpcID op = str_ptr vpc \<and> opr_MachineClusterID op = op_ClusterID opts \<and>
           blocklist_ok (opr_InstanceTypeProvider op) \<and>
           (\<forall>n. \<not> isBlocked (opr_InstanceTypeProvider op) n \<and>
              GetInsufficientFailureCount n (opr_InstanceTypeProvider op) = Ok 0) \<and>
           (\<forall>z zid. known_zone (opr_ZoneProvider op) z \<and> ip_zoneProvider (opr_InstanceTypeProvider op) z = Ok zid \<longrightarrow>
              zone_from_id (opr_ZoneProvider op) zid = Ok z)
     | _ \<Rightarrow> out = Panic"
    unfolding resp fst_conv using fresh zones tke_zones.zone_of_id_of_known
    by (auto simp del: split_paired_All split: outcome.splits list.splits option.splits)
  show ?thesis
  proof (intro conjI exI [of _ as] as(1) started)
  qed (use set_flags_fields [OF as(2)] Validate_None [of opts] as(3) in \<open>simp_all add: AddFlags_def split: option.split\<close>)
qed

definition sample_flags :: flag_env where
  "sample_flags =
     \<lparr>fl_WithDefaultString = \<lambda>k d. if k = ''REGION'' then ''ap-guangzhou'' else d, fl_LookupEnv = \<lambda>_. None,
      fl_ParseFloat = \<lambda>s. map_option of_int (atoi s),
      fl_Parse = \<lambda>_. Assigned [(''cluster-id'', ''cls-1''), (''secret-id'', ''id''), (''secret-key'', ''key''),
        (''vm-memory-overhead-percent'', ''0''), (''cluster-id'', ''cls-2'')]\<rparr>"

definition sample_start :: "(unit, (string, cache_item) entries) start_env" where
  "sample_start = \<lparr>st_DescribeClusters = \<lambda>_. State_Monad.return (Ok [Some (Some (Some ''vpc-1''))]),
     st_cache = sample_cache, st_NewCache = \<lambda>_. []\<rparr>"

definition sample_options :: Options where
  "sample_options = \<lparr>op_Region = ''ap-guangzhou'', op_ClusterID = ''cls-2'', op_SecretID = ''id'', op_SecretKey = ''key'',
     op_VMMemoryOverheadPercent = 0\<rparr>"

theorem operator_ready_witness:
  "\<exists>op. run_state (NewOperator sample_start ([(OtherKey ''log'', OtherValue ''x'')] @ ToContext [] (Some sample_options))) () = (Ok op, ()) \<and>
     opr_VpcID op = ''vpc-1'' \<and> opr_MachineClusterID op = ''cls-2'' \<and> blocklist_ok (opr_InstanceTypeProvider op)"
proof -
  let ?ctx = "[(OtherKey ''log'', OtherValue ''x'')] @ ToContext [] (Some sample_options)"
  obtain out where run: "run_state (NewOperator sample_start ?ctx) () = (out, ())" by (metis prod.exhaust unit.exhaust)
  have "atoi ''0'' = Some 0" by code_simp
  then have "Options_Parse sample_flags [] (AddFlags sample_flags) = Running (Ok sample_options)"
    by (simp add: Options_Parse_def sample_flags_def AddFlags_def sample_options_def Validate_def multierr_combine_def map_filter_def
        validateVMMemoryOverheadPercent_def validateRequiredFields_def)
  from operator_ready [OF _ _ this _ run] show ?thesis
    using run sample_cache_laws by (auto simp: sample_start_def run_simps sample_options_def)
qed

end
