(* ===== verification/Spec2Isabelle.thy ===== *)
theory Spec2Isabelle
  imports Conversions NodeClassStatus NodeClassTermination CloudProvider ProviderIDs FailureController GarbageCollection Startup
begin

text \<open>
  Karpenter provider for TKE: a verification development for the Go sources under \<open>src/pkg\<close> and
  \<open>src/staging/nativenode\<close>.

  \<^bold>\<open>The program.\<close>  Karpenter decides which nodes a cluster needs and writes node claims; this
  program turns a node claim into a Machine object of Tencent's native-node API, whose controllers launch the
  instance. A node class (\<open>TKEMachineNodeClass\<close>) says where and how: the status controller resolves
  its selectors to subnets, security groups and SSH keys and marks it ready; the termination controller keeps it
  while node claims use it. The cloud provider, which karpenter calls, asks the instance type provider what can be
  bought, has the machine provider create the machine, and reads machines back as node claims. Three controllers
  look after the rest: one carries the provider ID of a machine to its node claim, one clears away machines whose
  launch failed and remembers what is sold out, one deletes machines that no node claim knows of.

  \<^bold>\<open>Foundations.\<close>
  \<^item> \<open>Prelude\<close>: errors and outcomes (\<open>Ok\<close>, \<open>Err\<close>,
    \<open>Panic\<close>), state-passing programs with a ghost log of calls, integers at their width, Go maps as
    entry lists in the order of a \<open>range\<close>, \<open>sort.Slice\<close>.
  \<^item> \<open>GoStrings\<close>, \<open>GoFloat\<close>, \<open>Json\<close>: the parts of
    \<open>strings\<close>, \<open>strconv\<close>, float64 and \<open>encoding/json\<close> that the program uses.
  \<^item> \<open>Workers\<close>: \<open>workqueue.ParallelizeUntil\<close>; a job is a sequence of calls, and the
    calls of the jobs interleave.

  \<^bold>\<open>The node API\<close> (\<open>staging/nativenode\<close>, its version \<open>v1beta1\<close> first).
  \<^item> \<open>Labels\<close>: the keys of \<open>labels.go\<close>, and which of them can be told apart.
  \<^item> \<open>NativeNode\<close>, \<open>ProviderSpecJson\<close>: machines and provider specs, and their JSON
    form (\<open>util.go\<close>, field tags).
  \<^item> \<open>Defaults\<close>: the defaulting functions of machines (\<open>defaults.go\<close>): the loops
    compute what they should, and defaulting twice is defaulting once; the exact inputs on which it panics.
  \<^item> \<open>MachineSets\<close>: machine sets and rolling upgrades with their defaults and methods: what
    is empty is filled, what is set is kept.
  \<^item> \<open>Hub\<close>, \<open>Conversions\<close>: the hub version of these types and the conversions between
    the two versions (\<open>zz_generated.conversion.go\<close>): they never fail, overwrite everything, lose nothing, and the casts
    of slices in them are conversions of the elements.

  \<^bold>\<open>Node classes.\<close>
  \<^item> \<open>NodeClass\<close>: spec, status and conditions (\<open>tkemachinenodeclass.go\<close>,
    \<open>_status.go\<close>).
  \<^item> \<open>Zone\<close>: names and IDs of zones (\<open>zone.go\<close>): the two translations are inverse,
    in every iteration order.
  \<^item> \<open>Selectors\<close>: the subnet, security group and SSH key providers: the batches of a listing,
    and what it returns.
  \<^item> \<open>NodeClassStatus\<close>: the status controller: its result does not depend on the order of the
    answers; its calls, and when a class becomes ready.
  \<^item> \<open>NodeClassTermination\<close>: the termination controller with its event, and
    \<open>util.go\<close>; when the finalizer goes.

  \<^bold>\<open>Instance types\<close> (\<open>pkg/providers/instancetype\<close>).
  \<^item> \<open>Scheduling\<close>, \<open>Karpenter\<close>: what is used of quantities, requirements, offerings
    and node claims.
  \<^item> \<open>Levels\<close>, \<open>InstanceTypes\<close>: reservation tables, capacity and overhead
    (\<open>level.go\<close>, \<open>kdump.go\<close>, \<open>types.go\<close>): every entry of the capacity, the
    reservations with their bounds, and that more of a resource never reserves less.
  \<^item> \<open>Blocklist\<close>: blocked offerings and counts of failures: the cache with printed keys refines
    a set of patterns and a counter per offering; nothing reachable makes it panic.
  \<^item> \<open>InstanceTypeList\<close>: the listing behind its caches: what it is computed from, and that
    nothing blocked is in it.

  \<^bold>\<open>Machines and node claims.\<close>
  \<^item> \<open>MachineSelect\<close>: which instance type is launched first: the cheapest, after a mixed launch
    has lost its dear spot types.
  \<^item> \<open>MachineProvider\<close>: building, creating, finding, listing and deleting machines
    (\<open>machine.go\<close>): the machine agrees with the offering it was made for; which machine a deletion
    deletes.
  \<^item> \<open>CloudProvider\<close>: the interface to karpenter (\<open>cloudprovider.go\<close>).
    \<open>launch_not_blocked\<close> goes through the zone, instance type, machine and cloud providers: what is
    created was in stock and not blocked.

  \<^bold>\<open>Controllers and start.\<close>
  \<^item> \<open>ProviderIDs\<close>: the provider ID controllers: an invariant of all reachable states of a small
    API server with outdated copies and interruptions, and that in calm runs the ID arrives and stays.
  \<^item> \<open>FailureController\<close>: for every interleaving: nothing is deleted without cause, and failures
    are first counted, then block the offering.
  \<^item> \<open>GarbageCollection\<close>: for every interleaving: only old orphans are deleted, and all of them
    when the listing is stable.
  \<^item> \<open>Startup\<close>: options, their way through the context, and when the operator starts.

  \<^bold>\<open>Across components\<close> (below).  The memory of blocked offerings ties the failure controller and the
  cloud provider together: what failed is not launched again (\<open>failed_offering_not_relaunched\<close>), and what the
  cloud refused is not asked for again (\<open>refused_offering_not_retried\<close>), both from any later memory that still
  blocks what was blocked, which covers other operations and the expiry of other entries. The name of
  its machine in a node claim ties the cloud provider and the garbage collector together: what was launched is kept
  (\<open>launched_machine_kept\<close>).

  \<^bold>\<open>Interfaces.\<close>  Each is a locale, interpreted on the model in the theory of the component
  that provides it: \<open>zone_naming\<close> (the zone provider), \<open>listing\<close> (the three selector
  providers), \<open>status_reconciler\<close> (the four sub-reconcilers), \<open>reservation\<close> (the three
  tables), \<open>blocklist\<close> (the instance type provider as others see it) and \<open>workers\<close> (an
  invariant kept by every call of a worker, interpreted by both controllers that run workers).

  \<^bold>\<open>Parameters.\<close>  Code outside the repository is an argument: the Kubernetes and cloud APIs,
  the clock and random strings are state-passing programs over an arbitrary world; caches, condition sets,
  quantities, requirements, semantic versions and \<open>strconv.ParseFloat\<close> are records of functions. What
  a theorem relies on is a named predicate (\<open>cache_laws\<close>, \<open>condition_laws\<close>,
  \<open>quantity_laws\<close>, \<open>offering_laws\<close>, \<open>requirement_laws\<close>,
  \<open>work_queue\<close>), and the witness uses an instance that satisfies it. Theorems about calls run the
  same definitions on an environment that writes every call down (\<open>logged\<close>, \<open>lifted\<close>). A
  component with a state of its own is threaded next to the world, as the pair \<open>'w \<times> state\<close>.

  \<^bold>\<open>Termination.\<close>  No definition needs fuel: loops run over lists or have a measure
  (\<open>reserve_loop\<close>, \<open>go_split\<close>, \<open>digits\<close>), so every theorem speaks of runs
  that end. Jobs are well-founded trees of calls. The one law about interleavings, \<open>work_queue\<close>, is met by
  the sequential queue (\<open>work_queue_sequential\<close>). Counters of failures are 64-bit integers;
  \<open>failure_escalates\<close> assumes they do not reach \<open>2 ^ 63\<close> in the run.

  \<^bold>\<open>Not modelled.\<close>
  \<^item> JSON is modelled from the parsed value on: texts, duplicate keys that differ in case, invalid UTF-8, and
    the metadata inside provider specs are left out. So is the provider status codec of \<open>util.go\<close>,
    which nothing calls.
  \<^item> Errors keep their wrapping, their reason and the constant part of their text; formatted arguments are
    dropped, and so are log lines and metrics other than the gauge of blocked offerings.
  \<^item> Answers of the cloud SDK without the response struct, cancelled contexts, rate limiters, and the
    registration with controller-runtime (apart from the event filters and watches, which are definitions).
  \<^item> Entries of a cache do not expire inside one reconciliation; between operations they may
    (\<open>memory_invariant\<close>). A call of the cloud provider is one step between those of other workers.
  \<^item> The generated deep copies and documentation, and the types of a fake provider: values of the model are
    immutable, so a deep copy is the identity. The scheme that finds the conversion for two types is written out for the objects
    of the API only; \<open>TypeMeta\<close>, which no conversion touches, is left out.
  \<^item> Float64 infinities and NaN; \<open>net.ParseIP\<close> and the formatting of fractions are parameters.
  \<^item> The support code of the end-to-end tests.
\<close>

section \<open>The life of a machine\<close>

text \<open>
  The providers as the program wires them together: one zone table, one set of scheduling operations, and
  caches and operations that keep their laws.
\<close>

definition wired :: "('w, 'q, 'r, 'v) cloud_env \<Rightarrow> 'c InstanceTypeProvider \<Rightarrow> bool" where
  "wired env p \<longleftrightarrow> mp_scheduling (cp_machines env) = cp_sc env \<and> offering_laws (cp_sc env) \<and> requirement_laws (cp_sc env) \<and>
     cache_laws (ip_cache p) \<and> ip_zoneProvider p = id_from_zone new_zone_provider \<and>
     mp_ZoneFromID (cp_machines env) = zone_from_id new_zone_provider"

text \<open>All cached items of the cloud are in zones of the table.\<close>

definition zones_known :: "'c cache_ops \<Rightarrow> 'c \<Rightarrow> bool" where
  "zones_known ops c \<longleftrightarrow> (\<forall>k items i. ca_Get ops k c = Some (CTypes items) \<longrightarrow> i \<in> set items \<longrightarrow>
     known_zone new_zone_provider (qi_Zone i))"

text \<open>What was blocked is blocked still; entries that have expired are not.\<close>

definition still_blocked :: "'c InstanceTypeProvider \<Rightarrow> 'c InstanceTypeProvider \<Rightarrow> bool" where
  "still_blocked p p' \<longleftrightarrow> (\<forall>n. is_blocked_key p n \<longrightarrow> is_blocked_key p' n)"

text \<open>The offering a machine is launched for, as it is written into its spec.\<close>

definition launched_for :: "Machine \<Rightarrow> offering_name \<Rightarrow> bool" where
  "launched_for machine n \<longleftrightarrow> (\<exists>ps. pv_Value (ms_ProviderSpec (m_Spec machine)) = Some (Some (enc_ProviderSpec ps)) \<and>
     n = failed_offering (ps_InstanceType ps) machine)"

lemma launched_unblocked:
  assumes run: "run_state (cp_Create (logged_cloud env) nodeClaim) ((w, []), p) = (out, ((w', [Created machine res]), p'))"
    and wired: "wired env p" and zones: "zones_known (ip_cache p) (ip_providerCache p')"
  obtains n where "launched_for machine n" "\<And>c. is_blocked_key p c \<Longrightarrow> \<not> covers c n"
proof -
  obtain ps i cap h zh items where
    made: "pv_Value (ms_ProviderSpec (m_Spec machine)) = Some (Some (enc_ProviderSpec ps))"
      "ps_InstanceType ps = qi_InstanceType i" "m_Label machine CapacityTypeLabelKey = cap"
    and cached: "ca_Get (ip_cache p) (h zh) (ip_providerCache p') = Some (CTypes items)" "i \<in> set items"
    and free: "\<not> isBlocked p (qi_InstanceType i, cap, qi_Zone i)"
    and zone: "known_zone new_zone_provider (qi_Zone i) \<Longrightarrow> ms_Zone (m_Spec machine) = qi_Zone i"
    by (rule created_from_item [OF run]) (use wired in \<open>auto simp: wired_def\<close>)
  have "ms_Zone (m_Spec machine) = qi_Zone i" using zones cached zone unfolding zones_known_def by blast
  then have "failed_offering (ps_InstanceType ps) machine = (qi_InstanceType i, cap, qi_Zone i)"
    using made by (simp add: failed_offering_def capacity_type_def)
  then show ?thesis
    using that [of "failed_offering (ps_InstanceType ps) machine"] made(1) free
    unfolding launched_for_def isBlocked_iff by metis
qed

text \<open>
  C7. What could not be launched is not launched again.  After a run of the failure controller that gave up a
  machine of its listing, no creation, from any memory in which the blocked offerings still are blocked,
  launches a machine that the blocked offering of the failed one covers: not of its instance type, capacity
  type and zone, and with the user's quota for spot instances exhausted no spot machine in its zone at all.
\<close>

theorem failed_offering_not_relaunched:
  assumes queue: "work_queue par" and list: "run_state (fe_ListMachines fenv) w = (Ok ms, w1)"
    and failure: "run_state (failure_Reconcile (logged_failures par fenv) cnt) ((w, []), p) = ((out, cnt'), ((w', tr), p'))"
    and returns: "out \<noteq> Panic"
    and mem: "blocklist_ok p" "\<forall>n i. GetInsufficientFailureCount n p = Ok i \<longrightarrow> i + 2 * int (length ms) < 2 ^ 63"
    and m: "m \<in> set ms" "failed_machine m" "\<forall>now. Clock now \<in> set tr \<longrightarrow> old_at now m"
    and given_up: "isFailureWithInsufficientResources m p \<noteq> Ok True" "failed_spec m = Ok (Some spec)"
    and later: "still_blocked p' q"
    and creation: "run_state (cp_Create (logged_cloud env) nodeClaim) ((v, []), q) = (r, ((v', [Created machine res]), q'))"
    and wired: "wired env q" and zones: "zones_known (ip_cache q) (ip_providerCache q')"
  shows "\<exists>n. launched_for machine n \<and> \<not> covers (blocked_offering spec m) n"
proof -
  have "is_blocked_key q (blocked_offering spec m)"
    using given_up_blocked(2) [OF queue list failure returns mem m given_up] later unfolding still_blocked_def by blast
  moreover obtain n where "launched_for machine n" "\<And>c. is_blocked_key q c \<Longrightarrow> \<not> covers c n"
    by (rule launched_unblocked [OF creation wired zones]) blast
  ultimately show ?thesis by blast
qed

text \<open>
  C8. What the cloud refused is not asked for again.  When the machine API answers a creation with an error, a
  later creation, from any memory in which the blocked offerings still are blocked, sends a machine for another
  offering: another instance type, capacity type or zone.  (The API must send back the labels and the
  zone of the machine; what it sends back is what is blocked.)
\<close>

theorem refused_offering_not_retried:
  assumes refusal: "run_state (cp_Create (logged_cloud env) nodeClaim) ((w, []), p) = (out, ((w', [Created sent (answer, Some e)]), p'))"
    and answer: "m_Label answer CapacityTypeLabelKey = m_Label sent CapacityTypeLabelKey"
      "ms_Zone (m_Spec answer) = ms_Zone (m_Spec sent)"
    and laws: "cache_laws (ip_cache p)" and later: "still_blocked p' q"
    and retry: "run_state (cp_Create (logged_cloud env) nodeClaim') ((v, []), q) = (r, ((v', [Created machine res]), q'))"
    and wired: "wired env q" and zones: "zones_known (ip_cache q) (ip_providerCache q')"
  shows "\<exists>n n'. launched_for sent n \<and> launched_for machine n' \<and> n' \<noteq> n"
  using refusal
proof (cases rule: run_cp_Create)
  case nothing
  then show ?thesis by simp
next
  case (created name nodeClass w1 w2 its p1 w3 machine' res' ps)
  then have res: "res' = (answer, Some e)" "machine' = sent" by simp_all
  let ?n = "failed_offering (ps_InstanceType ps) sent"
  have "pv_Value (ms_ProviderSpec (m_Spec sent)) = Some (Some (enc_ProviderSpec ps))"
    using created(7) [unfolded res]
    by (rule run_m_Create) (auto simp: new_machine_def RawExtensionFromProviderSpec_def split: prod.splits)
  then have sent: "launched_for sent ?n" by (auto simp: launched_for_def)
  have "p' = BlockInstanceType ?n p1"
    using created(9) by (simp add: res created_machine_def run_simps failed_offering_def capacity_type_def answer)
  then have "is_blocked_key p' ?n"
    using laws created(6)
    by (simp add: same_memory_def is_blocked_key_def BlockInstanceType_def cache_lawsD(1))
  then have "is_blocked_key q ?n" using later unfolding still_blocked_def by blast
  moreover obtain n' where "launched_for machine n'" "\<And>c. is_blocked_key q c \<Longrightarrow> \<not> covers c n'"
    by (rule launched_unblocked [OF retry wired zones]) blast
  ultimately show ?thesis using sent covers_refl by metis
qed

lemma sample_wired:
  assumes "sample_memory p"
  shows "wired (sample_stores store) p"
  using assms sample_offering_laws sample_requirement_laws sample_cache_laws by (simp add: wired_def sample_memory_def)

lemma sample_zones_known:
  assumes "\<And>k items. ca_Get sample_cache k c = Some (CTypes items) \<Longrightarrow> items = sample_items"
  shows "zones_known sample_cache c"
proof -
  have "known_zone new_zone_provider ''ap-guangzhou-3''"
  proof (rule tke_zones.zone_known)
    show "zone_from_id new_zone_provider ''100003'' = Ok ''ap-guangzhou-3''" by code_simp
  qed
  then show ?thesis using assms by (fastforce simp: zones_known_def sample_stock_item_def sample_item_def)
qed

theorem refused_offering_not_retried_witness:
  "\<exists>sent machine p' q' n n'. run_state (cp_Create (logged_cloud sample_cloud) sample_cloud_claim) (((), []), sample_tke_provider) =
     (Err sample_refusal, (((), [Created sent (sent, Some sample_refusal)]), p')) \<and>
   run_state (cp_Create (logged_cloud sample_cloud) sample_cloud_claim)
     (((), []), sample_tke_provider\<lparr>ip_blacklistCache := ip_blacklistCache p'\<rparr>) =
     (Err sample_refusal, (((), [Created machine (machine, Some sample_refusal)]), q')) \<and>
   launched_for sent n \<and> launched_for machine n' \<and> n' \<noteq> n"
proof -
  obtain sent p1 p' where first: "run_state (cp_Create (logged_cloud sample_cloud) sample_cloud_claim) (((), []), sample_tke_provider) =
      (Err sample_refusal, (((), [Created sent (sent, Some sample_refusal)]), p'))"
    and p': "p' = BlockInstanceType (''S5.MEDIUM4'', sample_choice sample_tke_provider, ''ap-guangzhou-3'') p1"
      "same_memory sample_tke_provider p1"
    by (rule sample_creation [OF sample_tke_memory]) blast
  let ?q = "sample_tke_provider\<lparr>ip_blacklistCache := ip_blacklistCache p'\<rparr>"
  have cache: "ip_cache sample_tke_provider = sample_cache" using sample_tke_memory(1) by (simp add: sample_memory_def)
  then have q: "sample_memory ?q" using sample_tke_memory(1) by (simp add: sample_memory_def)
  have same: "is_blocked_key ?q n \<longleftrightarrow> is_blocked_key p' n" for n
    using p' cache by (simp add: is_blocked_key_def same_memory_def BlockInstanceType_def)
  have "sample_choice sample_tke_provider = CapacityTypeOnDemand"
    using sample_tke_memory(2) by (simp add: sample_choice_def)
  then have "is_blocked_key ?q n \<longleftrightarrow> blocked_key n = blocked_key (''S5.MEDIUM4'', CapacityTypeOnDemand, ''ap-guangzhou-3'')" for n
    using p'(2) cache unfolding same p'(1)
    by (simp add: is_blocked_key_def BlockInstanceType_def same_memory_def sample_cache_def sample_tke_provider_def
        NewDefaultProvider_it_def)
  then have "sample_free ?q CapacityTypeSpot" "\<not> sample_free ?q CapacityTypeOnDemand"
    by (simp_all add: sample_free_def isBlocked_def) (code_simp+)
  then have free: "sample_free ?q (sample_choice ?q)" by (simp add: sample_choice_def)
  obtain machine q1 q' where second: "run_state (cp_Create (logged_cloud sample_cloud) sample_cloud_claim) (((), []), ?q) =
      (Err sample_refusal, (((), [Created machine (machine, Some sample_refusal)]), q'))"
    and q': "q' = BlockInstanceType (''S5.MEDIUM4'', sample_choice ?q, ''ap-guangzhou-3'') q1"
      "\<And>k items. ca_Get sample_cache k (ip_providerCache q1) = Some (CTypes items) \<Longrightarrow> items = sample_items"
    by (rule sample_creation [OF q free]) blast
  have "zones_known (ip_cache ?q) (ip_providerCache q')"
    using sample_zones_known q'(2) cache by (simp add: q'(1) BlockInstanceType_def)
  then show ?thesis
    using refused_offering_not_retried [OF first refl refl _ _ second sample_wired [OF q]] first second same cache sample_cache_laws
    by (auto simp: still_blocked_def)
qed

text \<open>Two listed machines with one provider ID have one name, and a node claim that owns a machine has a name.\<close>

definition machines_named :: "('w, 'q, 'r, 'v) gc_env \<Rightarrow> bool" where
  "machines_named env \<longleftrightarrow> (\<forall>x m. listed env x \<longrightarrow> listed env m \<longrightarrow>
     \<not> owned_by [] m \<and> (same_instance x m \<longrightarrow> m_Name m = m_Name x))"

text \<open>
  C9. A launched machine is kept while its node claim is there.  The machine that a successful creation stored is
  named by the node claim it answered with; when every listing of node claims holds one that carries
  this annotation on, the garbage collector deletes no machine of that name, in no interleaving of its
  workers.
\<close>

theorem launched_machine_kept:
  assumes creation: "run_state (cp_Create (logged_cloud cloud) nodeClaim) ((v, []), p) = (Ok nc, ((v', [Created sent (m, err)]), p'))"
    and name: "m_Name m \<noteq> []"
    and kept: "\<forall>u ncs u'. run_state (gc_ListNodeClaims env) u = (Ok ncs, u') \<longrightarrow>
      (\<exists>c \<in> set ncs. k_Annotation c AnnotationOwnedMachine = k_Annotation nc AnnotationOwnedMachine)"
    and names: "machines_named env"
    and queue: "work_queue par" and list: "run_state (mp_ListMachines (gc_machines env)) w = (Ok ms, w1)"
    and collection: "run_state (gc_Reconcile (logged_gc par env) cnt) (w, []) = ((out, cnt'), (w', tr))"
  shows "Gone m' r \<in> set tr \<longrightarrow> m_Name m' \<noteq> m_Name m"
proof
  assume gone: "Gone m' r \<in> set tr"
  obtain u ncs u' x where ncs: "run_state (gc_ListNodeClaims env) u = (Ok ncs, u')"
    and m': "listed env m'" and x: "x \<in> set ms" "orphan ncs x"
    and cause: "same_instance x m' \<or> m_ProviderID x = [] \<and> owned_by [] m' \<or> m_Name m' = m_Name x"
    by (rule gc_removal_cause [OF queue list collection gone])
  have "listed env x" using list x(1) by (auto simp: listed_def)
  then have same: "m_Name m' = m_Name x" using cause names m' unfolding machines_named_def by blast
  have "k_Annotation nc AnnotationOwnedMachine = m_Name m"
    using created_claim [OF creation] by (simp add: claim_matches_def m_Name_def)
  then obtain c where "c \<in> set ncs" "k_Annotation c AnnotationOwnedMachine = m_Name m" using kept ncs by metis
  then show "m_Name m' \<noteq> m_Name m" using x(2) name same by (auto simp: orphan_def)
qed

theorem launched_machine_kept_witness:
  "\<exists>nc sent p' out cnt' w' tr. run_state (cp_Create (logged_cloud (sample_stores (\<lambda>m. (sample_orphan, None)))) sample_cloud_claim)
       (((), []), sample_tke_provider) = (Ok nc, (((), [Created sent (sample_orphan, None)]), p')) \<and>
     run_state (gc_Reconcile (logged_gc finish_all (sample_gc_env\<lparr>gc_ListNodeClaims := State_Monad.return (Ok [nc])\<rparr>)) 0) ((), []) =
       ((out, cnt'), (w', tr)) \<and> (\<forall>r. Gone sample_orphan r \<notin> set tr)"
proof -
  let ?cloud = "sample_stores (\<lambda>m. (sample_orphan, None))"
  obtain nc where nc: "\<And>s. run_state (machineToNodeClaim (logged_cloud ?cloud) sample_orphan) s = (Ok nc, s)"
    "comes_from sample_orphan nc"
    using sample_orphan_claim [of "logged_cloud ?cloud"] by auto
  obtain sent p1 ps where "run_state (cp_Create (logged_cloud ?cloud) sample_cloud_claim) (((), []), sample_tke_provider) =
      run_state (created_machine (logged_cloud ?cloud) (Some sample_orphan, Some ps, None))
        (((), [Created sent (sample_orphan, None)]), p1)"
    by (rule sample_stored [OF sample_tke_memory, of "\<lambda>m. (sample_orphan, None)"]) simp
  then have creation: "run_state (cp_Create (logged_cloud ?cloud) sample_cloud_claim) (((), []), sample_tke_provider) =
      (Ok nc, (((), [Created sent (sample_orphan, None)]), p1))"
    by (simp add: created_machine_def run_simps nc(1))
  let ?env = "sample_gc_env\<lparr>gc_ListNodeClaims := State_Monad.return (Ok [nc])\<rparr>"
  have facts: "m_Name sample_orphan = ''np-1''" "\<not> owned_by [] sample_orphan" by code_simp+
  have "listed ?env x \<longleftrightarrow> x = sample_orphan" for x
    by (auto simp: listed_def run_simps)
  then have names: "machines_named ?env" using facts by (simp add: machines_named_def)
  have list: "run_state (mp_ListMachines (gc_machines ?env)) () = (Ok [sample_orphan], ())" by (simp add: run_simps)
  obtain out cnt' w' tr where run: "run_state (gc_Reconcile (logged_gc finish_all ?env) 0) ((), []) = ((out, cnt'), (w', tr))"
    by (metis prod.exhaust)
  have "Gone m' r \<in> set tr \<longrightarrow> m_Name m' \<noteq> m_Name sample_orphan" for m' r
    by (rule launched_machine_kept [OF creation _ _ names work_queue_sequential list run])
      (simp_all add: facts run_simps)
  then show ?thesis using creation run by blast
qed

lemma sample_spot_blocked:
  assumes run: "run_state (failure_Reconcile (logged_failures finish_all sample_failure_env) 0) (((), []), sample_provider) =
      ((Ok (requeue_after (seconds 10)), 1), (((), sample_failure_log), p'))"
    and blocked: "is_blocked_key p' n"
  shows "blocked_key n = blocked_key (''S5.MEDIUM4'', ''spot'', ''ap-guangzhou-3'')"
proof -
  have ok: "blocklist_ok sample_provider" by (rule blocklist_ok_fresh) (simp_all add: sample_cache_laws)
  obtain unk q where unk: "set unk \<subseteq> {sample_failed_machine}" and block: "blockInstanceTypes unk q = Ok p'"
    and same: "blocklist_ok q" "\<And>n. is_blocked_key q n = is_blocked_key sample_provider n"
    by (rule failure_run [OF work_queue_sequential sample_failure_list run]) (use growsD(1,2) [OF _ ok] in auto)
  have "\<not> is_blocked_key q n" unfolding same by (simp add: is_blocked_key_def)
  then obtain m spec where m: "m \<in> set unk" "failed_spec m = Ok (Some spec)" "blocked_key n = blocked_key (blocked_offering spec m)"
    using blocked block_machines(2) [OF block same(1)] by blast
  then show ?thesis using unk sample_failed_spec by auto
qed

theorem failed_offering_not_relaunched_witness:
  "\<exists>p' q machine q' n. run_state (failure_Reconcile (logged_failures finish_all sample_failure_env) 0) (((), []), sample_provider) =
     ((Ok (requeue_after (seconds 10)), 1), (((), sample_failure_log), p')) \<and> still_blocked p' q \<and>
   run_state (cp_Create (logged_cloud sample_cloud) sample_cloud_claim) (((), []), q) =
     (Err sample_refusal, (((), [Created machine (machine, Some sample_refusal)]), q')) \<and>
   launched_for machine n \<and> \<not> covers (''S5.MEDIUM4'', ''spot'', ''ap-guangzhou-3'') n"
proof -
  let ?n = "(''S5.MEDIUM4'', ''spot'', ''ap-guangzhou-3'')"
  obtain p' where run: "run_state (failure_Reconcile (logged_failures finish_all sample_failure_env) 0) (((), []), sample_provider) =
      ((Ok (requeue_after (seconds 10)), 1), (((), sample_failure_log), p'))"
    by (rule sample_failure_runs)
  define q where "q = sample_tke_provider\<lparr>ip_blacklistCache := [(blocked_key ?n, CBool True)]\<rparr>"
  have cache: "ip_cache q = sample_cache" and q: "sample_memory q"
    using sample_tke_memory(1) by (simp_all add: q_def sample_memory_def)
  have keys: "is_blocked_key q n \<longleftrightarrow> blocked_key n = blocked_key ?n" for n
    by (simp add: is_blocked_key_def cache) (simp add: q_def sample_cache_def)
  then have later: "still_blocked p' q" using sample_spot_blocked [OF run] by (simp add: still_blocked_def)
  have "sample_free q CapacityTypeOnDemand"
    unfolding sample_free_def isBlocked_def keys by code_simp
  then have free: "sample_free q (sample_choice q)" by (simp add: sample_choice_def)
  obtain machine q1 q' where creation: "run_state (cp_Create (logged_cloud sample_cloud) sample_cloud_claim) (((), []), q) =
      (Err sample_refusal, (((), [Created machine (machine, Some sample_refusal)]), q'))"
    and q': "q' = BlockInstanceType (''S5.MEDIUM4'', sample_choice q, ''ap-guangzhou-3'') q1"
      "\<And>k items. ca_Get sample_cache k (ip_providerCache q1) = Some (CTypes items) \<Longrightarrow> items = sample_items"
    by (rule sample_creation [OF q free]) blast
  have zones: "zones_known (ip_cache q) (ip_providerCache q')"
    using sample_zones_known q'(2) by (simp add: cache q'(1) BlockInstanceType_def)
  have "blocklist_ok sample_provider" by (rule blocklist_ok_fresh) (simp_all add: sample_cache_laws)
  moreover have "\<forall>n i. GetInsufficientFailureCount n sample_provider = Ok i \<longrightarrow>
      i + 2 * int (length [sample_failed_machine]) < 2 ^ 63"
    by (simp add: GetInsufficientFailureCount_def)
  moreover have "isFailureWithInsufficientResources sample_failed_machine sample_provider = Ok False"
    "failed_machine sample_failed_machine" "old_at (minutes 5) sample_failed_machine"
    by code_simp+
  ultimately have "\<exists>n. launched_for machine n \<and>
      \<not> covers (blocked_offering (zero_ProviderSpec\<lparr>ps_InstanceType := ''S5.MEDIUM4''\<rparr>) sample_failed_machine) n"
    using sample_failed_spec(1)
    by (intro failed_offering_not_relaunched [OF work_queue_sequential sample_failure_list run _ _ _ _ _ _ _ _ later creation
          sample_wired [OF q] zones])
      (simp_all add: sample_failure_log_def)
  then show ?thesis using run later creation unfolding sample_failed_spec(2) by blast
qed

end
